(* ===== verification/Prelude.thy ===== *)
theory Prelude
  imports Main "HOL-Library.Sublist"
begin

text \<open>
  The vocabulary the components share: Go's \<open>error\<close> values with the chain walk of the standard
  package \<open>errors\<close>, calls that may panic, the parts of the standard package \<open>strings\<close> the
  sources use, and two generic contracts. \<open>option_struct\<close> is the contract of the structs that
  implement \<open>util.Option\<close> (\<^verbatim>\<open>src/pkg/util/option.go\<close>): a struct applied to a target writes the
  fields it sets and leaves the others. \<open>inductive_invariant\<close> is the invariant method for step
  relations. Strings are lists of bytes, as Go's are.
\<close>

named_theorems go_std \<open>unfolding rules of the standard library's functions\<close>
named_theorems opt_defs \<open>definitions of the option structs and option constructors\<close>

section \<open>Errors\<close>

text \<open>
  A Go \<open>error\<close> is an interface value; \<open>None :: error option\<close> is \<open>nil\<close>. \<open>ErrorString\<close> is what
  \<open>errors.New\<close> (and \<open>fmt.Errorf\<close> without \<open>%w\<close>) returns, \<open>WrapError p e\<close> what
  \<open>fmt.Errorf("p: %w", e)\<close> returns, \<open>SuffixError e s\<close> what \<open>fmt.Errorf("%w: s", e)\<close> returns, \<open>JoinError\<close> what \<open>errors.Join\<close> returns and \<open>StopErr\<close> is the
  struct \<open>StopError\<close> of \<^verbatim>\<open>src/pkg/reconciler/pipeline/pipeline_errors.go\<close>. \<open>ForeignError\<close> is an error
  of another package: its message and the errors it holds, which \<open>errors.Unwrap\<close> does not reach.
\<close>

datatype error =
    ErrorString string
  | WrapError string error
  | SuffixError error string
  | JoinError "error list"
  | StopErr "error option"
  | ForeignError string "error list"

fun intersperse_newline :: "string list \<Rightarrow> string" where
  "intersperse_newline [] = []"
| "intersperse_newline [s] = s"
| "intersperse_newline (s # t # ss) = s @ CHR 0x0A # intersperse_newline (t # ss)"

text \<open>The method \<open>Error()\<close> of every kind of error.\<close>

fun err_Error :: "error \<Rightarrow> string" where
  "err_Error (ErrorString m) = m"
| "err_Error (WrapError p e) = p @ '': '' @ err_Error e"
| "err_Error (SuffixError e m) = err_Error e @ '': '' @ m"
| "err_Error (JoinError es) = intersperse_newline (map err_Error es)"
| "err_Error (StopErr None) = ''pipeline stopped''"
| "err_Error (StopErr (Some e)) = ''pipeline stopped: '' @ err_Error e"
| "err_Error (ForeignError m es) = m"

text \<open>
  The errors \<open>errors.Is\<close> and \<open>errors.As\<close> examine, in their order: the error itself, then what its
  method \<open>Unwrap\<close> returns, depth first.
\<close>

fun err_chain :: "error \<Rightarrow> error list" where
  "err_chain (ErrorString m) = [ErrorString m]"
| "err_chain (WrapError p e) = WrapError p e # err_chain e"
| "err_chain (SuffixError e m) = SuffixError e m # err_chain e"
| "err_chain (JoinError es) = JoinError es # concat (map err_chain es)"
| "err_chain (StopErr None) = [StopErr None]"
| "err_chain (StopErr (Some e)) = StopErr (Some e) # err_chain e"
| "err_chain (ForeignError m es) = [ForeignError m es]"

definition errors_Is :: "error option \<Rightarrow> error \<Rightarrow> bool" where
  "errors_Is err target = (case err of None \<Rightarrow> False | Some e \<Rightarrow> List.member (err_chain e) target)"

definition errors_As :: "(error \<Rightarrow> bool) \<Rightarrow> error option \<Rightarrow> bool" where
  "errors_As matches err = (case err of None \<Rightarrow> False | Some e \<Rightarrow> list_ex matches (err_chain e))"

definition errors_Join :: "error list \<Rightarrow> error option" where
  "errors_Join es = (if es = [] then None else Some (JoinError es))"

lemma err_chain_self: "e \<in> set (err_chain e)"
  by (cases e rule: err_chain.cases) simp_all

lemma err_chain_Wrap: "set (err_chain e) \<subseteq> set (err_chain (WrapError p e))"
  by auto

lemma errors_Is_self [simp]: "errors_Is (Some e) e"
  by (simp add: errors_Is_def err_chain_self)

lemma errors_Is_Wrap [simp]: "errors_Is (Some e) t \<Longrightarrow> errors_Is (Some (WrapError p e)) t"
  by (simp add: errors_Is_def)

lemma errors_Is_Suffix [simp]: "errors_Is (Some e) t \<Longrightarrow> errors_Is (Some (SuffixError e m)) t"
  by (simp add: errors_Is_def)

lemma errors_As_Wrap [simp]: "errors_As f (Some e) \<Longrightarrow> errors_As f (Some (WrapError p e))"
  by (simp add: errors_As_def)

section \<open>Calls that may panic\<close>

datatype 'a outcome = Panic string | Ret 'a

primrec bind_outcome :: "'a outcome \<Rightarrow> ('a \<Rightarrow> 'b outcome) \<Rightarrow> 'b outcome" where
  "bind_outcome (Panic m) f = Panic m"
| "bind_outcome (Ret a) f = f a"

lemma bind_outcome_Ret_iff:
  "bind_outcome m f = Ret b \<longleftrightarrow> (\<exists>a. m = Ret a \<and> f a = Ret b)"
  by (cases m) simp_all

section \<open>The package strings\<close>

definition HasSuffix :: "string \<Rightarrow> string \<Rightarrow> bool" where
  [go_std]: "HasSuffix s suf = suffix suf s"

definition HasPrefix :: "string \<Rightarrow> string \<Rightarrow> bool" where
  [go_std]: "HasPrefix s pre = prefix pre s"

definition TrimSuffix :: "string \<Rightarrow> string \<Rightarrow> string" where
  [go_std]: "TrimSuffix s suf = (if suffix suf s then take (length s - length suf) s else s)"

definition TrimPrefix :: "string \<Rightarrow> string \<Rightarrow> string" where
  [go_std]: "TrimPrefix s pre = (if prefix pre s then drop (length pre) s else s)"

text \<open>
  Strings are the bytes of UTF-8 text. \<open>space_runes\<close> are the encodings of the runes for which
  \<open>unicode.IsSpace\<close> holds: the ASCII ones, U+0085, U+00A0, U+1680, U+2000 to U+200A, U+2028, U+2029,
  U+202F, U+205F and U+3000.
\<close>

definition space_runes :: "string list" where
  [go_std]: "space_runes =
     [[CHR 0x09], [CHR 0x0A], [CHR 0x0B], [CHR 0x0C], [CHR 0x0D], [CHR '' ''],
      [CHR 0xC2, CHR 0x85], [CHR 0xC2, CHR 0xA0], [CHR 0xE1, CHR 0x9A, CHR 0x80]] @
     map (\<lambda>n. [CHR 0xE2, CHR 0x80, char_of (0x80 + n)]) [0..<11] @
     [[CHR 0xE2, CHR 0x80, CHR 0xA8], [CHR 0xE2, CHR 0x80, CHR 0xA9], [CHR 0xE2, CHR 0x80, CHR 0xAF],
      [CHR 0xE2, CHR 0x81, CHR 0x9F], [CHR 0xE3, CHR 0x80, CHR 0x80]]"

text \<open>Drop leading runes; an empty pattern, which the lists in use do not have, is not dropped.\<close>

function trim_left :: "string list \<Rightarrow> string \<Rightarrow> string" where
  "trim_left rs s =
     (case List.find (\<lambda>r. r \<noteq> [] \<and> prefix r s) rs of
        None \<Rightarrow> s
      | Some r \<Rightarrow> trim_left rs (drop (length r) s))"
  by pat_completeness auto
termination
  by (relation "measure (length \<circ> snd)") (auto simp: find_Some_iff prefix_def)

declare trim_left.simps [simp del]

definition TrimSpace :: "string \<Rightarrow> string" where
  [go_std]: "TrimSpace s = rev (trim_left (map rev space_runes) (rev (trim_left space_runes s)))"

definition is_upper :: "char \<Rightarrow> bool" where
  [go_std]: "is_upper c \<longleftrightarrow> 65 \<le> (of_char c :: nat) \<and> (of_char c :: nat) \<le> 90"

definition is_lower :: "char \<Rightarrow> bool" where
  [go_std]: "is_lower c \<longleftrightarrow> 97 \<le> (of_char c :: nat) \<and> (of_char c :: nat) \<le> 122"

definition is_digit :: "char \<Rightarrow> bool" where
  [go_std]: "is_digit c \<longleftrightarrow> 48 \<le> (of_char c :: nat) \<and> (of_char c :: nat) \<le> 57"

definition lower_char :: "char \<Rightarrow> char" where
  [go_std]: "lower_char c = (if is_upper c then char_of ((of_char c :: nat) + 32) else c)"

definition ToLower :: "string \<Rightarrow> string" where
  [go_std]: "ToLower s = map lower_char s"

text \<open>\<open>strings.SplitN(s, ",", 2)\<close>: the part before the first separator, and the rest if there is one.\<close>

fun SplitN2 :: "string \<Rightarrow> char \<Rightarrow> string list" where
  "SplitN2 [] sep = [[]]"
| "SplitN2 (c # cs) sep =
     (if c = sep then [[], cs]
      else (case SplitN2 cs sep of [] \<Rightarrow> [[c]] | p # ps \<Rightarrow> (c # p) # ps))"

text \<open>The verb \<open>%q\<close>, for text without characters to escape.\<close>

definition quoted :: "string \<Rightarrow> string" where
  "quoted s = CHR 0x22 # s @ [CHR 0x22]"

text \<open>Decimal digits of a natural number, as the verb \<open>%d\<close> prints them.\<close>

fun itoa :: "nat \<Rightarrow> string" where
  "itoa n = (if n < 10 then [char_of (48 + n)] else itoa (n div 10) @ [char_of (48 + n mod 10)])"

declare itoa.simps [simp del]

lemma TrimSuffix_append [simp]: "TrimSuffix (s @ suf) suf = s"
  by (simp add: go_std suffix_def)

lemma trim_left_Nil [simp]: "trim_left rs [] = []"
proof -
  have "List.find (\<lambda>r. r \<noteq> [] \<and> prefix r []) rs = None" by (simp add: find_None_iff)
  then show ?thesis by (simp add: trim_left.simps)
qed

lemma TrimSpace_Nil [simp]: "TrimSpace [] = []"
  by (simp add: TrimSpace_def)

text \<open>A text that starts and ends with visible ASCII characters is not trimmed.\<close>

definition visible_char :: "char \<Rightarrow> bool" where
  "visible_char c \<longleftrightarrow> 32 < (of_char c :: nat) \<and> (of_char c :: nat) < 127"

lemma trim_left_visible:
  assumes "visible_char c" and "list_all (\<lambda>r. r \<noteq> [] \<and> \<not> visible_char (hd r)) rs"
  shows "trim_left rs (c # s) = c # s"
proof -
  have "List.find (\<lambda>r. r \<noteq> [] \<and> prefix r (c # s)) rs = None"
    using assms by (auto simp: find_None_iff list_all_iff prefix_Cons)
  then show ?thesis by (simp add: trim_left.simps)
qed

lemma space_runes_invisible:
  "list_all (\<lambda>r. r \<noteq> [] \<and> \<not> visible_char (hd r)) space_runes"
  "list_all (\<lambda>r. r \<noteq> [] \<and> \<not> visible_char (hd r)) (map rev space_runes)"
  by code_simp+

lemma TrimSpace_visible [code]:
  "TrimSpace s = (if s \<noteq> [] \<and> visible_char (hd s) \<and> visible_char (last s) then s
     else rev (trim_left (map rev space_runes) (rev (trim_left space_runes s))))"
proof (cases "s \<noteq> [] \<and> visible_char (hd s) \<and> visible_char (last s)")
  case True
  then have "trim_left space_runes s = s"
    by (metis list.collapse trim_left_visible space_runes_invisible(1))
  moreover from True have "trim_left (map rev space_runes) (rev s) = rev s"
    by (metis hd_rev list.collapse rev_is_Nil_conv trim_left_visible space_runes_invisible(2))
  ultimately show ?thesis using True by (simp add: TrimSpace_def)
qed (auto simp: TrimSpace_def)

lemma of_char_lower_char: "is_upper c \<Longrightarrow> (of_char (lower_char c) :: nat) = of_char c + 32"
  by (simp add: go_std of_char_of)

lemma lower_char_not_upper [simp]: "\<not> is_upper (lower_char c)"
  by (cases "is_upper c") (use of_char_lower_char [of c] in \<open>auto simp: is_upper_def lower_char_def\<close>)

lemma SplitN2_nonempty: "SplitN2 s c \<noteq> []"
  by (induction s) (auto split: list.splits)

section \<open>Maps\<close>

text \<open>A Go map that may be \<open>nil\<close>; reading a \<open>nil\<close> map finds no key.\<close>

type_synonym ('k, 'v) gomap = "('k \<rightharpoonup> 'v) option"

definition map_read :: "('k, 'v) gomap \<Rightarrow> ('k \<rightharpoonup> 'v)" where
  [go_std]: "map_read m = (case m of None \<Rightarrow> Map.empty | Some f \<Rightarrow> f)"

text \<open>Reading a missing key of a \<open>map[string]string\<close> gives the zero value.\<close>

definition map_index :: "('k, string) gomap \<Rightarrow> 'k \<Rightarrow> string" where
  [go_std]: "map_index m k = (case map_read m k of None \<Rightarrow> [] | Some v \<Rightarrow> v)"

definition maps_Equal :: "('k, 'v) gomap \<Rightarrow> ('k, 'v) gomap \<Rightarrow> bool" where
  [go_std]: "maps_Equal m n \<longleftrightarrow> map_read m = map_read n"

lemma map_read_simps [simp]:
  "map_read None = Map.empty" "map_read (Some f) = f"
  by (simp_all add: go_std)

lemma map_index_simps [simp]:
  "map_index None k = []"
  "map_index (Some (f(k \<mapsto> v))) k = v"
  "k \<noteq> k' \<Longrightarrow> map_index (Some (f(k \<mapsto> v))) k' = map_index (Some f) k'"
  by (simp_all add: map_index_def)

section \<open>Loops that stop at the first error\<close>

text \<open>
  \<open>for _, x := range xs { if err := f(x); err != nil { return err } }\<close> over a state.
\<close>

fun until_error :: "('a \<Rightarrow> 's \<Rightarrow> error option \<times> 's) \<Rightarrow> 'a list \<Rightarrow> 's \<Rightarrow> error option \<times> 's" where
  "until_error f [] s = (None, s)"
| "until_error f (x # xs) s =
     (case f x s of (None, s') \<Rightarrow> until_error f xs s' | (Some e, s') \<Rightarrow> (Some e, s'))"

lemma until_error_append:
  "until_error f (xs @ ys) s =
     (case until_error f xs s of (None, s') \<Rightarrow> until_error f ys s' | (Some e, s') \<Rightarrow> (Some e, s'))"
  by (induction xs arbitrary: s) (auto split: prod.splits option.splits)

lemma until_error_invariant:
  assumes "\<And>x s. x \<in> set xs \<Longrightarrow> P s \<Longrightarrow> P (snd (f x s))" and "P s"
  shows "P (snd (until_error f xs s))"
  using assms
proof (induction xs arbitrary: s)
  case Nil
  then show ?case by simp
next
  case (Cons x xs)
  obtain r s' where fx: "f x s = (r, s')" by fastforce
  with Cons.prems(1) [of x s] Cons.prems(2) have "P s'" by simp
  with Cons.IH [of s'] Cons.prems(1) fx show ?case by (cases r) auto
qed

section \<open>Option structs\<close>

text \<open>
  \<open>FunctionalOption.ApplyTo\<close> calls the function; every \<open>ApplyOptions\<close> of the repository is the same
  loop over \<open>util.Option\<close> values.
\<close>

definition FunctionalOption_ApplyTo :: "('t \<Rightarrow> 't) \<Rightarrow> 't \<Rightarrow> 't" where
  "FunctionalOption_ApplyTo f target = f target"

primrec apply_options :: "('t \<Rightarrow> 't) list \<Rightarrow> 't \<Rightarrow> 't" where
  "apply_options [] t = t"
| "apply_options (opt # opts) t = apply_options opts (FunctionalOption_ApplyTo opt t)"

lemma apply_options_append [simp]:
  "apply_options (xs @ ys) t = apply_options ys (apply_options xs t)"
  by (induction xs arbitrary: t) simp_all

lemma apply_options_invariant:
  "(\<And>f t. f \<in> set opts \<Longrightarrow> P t \<Longrightarrow> P (f t)) \<Longrightarrow> P t \<Longrightarrow> P (apply_options opts t)"
  by (induction opts arbitrary: t) (simp_all add: FunctionalOption_ApplyTo_def)

locale option_struct =
  fixes ApplyTo :: "'o \<Rightarrow> 'o \<Rightarrow> 'o"
    and zero :: 'o
  assumes zero_left: "ApplyTo zero t = t"
    and compose: "ApplyTo b (ApplyTo a t) = ApplyTo (ApplyTo b a) t"
begin

text \<open>Struct options given one after the other act as one struct, the options merged in order.\<close>

lemma apply_structs:
  "apply_options (map ApplyTo os) t = ApplyTo (apply_options (map ApplyTo os) zero) t"
proof (induction os rule: rev_induct)
  case Nil
  show ?case by (simp add: zero_left)
next
  case (snoc x xs)
  have "apply_options (map ApplyTo (xs @ [x])) t
          = ApplyTo x (ApplyTo (apply_options (map ApplyTo xs) zero) t)"
    using snoc.IH by (simp add: FunctionalOption_ApplyTo_def)
  also have "\<dots> = ApplyTo (ApplyTo x (apply_options (map ApplyTo xs) zero)) t"
    by (rule compose)
  finally show ?case by (simp add: FunctionalOption_ApplyTo_def)
qed

end

text \<open>A struct whose fields only override: applying it twice is applying it once.\<close>

locale overriding_option_struct = option_struct +
  assumes idem: "ApplyTo a (ApplyTo a t) = ApplyTo a t"
begin

lemma repeat_same: "apply_options (replicate (Suc n) (ApplyTo a)) t = ApplyTo a t"
  by (induction n arbitrary: t) (simp_all add: FunctionalOption_ApplyTo_def idem)

end

section \<open>Invariants of step relations\<close>

locale inductive_invariant =
  fixes start :: "'s \<Rightarrow> bool"
    and step :: "'s \<Rightarrow> 's \<Rightarrow> bool"
    and inv :: "'s \<Rightarrow> bool"
  assumes inv_start: "start s \<Longrightarrow> inv s"
    and inv_step: "inv s \<Longrightarrow> step s t \<Longrightarrow> inv t"
begin

lemma inv_steps: "step\<^sup>*\<^sup>* s t \<Longrightarrow> inv s \<Longrightarrow> inv t"
  by (induction rule: rtranclp_induct) (auto intro: inv_step)

lemma inv_reachable: "start s \<Longrightarrow> step\<^sup>*\<^sup>* s t \<Longrightarrow> inv t"
  by (blast intro: inv_steps inv_start)

end

end
