(* ===== verification/Go_Values.thy ===== *)
theory Go_Values
  imports Prelude
begin

text \<open>
  What the configuration packages see of Go values through the package \<open>reflect\<close>: types, kinds, and
  values with the fields of a struct in order. A struct field carries the data of its
  \<open>reflect.StructField\<close> (name, whether it is exported, the struct tags \<open>flag\<close> and \<open>mapstructure\<close>,
  its type) together with its value. A value of struct kind is a \<open>VStruct\<close>; this holds of
  \<open>time.Time\<close> and \<open>url.URL\<close> too, whose fields are those the standard library declares.
  \<open>VOther\<close> is a value of another kind (a float, a byte slice, a named type), of which the sources
  observe whether it is the zero value and its text.
\<close>

datatype kind = KString | KBool | KInt | KInt32 | KInt64 | KUint | KUint32 | KUint64
  | KFloat32 | KFloat64 | KSlice | KStruct | KPointer | KInvalid | KOther string

datatype gotype = TString | TBool | TInt | TInt32 | TInt64 | TUint | TUint32 | TUint64
  | TFloat32 | TFloat64 | TDuration | TStringSlice | TTime | TURL | TIP
  | TPointer gotype | TStruct string | TNamed string kind

primrec type_Kind :: "gotype \<Rightarrow> kind" where
  "type_Kind TString = KString"
| "type_Kind TBool = KBool"
| "type_Kind TInt = KInt"
| "type_Kind TInt32 = KInt32"
| "type_Kind TInt64 = KInt64"
| "type_Kind TUint = KUint"
| "type_Kind TUint32 = KUint32"
| "type_Kind TUint64 = KUint64"
| "type_Kind TFloat32 = KFloat32"
| "type_Kind TFloat64 = KFloat64"
| "type_Kind TDuration = KInt64"
| "type_Kind TStringSlice = KSlice"
| "type_Kind TTime = KStruct"
| "type_Kind TURL = KStruct"
| "type_Kind TIP = KSlice"
| "type_Kind (TPointer t) = KPointer"
| "type_Kind (TStruct n) = KStruct"
| "type_Kind (TNamed n k) = k"

text \<open>The name the verb \<open>%T\<close> prints.\<close>

primrec type_String :: "gotype \<Rightarrow> string" where
  "type_String TString = ''string''"
| "type_String TBool = ''bool''"
| "type_String TInt = ''int''"
| "type_String TInt32 = ''int32''"
| "type_String TInt64 = ''int64''"
| "type_String TUint = ''uint''"
| "type_String TUint32 = ''uint32''"
| "type_String TUint64 = ''uint64''"
| "type_String TFloat32 = ''float32''"
| "type_String TFloat64 = ''float64''"
| "type_String TDuration = ''time.Duration''"
| "type_String TStringSlice = ''[]string''"
| "type_String TTime = ''time.Time''"
| "type_String TURL = ''url.URL''"
| "type_String TIP = ''net.IP''"
| "type_String (TPointer t) = ''*'' @ type_String t"
| "type_String (TStruct n) = n"
| "type_String (TNamed n k) = n"

primrec kind_String :: "kind \<Rightarrow> string" where
  "kind_String KString = ''string''"
| "kind_String KBool = ''bool''"
| "kind_String KInt = ''int''"
| "kind_String KInt32 = ''int32''"
| "kind_String KInt64 = ''int64''"
| "kind_String KUint = ''uint''"
| "kind_String KUint32 = ''uint32''"
| "kind_String KUint64 = ''uint64''"
| "kind_String KFloat32 = ''float32''"
| "kind_String KFloat64 = ''float64''"
| "kind_String KSlice = ''slice''"
| "kind_String KStruct = ''struct''"
| "kind_String KPointer = ''ptr''"
| "kind_String KInvalid = ''invalid''"
| "kind_String (KOther n) = n"

datatype goval =
    VString string
  | VBool bool
  | VInt int
  | VStrings "string list option"
  | VOther bool string
  | VPtr "goval option"
  | VStruct "sfield list"
and sfield = SField (fieldName: string) (IsExported: bool) (flagTag: string) (mapstructureTag: string)
    (fieldType: gotype) (fieldValue: goval)

lemma size_fieldValue: "size (fieldValue f) < size f"
  by (cases f) simp

lemma size_fieldValue_list [termination_simp]:
  "f \<in> set fs \<Longrightarrow> size (fieldValue f) < Suc (size_list size fs)"
proof (induction fs)
  case (Cons g fs)
  then show ?case using size_fieldValue [of f] by (cases "f = g") auto
qed simp

text \<open>\<open>reflect.Value.IsZero\<close>.\<close>

fun IsZero :: "goval \<Rightarrow> bool" where
  "IsZero (VString s) \<longleftrightarrow> s = []"
| "IsZero (VBool b) \<longleftrightarrow> \<not> b"
| "IsZero (VInt n) \<longleftrightarrow> n = 0"
| "IsZero (VStrings s) \<longleftrightarrow> s = None"
| "IsZero (VOther z s) \<longleftrightarrow> z"
| "IsZero (VPtr p) \<longleftrightarrow> p = None"
| "IsZero (VStruct fs) \<longleftrightarrow> list_all (\<lambda>f. IsZero (fieldValue f)) fs"

text \<open>An interface value \<open>any\<close>: nil, or a value with its dynamic type.\<close>

type_synonym any_value = "(gotype \<times> goval) option"

definition type_assert :: "gotype \<Rightarrow> any_value \<Rightarrow> goval option" where
  "type_assert t d = (case d of None \<Rightarrow> None | Some (u, v) \<Rightarrow> if u = t then Some v else None)"

definition type_verb_any :: "any_value \<Rightarrow> string" where
  "type_verb_any d = (case d of None \<Rightarrow> ''<nil>'' | Some (t, v) \<Rightarrow> type_String t)"

lemma type_assert_same [simp]: "type_assert t (Some (t, v)) = Some v"
  by (simp add: type_assert_def)

text \<open>A pointer type has pointer values, a value of struct kind a struct type.\<close>

definition ptr_typed :: "sfield \<Rightarrow> bool" where
  "ptr_typed f \<longleftrightarrow>
     (case fieldType f of
        TPointer t \<Rightarrow> (case fieldValue f of VPtr p \<Rightarrow> True | _ \<Rightarrow> False)
      | _ \<Rightarrow> True)"

end
