(* ===== verification/Strcase.thy ===== *)
theory Strcase
  imports Prelude
begin

text \<open>
  The case conversions of \<^verbatim>\<open>src/pkg/util/strcase/strcase.go\<close>. The loops run over the runes of a valid
  UTF-8 string; every rune they treat specially is one ASCII byte and every other rune is copied, so
  that they run over bytes here. The accumulated \<open>strings.Builder\<close> is the value returned.
\<close>

section \<open>The conversions\<close>

fun kebab_loop :: "nat \<Rightarrow> bool \<Rightarrow> string \<Rightarrow> string" where
  "kebab_loop i lastWasHyphen [] = []"
| "kebab_loop i lastWasHyphen (r # rs) =
     (if is_upper r then
        (if i > 0 \<and> \<not> lastWasHyphen then ''-'' else []) @
          char_of ((of_char r :: nat) + 32) # kebab_loop (Suc i) False rs
      else if r = CHR ''_'' then CHR ''-'' # kebab_loop (Suc i) True rs
      else r # kebab_loop (Suc i) (r = CHR ''-'') rs)"

definition ToKebabCase :: "string \<Rightarrow> string" where
  "ToKebabCase s = (if s = [] then s else kebab_loop 0 False s)"

fun snake_loop :: "nat \<Rightarrow> string \<Rightarrow> string" where
  "snake_loop i [] = []"
| "snake_loop i (r # rs) =
     (if is_upper r then
        (if i > 0 then ''_'' else []) @ char_of ((of_char r :: nat) + 32) # snake_loop (Suc i) rs
      else r # snake_loop (Suc i) rs)"

definition ToSnakeCase :: "string \<Rightarrow> string" where
  "ToSnakeCase s = (if s = [] then s else snake_loop 0 s)"

section \<open>Shape of the results\<close>

definition kebab_char :: "char \<Rightarrow> bool" where
  "kebab_char c \<longleftrightarrow> \<not> is_upper c \<and> c \<noteq> CHR ''_''"

text \<open>A Go identifier with ASCII letters, and one in camel case: no underscore.\<close>

definition ident_char :: "char \<Rightarrow> bool" where
  "ident_char c \<longleftrightarrow> is_upper c \<or> is_lower c \<or> is_digit c \<or> c = CHR ''_''"

definition camel_char :: "char \<Rightarrow> bool" where
  "camel_char c \<longleftrightarrow> is_upper c \<or> is_lower c \<or> is_digit c"

lemma upper_shift: "is_upper r \<Longrightarrow> char_of ((of_char r :: nat) + 32) = lower_char r"
  by (simp add: lower_char_def)

lemma lower_char_is_lower: "is_upper r \<Longrightarrow> is_lower (lower_char r)"
  using of_char_lower_char [of r] by (simp add: is_upper_def is_lower_def)

lemma lower_char_facts [simp]:
  "is_upper r \<Longrightarrow> lower_char r \<noteq> CHR ''_''" "is_upper r \<Longrightarrow> lower_char r \<noteq> CHR ''-''"
  using lower_char_is_lower [of r] by (auto simp: is_lower_def)

lemma punctuation_facts [simp]:
  "\<not> is_upper (CHR ''-'')" "\<not> is_upper (CHR ''_'')"
  "\<not> camel_char (CHR ''-'')" "\<not> camel_char (CHR ''_'')"
  by (simp_all add: is_upper_def camel_char_def is_lower_def is_digit_def)

lemma kebab_loop_chars: "list_all kebab_char (kebab_loop i h s)"
  by (induction i h s rule: kebab_loop.induct) (auto simp: kebab_char_def upper_shift)

lemma kebab_loop_id: "list_all kebab_char s \<Longrightarrow> kebab_loop i h s = s"
  by (induction i h s rule: kebab_loop.induct) (auto simp: kebab_char_def)

lemma ToKebabCase_chars: "list_all kebab_char (ToKebabCase s)"
  by (simp add: ToKebabCase_def kebab_loop_chars)

lemma ToKebabCase_idem: "ToKebabCase (ToKebabCase s) = ToKebabCase s"
  by (simp add: ToKebabCase_def kebab_loop_id kebab_loop_chars)

lemma kebab_loop_ident:
  "list_all ident_char s \<Longrightarrow> list_all (\<lambda>c. is_lower c \<or> is_digit c \<or> c = CHR ''-'') (kebab_loop i h s)"
  by (induction i h s rule: kebab_loop.induct)
    (auto simp: upper_shift lower_char_is_lower ident_char_def)

lemma snake_loop_no_upper: "list_all (\<lambda>c. \<not> is_upper c) (snake_loop i s)"
  by (induction i s rule: snake_loop.induct) (auto simp: upper_shift)

lemma snake_loop_id: "list_all (\<lambda>c. \<not> is_upper c) s \<Longrightarrow> snake_loop i s = s"
  by (induction i s rule: snake_loop.induct) auto

lemma ToSnakeCase_idem: "ToSnakeCase (ToSnakeCase s) = ToSnakeCase s"
  by (simp add: ToSnakeCase_def snake_loop_id snake_loop_no_upper)

section \<open>Kebab case and snake case\<close>

text \<open>The replacement of hyphens that \<open>SetEnvKeyReplacer\<close> applies to a key.\<close>

definition hyphen_to_underscore :: "char \<Rightarrow> char" where
  "hyphen_to_underscore c = (if c = CHR ''-'' then CHR ''_'' else c)"

lemma kebab_loop_snake_loop:
  "CHR ''_'' \<notin> set s \<Longrightarrow> CHR ''-'' \<notin> set s \<Longrightarrow>
   map hyphen_to_underscore (kebab_loop i False s) = snake_loop i s"
  by (induction i s rule: snake_loop.induct) (auto simp: upper_shift hyphen_to_underscore_def)

section \<open>Reading a kebab name back\<close>

text \<open>The camel case reading of a kebab name: a hyphen capitalises the letter after it.\<close>

definition upper_char :: "char \<Rightarrow> char" where
  "upper_char c = (if is_lower c then char_of ((of_char c :: nat) - 32) else c)"

fun camel_loop :: "string \<Rightarrow> string" where
  "camel_loop [] = []"
| "camel_loop [c] = [c]"
| "camel_loop (c # d # cs) = (if c = CHR ''-'' then upper_char d # camel_loop cs else c # camel_loop (d # cs))"

definition FromKebabCase :: "string \<Rightarrow> string" where
  "FromKebabCase s = (case s of [] \<Rightarrow> [] | c # cs \<Rightarrow> upper_char c # camel_loop cs)"

lemma upper_lower: "is_upper c \<Longrightarrow> upper_char (lower_char c) = c"
  using of_char_lower_char [of c] lower_char_is_lower [of c] by (simp add: upper_char_def)

lemma camel_loop_Cons: "c \<noteq> CHR ''-'' \<Longrightarrow> camel_loop (c # cs) = c # camel_loop cs"
  by (cases cs) simp_all

lemma camel_loop_kebab: "list_all camel_char s \<Longrightarrow> i > 0 \<Longrightarrow> camel_loop (kebab_loop i False s) = s"
proof (induction s arbitrary: i)
  case Nil
  then show ?case by simp
next
  case (Cons c cs)
  then have c: "c \<noteq> CHR ''-''" "c \<noteq> CHR ''_''" by auto
  with Cons show ?case
    by (cases "is_upper c") (auto simp: upper_shift upper_lower camel_loop_Cons)
qed

lemma FromKebab_ToKebab:
  assumes "list_all camel_char s" and "s \<noteq> []" and "is_upper (hd s)"
  shows "FromKebabCase (ToKebabCase s) = s"
  using assms by (cases s) (auto simp: ToKebabCase_def FromKebabCase_def upper_shift upper_lower camel_loop_kebab)

text \<open>
  C38: for an exported camel case name (ASCII letters and digits, first letter upper case) the kebab
  name can be read back, so that two such names never share a flag name; the snake name is the kebab
  name with its hyphens replaced, which is what makes the flag, the configuration key and the
  environment variable of a field agree; both conversions leave their own results unchanged.
\<close>

theorem case_conversion_roundtrip:
  assumes "list_all camel_char s" and "s \<noteq> []" and "is_upper (hd s)"
  shows "FromKebabCase (ToKebabCase s) = s \<and>
         map hyphen_to_underscore (ToKebabCase s) = ToSnakeCase s \<and>
         ToKebabCase (ToKebabCase s) = ToKebabCase s \<and>
         ToSnakeCase (ToSnakeCase s) = ToSnakeCase s"
proof -
  have "CHR ''_'' \<notin> set s" "CHR ''-'' \<notin> set s"
    using assms(1) by (auto simp: list_all_iff)
  then have "map hyphen_to_underscore (ToKebabCase s) = ToSnakeCase s"
    using assms(2) by (simp add: ToKebabCase_def ToSnakeCase_def kebab_loop_snake_loop)
  with assms show ?thesis
    by (simp add: FromKebab_ToKebab ToKebabCase_idem ToSnakeCase_idem)
qed

theorem case_conversion_roundtrip_witness:
  "ToKebabCase ''LogLevel2'' = ''log-level2'' \<and> FromKebabCase ''log-level2'' = ''LogLevel2'' \<and>
   map hyphen_to_underscore ''log-level2'' = ToSnakeCase ''LogLevel2''"
proof -
  have "ToKebabCase ''LogLevel2'' = ''log-level2''" by code_simp
  with case_conversion_roundtrip [of "''LogLevel2''"] show ?thesis
    by (simp add: camel_char_def is_upper_def is_lower_def is_digit_def)
qed

end
