(* ===== verification/Flags.thy ===== *)
theory Flags
  imports Go_Values Strcase
begin

text \<open>
  The package \<^verbatim>\<open>src/pkg/config/flags\<close>: the parsing of the struct tag \<open>flag\<close>, the derivation of flag
  names and configuration keys, the registry of binders by type and the recursive binding of a
  struct. The flag set of pflag and the \<open>viper.Viper\<close> instance are parameters, in \<open>flags_env\<close>.
\<close>

section \<open>Tags and names\<close>

record Metadata =
  mdName :: string
  mdDescription :: string
  mdSkip :: bool

definition flag_name_char :: "char \<Rightarrow> bool" where
  "flag_name_char ch \<longleftrightarrow> is_lower ch \<or> is_upper ch \<or> is_digit ch \<or> ch = CHR ''-''"

definition ParseTag :: "string \<Rightarrow> error + Metadata" where
  "ParseTag tag =
     (if tag = ''-'' then Inr \<lparr>mdName = [], mdDescription = [], mdSkip = True\<rparr>
      else
        let parts = SplitN2 tag (CHR '',''); name = TrimSpace (hd parts) in
        if name = [] then Inl (ErrorString ''flag name cannot be empty'')
        else if \<not> list_all flag_name_char name then
          Inl (ErrorString (''invalid flag name '' @ quoted name @
            '': must contain only alphanumeric characters and hyphens''))
        else
          Inr \<lparr>mdName = name,
               mdDescription = (if length parts > 1 then TrimSpace (parts ! 1) else []),
               mdSkip = False\<rparr>)"

definition join_prefix :: "string \<Rightarrow> string \<Rightarrow> string \<Rightarrow> string" where
  "join_prefix pfx sep name = (if pfx \<noteq> [] then pfx @ sep @ name else name)"

definition GetFlagName :: "sfield \<Rightarrow> string \<Rightarrow> string \<Rightarrow> error + string \<times> bool" where
  "GetFlagName field pfx separator =
     (if flagTag field = [] then
        Inr (join_prefix pfx separator (ToKebabCase (fieldName field)), True)
      else
        case ParseTag (flagTag field) of
          Inl err \<Rightarrow> Inl (WrapError (''invalid flag tag for field '' @ quoted (fieldName field)) err)
        | Inr meta \<Rightarrow>
            if mdSkip meta then Inr ([], False)
            else if mdName meta = [] then Inr ([], False)
            else Inr (join_prefix pfx separator (mdName meta), True))"

definition GetConfigKey :: "sfield \<Rightarrow> string \<Rightarrow> string" where
  "GetConfigKey field pfx =
     (let tag = mapstructureTag field;
          tag = (if tag = [] \<or> tag = ''-'' then ToSnakeCase (fieldName field) else tag)
      in join_prefix pfx ''.'' tag)"

definition GetDescription :: "sfield \<Rightarrow> string" where
  "GetDescription field =
     (if flagTag field = [] \<or> flagTag field = ''-'' then []
      else case ParseTag (flagTag field) of Inl err \<Rightarrow> [] | Inr meta \<Rightarrow> mdDescription meta)"

record FlagBindingMetadata =
  FlagName :: string
  ConfigKey :: string
  Description :: string
  ShouldBind :: bool

definition ExtractFlagMetadata :: "sfield \<Rightarrow> string \<Rightarrow> string \<Rightarrow> error + FlagBindingMetadata" where
  "ExtractFlagMetadata field pfx separator =
     (case GetFlagName field pfx separator of
        Inl err \<Rightarrow> Inl err
      | Inr (flagName, shouldBind) \<Rightarrow>
          if \<not> shouldBind then
            Inr \<lparr>FlagName = [], ConfigKey = [], Description = [], ShouldBind = False\<rparr>
          else
            Inr \<lparr>FlagName = flagName, ConfigKey = GetConfigKey field pfx,
                 Description = GetDescription field, ShouldBind = True\<rparr>)"

section \<open>Flag sets, viper and binders\<close>

text \<open>The kind of flag a method of \<open>pflag.FlagSet\<close> adds (\<open>String\<close>, \<open>Bool\<close>, \<dots>), and a flag.\<close>

datatype flag_kind = StringFlag | BoolFlag | IntFlag | Int32Flag | Int64Flag | UintFlag | Uint32Flag
  | Uint64Flag | Float32Flag | Float64Flag | DurationFlag | StringSliceFlag

record pflag =
  pfName :: string
  pfKind :: flag_kind
  pfDefault :: goval
  pfUsage :: string

text \<open>
  \<open>fsAdd\<close> is the method of the flag set for the kind; \<open>fsLookup\<close> and \<open>vBindPFlag\<close> are
  \<open>FlagSet.Lookup\<close> and \<open>Viper.BindPFlag\<close>. The last five are what the binders take from the standard
  library: whether a type implements \<open>encoding.TextUnmarshaler\<close>, the zero value of a type and the
  texts of a time, a URL and an IP address, and the verb \<open>%v\<close>.
\<close>

record ('fs, 'v) flags_env =
  fsAdd :: "'fs \<Rightarrow> flag_kind \<Rightarrow> string \<Rightarrow> goval \<Rightarrow> string \<Rightarrow> 'fs outcome"
  fsLookup :: "'fs \<Rightarrow> string \<Rightarrow> pflag option"
  vBindPFlag :: "'v \<Rightarrow> string \<Rightarrow> pflag \<Rightarrow> error option \<times> 'v"
  hasUnmarshalText :: "gotype \<Rightarrow> bool"
  reflectZero :: "gotype \<Rightarrow> goval"
  formatRFC3339 :: "goval \<Rightarrow> string"
  urlString :: "goval \<Rightarrow> string"
  ipString :: "goval \<Rightarrow> string"
  sprintV :: "any_value \<Rightarrow> string"

type_synonym 'fs FlagBinder = "'fs \<Rightarrow> string \<Rightarrow> any_value \<Rightarrow> string \<Rightarrow> (error option \<times> 'fs) outcome"

text \<open>The common part of the binders: the type assertion, then the method of the flag set.\<close>

definition add_flag ::
  "('fs, 'v) flags_env \<Rightarrow> flag_kind \<Rightarrow> 'fs \<Rightarrow> string \<Rightarrow> goval \<Rightarrow> string \<Rightarrow> (error option \<times> 'fs) outcome" where
  "add_flag E k fs flagName val description =
     bind_outcome (fsAdd E fs k flagName val description) (\<lambda>fs'. Ret (None, fs'))"

definition typed_binder ::
  "('fs, 'v) flags_env \<Rightarrow> gotype \<Rightarrow> flag_kind \<Rightarrow> (goval \<Rightarrow> goval) \<Rightarrow> 'fs FlagBinder" where
  "typed_binder E t k render fs flagName defaultValue description =
     (case type_assert t defaultValue of
        None \<Rightarrow>
          Ret (Some (ErrorString (''expected '' @ type_String t @ '', got '' @ type_verb_any defaultValue)), fs)
      | Some val \<Rightarrow> add_flag E k fs flagName (render val) description)"

definition stringBinder :: "('fs, 'v) flags_env \<Rightarrow> 'fs FlagBinder" where
  "stringBinder E = typed_binder E TString StringFlag (\<lambda>v. v)"

definition boolBinder :: "('fs, 'v) flags_env \<Rightarrow> 'fs FlagBinder" where
  "boolBinder E = typed_binder E TBool BoolFlag (\<lambda>v. v)"

definition intBinder :: "('fs, 'v) flags_env \<Rightarrow> 'fs FlagBinder" where
  "intBinder E = typed_binder E TInt IntFlag (\<lambda>v. v)"

definition int32Binder :: "('fs, 'v) flags_env \<Rightarrow> 'fs FlagBinder" where
  "int32Binder E = typed_binder E TInt32 Int32Flag (\<lambda>v. v)"

definition int64Binder :: "('fs, 'v) flags_env \<Rightarrow> 'fs FlagBinder" where
  "int64Binder E = typed_binder E TInt64 Int64Flag (\<lambda>v. v)"

definition uintBinder :: "('fs, 'v) flags_env \<Rightarrow> 'fs FlagBinder" where
  "uintBinder E = typed_binder E TUint UintFlag (\<lambda>v. v)"

definition uint32Binder :: "('fs, 'v) flags_env \<Rightarrow> 'fs FlagBinder" where
  "uint32Binder E = typed_binder E TUint32 Uint32Flag (\<lambda>v. v)"

definition uint64Binder :: "('fs, 'v) flags_env \<Rightarrow> 'fs FlagBinder" where
  "uint64Binder E = typed_binder E TUint64 Uint64Flag (\<lambda>v. v)"

definition float32Binder :: "('fs, 'v) flags_env \<Rightarrow> 'fs FlagBinder" where
  "float32Binder E = typed_binder E TFloat32 Float32Flag (\<lambda>v. v)"

definition float64Binder :: "('fs, 'v) flags_env \<Rightarrow> 'fs FlagBinder" where
  "float64Binder E = typed_binder E TFloat64 Float64Flag (\<lambda>v. v)"

definition durationBinder :: "('fs, 'v) flags_env \<Rightarrow> 'fs FlagBinder" where
  "durationBinder E = typed_binder E TDuration DurationFlag (\<lambda>v. v)"

definition stringSliceBinder :: "('fs, 'v) flags_env \<Rightarrow> 'fs FlagBinder" where
  "stringSliceBinder E = typed_binder E TStringSlice StringSliceFlag (\<lambda>v. v)"

definition timeBinder :: "('fs, 'v) flags_env \<Rightarrow> 'fs FlagBinder" where
  "timeBinder E = typed_binder E TTime StringFlag (\<lambda>v. VString (formatRFC3339 E v))"

definition urlBinder :: "('fs, 'v) flags_env \<Rightarrow> 'fs FlagBinder" where
  "urlBinder E = typed_binder E TURL StringFlag (\<lambda>v. VString (urlString E v))"

definition ipBinder :: "('fs, 'v) flags_env \<Rightarrow> 'fs FlagBinder" where
  "ipBinder E = typed_binder E TIP StringFlag (\<lambda>v. VString (ipString E v))"

definition textUnmarshalerBinder :: "('fs, 'v) flags_env \<Rightarrow> 'fs FlagBinder" where
  "textUnmarshalerBinder E fs flagName defaultValue description =
     add_flag E StringFlag fs flagName (VString (sprintV E defaultValue)) description"

definition makePointerBinder :: "('fs, 'v) flags_env \<Rightarrow> 'fs FlagBinder \<Rightarrow> 'fs FlagBinder" where
  "makePointerBinder E innerBinder fs flagName defaultValue description =
     (case defaultValue of
        Some (TPointer t, VPtr None) \<Rightarrow> innerBinder fs flagName (Some (t, reflectZero E t)) description
      | Some (TPointer t, VPtr (Some v)) \<Rightarrow> innerBinder fs flagName (Some (t, v)) description
      | _ \<Rightarrow> innerBinder fs flagName defaultValue description)"

section \<open>The registry\<close>

record 'fs Registry =
  binders :: "gotype \<rightharpoonup> 'fs FlagBinder"

definition NewRegistry :: "'fs Registry" where
  "NewRegistry = \<lparr>binders = Map.empty\<rparr>"

definition Registry_Register :: "gotype \<Rightarrow> 'fs FlagBinder \<Rightarrow> 'fs Registry \<Rightarrow> 'fs Registry" where
  "Registry_Register typ binder r = r\<lparr>binders := (binders r)(typ \<mapsto> binder)\<rparr>"

definition implementsTextUnmarshaler :: "('fs, 'v) flags_env \<Rightarrow> gotype \<Rightarrow> bool" where
  "implementsTextUnmarshaler E typ = hasUnmarshalText E typ"

definition pointer_binder :: "('fs, 'v) flags_env \<Rightarrow> 'fs Registry \<Rightarrow> gotype \<Rightarrow> 'fs FlagBinder option" where
  "pointer_binder E r typ =
     (case typ of TPointer t \<Rightarrow> map_option (makePointerBinder E) (binders r t) | _ \<Rightarrow> None)"

definition Registry_Get :: "('fs, 'v) flags_env \<Rightarrow> 'fs Registry \<Rightarrow> gotype \<Rightarrow> 'fs FlagBinder option" where
  "Registry_Get E r typ =
     (case binders r typ of
        Some binder \<Rightarrow> Some binder
      | None \<Rightarrow>
          case pointer_binder E r typ of
            Some binder \<Rightarrow> Some binder
          | None \<Rightarrow>
              if implementsTextUnmarshaler E typ then Some (textUnmarshalerBinder E)
              else if type_Kind typ \<noteq> KPointer \<and> implementsTextUnmarshaler E (TPointer typ) then
                Some (textUnmarshalerBinder E)
              else None)"

definition CanBind :: "('fs, 'v) flags_env \<Rightarrow> 'fs Registry \<Rightarrow> gotype \<Rightarrow> bool" where
  "CanBind E r typ = (Registry_Get E r typ \<noteq> None)"

definition registerBasicTypes :: "('fs, 'v) flags_env \<Rightarrow> 'fs Registry \<Rightarrow> 'fs Registry" where
  "registerBasicTypes E r =
     (let r = Registry_Register TString (stringBinder E) r;
          r = Registry_Register TBool (boolBinder E) r;
          r = Registry_Register TInt (intBinder E) r;
          r = Registry_Register TInt32 (int32Binder E) r;
          r = Registry_Register TInt64 (int64Binder E) r;
          r = Registry_Register TUint (uintBinder E) r;
          r = Registry_Register TUint32 (uint32Binder E) r;
          r = Registry_Register TUint64 (uint64Binder E) r;
          r = Registry_Register TFloat32 (float32Binder E) r;
          r = Registry_Register TFloat64 (float64Binder E) r;
          r = Registry_Register TDuration (durationBinder E) r
      in Registry_Register TStringSlice (stringSliceBinder E) r)"

definition registerTimeTypes :: "('fs, 'v) flags_env \<Rightarrow> 'fs Registry \<Rightarrow> 'fs Registry" where
  "registerTimeTypes E r = Registry_Register TTime (timeBinder E) r"

definition registerNetworkTypes :: "('fs, 'v) flags_env \<Rightarrow> 'fs Registry \<Rightarrow> 'fs Registry" where
  "registerNetworkTypes E r = Registry_Register TIP (ipBinder E) (Registry_Register TURL (urlBinder E) r)"

definition newDefaultRegistry :: "('fs, 'v) flags_env \<Rightarrow> 'fs Registry" where
  "newDefaultRegistry E = registerNetworkTypes E (registerTimeTypes E (registerBasicTypes E NewRegistry))"

section \<open>Binding a struct\<close>

definition bindField ::
  "('fs, 'v) flags_env \<Rightarrow> 'fs \<Rightarrow> sfield \<Rightarrow> FlagBindingMetadata \<Rightarrow> (bool \<times> 'fs) outcome" where
  "bindField E fs field meta =
     (case Registry_Get E (newDefaultRegistry E) (fieldType field) of
        None \<Rightarrow> Ret (False, fs)
      | Some binder \<Rightarrow>
          bind_outcome
            (binder fs (FlagName meta) (Some (fieldType field, fieldValue field)) (Description meta))
            (\<lambda>(err, fs'). Ret (err = None, fs')))"

record ('fs, 'v) bind_state =
  bsFlagSet :: 'fs
  bsViper :: 'v
  bsSeen :: "string \<rightharpoonup> string"

text \<open>The body of the loop after the nested structs: one field that is not a struct.\<close>

definition bind_leaf ::
  "('fs, 'v) flags_env \<Rightarrow> sfield \<Rightarrow> FlagBindingMetadata \<Rightarrow> ('fs, 'v) bind_state
     \<Rightarrow> (error option \<times> ('fs, 'v) bind_state) outcome" where
  "bind_leaf E field meta s =
     (case bsSeen s (FlagName meta) of
        Some existingField \<Rightarrow>
          Ret (Some (ErrorString (''duplicate flag name '' @ quoted (FlagName meta) @ '' (fields '' @
                 quoted existingField @ '' and '' @ quoted (fieldName field) @ '')'')), s)
      | None \<Rightarrow>
          let s = s\<lparr>bsSeen := (bsSeen s)(FlagName meta \<mapsto> fieldName field)\<rparr> in
          bind_outcome (bindField E (bsFlagSet s) field meta) (\<lambda>(bound, fs').
            let s = s\<lparr>bsFlagSet := fs'\<rparr> in
            if \<not> bound then Ret (None, s)
            else
              case fsLookup E (bsFlagSet s) (FlagName meta) of
                None \<Rightarrow>
                  Ret (Some (ErrorString (''flag '' @ quoted (FlagName meta) @
                         '' was not registered (internal error)'')), s)
              | Some flag \<Rightarrow>
                  case vBindPFlag E (bsViper s) (ConfigKey meta) flag of
                    (Some err, v') \<Rightarrow>
                      Ret (Some (WrapError (''failed to bind flag '' @ quoted (FlagName meta) @
                             '' to config key '' @ quoted (ConfigKey meta)) err), s\<lparr>bsViper := v'\<rparr>)
                  | (None, v') \<Rightarrow> Ret (None, s\<lparr>bsViper := v'\<rparr>)))"

definition bind_meta ::
  "('fs, 'v) flags_env \<Rightarrow> sfield \<Rightarrow> string \<Rightarrow> string \<Rightarrow> ('fs, 'v) bind_state
     \<Rightarrow> (error option \<times> ('fs, 'v) bind_state) outcome" where
  "bind_meta E field pfx separator s =
     (case ExtractFlagMetadata field pfx separator of
        Inl err \<Rightarrow> Ret (Some err, s)
      | Inr meta \<Rightarrow> if \<not> ShouldBind meta then Ret (None, s) else bind_leaf E field meta s)"

text \<open>Continue the loop unless an error was returned.\<close>

definition and_then ::
  "(error option \<times> 's) outcome \<Rightarrow> ('s \<Rightarrow> (error option \<times> 's) outcome) \<Rightarrow> (error option \<times> 's) outcome" where
  "and_then m k = bind_outcome m (\<lambda>(err, s). case err of Some e \<Rightarrow> Ret (Some e, s) | None \<Rightarrow> k s)"

lemma and_then_cong [fundef_cong]:
  assumes "m = m'" and "\<And>s. m' = Ret (None, s) \<Longrightarrow> k s = k' s"
  shows "and_then m k = and_then m' k'"
  using assms by (cases m') (auto simp: and_then_def split: option.splits)

fun bindStructWithTracking ::
  "('fs, 'v) flags_env \<Rightarrow> sfield list \<Rightarrow> string \<Rightarrow> string \<Rightarrow> ('fs, 'v) bind_state
     \<Rightarrow> (error option \<times> ('fs, 'v) bind_state) outcome" where
  "bindStructWithTracking E [] pfx separator s = Ret (None, s)"
| "bindStructWithTracking E (SField name exported tag mtag typ val # sfs) pfx separator s =
     (if \<not> exported \<or> tag = ''-'' then bindStructWithTracking E sfs pfx separator s
      else
        and_then
          (case val of
             VStruct nested \<Rightarrow>
               if typ \<noteq> TDuration then
                 bindStructWithTracking E nested (join_prefix pfx separator (ToKebabCase name)) separator s
               else bind_meta E (SField name exported tag mtag typ val) pfx separator s
           | _ \<Rightarrow> bind_meta E (SField name exported tag mtag typ val) pfx separator s)
          (\<lambda>s'. bindStructWithTracking E sfs pfx separator s'))"

definition BindStruct ::
  "('fs, 'v) flags_env \<Rightarrow> 'fs \<Rightarrow> 'v \<Rightarrow> sfield list \<Rightarrow> string \<Rightarrow> string
     \<Rightarrow> (error option \<times> 'fs \<times> 'v) outcome" where
  "BindStruct E fs v sfs pfx separator =
     bind_outcome
       (bindStructWithTracking E sfs pfx separator
          \<lparr>bsFlagSet = fs, bsViper = v, bsSeen = Map.empty\<rparr>)
       (\<lambda>(err, s). Ret (err, bsFlagSet s, bsViper s))"

section \<open>What is bound\<close>

text \<open>The fields \<open>BindStruct\<close> visits, flattened in order, with their metadata or the tag's error.\<close>

definition leaf_entry :: "sfield \<Rightarrow> string \<Rightarrow> string \<Rightarrow> (error + sfield \<times> FlagBindingMetadata) list" where
  "leaf_entry field pfx separator =
     (case ExtractFlagMetadata field pfx separator of
        Inl err \<Rightarrow> [Inl err]
      | Inr meta \<Rightarrow> if ShouldBind meta then [Inr (field, meta)] else [])"

fun flag_entries :: "sfield list \<Rightarrow> string \<Rightarrow> string \<Rightarrow> (error + sfield \<times> FlagBindingMetadata) list" where
  "flag_entries [] pfx separator = []"
| "flag_entries (SField name exported tag mtag typ val # sfs) pfx separator =
     (if \<not> exported \<or> tag = ''-'' then []
      else case val of
             VStruct nested \<Rightarrow>
               if typ \<noteq> TDuration then
                 flag_entries nested (join_prefix pfx separator (ToKebabCase name)) separator
               else leaf_entry (SField name exported tag mtag typ val) pfx separator
           | _ \<Rightarrow> leaf_entry (SField name exported tag mtag typ val) pfx separator) @
     flag_entries sfs pfx separator"

fun bind_entries ::
  "('fs, 'v) flags_env \<Rightarrow> (error + sfield \<times> FlagBindingMetadata) list \<Rightarrow> ('fs, 'v) bind_state
     \<Rightarrow> (error option \<times> ('fs, 'v) bind_state) outcome" where
  "bind_entries E [] s = Ret (None, s)"
| "bind_entries E (Inl err # es) s = Ret (Some err, s)"
| "bind_entries E (Inr (field, meta) # es) s = and_then (bind_leaf E field meta s) (bind_entries E es)"

lemma and_then_Ret [simp]:
  "and_then (Ret (None, s)) k = k s" "and_then (Ret (Some e, s)) k = Ret (Some e, s)"
  by (simp_all add: and_then_def)

lemma and_then_assoc: "and_then (and_then m k) k' = and_then m (\<lambda>s. and_then (k s) k')"
  by (cases m) (auto simp: and_then_def split: option.splits)

lemma and_then_return [simp]: "and_then m (\<lambda>s. Ret (None, s)) = m"
  by (cases m) (auto simp: and_then_def split: option.splits)

lemma bind_entries_append:
  "bind_entries E (es @ es') s = and_then (bind_entries E es s) (bind_entries E es')"
proof (induction es arbitrary: s)
  case (Cons e es)
  then show ?case by (cases e) (auto simp: and_then_assoc cong: and_then_cong)
qed simp

lemma bind_entries_single: "bind_entries E [Inr (f, m)] s = bind_leaf E f m s"
  by (cases "bind_leaf E f m s") (auto simp: and_then_def split: option.splits)

lemma bind_meta_entries: "bind_meta E f pfx sep s = bind_entries E (leaf_entry f pfx sep) s"
  by (simp add: bind_meta_def leaf_entry_def bind_entries_single del: bind_entries.simps(3) split: sum.splits)

lemma bindStruct_entries:
  "bindStructWithTracking E sfs pfx sep s = bind_entries E (flag_entries sfs pfx sep) s"
proof (induction sfs pfx sep arbitrary: s rule: flag_entries.induct)
  case (2 nm ex tg mt ty val sfs pfx sep)
  have rest: "bindStructWithTracking E sfs pfx sep = bind_entries E (flag_entries sfs pfx sep)"
    using "2.IH"(2) by (intro ext)
  show ?case
    using "2.IH"(1)
    by (cases val) (simp_all add: bind_entries_append bind_meta_entries rest)
qed simp

section \<open>Documented laws of pflag and viper\<close>

text \<open>
  A method of the flag set defines the flag, and panics when the name is already defined;
  \<open>BindPFlag\<close> of a flag succeeds and binds the key, without regard to case.
\<close>

definition adds_flag :: "('fs, 'v) flags_env \<Rightarrow> string \<Rightarrow> string \<Rightarrow> 'fs \<Rightarrow> 'fs \<Rightarrow> bool" where
  "adds_flag E n d fs fs' \<longleftrightarrow>
     (\<exists>k v. fsLookup E fs' n = Some \<lparr>pfName = n, pfKind = k, pfDefault = v, pfUsage = d\<rparr>) \<and>
     (\<forall>m. m \<noteq> n \<longrightarrow> fsLookup E fs' m = fsLookup E fs m)"

definition pflag_ok :: "('fs, 'v) flags_env \<Rightarrow> bool" where
  "pflag_ok E \<longleftrightarrow> (\<forall>fs k n v d.
     (fsLookup E fs n \<noteq> None \<longrightarrow> (\<exists>msg. fsAdd E fs k n v d = Panic msg)) \<and>
     (fsLookup E fs n = None \<longrightarrow>
        (\<exists>fs'. fsAdd E fs k n v d = Ret fs' \<and>
           fsLookup E fs' n = Some \<lparr>pfName = n, pfKind = k, pfDefault = v, pfUsage = d\<rparr> \<and>
           (\<forall>m. m \<noteq> n \<longrightarrow> fsLookup E fs' m = fsLookup E fs m))))"

definition viper_bind_ok :: "('fs, 'v) flags_env \<Rightarrow> ('v \<Rightarrow> string \<rightharpoonup> pflag) \<Rightarrow> bool" where
  "viper_bind_ok E bound \<longleftrightarrow> (\<forall>v k f.
     \<exists>v'. vBindPFlag E v k f = (None, v') \<and> bound v' = (bound v)(ToLower k \<mapsto> f))"

lemma pflag_okD:
  assumes "pflag_ok E" and "fsLookup E fs n = None"
  shows "\<exists>fs'. fsAdd E fs k n v d = Ret fs' \<and>
    fsLookup E fs' n = Some \<lparr>pfName = n, pfKind = k, pfDefault = v, pfUsage = d\<rparr> \<and>
    (\<forall>m. m \<noteq> n \<longrightarrow> fsLookup E fs' m = fsLookup E fs m)"
  using assms unfolding pflag_ok_def by blast

lemma add_flag_adds:
  assumes "pflag_ok E" and "fsLookup E fs n = None"
  shows "\<exists>fs'. add_flag E k fs n v d = Ret (None, fs') \<and> adds_flag E n d fs fs'"
  using pflag_okD [OF assms, of k v d] by (auto simp: add_flag_def adds_flag_def)

lemmas binder_defs = stringBinder_def boolBinder_def intBinder_def int32Binder_def int64Binder_def
  uintBinder_def uint32Binder_def uint64Binder_def float32Binder_def float64Binder_def
  durationBinder_def stringSliceBinder_def timeBinder_def urlBinder_def ipBinder_def

lemmas registry_defs = newDefaultRegistry_def registerBasicTypes_def registerTimeTypes_def
  registerNetworkTypes_def Registry_Register_def NewRegistry_def

lemma default_binder_typed:
  "binders (newDefaultRegistry E) t = Some b \<Longrightarrow> \<exists>k r. b = typed_binder E t k r"
  by (cases t) (auto simp: registry_defs binder_defs)

lemma typed_binder_adds:
  "pflag_ok E \<Longrightarrow> fsLookup E fs n = None \<Longrightarrow>
   \<exists>fs'. typed_binder E t k r fs n (Some (t, v)) d = Ret (None, fs') \<and> adds_flag E n d fs fs'"
  by (simp add: typed_binder_def add_flag_adds)

lemma pointer_binder_adds:
  assumes "pflag_ok E" and "fsLookup E fs n = None" and "binders (newDefaultRegistry E) t = Some b"
  shows "\<exists>fs'. makePointerBinder E b fs n (Some (TPointer t, VPtr p)) d = Ret (None, fs') \<and>
               adds_flag E n d fs fs'"
proof -
  from default_binder_typed [OF assms(3)] obtain k r where b: "b = typed_binder E t k r" by blast
  show ?thesis
    using typed_binder_adds [OF assms(1,2)]
    by (cases p) (simp_all add: makePointerBinder_def b)
qed

lemma Get_adds:
  assumes E: "pflag_ok E" "fsLookup E fs n = None"
    and f: "ptr_typed f"
    and b: "Registry_Get E (newDefaultRegistry E) (fieldType f) = Some b"
  shows "\<exists>fs'. b fs n (Some (fieldType f, fieldValue f)) d = Ret (None, fs') \<and> adds_flag E n d fs fs'"
proof -
  consider (direct) "binders (newDefaultRegistry E) (fieldType f) = Some b"
    | (ptr) t b' p where "fieldType f = TPointer t" "fieldValue f = VPtr p"
        "binders (newDefaultRegistry E) t = Some b'" "b = makePointerBinder E b'"
    | (unmarshaler) "b = textUnmarshalerBinder E"
    using b f by (auto simp: Registry_Get_def pointer_binder_def ptr_typed_def
        split: option.splits if_splits gotype.splits goval.splits)
  then show ?thesis
  proof cases
    case direct
    then show ?thesis using default_binder_typed typed_binder_adds [OF E] by metis
  next
    case ptr
    then show ?thesis using pointer_binder_adds [OF E] by metis
  next
    case unmarshaler
    then show ?thesis using add_flag_adds [OF E] by (simp add: textUnmarshalerBinder_def)
  qed
qed

section \<open>Correctness of BindStruct\<close>

abbreviation entry_ok :: "error + sfield \<times> FlagBindingMetadata \<Rightarrow> bool" where
  "entry_ok e \<equiv> \<not> isl e"

abbreviation entry_name :: "error + sfield \<times> FlagBindingMetadata \<Rightarrow> string" where
  "entry_name e \<equiv> FlagName (snd (projr e))"

text \<open>
  The flag set, relative to the one \<open>BindStruct\<close> was given: only names seen so far have been touched.
\<close>

definition untouched :: "('fs, 'v) flags_env \<Rightarrow> 'fs \<Rightarrow> ('fs, 'v) bind_state \<Rightarrow> bool" where
  "untouched E fs0 s \<longleftrightarrow> (\<forall>n. bsSeen s n = None \<longrightarrow> fsLookup E (bsFlagSet s) n = fsLookup E fs0 n)"

text \<open>The outcome of the fields bound so far: each flag is defined and its key is bound.\<close>

definition entry_bound ::
  "('fs, 'v) flags_env \<Rightarrow> ('v \<Rightarrow> string \<rightharpoonup> pflag) \<Rightarrow> 'fs \<Rightarrow> 'v \<Rightarrow> error + sfield \<times> FlagBindingMetadata \<Rightarrow> bool" where
  "entry_bound E bound fs v e \<longleftrightarrow>
     (case e of
        Inl err \<Rightarrow> False
      | Inr (field, meta) \<Rightarrow>
          CanBind E (newDefaultRegistry E) (fieldType field) \<longrightarrow>
          (\<exists>flag. fsLookup E fs (FlagName meta) = Some flag \<and> pfName flag = FlagName meta \<and>
                  pfUsage flag = Description meta) \<and>
          ToLower (ConfigKey meta) \<in> dom (bound v))"

text \<open>What one later step keeps of the earlier ones.\<close>

definition keeps_bound ::
  "('fs, 'v) flags_env \<Rightarrow> ('v \<Rightarrow> string \<rightharpoonup> pflag) \<Rightarrow> ('fs, 'v) bind_state \<Rightarrow> ('fs, 'v) bind_state \<Rightarrow> bool" where
  "keeps_bound E bound s s' \<longleftrightarrow>
     dom (bsSeen s) \<subseteq> dom (bsSeen s') \<and> dom (bound (bsViper s)) \<subseteq> dom (bound (bsViper s')) \<and>
     (\<forall>n \<in> dom (bsSeen s). fsLookup E (bsFlagSet s') n = fsLookup E (bsFlagSet s) n)"

lemma keeps_bound_refl: "keeps_bound E bound s s"
  by (simp add: keeps_bound_def)

lemma keeps_bound_trans:
  assumes "keeps_bound E bound s t" and "keeps_bound E bound t u"
  shows "keeps_bound E bound s u"
proof -
  have "fsLookup E (bsFlagSet u) n = fsLookup E (bsFlagSet s) n" if "n \<in> dom (bsSeen s)" for n
    using that assms subsetD [of "dom (bsSeen s)" "dom (bsSeen t)" n] by (simp add: keeps_bound_def)
  with assms show ?thesis unfolding keeps_bound_def by blast
qed

lemma entry_bound_keeps:
  assumes "entry_bound E bound (bsFlagSet s) (bsViper s) (Inr (f, m))"
    and "bsSeen s (FlagName m) \<noteq> None" and "keeps_bound E bound s s'"
  shows "entry_bound E bound (bsFlagSet s') (bsViper s') (Inr (f, m))"
proof -
  have "fsLookup E (bsFlagSet s') (FlagName m) = fsLookup E (bsFlagSet s) (FlagName m)"
    using assms(2,3) by (simp add: keeps_bound_def domIff)
  moreover have "k \<in> dom (bound (bsViper s)) \<Longrightarrow> k \<in> dom (bound (bsViper s'))" for k
    using assms(3) by (auto simp: keeps_bound_def)
  ultimately show ?thesis
    using assms(1) by (simp only: entry_bound_def sum.case prod.case) blast
qed

lemma bind_leaf_duplicate:
  "bsSeen s (FlagName m) = Some g \<Longrightarrow> \<exists>err. bind_leaf E f m s = Ret (Some err, s)"
  by (simp add: bind_leaf_def)

lemma bind_leaf_new:
  assumes E: "pflag_ok E" "viper_bind_ok E bound"
    and f: "ptr_typed f" "fsLookup E fs0 (FlagName m) = None"
    and s: "untouched E fs0 s" "bsSeen s (FlagName m) = None"
  shows "\<exists>s'. bind_leaf E f m s = Ret (None, s') \<and> untouched E fs0 s' \<and> keeps_bound E bound s s' \<and>
              dom (bsSeen s') = insert (FlagName m) (dom (bsSeen s)) \<and>
              dom (bound (bsViper s')) \<subseteq> insert (ToLower (ConfigKey m)) (dom (bound (bsViper s))) \<and>
              entry_bound E bound (bsFlagSet s') (bsViper s') (Inr (f, m))"
proof (cases "Registry_Get E (newDefaultRegistry E) (fieldType f)")
  case None
  then show ?thesis
    using s by (auto simp: bind_leaf_def bindField_def untouched_def keeps_bound_def entry_bound_def CanBind_def)
next
  case (Some b)
  have free: "fsLookup E (bsFlagSet s) (FlagName m) = None"
    using f(2) s by (simp add: untouched_def)
  from Get_adds [OF E(1) free f(1) Some]
  obtain fs' where fs': "b (bsFlagSet s) (FlagName m) (Some (fieldType f, fieldValue f)) (Description m)
      = Ret (None, fs')" and add: "adds_flag E (FlagName m) (Description m) (bsFlagSet s) fs'" by blast
  from add obtain flag where flag: "fsLookup E fs' (FlagName m) = Some flag"
      "pfName flag = FlagName m" "pfUsage flag = Description m"
    unfolding adds_flag_def by force
  from E(2) obtain v' where v': "vBindPFlag E (bsViper s) (ConfigKey m) flag = (None, v')"
      "bound v' = (bound (bsViper s))(ToLower (ConfigKey m) \<mapsto> flag)"
    unfolding viper_bind_ok_def by blast
  let ?s' = "s\<lparr>bsSeen := (bsSeen s)(FlagName m \<mapsto> fieldName f), bsFlagSet := fs', bsViper := v'\<rparr>"
  have "bind_leaf E f m s = Ret (None, ?s')"
    using s(2) Some fs' flag v' by (simp add: bind_leaf_def bindField_def)
  moreover have "untouched E fs0 ?s'"
    using s(1) add by (auto simp: untouched_def adds_flag_def)
  moreover have "n \<noteq> FlagName m" if "n \<in> dom (bsSeen s)" for n
    using that s(2) by auto
  then have "keeps_bound E bound s ?s'"
    using add v'(2) by (auto simp: keeps_bound_def adds_flag_def)
  moreover have "entry_bound E bound (bsFlagSet ?s') (bsViper ?s') (Inr (f, m))"
    using flag v'(2) by (auto simp: entry_bound_def)
  moreover have "dom (bound (bsViper ?s')) \<subseteq> insert (ToLower (ConfigKey m)) (dom (bound (bsViper s)))"
    using v'(2) by simp
  ultimately show ?thesis by auto
qed

lemma bind_entries_spec:
  assumes E: "pflag_ok E" "viper_bind_ok E bound"
    and es: "\<And>f m. Inr (f, m) \<in> set es \<Longrightarrow> ptr_typed f \<and> fsLookup E fs0 (FlagName m) = None"
    and s: "untouched E fs0 s"
  shows "\<exists>err s'. bind_entries E es s = Ret (err, s') \<and> keeps_bound E bound s s' \<and>
     (err = None \<longleftrightarrow> list_all entry_ok es \<and> distinct (map entry_name es) \<and>
        (\<forall>e \<in> set es. bsSeen s (entry_name e) = None)) \<and>
     (err = None \<longrightarrow> list_all (entry_bound E bound (bsFlagSet s') (bsViper s')) es)"
  using es s
proof (induction es arbitrary: s)
  case Nil
  then show ?case by (simp add: keeps_bound_refl)
next
  case (Cons e es)
  show ?case
  proof (cases e)
    case (Inl err)
    then show ?thesis by (simp add: keeps_bound_refl)
  next
    case (Inr fm)
    obtain f m where fm: "fm = (f, m)" by fastforce
    with Inr Cons.prems(1) have f: "ptr_typed f" "fsLookup E fs0 (FlagName m) = None" by auto
    show ?thesis
    proof (cases "bsSeen s (FlagName m)")
      case (Some g)
      from bind_leaf_duplicate [where E = E and f = f, OF Some] obtain err where
        "bind_entries E (e # es) s = Ret (Some err, s)" using Inr fm by auto
      with Some Inr fm show ?thesis by (auto simp: keeps_bound_refl)
    next
      case None
      from bind_leaf_new [OF E f Cons.prems(2) None] obtain s1 where
        s1: "bind_leaf E f m s = Ret (None, s1)" "untouched E fs0 s1" "keeps_bound E bound s s1"
          "dom (bsSeen s1) = insert (FlagName m) (dom (bsSeen s))"
          "entry_bound E bound (bsFlagSet s1) (bsViper s1) (Inr (f, m))" by blast
      from Cons.IH [OF Cons.prems(1) s1(2)] obtain err s' where
        ih: "bind_entries E es s1 = Ret (err, s')" "keeps_bound E bound s1 s'"
          "err = None \<longleftrightarrow> list_all entry_ok es \<and> distinct (map entry_name es) \<and>
             (\<forall>e \<in> set es. bsSeen s1 (entry_name e) = None)"
          "err = None \<longrightarrow> list_all (entry_bound E bound (bsFlagSet s') (bsViper s')) es"
        by auto
      have seen: "bsSeen s1 n = None \<longleftrightarrow> n \<noteq> FlagName m \<and> bsSeen s n = None" for n
        using s1(4) by (metis domIff insertE insertI1 insertI2)
      have "entry_bound E bound (bsFlagSet s') (bsViper s') (Inr (f, m))"
        using entry_bound_keeps [OF s1(5) _ ih(2)] seen by blast
      moreover have "bind_entries E (e # es) s = Ret (err, s')"
        using Inr fm s1(1) ih(1) by simp
      moreover have "keeps_bound E bound s s'"
        using s1(3) ih(2) by (rule keeps_bound_trans)
      moreover have "list_all entry_ok (e # es) \<and> distinct (map entry_name (e # es)) \<and>
            (\<forall>e \<in> set (e # es). bsSeen s (entry_name e) = None) \<longleftrightarrow>
          list_all entry_ok es \<and> distinct (map entry_name es) \<and>
            (\<forall>e \<in> set es. bsSeen s1 (entry_name e) = None)"
        unfolding seen using Inr fm None by (auto simp: image_iff)
      ultimately show ?thesis
        using ih(3,4) Inr fm by (intro exI [of _ err] exI [of _ s']) simp
    qed
  qed
qed

lemma subset_insert_step: "A \<subseteq> B \<union> S \<Longrightarrow> B \<subseteq> insert x C \<Longrightarrow> A \<subseteq> C \<union> insert x S"
  by blast

text \<open>The flags and keys that are touched are those of the entries.\<close>

lemma bind_entries_frame:
  assumes E: "pflag_ok E" "viper_bind_ok E bound"
    and es: "\<And>f m. Inr (f, m) \<in> set es \<Longrightarrow> ptr_typed f \<and> fsLookup E fs0 (FlagName m) = None"
    and s: "untouched E fs0 s" and r: "bind_entries E es s = Ret (err, s')"
  shows "untouched E fs0 s' \<and>
     dom (bsSeen s') \<subseteq> dom (bsSeen s) \<union> {FlagName m |f m. Inr (f, m) \<in> set es} \<and>
     dom (bound (bsViper s')) \<subseteq> dom (bound (bsViper s)) \<union> {ToLower (ConfigKey m) |f m. Inr (f, m) \<in> set es}"
  using es s r
proof (induction es arbitrary: s)
  case (Cons e es)
  show ?case
  proof (cases e)
    case (Inr fm)
    obtain f m where fm: "fm = (f, m)" by fastforce
    with Inr Cons.prems(1) have f: "ptr_typed f" "fsLookup E fs0 (FlagName m) = None" by auto
    show ?thesis
    proof (cases "bsSeen s (FlagName m)")
      case (Some g)
      with bind_leaf_duplicate [where E = E and f = f, OF Some] Cons.prems(2,3) Inr fm
      show ?thesis by auto
    next
      case None
      from bind_leaf_new [OF E f Cons.prems(2) None] obtain s1 where
        s1: "bind_leaf E f m s = Ret (None, s1)" "untouched E fs0 s1"
          "dom (bsSeen s1) = insert (FlagName m) (dom (bsSeen s))"
          "dom (bound (bsViper s1)) \<subseteq> insert (ToLower (ConfigKey m)) (dom (bound (bsViper s)))" by blast
      have "bind_entries E es s1 = Ret (err, s')"
        using Cons.prems(3) Inr fm s1(1) by simp
      from Cons.IH [OF Cons.prems(1) s1(2) this]
      have ih: "untouched E fs0 s'"
        "dom (bsSeen s') \<subseteq> dom (bsSeen s1) \<union> {FlagName m |f m. Inr (f, m) \<in> set es}"
        "dom (bound (bsViper s')) \<subseteq> dom (bound (bsViper s1)) \<union> {ToLower (ConfigKey m) |f m. Inr (f, m) \<in> set es}"
        by auto
      have eqs: "{FlagName m |f m. Inr (f, m) \<in> set (e # es)} =
          insert (FlagName m) {FlagName m |f m. Inr (f, m) \<in> set es}"
        "{ToLower (ConfigKey m) |f m. Inr (f, m) \<in> set (e # es)} =
          insert (ToLower (ConfigKey m)) {ToLower (ConfigKey m) |f m. Inr (f, m) \<in> set es}"
        using Inr fm by auto
      show ?thesis
        unfolding eqs using ih s1(3,4) by (intro conjI subset_insert_step [OF ih(2)] subset_insert_step [OF ih(3)]) auto
    qed
  qed (use Cons.prems in auto)
qed simp

lemma BindStruct_frame:
  assumes "pflag_ok E" and "viper_bind_ok E bound"
    and "\<And>f m. Inr (f, m) \<in> set (flag_entries sfs pfx sep) \<Longrightarrow>
                ptr_typed f \<and> fsLookup E fs (FlagName m) = None"
    and "BindStruct E fs v sfs pfx sep = Ret (err, fs', v')"
  shows "fsLookup E fs' n \<noteq> fsLookup E fs n \<Longrightarrow>
           \<exists>f m. n = FlagName m \<and> Inr (f, m) \<in> set (flag_entries sfs pfx sep)"
    and "dom (bound v') \<subseteq> dom (bound v) \<union> {ToLower (ConfigKey m) |f m. Inr (f, m) \<in> set (flag_entries sfs pfx sep)}"
proof -
  let ?s = "\<lparr>bsFlagSet = fs, bsViper = v, bsSeen = Map.empty\<rparr>"
  from assms(4) obtain s' where s': "bind_entries E (flag_entries sfs pfx sep) ?s = Ret (err, s')"
    "fs' = bsFlagSet s'" "v' = bsViper s'"
    by (auto simp: BindStruct_def bindStruct_entries bind_outcome_Ret_iff)
  have "untouched E fs ?s" by (simp add: untouched_def)
  note frame = bind_entries_frame [OF assms(1,2) _ this s'(1), OF assms(3)]
  show "dom (bound v') \<subseteq> dom (bound v) \<union> {ToLower (ConfigKey m) |f m. Inr (f, m) \<in> set (flag_entries sfs pfx sep)}"
    using frame s'(3) by simp
  show "\<exists>f m. n = FlagName m \<and> Inr (f, m) \<in> set (flag_entries sfs pfx sep)"
    if "fsLookup E fs' n \<noteq> fsLookup E fs n"
  proof -
    from that frame s'(2) have "bsSeen s' n \<noteq> None" by (auto simp: untouched_def)
    with frame show ?thesis by auto
  qed
qed

lemma BindStruct_outcome:
  assumes "pflag_ok E" and "viper_bind_ok E bound"
    and "\<And>f m. Inr (f, m) \<in> set (flag_entries sfs pfx sep) \<Longrightarrow>
                ptr_typed f \<and> fsLookup E fs (FlagName m) = None"
  shows "\<exists>err fs' v'. BindStruct E fs v sfs pfx sep = Ret (err, fs', v') \<and>
     (err = None \<longleftrightarrow> list_all entry_ok (flag_entries sfs pfx sep) \<and>
                     distinct (map entry_name (flag_entries sfs pfx sep))) \<and>
     (err = None \<longrightarrow> list_all (entry_bound E bound fs' v') (flag_entries sfs pfx sep))"
proof -
  let ?s = "\<lparr>bsFlagSet = fs, bsViper = v, bsSeen = Map.empty\<rparr>"
  have "untouched E fs ?s" by (simp add: untouched_def)
  with bind_entries_spec [OF assms(1,2), of "flag_entries sfs pfx sep" fs ?s] assms(3)
  obtain err s' where
    "bind_entries E (flag_entries sfs pfx sep) ?s = Ret (err, s')"
    "err = None \<longleftrightarrow> list_all entry_ok (flag_entries sfs pfx sep) \<and>
                     distinct (map entry_name (flag_entries sfs pfx sep))"
    "err = None \<longrightarrow> list_all (entry_bound E bound (bsFlagSet s') (bsViper s')) (flag_entries sfs pfx sep)"
    by (auto simp del: not_None_eq)
  then show ?thesis by (auto simp: BindStruct_def bindStruct_entries)
qed


text \<open>A flag set and a viper instance as maps, and a struct with a nested one.\<close>

definition demo_flags_env :: "(string \<rightharpoonup> pflag, string \<rightharpoonup> pflag) flags_env" where
  "demo_flags_env =
     \<lparr>fsAdd = (\<lambda>fs k n v d.
        if fs n = None then Ret (fs(n \<mapsto> \<lparr>pfName = n, pfKind = k, pfDefault = v, pfUsage = d\<rparr>))
        else Panic (''flag redefined: '' @ n)),
      fsLookup = (\<lambda>fs n. fs n),
      vBindPFlag = (\<lambda>v k f. (None, v(ToLower k \<mapsto> f))),
      hasUnmarshalText = (\<lambda>t. t = TPointer TTime \<or> t = TPointer TIP),
      reflectZero = (\<lambda>t. VString []),
      formatRFC3339 = (\<lambda>v. []), urlString = (\<lambda>v. []), ipString = (\<lambda>v. []), sprintV = (\<lambda>v. [])\<rparr>"

definition demo_struct :: "sfield list" where
  "demo_struct =
     [SField ''Name'' True ''name,Service name'' ''name'' TString (VString ''svc''),
      SField ''Server'' True [] ''server'' (TStruct ''Server'')
        (VStruct [SField ''Port'' True [] ''port'' TInt (VInt 8080)]),
      SField ''Internal'' True ''-'' ''internal'' TString (VString []),
      SField ''hidden'' False [] [] TString (VString [])]"

lemma demo_pflag_ok: "pflag_ok demo_flags_env"
  by (simp add: pflag_ok_def demo_flags_env_def)

lemma demo_viper_bind_ok: "viper_bind_ok demo_flags_env (\<lambda>v. v)"
  by (simp add: viper_bind_ok_def demo_flags_env_def)

lemma demo_entries:
  "flag_entries demo_struct [] ''-'' =
     [Inr (SField ''Name'' True ''name,Service name'' ''name'' TString (VString ''svc''),
           \<lparr>FlagName = ''name'', ConfigKey = ''name'', Description = ''Service name'', ShouldBind = True\<rparr>),
      Inr (SField ''Port'' True [] ''port'' TInt (VInt 8080),
           \<lparr>FlagName = ''server-port'', ConfigKey = ''server.port'', Description = [], ShouldBind = True\<rparr>)]"
  by code_simp

lemma demo_CanBind_int: "CanBind demo_flags_env (newDefaultRegistry demo_flags_env) TInt"
  by (simp add: CanBind_def Registry_Get_def registry_defs)


section \<open>Flag names\<close>

fun ident_fields :: "sfield list \<Rightarrow> bool" where
  "ident_fields [] \<longleftrightarrow> True"
| "ident_fields (SField name exported tg mtag typ val # sfs) \<longleftrightarrow>
     list_all ident_char name \<and> (case val of VStruct nested \<Rightarrow> ident_fields nested | _ \<Rightarrow> True) \<and>
     ident_fields sfs"

lemma ParseTag_name:
  "ParseTag tg = Inr m \<Longrightarrow> \<not> mdSkip m \<Longrightarrow> mdName m \<noteq> [] \<and> list_all flag_name_char (mdName m)"
  by (auto simp: ParseTag_def Let_def split: if_splits)

lemma ToKebabCase_flag_name: "list_all ident_char n \<Longrightarrow> list_all flag_name_char (ToKebabCase n)"
  using kebab_loop_ident [of n 0 False]
  by (auto simp: ToKebabCase_def flag_name_char_def list_all_iff)

text \<open>The characters of a flag name: those allowed in tags, and those of the prefix and the separator.\<close>

definition name_char_in :: "string \<Rightarrow> string \<Rightarrow> char \<Rightarrow> bool" where
  "name_char_in pfx sep ch \<longleftrightarrow> flag_name_char ch \<or> ch \<in> set pfx \<or> ch \<in> set sep"

lemma flag_name_chars: "list_all flag_name_char n \<Longrightarrow> list_all (name_char_in pfx sep) n"
  by (auto simp: list_all_iff name_char_in_def)

lemma join_prefix_chars:
  "list_all P pfx \<Longrightarrow> list_all P sep \<Longrightarrow> list_all P n \<Longrightarrow> list_all P (join_prefix pfx sep n)"
  by (simp add: join_prefix_def)

lemma leaf_entry_chars:
  assumes "list_all ident_char (fieldName f)" and "list_all P pfx" and "list_all P sep"
    and "\<And>n. list_all flag_name_char n \<Longrightarrow> list_all P n"
    and "Inr (g, m) \<in> set (leaf_entry f pfx sep)"
  shows "list_all P (FlagName m)"
proof -
  from assms(5) have "\<exists>n. list_all flag_name_char n \<and> FlagName m = join_prefix pfx sep n"
    using ParseTag_name [of "flagTag f"] ToKebabCase_flag_name [OF assms(1)]
    by (auto simp: leaf_entry_def ExtractFlagMetadata_def GetFlagName_def split: sum.splits if_splits) blast+
  then obtain n where n: "list_all flag_name_char n" "FlagName m = join_prefix pfx sep n" by blast
  show ?thesis unfolding n(2) by (rule join_prefix_chars [OF assms(2,3) assms(4) [OF n(1)]])
qed

lemma flag_entries_chars:
  assumes "\<And>n. list_all flag_name_char n \<Longrightarrow> list_all P n"
  shows "ident_fields sfs \<Longrightarrow> list_all P pfx \<Longrightarrow> list_all P sep \<Longrightarrow>
   Inr (g, m) \<in> set (flag_entries sfs pfx sep) \<Longrightarrow> list_all P (FlagName m)"
proof (induction sfs pfx sep rule: flag_entries.induct)
  case (2 nm ex tg mt ty val sfs pfx sep)
  have leaf: "list_all P (FlagName m)"
    if "Inr (g, m) \<in> set (leaf_entry (SField nm ex tg mt ty val) pfx sep)"
    using leaf_entry_chars [OF _ "2.prems"(2,3) assms that] "2.prems"(1) by simp
  have pfx: "list_all P (join_prefix pfx sep (ToKebabCase nm))"
    using "2.prems" by (simp add: join_prefix_chars assms ToKebabCase_flag_name)
  from "2.prems"(4) consider "Inr (g, m) \<in> set (flag_entries sfs pfx sep)"
    | "Inr (g, m) \<in> set (leaf_entry (SField nm ex tg mt ty val) pfx sep)"
    | nested where "\<not> (\<not> ex \<or> tg = ''-'')" "val = VStruct nested" "ty \<noteq> TDuration"
        "Inr (g, m) \<in> set (flag_entries nested (join_prefix pfx sep (ToKebabCase nm)) sep)"
    by (auto split: if_splits goval.splits)
  then show ?case
  proof cases
    case 1
    then show ?thesis using "2.IH"(2) "2.prems" by simp
  next
    case 2
    then show ?thesis by (rule leaf)
  next
    case 3
    then show ?thesis using "2.IH"(1) [OF 3(1,2,3) _ pfx "2.prems"(3) 3(4)] "2.prems"(1) by simp
  qed
qed simp

text \<open>
  C32: which flags \<open>BindStruct\<close> can change and how they are named, on a flag set without the names of
  the struct and whatever it returns: a flag that does not have the name of an entry of the struct is
  left as it was, and, for field names that are ASCII identifiers, the name of every entry, from a
  tag or from a field name at any nesting depth, consists of ASCII letters, digits, hyphens and the
  characters of the prefix and of the nesting separator.
\<close>

theorem flag_names_valid:
  assumes "pflag_ok E" and "viper_bind_ok E bound"
    and "\<And>f m. Inr (f, m) \<in> set (flag_entries sfs pfx sep) \<Longrightarrow>
                ptr_typed f \<and> fsLookup E fs (FlagName m) = None"
    and "BindStruct E fs v sfs pfx sep = Ret (err, fs', v')"
  shows "(\<forall>n. (\<forall>f m. Inr (f, m) \<in> set (flag_entries sfs pfx sep) \<longrightarrow> FlagName m \<noteq> n) \<longrightarrow>
       fsLookup E fs' n = fsLookup E fs n) \<and>
     (ident_fields sfs \<longrightarrow> (\<forall>f m. Inr (f, m) \<in> set (flag_entries sfs pfx sep) \<longrightarrow>
       list_all (name_char_in pfx sep) (FlagName m)))"
proof (intro conjI allI impI)
  fix n assume "\<forall>f m. Inr (f, m) \<in> set (flag_entries sfs pfx sep) \<longrightarrow> FlagName m \<noteq> n"
  then show "fsLookup E fs' n = fsLookup E fs n"
    using BindStruct_frame(1) [OF assms(1-4), of n] by blast
next
  fix f m assume "ident_fields sfs" "Inr (f, m) \<in> set (flag_entries sfs pfx sep)"
  moreover have "list_all (name_char_in pfx sep) pfx" "list_all (name_char_in pfx sep) sep"
    by (simp_all add: list_all_iff name_char_in_def)
  ultimately show "list_all (name_char_in pfx sep) (FlagName m)"
    using flag_entries_chars flag_name_chars by metis
qed

theorem flag_names_valid_witness:
  "\<exists>fs' v'. BindStruct demo_flags_env Map.empty Map.empty demo_struct [] ''-'' = Ret (None, fs', v') \<and>
            fs' ''other'' = None \<and> list_all (name_char_in [] ''-'') ''server-port''"
proof -
  have fresh: "ptr_typed f \<and> fsLookup demo_flags_env Map.empty (FlagName m) = None"
    if "Inr (f, m) \<in> set (flag_entries demo_struct [] ''-'')" for f m
    using that by (auto simp: demo_entries ptr_typed_def demo_flags_env_def)
  from BindStruct_outcome [where sfs = demo_struct and pfx = "[]" and sep = "''-''" and fs = Map.empty
      and v = Map.empty, OF demo_pflag_ok demo_viper_bind_ok this]
  obtain fs' v' where b: "BindStruct demo_flags_env Map.empty Map.empty demo_struct [] ''-'' = Ret (None, fs', v')"
    by (auto simp: demo_entries)
  have "ident_fields demo_struct" by code_simp
  with flag_names_valid [where sfs = demo_struct and pfx = "[]" and sep = "''-''" and fs = Map.empty
      and v = Map.empty, OF demo_pflag_ok demo_viper_bind_ok fresh b]
  have "fsLookup demo_flags_env fs' ''other'' = fsLookup demo_flags_env Map.empty ''other''"
    "list_all (name_char_in [] ''-'') ''server-port''"
    by (auto simp: demo_entries)
  with b show ?thesis by (simp add: demo_flags_env_def)
qed

section \<open>Struct values that are not recursed into\<close>

text \<open>
  A field of type \<open>time.Time\<close> is of struct kind, so that \<open>BindStruct\<close> recurses into its unexported
  fields: it gets no flag, whatever its tag says, and \<open>timeBinder\<close> is reached through a pointer only.
\<close>

lemma flag_entries_unexported: "list_all (\<lambda>f. \<not> IsExported f) sfs \<Longrightarrow> flag_entries sfs pfx sep = []"
proof (induction sfs)
  case (Cons f sfs)
  then show ?case by (cases f) simp
qed simp

lemma time_field_has_no_flag:
  "list_all (\<lambda>f. \<not> IsExported f) hidden \<Longrightarrow>
   flag_entries [SField name True tg mtag TTime (VStruct hidden)] pfx sep = []"
  by (simp add: flag_entries_unexported)

text \<open>
  The configuration key of a flag in a nested struct is built from the kebab case of the struct's
  name, not from its \<open>mapstructure\<close> tag.
\<close>

lemma nested_flag_config_key:
  "flag_entries
     [SField ''HTTPServer'' True [] ''http_server'' (TStruct ''HTTPServer'')
        (VStruct [SField ''Port'' True [] ''port'' TInt (VInt n)])] [] ''-'' =
   [Inr (SField ''Port'' True [] ''port'' TInt (VInt n),
      \<lparr>FlagName = ''h-t-t-p-server-port'', ConfigKey = ''h-t-t-p-server.port'', Description = [],
       ShouldBind = True\<rparr>)]"
proof -
  have "ToKebabCase ''HTTPServer'' = ''h-t-t-p-server''" "ToKebabCase ''Port'' = ''port''" by code_simp+
  then show ?thesis
    by (simp add: leaf_entry_def ExtractFlagMetadata_def GetFlagName_def GetConfigKey_def
        GetDescription_def join_prefix_def)
qed

end
