(* ===== verification/Hooks.thy ===== *)
theory Hooks
  imports Go_Values
begin

text \<open>
  The decode hooks of \<^verbatim>\<open>src/pkg/config/conversion/hooks.go\<close>. A hook is given the type of the data, the
  type of the field and the data, and returns the data to decode. The parsers of the standard
  library, the method \<open>UnmarshalText\<close> of the program's types and the functions of mapstructure are
  parameters, in \<open>hook_env\<close>; what is relied on of mapstructure is \<open>mapstructure_ok\<close>.
\<close>

type_synonym decode_hook = "gotype \<Rightarrow> gotype \<Rightarrow> any_value \<Rightarrow> error + any_value"

record hook_env =
  timeParse :: "string \<Rightarrow> string \<Rightarrow> error + goval"
  urlParse :: "string \<Rightarrow> error + goval"
  parseIP :: "string \<Rightarrow> goval option"
  implementsTU :: "gotype \<Rightarrow> bool"
  unmarshalText :: "gotype \<Rightarrow> string \<Rightarrow> error + goval"
  ComposeDecodeHookFunc :: "decode_hook list \<Rightarrow> decode_hook"
  StringToTimeDurationHookFunc :: decode_hook
  StringToSliceHookFunc :: "string \<Rightarrow> decode_hook"

text \<open>\<open>time.RFC3339\<close>, and the assertion \<open>data.(string)\<close>.\<close>

definition RFC3339 :: string where
  "RFC3339 = ''2006-01-02T15:04:05Z07:00''"

definition string_data :: "any_value \<Rightarrow> string option" where
  "string_data d = (case type_assert TString d of Some (VString s) \<Rightarrow> Some s | _ \<Rightarrow> None)"

section \<open>The hooks\<close>

text \<open>The loop over the formats: the first that parses, or the last error.\<close>

fun try_formats :: "hook_env \<Rightarrow> string list \<Rightarrow> string \<Rightarrow> error option \<Rightarrow> error option + goval" where
  "try_formats H [] str lastErr = Inl lastErr"
| "try_formats H (format # formats) str lastErr =
     (case timeParse H format str of
        Inr t \<Rightarrow> Inr t
      | Inl err \<Rightarrow> try_formats H formats str (Some err))"

text \<open>\<open>fmt.Errorf\<close> with the verb \<open>%w\<close> given a nil error prints \<open>%!w(<nil>)\<close>.\<close>

definition wrap_last :: "string \<Rightarrow> error option \<Rightarrow> error" where
  "wrap_last msg lastErr =
     (case lastErr of Some e \<Rightarrow> WrapError msg e | None \<Rightarrow> ErrorString (msg @ '': %!w(<nil>)''))"

definition StringToTimeHookWithFormats :: "hook_env \<Rightarrow> string list \<Rightarrow> decode_hook" where
  "StringToTimeHookWithFormats H formats from to data =
     (if to \<noteq> TTime then Inr data
      else if type_Kind from \<noteq> KString then Inr data
      else
        case string_data data of
          None \<Rightarrow> Inr data
        | Some str \<Rightarrow>
            case try_formats H formats str None of
              Inr t \<Rightarrow> Inr (Some (TTime, t))
            | Inl lastErr \<Rightarrow>
                if length formats = 1 then
                  Inl (wrap_last (''failed to parse time '' @ quoted str @ '' using format '' @
                                  quoted (hd formats)) lastErr)
                else
                  Inl (ErrorString (''failed to parse time '' @ quoted str @ '' using any of '' @
                                    itoa (length formats) @ '' formats'')))"

definition StringToTimeHook :: "hook_env \<Rightarrow> decode_hook" where
  "StringToTimeHook H = StringToTimeHookWithFormats H [RFC3339]"

definition StringToURLHook :: "hook_env \<Rightarrow> decode_hook" where
  "StringToURLHook H from to data =
     (if to \<noteq> TURL then Inr data
      else if type_Kind from \<noteq> KString then Inr data
      else
        case string_data data of
          None \<Rightarrow> Inr data
        | Some str \<Rightarrow>
            case urlParse H str of
              Inl err \<Rightarrow> Inl (WrapError (''failed to parse URL '' @ quoted str) err)
            | Inr u \<Rightarrow> Inr (Some (TURL, u)))"

definition StringToIPHook :: "hook_env \<Rightarrow> decode_hook" where
  "StringToIPHook H from to data =
     (if to \<noteq> TIP then Inr data
      else if type_Kind from \<noteq> KString then Inr data
      else
        case string_data data of
          None \<Rightarrow> Inr data
        | Some str \<Rightarrow>
            case parseIP H str of
              None \<Rightarrow> Inl (ErrorString (''failed to parse IP address '' @ quoted str))
            | Some ip \<Rightarrow> Inr (Some (TIP, ip)))"

text \<open>\<open>reflect.New(to)\<close> is a pointer to the target type; its \<open>UnmarshalText\<close> sets the new value.\<close>

definition StringToTextUnmarshalerHook :: "hook_env \<Rightarrow> decode_hook" where
  "StringToTextUnmarshalerHook H from to data =
     (if \<not> implementsTU H to \<and> \<not> implementsTU H (TPointer to) then Inr data
      else if type_Kind from \<noteq> KString then Inr data
      else
        case string_data data of
          None \<Rightarrow> Inr data
        | Some str \<Rightarrow>
            if \<not> implementsTU H (TPointer to) then Inr data
            else
              case unmarshalText H to str of
                Inl err \<Rightarrow> Inl (WrapError (''failed to unmarshal text '' @ quoted str) err)
              | Inr v \<Rightarrow> Inr (Some (to, v)))"

definition AnyToPointerHook :: decode_hook where
  "AnyToPointerHook from to data =
     (case to of
        TPointer elemType \<Rightarrow>
          if from = to then Inr data
          else (case data of
                  None \<Rightarrow> Inr (Some (to, VPtr None))
                | Some (dataType, v) \<Rightarrow>
                    if dataType = elemType then Inr (Some (TPointer elemType, VPtr (Some v)))
                    else Inr data)
      | _ \<Rightarrow> Inr data)"

definition DefaultDecodeHookWithTimeFormats :: "hook_env \<Rightarrow> string list \<Rightarrow> decode_hook" where
  "DefaultDecodeHookWithTimeFormats H formats =
     ComposeDecodeHookFunc H
       [StringToTimeHookWithFormats H formats,
        StringToURLHook H,
        StringToIPHook H,
        StringToTextUnmarshalerHook H,
        AnyToPointerHook,
        StringToTimeDurationHookFunc H,
        StringToSliceHookFunc H '','']"

definition DefaultDecodeHook :: "hook_env \<Rightarrow> decode_hook" where
  "DefaultDecodeHook H = DefaultDecodeHookWithTimeFormats H [RFC3339]"

section \<open>Documented laws of mapstructure\<close>

text \<open>
  The composed hooks are called in order, each with the result of the previous one and its type;
  an error ends the composition. The two general hooks only convert strings, to durations and to
  slices.
\<close>

definition mapstructure_ok :: "hook_env \<Rightarrow> bool" where
  "mapstructure_ok H \<longleftrightarrow>
     (\<forall>from to data. ComposeDecodeHookFunc H [] from to data = Inr data) \<and>
     (\<forall>h hs from to data err. h from to data = Inl err \<longrightarrow>
        ComposeDecodeHookFunc H (h # hs) from to data = Inl err) \<and>
     (\<forall>h hs from to data t v. h from to data = Inr (Some (t, v)) \<longrightarrow>
        ComposeDecodeHookFunc H (h # hs) from to data = ComposeDecodeHookFunc H hs t to (Some (t, v))) \<and>
     (\<forall>from to data. type_Kind from \<noteq> KString \<or> to \<noteq> TDuration \<longrightarrow>
        StringToTimeDurationHookFunc H from to data = Inr data) \<and>
     (\<forall>sep from to data. type_Kind from \<noteq> KString \<or> type_Kind to \<noteq> KSlice \<longrightarrow>
        StringToSliceHookFunc H sep from to data = Inr data)"

lemma compose_step:
  assumes "mapstructure_ok H"
  shows "h from to data = Inl err \<Longrightarrow> ComposeDecodeHookFunc H (h # hs) from to data = Inl err"
    and "h from to data = Inr (Some (t, v)) \<Longrightarrow>
         ComposeDecodeHookFunc H (h # hs) from to data = ComposeDecodeHookFunc H hs t to (Some (t, v))"
    and "ComposeDecodeHookFunc H [] from to data = Inr data"
  using assms by (simp_all add: mapstructure_ok_def)

text \<open>Hooks that leave the data alone can be skipped.\<close>

definition passes :: "gotype \<Rightarrow> goval \<Rightarrow> gotype \<Rightarrow> decode_hook \<Rightarrow> bool" where
  "passes t v to h \<longleftrightarrow> h t to (Some (t, v)) = Inr (Some (t, v))"

lemma compose_skip:
  assumes "mapstructure_ok H" and "list_all (passes t v to) hs"
  shows "ComposeDecodeHookFunc H (hs @ hs') t to (Some (t, v)) = ComposeDecodeHookFunc H hs' t to (Some (t, v))"
  using assms(2)
  by (induction hs) (simp_all add: passes_def compose_step(2) [OF assms(1)])

lemma compose_skip_all:
  "mapstructure_ok H \<Longrightarrow> list_all (passes t v to) hs \<Longrightarrow>
   ComposeDecodeHookFunc H hs t to (Some (t, v)) = Inr (Some (t, v))"
  using compose_skip [of H t v to hs "[]"] by (simp add: compose_step)

text \<open>One hook of a composition converts the data, the ones around it pass it on.\<close>

lemma compose_one:
  assumes "mapstructure_ok H" and "list_all (passes t v to) hs"
    and "h t to (Some (t, v)) = Inr (Some (t', v'))" and "list_all (passes t' v' to) hs'"
  shows "ComposeDecodeHookFunc H (hs @ h # hs') t to (Some (t, v)) = Inr (Some (t', v'))"
  using assms(3) compose_skip [OF assms(1,2)] compose_skip_all [OF assms(1,4)]
    compose_step(2) [OF assms(1), of h t to "Some (t, v)"]
  by simp

lemma compose_error:
  assumes "mapstructure_ok H" and "list_all (passes t v to) hs" and "h t to (Some (t, v)) = Inl err"
  shows "ComposeDecodeHookFunc H (hs @ h # hs') t to (Some (t, v)) = Inl err"
  using assms(3) compose_skip [OF assms(1,2)] compose_step(1) [OF assms(1), of h t to "Some (t, v)"]
  by simp

lemmas hook_defs = StringToTimeHookWithFormats_def StringToURLHook_def StringToIPHook_def
  StringToTextUnmarshalerHook_def AnyToPointerHook_def

lemma string_data_String [simp]: "string_data (Some (TString, VString s)) = Some s"
  by (simp add: string_data_def)

text \<open>Converted data, no longer of kind string, passes the remaining hooks.\<close>

lemma general_hooks_skip:
  assumes "mapstructure_ok H"
  shows "type_Kind from \<noteq> KString \<Longrightarrow> StringToTimeDurationHookFunc H from to d = Inr d"
    and "to \<noteq> TDuration \<Longrightarrow> StringToTimeDurationHookFunc H from to d = Inr d"
    and "type_Kind from \<noteq> KString \<Longrightarrow> StringToSliceHookFunc H sep from to d = Inr d"
    and "type_Kind to \<noteq> KSlice \<Longrightarrow> StringToSliceHookFunc H sep from to d = Inr d"
  using assms by (simp_all add: mapstructure_ok_def)

section \<open>The default hook\<close>

text \<open>The first format that parses the text.\<close>

fun first_parse :: "hook_env \<Rightarrow> string list \<Rightarrow> string \<Rightarrow> goval option" where
  "first_parse H [] str = None"
| "first_parse H (format # formats) str =
     (case timeParse H format str of Inr t \<Rightarrow> Some t | Inl err \<Rightarrow> first_parse H formats str)"

lemma try_formats_first:
  "(case try_formats H formats str lastErr of Inr t \<Rightarrow> Some t | Inl e \<Rightarrow> None) = first_parse H formats str"
  by (induction H formats str lastErr rule: try_formats.induct) (auto split: sum.splits)

lemma time_hook:
  "StringToTimeHookWithFormats H formats TString TTime (Some (TString, VString s)) =
     (case first_parse H formats s of
        Some t \<Rightarrow> Inr (Some (TTime, t))
      | None \<Rightarrow> StringToTimeHookWithFormats H formats TString TTime (Some (TString, VString s)))"
  unfolding try_formats_first [of H formats s None, symmetric]
  by (simp add: StringToTimeHookWithFormats_def split: sum.splits option.splits)

lemma time_hook_fails:
  "first_parse H formats s = None \<Longrightarrow>
   \<exists>err. StringToTimeHookWithFormats H formats TString TTime (Some (TString, VString s)) = Inl err"
  unfolding try_formats_first [of H formats s None, symmetric]
  by (simp add: StringToTimeHookWithFormats_def split: sum.splits)

lemma passes_later:
  assumes "mapstructure_ok H" and "type_Kind t \<noteq> KString" and "\<And>e. to \<noteq> TPointer e"
  shows "list_all (passes t v to)
     [StringToTimeHookWithFormats H formats, StringToURLHook H, StringToIPHook H,
      StringToTextUnmarshalerHook H, AnyToPointerHook, StringToTimeDurationHookFunc H,
      StringToSliceHookFunc H '','']"
  using assms(2,3) general_hooks_skip [OF assms(1)]
  by (simp add: passes_def hook_defs split: gotype.splits)

text \<open>
  C37: the default decode hook turns the text of a configuration value into the declared type of the
  field. For a \<open>time.Time\<close> it is the value of the first format that parses; for a \<open>url.URL\<close> and a
  \<open>net.IP\<close> what the parser returns; in each case a text that does not parse is an error. The later
  hooks of the composition (the text unmarshaler and the comma separated slice, which would also
  apply to these types) leave the converted value alone.
\<close>

theorem DefaultDecodeHook_converts:
  assumes "mapstructure_ok H"
  shows "(case first_parse H formats s of
            Some t \<Rightarrow> DefaultDecodeHookWithTimeFormats H formats TString TTime (Some (TString, VString s))
                       = Inr (Some (TTime, t))
          | None \<Rightarrow> isl (DefaultDecodeHookWithTimeFormats H formats TString TTime (Some (TString, VString s)))) \<and>
         (case urlParse H s of
            Inr u \<Rightarrow> DefaultDecodeHookWithTimeFormats H formats TString TURL (Some (TString, VString s))
                      = Inr (Some (TURL, u))
          | Inl e \<Rightarrow> isl (DefaultDecodeHookWithTimeFormats H formats TString TURL (Some (TString, VString s)))) \<and>
         (case parseIP H s of
            Some ip \<Rightarrow> DefaultDecodeHookWithTimeFormats H formats TString TIP (Some (TString, VString s))
                        = Inr (Some (TIP, ip))
          | None \<Rightarrow> isl (DefaultDecodeHookWithTimeFormats H formats TString TIP (Some (TString, VString s))))"
proof (intro conjI)
  let ?T = "StringToTimeHookWithFormats H formats"
  let ?rest = "[StringToTextUnmarshalerHook H, AnyToPointerHook, StringToTimeDurationHookFunc H,
      StringToSliceHookFunc H '','']"
  note one = compose_one [OF assms] compose_error [OF assms]
  show "case first_parse H formats s of
      Some t \<Rightarrow> DefaultDecodeHookWithTimeFormats H formats TString TTime (Some (TString, VString s))
                 = Inr (Some (TTime, t))
    | None \<Rightarrow> isl (DefaultDecodeHookWithTimeFormats H formats TString TTime (Some (TString, VString s)))"
    using passes_later [OF assms, of TTime TTime _ formats] time_hook [of H formats s]
      time_hook_fails [of H formats s]
      one(1) [of TString _ TTime "[]" ?T _ _ "StringToURLHook H # StringToIPHook H # ?rest"]
      one(2) [of TString _ TTime "[]" ?T _ "StringToURLHook H # StringToIPHook H # ?rest"]
    by (auto simp: DefaultDecodeHookWithTimeFormats_def split: option.splits)
  have pass: "passes TString (VString s) TURL ?T" "passes TString (VString s) TIP ?T"
    "passes TString (VString s) TIP (StringToURLHook H)"
    by (simp_all add: passes_def hook_defs)
  show "case urlParse H s of
      Inr u \<Rightarrow> DefaultDecodeHookWithTimeFormats H formats TString TURL (Some (TString, VString s))
                = Inr (Some (TURL, u))
    | Inl e \<Rightarrow> isl (DefaultDecodeHookWithTimeFormats H formats TString TURL (Some (TString, VString s)))"
    using passes_later [OF assms, of TURL TURL _ formats] pass(1)
      one(1) [of TString _ TURL "[?T]" "StringToURLHook H" _ _ "StringToIPHook H # ?rest"]
      one(2) [of TString _ TURL "[?T]" "StringToURLHook H" _ "StringToIPHook H # ?rest"]
    by (auto simp: DefaultDecodeHookWithTimeFormats_def StringToURLHook_def split: sum.splits)
  show "case parseIP H s of
      Some ip \<Rightarrow> DefaultDecodeHookWithTimeFormats H formats TString TIP (Some (TString, VString s))
                  = Inr (Some (TIP, ip))
    | None \<Rightarrow> isl (DefaultDecodeHookWithTimeFormats H formats TString TIP (Some (TString, VString s)))"
    using passes_later [OF assms, of TIP TIP _ formats] pass(2,3)
      one(1) [of TString _ TIP "[?T, StringToURLHook H]" "StringToIPHook H" _ _ ?rest]
      one(2) [of TString _ TIP "[?T, StringToURLHook H]" "StringToIPHook H" _ ?rest]
    by (auto simp: DefaultDecodeHookWithTimeFormats_def StringToIPHook_def split: option.splits)
qed

text \<open>
  A hook environment in which the composition is the loop of mapstructure, with one time format and
  one address that parse.
\<close>

fun compose_loop :: "decode_hook list \<Rightarrow> decode_hook" where
  "compose_loop [] from to data = Inr data"
| "compose_loop (h # hs) from to data =
     (case h from to data of
        Inl err \<Rightarrow> Inl err
      | Inr None \<Rightarrow> Inr None
      | Inr (Some (t, v)) \<Rightarrow> compose_loop hs t to (Some (t, v)))"

definition demo_hooks :: hook_env where
  "demo_hooks =
     \<lparr>timeParse = (\<lambda>f s. if f = RFC3339 then Inl (ErrorString ''parsing time'') else Inr (VStruct [])),
      urlParse = (\<lambda>s. Inr (VStruct [])),
      parseIP = (\<lambda>s. if s = ''10.0.0.1'' then Some (VOther False s) else None),
      implementsTU = (\<lambda>t. t = TPointer TTime \<or> t = TPointer TIP),
      unmarshalText = (\<lambda>t s. Inl (ErrorString ''unmarshal'')),
      ComposeDecodeHookFunc = compose_loop,
      StringToTimeDurationHookFunc = (\<lambda>from to d. Inr d),
      StringToSliceHookFunc = (\<lambda>sep from to d.
        if type_Kind from = KString \<and> type_Kind to = KSlice then Inr (Some (TStringSlice, VStrings None))
        else Inr d)\<rparr>"

lemma demo_hooks_ok: "mapstructure_ok demo_hooks"
  by (auto simp: mapstructure_ok_def demo_hooks_def)

theorem DefaultDecodeHook_converts_witness:
  "DefaultDecodeHookWithTimeFormats demo_hooks [RFC3339, ''2006-01-02''] TString TTime
     (Some (TString, VString ''2024-05-01'')) = Inr (Some (TTime, VStruct [])) \<and>
   DefaultDecodeHookWithTimeFormats demo_hooks [RFC3339, ''2006-01-02''] TString TIP
     (Some (TString, VString ''10.0.0.1'')) = Inr (Some (TIP, VOther False ''10.0.0.1''))"
proof
  show "DefaultDecodeHookWithTimeFormats demo_hooks [RFC3339, ''2006-01-02''] TString TTime
     (Some (TString, VString ''2024-05-01'')) = Inr (Some (TTime, VStruct []))"
    using DefaultDecodeHook_converts [OF demo_hooks_ok, of "[RFC3339, ''2006-01-02'']" "''2024-05-01''"]
    by (simp add: demo_hooks_def RFC3339_def)
  show "DefaultDecodeHookWithTimeFormats demo_hooks [RFC3339, ''2006-01-02''] TString TIP
     (Some (TString, VString ''10.0.0.1'')) = Inr (Some (TIP, VOther False ''10.0.0.1''))"
    using DefaultDecodeHook_converts [OF demo_hooks_ok, of "[RFC3339, ''2006-01-02'']" "''10.0.0.1''"]
    by (simp add: demo_hooks_def RFC3339_def)
qed

end
