(* ===== verification/Config.thy ===== *)
theory Config
  imports Flags Hooks
begin

text \<open>
  The configuration loader of \<^verbatim>\<open>src/pkg/config\<close>: its options (\<^verbatim>\<open>config_opts.go\<close>), the walk over the
  struct that sets defaults and binds environment variables, the loading of files and directories
  (\<^verbatim>\<open>config_support.go\<close>), and the entry points \<open>For\<close> and \<open>Load\<close> (\<^verbatim>\<open>config.go\<close>). The methods of
  \<open>viper.Viper\<close> are a parameter, \<open>viper_api\<close>; the environment and the file system, as they are when
  \<open>Load\<close> runs, are \<open>os_api\<close>.
\<close>

record ('v, 'm) viper_api =
  vNew :: 'v
  vSetEnvPrefix :: "string \<Rightarrow> 'v \<Rightarrow> 'v"
  vAutomaticEnv :: "'v \<Rightarrow> 'v"
  vSetEnvKeyReplacer :: "string list \<Rightarrow> 'v \<Rightarrow> 'v"
  vSetDefault :: "string \<Rightarrow> any_value \<Rightarrow> 'v \<Rightarrow> 'v"
  vBindEnv :: "string \<Rightarrow> 'v \<Rightarrow> error option \<times> 'v"
  vSetConfigFile :: "string \<Rightarrow> 'v \<Rightarrow> 'v"
  vReadInConfig :: "'v \<Rightarrow> error option \<times> 'v"
  vAllSettings :: "'v \<Rightarrow> 'm"
  vMergeConfigMap :: "'m \<Rightarrow> 'v \<Rightarrow> error option \<times> 'v"
  vSet :: "string \<Rightarrow> any_value \<Rightarrow> 'v \<Rightarrow> 'v"
  vUnmarshal :: "'v \<Rightarrow> decode_hook option \<Rightarrow> goval \<Rightarrow> error option \<times> goval"

text \<open>\<open>osStat\<close> gives whether the path is a directory; \<open>osReadDir\<close> each entry's name and whether it is
  a directory, sorted by name.\<close>

record os_api =
  osGetenv :: "string \<Rightarrow> string"
  osStat :: "string \<Rightarrow> error + bool"
  osReadDir :: "string \<Rightarrow> error + (string \<times> bool) list"
  osReadFile :: "string \<Rightarrow> error + string"
  filepathJoin :: "string \<Rightarrow> string \<Rightarrow> string"

section \<open>Options\<close>

record 'fs LoaderOptions =
  EnvPrefix :: string
  ConfigPathEnvVar :: string
  AutomaticEnv :: bool
  FlagSet :: "'fs option"
  DecodeHook :: "decode_hook option"
  NestedSeparator :: string
  TimeFormats :: "string list"

definition LoaderOptions_ApplyOptions ::
  "('fs LoaderOptions \<Rightarrow> 'fs LoaderOptions) list \<Rightarrow> 'fs LoaderOptions \<Rightarrow> 'fs LoaderOptions" where
  "LoaderOptions_ApplyOptions opts o' = apply_options opts o'"

definition WithEnvPrefix :: "string \<Rightarrow> 'fs LoaderOptions \<Rightarrow> 'fs LoaderOptions" where
  "WithEnvPrefix pfx opts = opts\<lparr>EnvPrefix := pfx\<rparr>"

definition WithConfigPathEnvVar :: "string \<Rightarrow> 'fs LoaderOptions \<Rightarrow> 'fs LoaderOptions" where
  "WithConfigPathEnvVar envVar opts = opts\<lparr>ConfigPathEnvVar := envVar\<rparr>"

definition WithAutomaticEnv :: "bool \<Rightarrow> 'fs LoaderOptions \<Rightarrow> 'fs LoaderOptions" where
  "WithAutomaticEnv enabled opts = opts\<lparr>AutomaticEnv := enabled\<rparr>"

definition WithFlags :: "'fs option \<Rightarrow> 'fs LoaderOptions \<Rightarrow> 'fs LoaderOptions" where
  "WithFlags fs opts = opts\<lparr>FlagSet := fs\<rparr>"

definition WithDecodeHook :: "hook_env \<Rightarrow> decode_hook \<Rightarrow> 'fs LoaderOptions \<Rightarrow> 'fs LoaderOptions" where
  "WithDecodeHook H hook opts =
     (case DecodeHook opts of
        None \<Rightarrow> opts\<lparr>DecodeHook := Some hook\<rparr>
      | Some prev \<Rightarrow> opts\<lparr>DecodeHook := Some (ComposeDecodeHookFunc H [prev, hook])\<rparr>)"

definition WithNestedSeparator :: "string \<Rightarrow> 'fs LoaderOptions \<Rightarrow> 'fs LoaderOptions" where
  "WithNestedSeparator separator opts = opts\<lparr>NestedSeparator := separator\<rparr>"

definition WithTimeFormats :: "string list \<Rightarrow> 'fs LoaderOptions \<Rightarrow> 'fs LoaderOptions" where
  "WithTimeFormats formats opts = opts\<lparr>TimeFormats := formats\<rparr>"

definition defaultLoaderOptions :: "'fs LoaderOptions" where
  "defaultLoaderOptions =
     \<lparr>EnvPrefix = ''CONTROLLER'', ConfigPathEnvVar = ''CONTROLLER_CONFIGURATION_PATH'',
      AutomaticEnv = True, FlagSet = None, DecodeHook = None, NestedSeparator = ''-'',
      TimeFormats = [RFC3339]\<rparr>"

section \<open>Walking the struct\<close>

definition isValueType :: "gotype \<Rightarrow> bool" where
  "isValueType typ \<longleftrightarrow> List.member [TTime, TDuration, TURL, TIP] typ"

text \<open>\<open>v.SetDefault(key, value)\<close> unless the value is zero.\<close>

definition set_nonzero :: "('v, 'm) viper_api \<Rightarrow> string \<Rightarrow> gotype \<Rightarrow> goval \<Rightarrow> 'v \<Rightarrow> 'v" where
  "set_nonzero V key typ val v = (if \<not> IsZero val then vSetDefault V key (Some (typ, val)) v else v)"

fun setDefaultsRecursive :: "('v, 'm) viper_api \<Rightarrow> 'v \<Rightarrow> sfield list \<Rightarrow> string \<Rightarrow> 'v" where
  "setDefaultsRecursive V v [] pfx = v"
| "setDefaultsRecursive V v (SField name exported ftag mtag typ val # sfs) pfx =
     (if \<not> exported \<or> mtag = [] \<or> mtag = ''-'' then setDefaultsRecursive V v sfs pfx
      else
        let key = join_prefix pfx ''.'' mtag in
        case val of
          VStruct nested \<Rightarrow>
            if isValueType typ then setDefaultsRecursive V (set_nonzero V key typ val v) sfs pfx
            else setDefaultsRecursive V (setDefaultsRecursive V v nested key) sfs pfx
        | _ \<Rightarrow> setDefaultsRecursive V (set_nonzero V key typ val v) sfs pfx)"

definition setDefaults :: "('v, 'm) viper_api \<Rightarrow> 'v \<Rightarrow> sfield list \<Rightarrow> 'v" where
  "setDefaults V v cfg = setDefaultsRecursive V v cfg []"

fun bindEnvVarsRecursive :: "('v, 'm) viper_api \<Rightarrow> 'v \<Rightarrow> sfield list \<Rightarrow> string \<Rightarrow> 'v" where
  "bindEnvVarsRecursive V v [] pfx = v"
| "bindEnvVarsRecursive V v (SField name exported ftag mtag typ val # sfs) pfx =
     (if \<not> exported \<or> mtag = [] \<or> mtag = ''-'' then bindEnvVarsRecursive V v sfs pfx
      else
        let key = join_prefix pfx ''.'' mtag in
        case val of
          VStruct nested \<Rightarrow>
            if isValueType typ then bindEnvVarsRecursive V (snd (vBindEnv V key v)) sfs pfx
            else bindEnvVarsRecursive V (bindEnvVarsRecursive V v nested key) sfs pfx
        | _ \<Rightarrow> bindEnvVarsRecursive V (snd (vBindEnv V key v)) sfs pfx)"

definition bindEnvVars :: "('v, 'm) viper_api \<Rightarrow> 'v \<Rightarrow> sfield list \<Rightarrow> 'v" where
  "bindEnvVars V v cfg = bindEnvVarsRecursive V v cfg []"

section \<open>Files\<close>

definition loadFromFile :: "('v, 'm) viper_api \<Rightarrow> string \<Rightarrow> 'v \<Rightarrow> error option \<times> 'v" where
  "loadFromFile V filePath v =
     (case vReadInConfig V (vSetConfigFile V filePath v) of
        (Some err, v') \<Rightarrow> (Some (WrapError (''failed to read config file '' @ filePath) err), v')
      | (None, v') \<Rightarrow> (None, v'))"

text \<open>\<open>filepath.Base\<close> and \<open>filepath.Ext\<close>, with \<open>/\<close> as the separator.\<close>

definition filepath_Base :: "string \<Rightarrow> string" where
  "filepath_Base p =
     (if p = [] then ''.''
      else
        let b = rev (takeWhile (\<lambda>c. c \<noteq> CHR ''/'') (dropWhile (\<lambda>c. c = CHR ''/'') (rev p)))
        in if b = [] then ''/'' else b)"

definition filepath_Ext :: "string \<Rightarrow> string" where
  "filepath_Ext p =
     (let r = takeWhile (\<lambda>c. c \<noteq> CHR ''/'') (rev p)
      in if CHR ''.'' \<in> set r then CHR ''.'' # rev (takeWhile (\<lambda>c. c \<noteq> CHR ''.'') r) else [])"

definition simple_file_key :: "string \<Rightarrow> string" where
  "simple_file_key filePath =
     (let filename = filepath_Base filePath; key = TrimSuffix filename (filepath_Ext filename)
      in if key = [] then filename else key)"

definition loadSimpleFile :: "('v, 'm) viper_api \<Rightarrow> os_api \<Rightarrow> string \<Rightarrow> 'v \<Rightarrow> error option \<times> 'v" where
  "loadSimpleFile V Os filePath v =
     (case osReadFile Os filePath of
        Inl err \<Rightarrow> (Some (WrapError (''failed to read file '' @ filePath) err), v)
      | Inr content \<Rightarrow>
          (None, vSet V (simple_file_key filePath) (Some (TString, VString (TrimSpace content))) v))"

text \<open>
  The loop over the directory. A file is read by a viper of its own; when it cannot be parsed it is
  taken as a simple file, and skipped when it cannot be read at all.
\<close>

fun directory_loop ::
  "('v, 'm) viper_api \<Rightarrow> os_api \<Rightarrow> string \<Rightarrow> (string \<times> bool) list \<Rightarrow> bool \<Rightarrow> 'v \<Rightarrow> error option \<times> bool \<times> 'v" where
  "directory_loop V Os dirPath [] loaded v = (None, loaded, v)"
| "directory_loop V Os dirPath ((name, isDir) # entries) loaded v =
     (if isDir \<or> HasPrefix name ''.'' then directory_loop V Os dirPath entries loaded v
      else
        let filePath = filepathJoin Os dirPath name in
        case vReadInConfig V (vSetConfigFile V filePath (vNew V)) of
          (Some err, fileViper) \<Rightarrow>
            (case loadSimpleFile V Os filePath v of
               (Some err', v') \<Rightarrow> directory_loop V Os dirPath entries loaded v'
             | (None, v') \<Rightarrow> directory_loop V Os dirPath entries True v')
        | (None, fileViper) \<Rightarrow>
            case vMergeConfigMap V (vAllSettings V fileViper) v of
              (Some err, v') \<Rightarrow> (Some (WrapError (''failed to merge config from '' @ filePath) err), loaded, v')
            | (None, v') \<Rightarrow> directory_loop V Os dirPath entries True v')"

definition loadFromDirectory :: "('v, 'm) viper_api \<Rightarrow> os_api \<Rightarrow> string \<Rightarrow> 'v \<Rightarrow> error option \<times> 'v" where
  "loadFromDirectory V Os dirPath v =
     (case osReadDir Os dirPath of
        Inl err \<Rightarrow> (Some (WrapError (''failed to read directory '' @ dirPath) err), v)
      | Inr entries \<Rightarrow>
          case directory_loop V Os dirPath entries False v of
            (Some err, loaded, v') \<Rightarrow> (Some err, v')
          | (None, loaded, v') \<Rightarrow>
              if \<not> loaded then
                (Some (ErrorString (''no configuration files found in directory '' @ dirPath)), v')
              else (None, v'))"

definition loadFromPath :: "('v, 'm) viper_api \<Rightarrow> os_api \<Rightarrow> string \<Rightarrow> 'v \<Rightarrow> error option \<times> 'v" where
  "loadFromPath V Os configPath v =
     (case osStat Os configPath of
        Inl err \<Rightarrow> (Some (WrapError (''failed to stat config path '' @ configPath) err), v)
      | Inr isDir \<Rightarrow>
          if isDir then loadFromDirectory V Os configPath v else loadFromFile V configPath v)"

section \<open>The loader\<close>

text \<open>
  \<open>loaderCfg\<close> is the struct the configuration pointer refers to; \<open>cfgValidator\<close> its method
  \<open>Validate\<close>, when its type has one.
\<close>

record ('fs, 'v) Loader =
  loaderV :: 'v
  loaderOpts :: "'fs LoaderOptions"
  loaderCfg :: goval
  cfgValidator :: "(goval \<Rightarrow> error option) option"

text \<open>The kind of \<open>cfgValue.Elem()\<close>: a nil pointer has the invalid value as its element.\<close>

definition elem_kind :: "gotype \<Rightarrow> goval \<Rightarrow> kind" where
  "elem_kind t v = (case v of VPtr None \<Rightarrow> KInvalid | _ \<Rightarrow> type_Kind t)"

definition default_hook :: "hook_env \<Rightarrow> 'fs LoaderOptions \<Rightarrow> 'fs LoaderOptions" where
  "default_hook H options =
     (case DecodeHook options of
        Some h \<Rightarrow> options
      | None \<Rightarrow>
          if length (TimeFormats options) > 0 then
            options\<lparr>DecodeHook := Some (DefaultDecodeHookWithTimeFormats H (TimeFormats options))\<rparr>
          else options\<lparr>DecodeHook := Some (DefaultDecodeHook H)\<rparr>)"

definition configured_viper :: "('v, 'm) viper_api \<Rightarrow> 'fs LoaderOptions \<Rightarrow> 'v" where
  "configured_viper V options =
     (let v = vSetEnvPrefix V (EnvPrefix options) (vNew V);
          v = (if AutomaticEnv options then vAutomaticEnv V v else v)
      in vSetEnvKeyReplacer V [''.'', ''_'', ''-'', ''_''] v)"

text \<open>\<open>For\<close> also returns the flag set, which the binding changes in place, errors included.\<close>

definition config_For ::
  "('fs, 'v) flags_env \<Rightarrow> ('v, 'm) viper_api \<Rightarrow> hook_env \<Rightarrow> (goval \<Rightarrow> error option) option \<Rightarrow> any_value
     \<Rightarrow> ('fs LoaderOptions \<Rightarrow> 'fs LoaderOptions) list \<Rightarrow> ((error + ('fs, 'v) Loader) \<times> 'fs option) outcome" where
  "config_For E V H validator cfg opts =
     (let options = LoaderOptions_ApplyOptions opts defaultLoaderOptions in
      case cfg of
        None \<Rightarrow> Ret (Inl (ErrorString ''config cannot be nil''), FlagSet options)
      | Some (typ, cfgValue) \<Rightarrow>
          case typ of
            TPointer elemType \<Rightarrow>
              if elem_kind elemType cfgValue \<noteq> KStruct then
                Ret (Inl (ErrorString (''config must be a pointer to struct, got pointer to '' @
                       kind_String (elem_kind elemType cfgValue))), FlagSet options)
              else
                let sfs = (case cfgValue of VPtr (Some (VStruct sfs)) \<Rightarrow> sfs | _ \<Rightarrow> []);
                    options = default_hook H options;
                    v = configured_viper V options;
                    v = setDefaults V v sfs;
                    v = (if AutomaticEnv options then bindEnvVars V v sfs else v);
                    loader = (\<lambda>v fs. \<lparr>loaderV = v, loaderOpts = options\<lparr>FlagSet := fs\<rparr>,
                                      loaderCfg = VStruct sfs, cfgValidator = validator\<rparr>)
                in (case FlagSet options of
                      None \<Rightarrow> Ret (Inr (loader v None), None)
                    | Some fs \<Rightarrow>
                        bind_outcome (BindStruct E fs v sfs [] (NestedSeparator options))
                          (\<lambda>(err, fs', v').
                             case err of
                               Some e \<Rightarrow> Ret (Inl (WrapError ''failed to bind flags'' e), Some fs')
                             | None \<Rightarrow> Ret (Inr (loader v' (Some fs')), Some fs')))
          | _ \<Rightarrow> Ret (Inl (ErrorString (''config must be a pointer, got '' @ type_String typ)), FlagSet options))"

definition Loader_Load ::
  "('v, 'm) viper_api \<Rightarrow> os_api \<Rightarrow> ('fs, 'v) Loader \<Rightarrow> error option \<times> ('fs, 'v) Loader" where
  "Loader_Load V Os l =
     (let configPath = osGetenv Os (ConfigPathEnvVar (loaderOpts l));
          (perr, v) = (if configPath \<noteq> [] then loadFromPath V Os configPath (loaderV l) else (None, loaderV l));
          l = l\<lparr>loaderV := v\<rparr>
      in case perr of
           Some err \<Rightarrow> (Some (WrapError ''failed to load configuration from path'' err), l)
         | None \<Rightarrow>
             case vUnmarshal V (loaderV l) (DecodeHook (loaderOpts l)) (loaderCfg l) of
               (Some err, cfg) \<Rightarrow> (Some (WrapError ''unmarshal error'' err), l\<lparr>loaderCfg := cfg\<rparr>)
             | (None, cfg) \<Rightarrow>
                 let l = l\<lparr>loaderCfg := cfg\<rparr> in
                 case cfgValidator l of
                   None \<Rightarrow> (None, l)
                 | Some validate \<Rightarrow>
                     case validate (loaderCfg l) of
                       Some err \<Rightarrow> (Some (WrapError ''configuration validation failed'' err), l)
                     | None \<Rightarrow> (None, l))"

section \<open>The fields a configuration has\<close>

text \<open>The leaves of the struct with their configuration keys, in order.\<close>

fun config_leaves :: "sfield list \<Rightarrow> string \<Rightarrow> (string \<times> gotype \<times> goval) list" where
  "config_leaves [] pfx = []"
| "config_leaves (SField name exported ftag mtag typ val # sfs) pfx =
     (if \<not> exported \<or> mtag = [] \<or> mtag = ''-'' then []
      else
        case val of
          VStruct nested \<Rightarrow>
            if isValueType typ then [(join_prefix pfx ''.'' mtag, typ, val)]
            else config_leaves nested (join_prefix pfx ''.'' mtag)
        | _ \<Rightarrow> [(join_prefix pfx ''.'' mtag, typ, val)]) @
     config_leaves sfs pfx"

lemma setDefaults_leaves:
  "setDefaultsRecursive V v sfs pfx = fold (\<lambda>(key, typ, val). set_nonzero V key typ val) (config_leaves sfs pfx) v"
  by (induction V v sfs pfx rule: setDefaultsRecursive.induct) (simp_all add: Let_def split: goval.splits)

lemma bindEnvVars_leaves:
  "bindEnvVarsRecursive V v sfs pfx = fold (\<lambda>(key, typ, val) v. snd (vBindEnv V key v)) (config_leaves sfs pfx) v"
  by (induction V v sfs pfx rule: bindEnvVarsRecursive.induct) (simp_all add: Let_def split: goval.splits)

section \<open>For and Load\<close>

text \<open>
  The viper a loader starts from: the environment settings, then a default for every leaf that is not
  zero, then an environment binding for every leaf when environment variables are enabled.
\<close>

definition sources_viper :: "('v, 'm) viper_api \<Rightarrow> 'fs LoaderOptions \<Rightarrow> sfield list \<Rightarrow> 'v" where
  "sources_viper V options sfs =
     (let leaves = config_leaves sfs [];
          v = fold (\<lambda>(key, typ, val). set_nonzero V key typ val) leaves (configured_viper V options)
      in if AutomaticEnv options then fold (\<lambda>(key, typ, val) v. snd (vBindEnv V key v)) leaves v else v)"

definition for_options :: "hook_env \<Rightarrow> ('fs LoaderOptions \<Rightarrow> 'fs LoaderOptions) list \<Rightarrow> 'fs LoaderOptions" where
  "for_options H opts = default_hook H (LoaderOptions_ApplyOptions opts defaultLoaderOptions)"

lemma default_hook_fields [simp]:
  "FlagSet (default_hook H o') = FlagSet o'" "ConfigPathEnvVar (default_hook H o') = ConfigPathEnvVar o'"
  "AutomaticEnv (default_hook H o') = AutomaticEnv o'" "EnvPrefix (default_hook H o') = EnvPrefix o'"
  "NestedSeparator (default_hook H o') = NestedSeparator o'"
  by (simp_all add: default_hook_def split: option.splits)

lemma default_hook_set: "DecodeHook (default_hook H o') \<noteq> None"
  by (simp add: default_hook_def split: option.splits)

lemma configured_viper_default_hook: "configured_viper V (default_hook H o') = configured_viper V o'"
  by (simp add: configured_viper_def)

lemma For_struct:
  assumes "type_Kind t = KStruct"
  shows "config_For E V H validator (Some (TPointer t, VPtr (Some (VStruct sfs)))) opts =
     (case FlagSet (for_options H opts) of
        None \<Rightarrow>
          Ret (Inr \<lparr>loaderV = sources_viper V (for_options H opts) sfs,
                    loaderOpts = (for_options H opts)\<lparr>FlagSet := None\<rparr>,
                    loaderCfg = VStruct sfs, cfgValidator = validator\<rparr>, None)
      | Some fs \<Rightarrow>
          bind_outcome
            (BindStruct E fs (sources_viper V (for_options H opts) sfs) sfs []
               (NestedSeparator (for_options H opts)))
            (\<lambda>(err, fs', v').
               case err of
                 Some e \<Rightarrow> Ret (Inl (WrapError ''failed to bind flags'' e), Some fs')
               | None \<Rightarrow>
                   Ret (Inr \<lparr>loaderV = v', loaderOpts = (for_options H opts)\<lparr>FlagSet := Some fs'\<rparr>,
                             loaderCfg = VStruct sfs, cfgValidator = validator\<rparr>, Some fs')))"
  using assms
  by (simp add: config_For_def for_options_def sources_viper_def elem_kind_def setDefaults_def
      bindEnvVars_def setDefaults_leaves bindEnvVars_leaves Let_def cong: option.case_cong)

lemma Load_no_path:
  assumes "osGetenv Os (ConfigPathEnvVar (loaderOpts l)) = []"
  shows "Loader_Load V Os l =
     (case vUnmarshal V (loaderV l) (DecodeHook (loaderOpts l)) (loaderCfg l) of
        (Some err, cfg) \<Rightarrow> (Some (WrapError ''unmarshal error'' err), l\<lparr>loaderCfg := cfg\<rparr>)
      | (None, cfg) \<Rightarrow>
          (case cfgValidator l of
             None \<Rightarrow> None
           | Some validate \<Rightarrow> map_option (WrapError ''configuration validation failed'') (validate cfg),
           l\<lparr>loaderCfg := cfg\<rparr>))"
  using assms by (simp add: Loader_Load_def Let_def split: option.splits prod.splits)

text \<open>
  C33: the life of a loader whose options give no flag set. \<open>For\<close> then accepts any pointer to a struct
  and sets up the viper \<open>sources_viper\<close>, with a default for every non-zero leaf of the struct and,
  when automatic environment variables are enabled, an environment binding for every leaf; a decode
  hook is always set. \<open>Load\<close> reads the configuration path, if the environment names one, decodes into
  the struct and validates it: it returns nil exactly when all three succeed, and a failure to load
  the path leaves the struct as it was. (With a flag set \<open>For\<close> can fail, as the next property says.)
\<close>

theorem For_then_Load:
  assumes "type_Kind t = KStruct" and "FlagSet (for_options H opts) = None"
  shows "\<exists>l. config_For E V H validator (Some (TPointer t, VPtr (Some (VStruct sfs)))) opts = Ret (Inr l, None) \<and>
     (let options = for_options H opts;
          path = osGetenv Os (ConfigPathEnvVar options);
          base = sources_viper V options sfs;
          (perr, v) = (if path \<noteq> [] then loadFromPath V Os path base else (None, base));
          (uerr, cfg) = vUnmarshal V v (DecodeHook options) (VStruct sfs)
      in DecodeHook options \<noteq> None \<and>
         (fst (Loader_Load V Os l) = None \<longleftrightarrow>
            perr = None \<and> uerr = None \<and> (case validator of None \<Rightarrow> True | Some f \<Rightarrow> f cfg = None)) \<and>
         loaderCfg (snd (Loader_Load V Os l)) = (if perr = None then cfg else VStruct sfs))"
proof -
  let ?l = "\<lparr>loaderV = sources_viper V (for_options H opts) sfs,
             loaderOpts = (for_options H opts)\<lparr>FlagSet := None\<rparr>,
             loaderCfg = VStruct sfs, cfgValidator = validator\<rparr>"
  have "DecodeHook (for_options H opts) \<noteq> None"
    by (simp add: for_options_def default_hook_set)
  then show ?thesis
    by (intro exI [of _ ?l])
      (auto simp: For_struct [OF assms(1)] assms(2) Loader_Load_def Let_def split: option.splits prod.splits if_splits)
qed

text \<open>A viper that keeps the flags bound to it and decodes nothing, and an environment without a path.\<close>

definition demo_viper :: "(string \<rightharpoonup> pflag, unit) viper_api" where
  "demo_viper =
     \<lparr>vNew = Map.empty, vSetEnvPrefix = (\<lambda>p v. v), vAutomaticEnv = (\<lambda>v. v),
      vSetEnvKeyReplacer = (\<lambda>r v. v), vSetDefault = (\<lambda>k x v. v), vBindEnv = (\<lambda>k v. (None, v)),
      vSetConfigFile = (\<lambda>p v. v), vReadInConfig = (\<lambda>v. (None, v)), vAllSettings = (\<lambda>v. ()),
      vMergeConfigMap = (\<lambda>m v. (None, v)), vSet = (\<lambda>k x v. v), vUnmarshal = (\<lambda>v h cfg. (None, cfg))\<rparr>"

definition demo_os :: os_api where
  "demo_os =
     \<lparr>osGetenv = (\<lambda>n. []), osStat = (\<lambda>p. Inr True),
      osReadDir = (\<lambda>p. Inr [(''.hidden'', False), (''app.yaml'', False), (''nested'', True)]),
      osReadFile = (\<lambda>p. Inr []), filepathJoin = (\<lambda>d n. d @ ''/'' @ n)\<rparr>"

theorem For_then_Load_witness:
  "\<exists>l. config_For demo_flags_env demo_viper demo_hooks (Some (\<lambda>c. Some (ErrorString ''port'')))
         (Some (TPointer (TStruct ''Config''), VPtr (Some (VStruct demo_struct)))) [WithEnvPrefix ''APP'']
         = Ret (Inr l, None) \<and>
       fst (Loader_Load demo_viper demo_os l) \<noteq> None"
proof -
  have "FlagSet (for_options demo_hooks [WithEnvPrefix ''APP''] :: (string \<rightharpoonup> pflag) LoaderOptions) = None"
    by (simp add: for_options_def LoaderOptions_ApplyOptions_def FunctionalOption_ApplyTo_def
        WithEnvPrefix_def defaultLoaderOptions_def)
  from For_then_Load [where t = "TStruct ''Config''" and validator = "Some (\<lambda>c. Some (ErrorString ''port''))"
      and E = demo_flags_env and V = demo_viper and Os = demo_os and sfs = demo_struct, OF _ this]
  show ?thesis by (fastforce simp: demo_os_def demo_viper_def Let_def)
qed



section \<open>Flags and configuration keys\<close>

text \<open>
  The flag of a nested field is bound to the key made of the flag prefix, in kebab case and joined
  with the separator of flags, and the field's tag; viper reads the field by its path of
  \<open>mapstructure\<close> tags. \<open>tags_agree\<close> is the discipline on tags under which both name the same keys.
\<close>

fun tags_agree :: "sfield list \<Rightarrow> bool" where
  "tags_agree [] \<longleftrightarrow> True"
| "tags_agree (SField name exported ftag mtag typ val # sfs) \<longleftrightarrow>
     (exported \<and> ftag \<noteq> ''-'' \<longrightarrow>
        mtag \<noteq> [] \<and> mtag \<noteq> ''-'' \<and>
        (case val of
           VStruct nested \<Rightarrow> \<not> isValueType typ \<and> mtag = ToKebabCase name \<and> tags_agree nested
         | _ \<Rightarrow> True)) \<and>
     tags_agree sfs"

fun no_structs :: "sfield list \<Rightarrow> bool" where
  "no_structs [] \<longleftrightarrow> True"
| "no_structs (SField name exported ftag mtag typ val # sfs) \<longleftrightarrow>
     (case val of VStruct nested \<Rightarrow> False | _ \<Rightarrow> True) \<and> no_structs sfs"

fun one_level :: "sfield list \<Rightarrow> bool" where
  "one_level [] \<longleftrightarrow> True"
| "one_level (SField name exported ftag mtag typ val # sfs) \<longleftrightarrow>
     (case val of VStruct nested \<Rightarrow> no_structs nested | _ \<Rightarrow> True) \<and> one_level sfs"

lemma leaf_entry_key:
  "Inr (g, m) \<in> set (leaf_entry f pfx sep) \<Longrightarrow> mapstructureTag f \<noteq> [] \<Longrightarrow> mapstructureTag f \<noteq> ''-'' \<Longrightarrow>
   ConfigKey m = join_prefix pfx ''.'' (mapstructureTag f)"
  by (auto simp: leaf_entry_def ExtractFlagMetadata_def GetConfigKey_def split: sum.splits if_splits)

lemma flag_keys_flat:
  "tags_agree sfs \<Longrightarrow> no_structs sfs \<Longrightarrow> Inr (g, m) \<in> set (flag_entries sfs pfx sep) \<Longrightarrow>
   ConfigKey m \<in> fst ` set (config_leaves sfs pfx)"
proof (induction sfs)
  case (Cons f sfs)
  obtain nm ex tg mt ty val where f: "f = SField nm ex tg mt ty val" by (cases f)
  show ?case
    using Cons leaf_entry_key [of g m f pfx sep]
    by (auto simp: f image_Un split: if_splits goval.splits)
qed simp

lemma flag_keys_one_level:
  "tags_agree sfs \<Longrightarrow> one_level sfs \<Longrightarrow> Inr (g, m) \<in> set (flag_entries sfs [] sep) \<Longrightarrow>
   ConfigKey m \<in> fst ` set (config_leaves sfs [])"
proof (induction sfs)
  case (Cons f sfs)
  obtain nm ex tg mt ty val where f: "f = SField nm ex tg mt ty val" by (cases f)
  show ?case
  proof (cases val)
    case (VStruct nested)
    with Cons show ?thesis
      using leaf_entry_key [of g m f "[]" sep] flag_keys_flat [of nested g m mt sep]
      by (auto simp: f image_Un join_prefix_def isValueType_def split: if_splits)
  qed (use Cons leaf_entry_key [of g m f "[]" sep] in \<open>auto simp: f image_Un split: if_splits\<close>)
qed simp

lemma flag_keys_dotted:
  "tags_agree sfs \<Longrightarrow> sep = ''.'' \<Longrightarrow> Inr (g, m) \<in> set (flag_entries sfs pfx sep) \<Longrightarrow>
   ConfigKey m \<in> fst ` set (config_leaves sfs pfx)"
proof (induction sfs pfx sep rule: flag_entries.induct)
  case (2 nm ex tg mt ty val sfs pfx sep)
  show ?case
  proof (cases val)
    case (VStruct nested)
    with 2 show ?thesis
      using leaf_entry_key [of g m "SField nm ex tg mt ty val" pfx sep]
      by (auto simp: image_Un isValueType_def split: if_splits)
  qed (use 2 leaf_entry_key [of g m "SField nm ex tg mt ty val" pfx sep] in
      \<open>auto simp: image_Un split: if_splits\<close>)
qed simp

text \<open>
  C35: under the discipline on tags (\<open>tags_agree\<close>), with structs nested at most once (\<open>one_level\<close>) or
  with the separator \<open>.\<close>, and on a flag set without the names of the struct, every key \<open>BindStruct\<close> binds to a flag is (up to the case viper ignores) the key of a leaf of the
  configuration, that is one of the keys \<open>bindEnvVars\<close> binds to the environment and \<open>setDefaults\<close>
  registers a default for, so that a flag given on the command line reaches a field.
\<close>

theorem flags_reach_fields:
  assumes "pflag_ok E" and "viper_bind_ok E bound"
    and "\<And>f m. Inr (f, m) \<in> set (flag_entries sfs [] sep) \<Longrightarrow>
                ptr_typed f \<and> fsLookup E fs (FlagName m) = None"
    and "tags_agree sfs" and "one_level sfs \<or> sep = ''.''"
    and "BindStruct E fs v sfs [] sep = Ret (err, fs', v')"
  shows "dom (bound v') \<subseteq> dom (bound v) \<union> ToLower ` set (map fst (config_leaves sfs [])) \<and>
     bindEnvVars V w sfs = fold (\<lambda>key w. snd (vBindEnv V key w)) (map fst (config_leaves sfs [])) w \<and>
     setDefaults V w sfs = fold (\<lambda>(key, typ, val). set_nonzero V key typ val) (config_leaves sfs []) w"
proof (intro conjI)
  have "ConfigKey m \<in> set (map fst (config_leaves sfs []))" if "Inr (f, m) \<in> set (flag_entries sfs [] sep)" for f m
    using that assms(4,5) flag_keys_one_level flag_keys_dotted by fastforce
  then show "dom (bound v') \<subseteq> dom (bound v) \<union> ToLower ` set (map fst (config_leaves sfs []))"
    using BindStruct_frame(2) [OF assms(1-3,6)] by blast
  show "bindEnvVars V w sfs = fold (\<lambda>key w. snd (vBindEnv V key w)) (map fst (config_leaves sfs [])) w"
    by (simp add: bindEnvVars_def bindEnvVars_leaves fold_map comp_def case_prod_unfold)
  show "setDefaults V w sfs = fold (\<lambda>(key, typ, val). set_nonzero V key typ val) (config_leaves sfs []) w"
    by (simp add: setDefaults_def setDefaults_leaves)
qed

theorem flags_reach_fields_witness:
  "\<exists>fs' v'. BindStruct demo_flags_env Map.empty Map.empty demo_struct [] ''-'' = Ret (None, fs', v') \<and>
            dom v' \<subseteq> {''name'', ''server.port'', ''internal''}"
proof -
  have fresh: "ptr_typed f \<and> fsLookup demo_flags_env Map.empty (FlagName m) = None"
    if "Inr (f, m) \<in> set (flag_entries demo_struct [] ''-'')" for f m
    using that by (auto simp: demo_entries ptr_typed_def demo_flags_env_def)
  from BindStruct_outcome [where sfs = demo_struct and pfx = "[]" and sep = "''-''" and fs = Map.empty
      and v = Map.empty, OF demo_pflag_ok demo_viper_bind_ok this]
  obtain fs' v' where b: "BindStruct demo_flags_env Map.empty Map.empty demo_struct [] ''-'' = Ret (None, fs', v')"
    by (auto simp: demo_entries)
  have "tags_agree demo_struct" "one_level demo_struct"
    by (simp_all add: demo_struct_def isValueType_def) code_simp
  with flags_reach_fields [where sfs = demo_struct and sep = "''-''" and fs = Map.empty and v = Map.empty,
      OF demo_pflag_ok demo_viper_bind_ok fresh _ _ b, THEN conjunct1]
  have "dom v' \<subseteq> ToLower ` set (map fst (config_leaves demo_struct []))" by simp
  moreover have "map ToLower (map fst (config_leaves demo_struct [])) = [''name'', ''server.port'', ''internal'']"
    by code_simp
  then have "set (map ToLower (map fst (config_leaves demo_struct []))) = {''name'', ''server.port'', ''internal''}"
    by (simp only: list.set)
  ultimately have "dom v' \<subseteq> {''name'', ''server.port'', ''internal''}" by (simp only: set_map)
  with b show ?thesis by blast
qed

text \<open>Two levels deep, the flag is bound to a key no field is read from.\<close>

definition deep_struct :: "sfield list" where
  "deep_struct =
     [SField ''Server'' True [] ''server'' (TStruct ''Server'')
        (VStruct [SField ''Tls'' True [] ''tls'' (TStruct ''Tls'')
           (VStruct [SField ''Port'' True [] ''port'' TInt (VInt 8443)])])]"

lemma deep_flag_misses_field:
  "map (\<lambda>e. ConfigKey (snd (projr e))) (flag_entries deep_struct [] ''-'') = [''server-tls.port''] \<and>
   map fst (config_leaves deep_struct []) = [''server.tls.port'']"
  by code_simp

section \<open>Configuration directories\<close>

text \<open>What a file of a configuration directory is, and what it contributes.\<close>

datatype 'm config_file = Structured 'm | Simple string | Unreadable

definition classify_file :: "('v, 'm) viper_api \<Rightarrow> os_api \<Rightarrow> string \<Rightarrow> 'm config_file" where
  "classify_file V Os path =
     (case vReadInConfig V (vSetConfigFile V path (vNew V)) of
        (None, fileViper) \<Rightarrow> Structured (vAllSettings V fileViper)
      | (Some err, fileViper) \<Rightarrow>
          (case osReadFile Os path of Inl err \<Rightarrow> Unreadable | Inr content \<Rightarrow> Simple (TrimSpace content)))"

definition contribute :: "('v, 'm) viper_api \<Rightarrow> os_api \<Rightarrow> string \<Rightarrow> 'v \<Rightarrow> 'v" where
  "contribute V Os path v =
     (case classify_file V Os path of
        Structured m \<Rightarrow> snd (vMergeConfigMap V m v)
      | Simple value \<Rightarrow> vSet V (simple_file_key path) (Some (TString, VString value)) v
      | Unreadable \<Rightarrow> v)"

definition visible_paths :: "os_api \<Rightarrow> string \<Rightarrow> (string \<times> bool) list \<Rightarrow> string list" where
  "visible_paths Os dir entries =
     map (\<lambda>(name, isDir). filepathJoin Os dir name)
       (filter (\<lambda>(name, isDir). \<not> isDir \<and> \<not> HasPrefix name ''.'') entries)"

text \<open>Viper's \<open>MergeConfigMap\<close> has an error result, but always returns nil.\<close>

definition merge_ok :: "('v, 'm) viper_api \<Rightarrow> bool" where
  "merge_ok V \<longleftrightarrow> (\<forall>m v. fst (vMergeConfigMap V m v) = None)"

lemma directory_loop_spec:
  assumes "merge_ok V"
  shows "directory_loop V Os dir entries loaded v =
     (None, loaded \<or> list_ex (\<lambda>p. classify_file V Os p \<noteq> Unreadable) (visible_paths Os dir entries),
      fold (contribute V Os) (visible_paths Os dir entries) v)"
proof (induction entries arbitrary: loaded v)
  case (Cons e entries)
  obtain name isDir where e: "e = (name, isDir)" by fastforce
  show ?case
  proof (cases "isDir \<or> HasPrefix name ''.''")
    case True
    then show ?thesis using Cons by (auto simp: e visible_paths_def)
  next
    case False
    let ?p = "filepathJoin Os dir name"
    have vis: "visible_paths Os dir (e # entries) = ?p # visible_paths Os dir entries"
      using False by (simp add: e visible_paths_def)
    obtain err fv where rd: "vReadInConfig V (vSetConfigFile V ?p (vNew V)) = (err, fv)" by fastforce
    show ?thesis
    proof (cases err)
      case None
      from assms obtain v' where m: "vMergeConfigMap V (vAllSettings V fv) v = (None, v')"
        by (metis merge_ok_def prod.collapse)
      have c: "classify_file V Os ?p = Structured (vAllSettings V fv)"
        using None rd by (simp add: classify_file_def)
      then have "contribute V Os ?p v = v'" using m by (simp add: contribute_def)
      then show ?thesis unfolding vis using None False rd m c Cons by (simp add: e)
    next
      case (Some x)
      show ?thesis
      proof (cases "osReadFile Os ?p")
        case (Inl x')
        then have c: "classify_file V Os ?p = Unreadable" using Some rd by (simp add: classify_file_def)
        then have "contribute V Os ?p v = v" by (simp add: contribute_def)
        then show ?thesis unfolding vis using Inl Some False rd c Cons by (simp add: e loadSimpleFile_def)
      next
        case (Inr content)
        then have c: "classify_file V Os ?p = Simple (TrimSpace content)"
          using Some rd by (simp add: classify_file_def)
        then have "contribute V Os ?p v =
            vSet V (simple_file_key ?p) (Some (TString, VString (TrimSpace content))) v"
          by (simp add: contribute_def)
        then show ?thesis unfolding vis using Inr Some False rd c Cons by (simp add: e loadSimpleFile_def)
      qed
    qed
  qed
qed (simp add: visible_paths_def)

text \<open>
  C36: for a viper whose \<open>MergeConfigMap\<close> never fails, as viper's does not (\<open>merge_ok\<close>), and a
  directory that can be listed, loading it visits exactly its visible files, in the order of the listing; each
  contributes its parsed content, or its text under the name of the file when it does not parse, or
  nothing when it cannot be read. The result is nil exactly when at least one file contributed, and
  sub-directories and hidden files have no influence.
\<close>

theorem loadFromDirectory_contributions:
  assumes "merge_ok V" and "osReadDir Os dir = Inr entries"
  shows "snd (loadFromDirectory V Os dir v) = fold (contribute V Os) (visible_paths Os dir entries) v \<and>
     (fst (loadFromDirectory V Os dir v) = None \<longleftrightarrow>
        (\<exists>p \<in> set (visible_paths Os dir entries). classify_file V Os p \<noteq> Unreadable))"
  using assms(2) by (simp add: loadFromDirectory_def directory_loop_spec [OF assms(1)] list_ex_iff)

theorem loadFromDirectory_contributions_witness:
  "visible_paths demo_os ''/etc/app'' [(''.hidden'', False), (''app.yaml'', False), (''nested'', True)]
     = [''/etc/app/app.yaml''] \<and>
   fst (loadFromDirectory demo_viper demo_os ''/etc/app'' Map.empty) = None"
proof -
  have vis: "visible_paths demo_os ''/etc/app'' [(''.hidden'', False), (''app.yaml'', False), (''nested'', True)]
     = [''/etc/app/app.yaml'']"
    by (simp add: visible_paths_def demo_os_def HasPrefix_def)
  have "merge_ok demo_viper" by (simp add: merge_ok_def demo_viper_def)
  moreover have "osReadDir demo_os ''/etc/app'' = Inr [(''.hidden'', False), (''app.yaml'', False), (''nested'', True)]"
    by (simp add: demo_os_def)
  ultimately have "fst (loadFromDirectory demo_viper demo_os ''/etc/app'' Map.empty) = None"
    using loadFromDirectory_contributions [of demo_viper demo_os "''/etc/app''"] vis
    by (simp add: classify_file_def demo_viper_def)
  with vis show ?thesis by simp
qed

text \<open>
  A simple file is stored with \<open>Set\<close>, viper's explicit override, and not in the layer of
  configuration files.
\<close>

lemma simple_file_sets_override:
  "osReadFile Os path = Inr content \<Longrightarrow>
   loadSimpleFile V Os path v =
     (None, vSet V (simple_file_key path) (Some (TString, VString (TrimSpace content))) v)"
  by (simp add: loadSimpleFile_def)

text \<open>A custom decode hook replaces the default one.\<close>

lemma custom_hook_replaces_default:
  "DecodeHook (for_options H [WithDecodeHook H hook]) = Some hook"
  by (simp add: for_options_def LoaderOptions_ApplyOptions_def FunctionalOption_ApplyTo_def
      WithDecodeHook_def defaultLoaderOptions_def default_hook_def)

section \<open>Rejected configurations\<close>

text \<open>
  \<open>For\<close> refuses, without touching the flag set, a nil configuration, one that is not a pointer,
  a nil pointer and a pointer to anything but a struct.
\<close>

lemma For_rejects:
  assumes "case cfg of
      None \<Rightarrow> True
    | Some (TPointer t, v) \<Rightarrow> v = VPtr None \<or> type_Kind t \<noteq> KStruct
    | Some _ \<Rightarrow> True"
  shows "\<exists>err. config_For E V H validator cfg opts = Ret (Inl err, FlagSet (for_options H opts))"
  using assms
  by (auto simp: config_For_def for_options_def elem_kind_def Let_def
      split: option.splits gotype.splits goval.splits)

end
