(* ===== verification/Zap.thy ===== *)
theory Zap
  imports Flags
begin

text \<open>
  The logger configuration of \<^verbatim>\<open>src/pkg/config/zap/zap.go\<close>: its conversion to the options of
  controller-runtime's zap package and its flags. The level parser and the encoder configurations of
  zap are parameters, in \<open>zap_api\<close>; \<open>'c\<close> is \<open>zapcore.EncoderConfig\<close>.
\<close>

record zap_Config =
  zcDevelopment :: bool
  zcLevel :: string
  zcStacktraceLevel :: string
  zcEncoder :: string
  zcTimeEncoding :: string

datatype TimeEncoder = EpochTimeEncoder | EpochMillisTimeEncoder | EpochNanosTimeEncoder
  | ISO8601TimeEncoder | RFC3339TimeEncoder | RFC3339NanoTimeEncoder

datatype 'c Encoder = JSONEncoder 'c | ConsoleEncoder 'c

record ('c, 'l) zap_api =
  ParseLevel :: "string \<Rightarrow> error + 'l"
  NewProductionEncoderConfig :: 'c
  NewDevelopmentEncoderConfig :: 'c

text \<open>\<open>ctrlzap.Options\<close>, as far as the configuration sets it; \<open>None\<close> is a nil field.\<close>

record ('c, 'l) zap_Options =
  zoDevelopment :: bool
  zoLevel :: "'l option"
  zoStacktraceLevel :: "'l option"
  zoNewEncoder :: "(('c \<Rightarrow> 'c) list \<Rightarrow> 'c Encoder) option"
  zoTimeEncoder :: "TimeEncoder option"

type_synonym ('c, 'l) options_step = "('c, 'l) zap_Options \<Rightarrow> error option \<times> ('c, 'l) zap_Options"

definition applyLevel :: "('c, 'l) zap_api \<Rightarrow> zap_Config \<Rightarrow> ('c, 'l) options_step" where
  "applyLevel Z c opts =
     (if zcLevel c = [] then (None, opts)
      else
        case ParseLevel Z (zcLevel c) of
          Inl err \<Rightarrow> (Some (WrapError (''invalid log level '' @ quoted (zcLevel c)) err), opts)
        | Inr level \<Rightarrow> (None, opts\<lparr>zoLevel := Some level\<rparr>))"

definition applyStacktraceLevel :: "('c, 'l) zap_api \<Rightarrow> zap_Config \<Rightarrow> ('c, 'l) options_step" where
  "applyStacktraceLevel Z c opts =
     (if zcStacktraceLevel c = [] then (None, opts)
      else
        case ParseLevel Z (zcStacktraceLevel c) of
          Inl err \<Rightarrow> (Some (WrapError (''invalid stacktrace level '' @ quoted (zcStacktraceLevel c)) err), opts)
        | Inr level \<Rightarrow> (None, opts\<lparr>zoStacktraceLevel := Some level\<rparr>))"

definition newJSONEncoderFunc :: "('c, 'l) zap_api \<Rightarrow> ('c \<Rightarrow> 'c) list \<Rightarrow> 'c Encoder" where
  "newJSONEncoderFunc Z optsFunc =
     JSONEncoder (fold (\<lambda>opt cfg. opt cfg) optsFunc (NewProductionEncoderConfig Z))"

definition newConsoleEncoderFunc :: "('c, 'l) zap_api \<Rightarrow> ('c \<Rightarrow> 'c) list \<Rightarrow> 'c Encoder" where
  "newConsoleEncoderFunc Z optsFunc =
     ConsoleEncoder (fold (\<lambda>opt cfg. opt cfg) optsFunc (NewDevelopmentEncoderConfig Z))"

definition applyEncoder :: "('c, 'l) zap_api \<Rightarrow> zap_Config \<Rightarrow> ('c, 'l) zap_Options \<Rightarrow> ('c, 'l) zap_Options" where
  "applyEncoder Z c opts =
     (if zcEncoder c = ''json'' then opts\<lparr>zoNewEncoder := Some (newJSONEncoderFunc Z)\<rparr>
      else if zcEncoder c = ''console'' then opts\<lparr>zoNewEncoder := Some (newConsoleEncoderFunc Z)\<rparr>
      else opts)"

definition parseTimeEncoding :: "string \<Rightarrow> error + TimeEncoder" where
  "parseTimeEncoding encoding =
     (if encoding = ''epoch'' then Inr EpochTimeEncoder
      else if encoding = ''millis'' then Inr EpochMillisTimeEncoder
      else if encoding = ''nano'' then Inr EpochNanosTimeEncoder
      else if encoding = ''iso8601'' then Inr ISO8601TimeEncoder
      else if encoding = ''rfc3339'' then Inr RFC3339TimeEncoder
      else if encoding = ''rfc3339nano'' then Inr RFC3339NanoTimeEncoder
      else Inl (ErrorString (''invalid time encoding '' @ quoted encoding)))"

definition applyTimeEncoding :: "zap_Config \<Rightarrow> ('c, 'l) options_step" where
  "applyTimeEncoding c opts =
     (if zcTimeEncoding c = [] then (None, opts)
      else
        case parseTimeEncoding (zcTimeEncoding c) of
          Inl err \<Rightarrow> (Some err, opts)
        | Inr timeEncoder \<Rightarrow> (None, opts\<lparr>zoTimeEncoder := Some timeEncoder\<rparr>))"

definition ToOptions :: "('c, 'l) zap_api \<Rightarrow> zap_Config \<Rightarrow> error option \<times> ('c, 'l) zap_Options" where
  "ToOptions Z c =
     (let opts = \<lparr>zoDevelopment = zcDevelopment c, zoLevel = None, zoStacktraceLevel = None,
                  zoNewEncoder = None, zoTimeEncoder = None\<rparr>
      in until_error (\<lambda>f. f)
           [applyLevel Z c, applyStacktraceLevel Z c, (\<lambda>o'. (None, applyEncoder Z c o')), applyTimeEncoding c]
           opts)"

text \<open>
  Each \<open>BoolVar\<close> or \<open>StringVar\<close> defines a flag whose default is the present value of the field.
\<close>

definition zap_flags :: "zap_Config \<Rightarrow> (string \<times> flag_kind \<times> goval \<times> string) list" where
  "zap_flags c =
     [(''zap-devel'', BoolFlag, VBool (zcDevelopment c),
       ''Development Mode defaults(encoder=consoleEncoder,logLevel=Debug,stackTraceLevel=Warn). '' @
       ''Production Mode defaults(encoder=jsonEncoder,logLevel=Info,stackTraceLevel=Error)''),
      (''zap-encoder'', StringFlag, VString (zcEncoder c),
       ''Zap log encoding (one of 'json' or 'console')''),
      (''zap-log-level'', StringFlag, VString (zcLevel c),
       ''Zap Level to configure the verbosity of logging. Can be one of 'debug', 'info', 'error', 'panic'' @
       CHR 0x27 # ''or any integer value > 0 which corresponds to custom debug levels of increasing verbosity''),
      (''zap-stacktrace-level'', StringFlag, VString (zcStacktraceLevel c),
       ''Zap Level at and above which stacktraces are captured (one of 'info', 'error', 'panic').''),
      (''zap-time-encoding'', StringFlag, VString (zcTimeEncoding c),
       ''Zap time encoding (one of 'epoch', 'millis', 'nano', 'iso8601', 'rfc3339' or 'rfc3339nano'). Defaults to 'epoch'.'')]"

fun add_flags :: "('fs, 'v) flags_env \<Rightarrow> (string \<times> flag_kind \<times> goval \<times> string) list \<Rightarrow> 'fs \<Rightarrow> 'fs outcome" where
  "add_flags E [] fs = Ret fs"
| "add_flags E ((name, k, val, usage) # flags) fs =
     bind_outcome (fsAdd E fs k name val usage) (add_flags E flags)"

definition BindFlags :: "('fs, 'v) flags_env \<Rightarrow> zap_Config \<Rightarrow> 'fs \<Rightarrow> 'fs outcome" where
  "BindFlags E c fs = add_flags E (zap_flags c) fs"

section \<open>Correctness\<close>

text \<open>A setting that is left empty, or that the parser accepts.\<close>

definition setting_ok :: "(string \<Rightarrow> error + 'a) \<Rightarrow> string \<Rightarrow> bool" where
  "setting_ok parse s \<longleftrightarrow> s = [] \<or> \<not> isl (parse s)"

definition setting :: "(string \<Rightarrow> error + 'a) \<Rightarrow> string \<Rightarrow> 'a option" where
  "setting parse s = (if s = [] then None else case parse s of Inl e \<Rightarrow> None | Inr x \<Rightarrow> Some x)"

lemmas apply_defs = applyLevel_def applyStacktraceLevel_def applyEncoder_def applyTimeEncoding_def

text \<open>
  \<open>ToOptions\<close> returns nil exactly when the log level, the stack trace level and the time encoding
  are each empty or valid. The options then hold exactly the values of these settings, nil where a
  setting is empty, and an encoder exactly for \<open>json\<close> and \<open>console\<close>; an unknown encoder is not an
  error.
\<close>

theorem ToOptions_spec:
  "(fst (ToOptions Z c) = None \<longleftrightarrow>
      setting_ok (ParseLevel Z) (zcLevel c) \<and> setting_ok (ParseLevel Z) (zcStacktraceLevel c) \<and>
      setting_ok parseTimeEncoding (zcTimeEncoding c)) \<and>
   (fst (ToOptions Z c) = None \<longrightarrow>
      snd (ToOptions Z c) =
        \<lparr>zoDevelopment = zcDevelopment c,
         zoLevel = setting (ParseLevel Z) (zcLevel c),
         zoStacktraceLevel = setting (ParseLevel Z) (zcStacktraceLevel c),
         zoNewEncoder = (if zcEncoder c = ''json'' then Some (newJSONEncoderFunc Z)
                         else if zcEncoder c = ''console'' then Some (newConsoleEncoderFunc Z) else None),
         zoTimeEncoder = setting parseTimeEncoding (zcTimeEncoding c)\<rparr>)"
  by (cases "ParseLevel Z (zcLevel c)"; cases "ParseLevel Z (zcStacktraceLevel c)";
      cases "parseTimeEncoding (zcTimeEncoding c)")
    (simp_all add: ToOptions_def apply_defs setting_ok_def setting_def Let_def)

text \<open>Levels as numbers, and a configuration with one setting of each kind.\<close>

definition demo_zap_api :: "(string, nat) zap_api" where
  "demo_zap_api =
     \<lparr>ParseLevel = (\<lambda>s. if s = ''debug'' then Inr 0 else Inl (ErrorString ''unrecognized level'')),
      NewProductionEncoderConfig = ''production'', NewDevelopmentEncoderConfig = ''development''\<rparr>"

definition demo_zap :: zap_Config where
  "demo_zap = \<lparr>zcDevelopment = True, zcLevel = ''debug'', zcStacktraceLevel = [], zcEncoder = ''json'',
               zcTimeEncoding = ''iso8601''\<rparr>"

theorem ToOptions_spec_witness:
  "fst (ToOptions demo_zap_api demo_zap) = None \<and>
   zoLevel (snd (ToOptions demo_zap_api demo_zap)) = Some 0 \<and>
   zoStacktraceLevel (snd (ToOptions demo_zap_api demo_zap)) = None \<and>
   zoTimeEncoder (snd (ToOptions demo_zap_api demo_zap)) = Some ISO8601TimeEncoder \<and>
   fst (ToOptions demo_zap_api (demo_zap\<lparr>zcLevel := ''3''\<rparr>)) \<noteq> None"
  using ToOptions_spec [of demo_zap_api demo_zap] ToOptions_spec [of demo_zap_api "demo_zap\<lparr>zcLevel := ''3''\<rparr>"]
  by (simp add: demo_zap_api_def demo_zap_def setting_ok_def setting_def parseTimeEncoding_def)

lemma add_flags_defines:
  assumes "pflag_ok E"
  shows "distinct (map fst flags) \<Longrightarrow> \<forall>f \<in> set flags. fsLookup E fs (fst f) = None \<Longrightarrow>
    \<exists>fs'. add_flags E flags fs = Ret fs' \<and>
      (\<forall>(n, k, v, u) \<in> set flags. fsLookup E fs' n = Some \<lparr>pfName = n, pfKind = k, pfDefault = v, pfUsage = u\<rparr>) \<and>
      (\<forall>n. n \<notin> fst ` set flags \<longrightarrow> fsLookup E fs' n = fsLookup E fs n)"
proof (induction flags arbitrary: fs)
  case (Cons f flags)
  obtain n k v u where f: "f = (n, k, v, u)" by (cases f)
  have "fsLookup E fs n = None" using Cons.prems(2) f by simp
  from pflag_okD [OF assms this, of k v u] obtain fs1 where fs1: "fsAdd E fs k n v u = Ret fs1"
    "fsLookup E fs1 n = Some \<lparr>pfName = n, pfKind = k, pfDefault = v, pfUsage = u\<rparr>"
    "\<forall>m. m \<noteq> n \<longrightarrow> fsLookup E fs1 m = fsLookup E fs m"
    by blast
  have n: "n \<notin> fst ` set flags" using Cons.prems(1) f by simp
  have "fsLookup E fs1 (fst g) = None" if "g \<in> set flags" for g
    using that Cons.prems(2) fs1(3) n by (metis image_eqI list.set_intros(2))
  then have "\<forall>g \<in> set flags. fsLookup E fs1 (fst g) = None" ..
  from Cons.IH [OF _ this] Cons.prems(1) obtain fs' where
    "add_flags E flags fs1 = Ret fs'"
    "\<forall>(n, k, v, u) \<in> set flags. fsLookup E fs' n = Some \<lparr>pfName = n, pfKind = k, pfDefault = v, pfUsage = u\<rparr>"
    "\<forall>n. n \<notin> fst ` set flags \<longrightarrow> fsLookup E fs' n = fsLookup E fs1 n"
    by auto
  with fs1 n show ?case by (intro exI [of _ fs']) (auto simp: f)
qed simp

text \<open>
  On a flag set without them, \<open>BindFlags\<close> defines the five zap flags, each with the present value
  of its field as default, changes no other flag and does not panic.
\<close>

lemma BindFlags_defines:
  assumes "pflag_ok E" and "\<forall>f \<in> set (zap_flags c). fsLookup E fs (fst f) = None"
  shows "\<exists>fs'. BindFlags E c fs = Ret fs' \<and>
     (\<forall>(n, k, v, u) \<in> set (zap_flags c).
        fsLookup E fs' n = Some \<lparr>pfName = n, pfKind = k, pfDefault = v, pfUsage = u\<rparr>) \<and>
     (\<forall>n. n \<notin> fst ` set (zap_flags c) \<longrightarrow> fsLookup E fs' n = fsLookup E fs n)"
proof -
  have "distinct (map fst (zap_flags c))" by (simp add: zap_flags_def)
  then show ?thesis unfolding BindFlags_def using assms(2) by (rule add_flags_defines [OF assms(1)])
qed

end
