(* ===== verification/Examples.thy ===== *)
theory Examples
  imports Config Zap
begin

text \<open>
  The configurations of the two example controllers, \<^verbatim>\<open>src/examples/*/main.go\<close>, as the structs the
  loader sees: the fields with their tags, the defaults and the validation. They tie the flag names
  and configuration keys of the packages \<open>flags\<close>, \<open>zap\<close> and \<open>config\<close> to concrete uses.
\<close>

definition zap_fields :: "zap_Config \<Rightarrow> sfield list" where
  "zap_fields c =
     [SField ''Development'' True [] ''development'' TBool (VBool (zcDevelopment c)),
      SField ''Level'' True [] ''log_level'' TString (VString (zcLevel c)),
      SField ''StacktraceLevel'' True [] ''stacktrace_level'' TString (VString (zcStacktraceLevel c)),
      SField ''Encoder'' True [] ''encoder'' TString (VString (zcEncoder c)),
      SField ''TimeEncoding'' True [] ''time_encoding'' TString (VString (zcTimeEncoding c))]"

definition default_zap :: zap_Config where
  "default_zap = \<lparr>zcDevelopment = True, zcLevel = ''info'', zcStacktraceLevel = ''warn'',
                  zcEncoder = ''console'', zcTimeEncoding = ''iso8601''\<rparr>"

section \<open>The cleanup controller\<close>

record CleanupControllerConfig =
  ccZap :: zap_Config
  ccMetricsBindAddr :: string
  ccLeaderElection :: bool

definition cleanup_fields :: "CleanupControllerConfig \<Rightarrow> sfield list" where
  "cleanup_fields c =
     [SField ''Zap'' True [] ''zap'' (TStruct ''zap.Config'') (VStruct (zap_fields (ccZap c))),
      SField ''MetricsBindAddr'' True ''metrics-bind-addr,Address for metrics server'' ''metrics_bind_addr''
        TString (VString (ccMetricsBindAddr c)),
      SField ''LeaderElection'' True ''leader-election,Enable leader election'' ''leader_election''
        TBool (VBool (ccLeaderElection c))]"

definition cleanup_Validate :: "CleanupControllerConfig \<Rightarrow> error option" where
  "cleanup_Validate c =
     (if ccMetricsBindAddr c = [] then Some (ErrorString ''metrics-bind-addr cannot be empty'') else None)"

definition cleanup_DefaultConfig :: CleanupControllerConfig where
  "cleanup_DefaultConfig = \<lparr>ccZap = default_zap, ccMetricsBindAddr = '':8080'', ccLeaderElection = False\<rparr>"

definition cleanup_options :: "'fs \<Rightarrow> ('fs LoaderOptions \<Rightarrow> 'fs LoaderOptions) list" where
  "cleanup_options commandLine =
     [WithEnvPrefix ''CLEANUP_CONTROLLER'', WithConfigPathEnvVar ''CLEANUP_CONTROLLER_CONFIG_PATH'',
      WithFlags (Some commandLine)]"

section \<open>The simple controller\<close>

record FeatureFlags =
  EnableDebugLogging :: bool

record SimpleControllerConfig =
  scZap :: zap_Config
  scFeatureFlags :: FeatureFlags
  scMetricsBindAddr :: string
  scLeaderElection :: bool

definition simple_fields :: "SimpleControllerConfig \<Rightarrow> sfield list" where
  "simple_fields c =
     [SField ''Zap'' True [] ''zap'' (TStruct ''zap.Config'') (VStruct (zap_fields (scZap c))),
      SField ''FeatureFlags'' True [] ''feature_flags'' (TStruct ''main.FeatureFlags'')
        (VStruct [SField ''EnableDebugLogging'' True ''enable-debug-logging,Enable verbose debug logging''
                    ''enable_debug_logging'' TBool (VBool (EnableDebugLogging (scFeatureFlags c)))]),
      SField ''MetricsBindAddr'' True ''metrics-bind-addr,Address for metrics server'' ''metrics_bind_addr''
        TString (VString (scMetricsBindAddr c)),
      SField ''LeaderElection'' True ''leader-election,Enable leader election'' ''leader_election''
        TBool (VBool (scLeaderElection c))]"

definition simple_Validate :: "SimpleControllerConfig \<Rightarrow> error option" where
  "simple_Validate c =
     (if scMetricsBindAddr c = [] then Some (ErrorString ''metrics-bind-addr cannot be empty'') else None)"

definition simple_DefaultConfig :: SimpleControllerConfig where
  "simple_DefaultConfig =
     \<lparr>scZap = default_zap, scFeatureFlags = \<lparr>EnableDebugLogging = False\<rparr>, scMetricsBindAddr = '':8080'',
      scLeaderElection = False\<rparr>"

section \<open>Flags and keys of the examples\<close>

definition flag_keys :: "sfield list \<Rightarrow> (string \<times> string) list" where
  "flag_keys sfs = map (\<lambda>e. case e of Inr (f, m) \<Rightarrow> (FlagName m, ConfigKey m) | Inl e \<Rightarrow> ([], []))
                     (flag_entries sfs [] ''-'')"

lemma cleanup_flag_keys:
  "flag_keys (cleanup_fields c) =
     [(''zap-development'', ''zap.development''), (''zap-level'', ''zap.log_level''),
      (''zap-stacktrace-level'', ''zap.stacktrace_level''), (''zap-encoder'', ''zap.encoder''),
      (''zap-time-encoding'', ''zap.time_encoding''), (''metrics-bind-addr'', ''metrics_bind_addr''),
      (''leader-election'', ''leader_election'')]"
  by (cases c) code_simp

lemma cleanup_leaf_keys:
  "map fst (config_leaves (cleanup_fields c) []) =
     [''zap.development'', ''zap.log_level'', ''zap.stacktrace_level'', ''zap.encoder'', ''zap.time_encoding'',
      ''metrics_bind_addr'', ''leader_election'']"
  by (cases c) code_simp

lemma simple_flag_keys:
  "flag_keys (simple_fields c) =
     [(''zap-development'', ''zap.development''), (''zap-level'', ''zap.log_level''),
      (''zap-stacktrace-level'', ''zap.stacktrace_level''), (''zap-encoder'', ''zap.encoder''),
      (''zap-time-encoding'', ''zap.time_encoding''),
      (''feature-flags-enable-debug-logging'', ''feature-flags.enable_debug_logging''),
      (''metrics-bind-addr'', ''metrics_bind_addr''), (''leader-election'', ''leader_election'')]"
  by (cases c) code_simp

lemma simple_leaf_keys:
  "map fst (config_leaves (simple_fields c) []) =
     [''zap.development'', ''zap.log_level'', ''zap.stacktrace_level'', ''zap.encoder'', ''zap.time_encoding'',
      ''feature_flags.enable_debug_logging'', ''metrics_bind_addr'', ''leader_election'']"
  by (cases c) code_simp

text \<open>
  In both examples the flag names are pairwise distinct, so that the loader accepts them. Every
  flag of the cleanup controller is bound to a key its configuration is read from. Of the simple
  controller exactly one is not: \<open>--feature-flags-enable-debug-logging\<close> is bound to
  \<open>feature-flags.enable_debug_logging\<close>, while the field is read from
  \<open>feature_flags.enable_debug_logging\<close>, so that giving the flag has no effect.
\<close>

theorem example_flag_keys:
  "distinct (map fst (flag_keys (cleanup_fields c))) \<and> distinct (map fst (flag_keys (simple_fields s))) \<and>
   set (map snd (flag_keys (cleanup_fields c))) \<subseteq> set (map fst (config_leaves (cleanup_fields c) [])) \<and>
   filter (\<lambda>(flag, key). \<not> List.member (map fst (config_leaves (simple_fields s) [])) key)
     (flag_keys (simple_fields s))
   = [(''feature-flags-enable-debug-logging'', ''feature-flags.enable_debug_logging'')]"
  unfolding cleanup_flag_keys cleanup_leaf_keys simple_flag_keys simple_leaf_keys
  by simp

text \<open>The defaults of both examples pass their validation.\<close>

lemma example_defaults_valid:
  "cleanup_Validate cleanup_DefaultConfig = None \<and> simple_Validate simple_DefaultConfig = None"
  by (simp add: cleanup_Validate_def cleanup_DefaultConfig_def simple_Validate_def simple_DefaultConfig_def)

end
