(* ===== verification/K8s_Objects.thy ===== *)
theory K8s_Objects
  imports Prelude
begin

text \<open>
  The Kubernetes data every component works on. An object is what a \<open>client.Object\<close> interface value
  denotes: its dynamic Go type, its type meta, the fields of its object meta under the names of
  their getters, its \<open>Status\<close> field when it has one (\<^verbatim>\<open>src/pkg/status/types.go\<close>) and the rest of
  its content, which no code of the repository inspects and which therefore stays a type parameter.
  A scheme carries the three operations the repository calls on one.
\<close>

record gvk =
  Group :: string
  Version :: string
  Kind :: string

definition zero_gvk :: gvk where
  "zero_gvk = \<lparr>Group = [], Version = [], Kind = []\<rparr>"

record NamespacedName =
  nnNamespace :: string
  nnName :: string

type_synonym request = NamespacedName

text \<open>\<open>metav1.Condition\<close>; the zero time is \<open>None\<close>.\<close>

record Condition =
  cType :: string
  cStatus :: string
  cObservedGeneration :: int
  cLastTransitionTime :: "int option"
  cReason :: string
  cMessage :: string

abbreviation ConditionTrue :: string where "ConditionTrue \<equiv> ''True''"
abbreviation ConditionFalse :: string where "ConditionFalse \<equiv> ''False''"
abbreviation ConditionUnknown :: string where "ConditionUnknown \<equiv> ''Unknown''"

record Status =
  ObservedGeneration :: int
  Conditions :: "Condition list"

text \<open>The dynamic type of an object: the two generic representations, or a registered Go type.\<close>

datatype go_type = UnstructuredType | PartialMetadataType | TypedGo string

record OwnerReference =
  refAPIVersion :: string
  refKind :: string
  refName :: string
  refUID :: string
  refController :: "bool option"

record 'c object =
  goType :: go_type
  GroupVersionKind :: gvk
  GetName :: string
  GetNamespace :: string
  GetUID :: string
  GetResourceVersion :: string
  GetGeneration :: int
  GetCreationTimestamp :: int
  GetDeletionTimestamp :: "int option"
  GetDeletionGracePeriodSeconds :: "int option"
  GetLabels :: "(string, string) gomap"
  GetAnnotations :: "(string, string) gomap"
  GetOwnerReferences :: "OwnerReference list"
  GetFinalizers :: "string list"
  GetManagedFields :: "string list"
  GetStatus :: "Status option"
  content :: 'c

definition empty_object :: "go_type \<Rightarrow> gvk \<Rightarrow> 'c \<Rightarrow> 'c object" where
  "empty_object t g c =
     \<lparr>goType = t, GroupVersionKind = g, GetName = [], GetNamespace = [], GetUID = [],
      GetResourceVersion = [], GetGeneration = 0, GetCreationTimestamp = 0,
      GetDeletionTimestamp = None, GetDeletionGracePeriodSeconds = None,
      GetLabels = None, GetAnnotations = None, GetOwnerReferences = [], GetFinalizers = [],
      GetManagedFields = [], GetStatus = None, content = c\<rparr>"

text \<open>
  A \<open>runtime.Scheme\<close>: \<open>apiutil.GVKForObject(obj, scheme)\<close>, \<open>scheme.New(gvk)\<close> (\<open>Inr None\<close> is a value
  that is no \<open>client.Object\<close>) and \<open>scheme.AllKnownTypes()\<close>.
\<close>

record 'c scheme =
  GVKForObject :: "'c object \<Rightarrow> error + gvk"
  SchemeNew :: "gvk \<Rightarrow> error + 'c object option"
  AllKnownTypes :: "(gvk \<times> string) list"

text \<open>
  Formatting and parsing of group, version and kind by apimachinery's package \<open>schema\<close>:
  \<open>ParseGroupVersion\<close>, \<open>GroupVersion.String\<close> and \<open>GroupVersionKind.String\<close>.
\<close>

record schema_api =
  ParseGroupVersion :: "string \<Rightarrow> error + (string \<times> string)"
  GVString :: "gvk \<Rightarrow> string"
  GVKString :: "gvk \<Rightarrow> string"

text \<open>A concrete instance, to evaluate definitions that format or parse a group and version.\<close>

definition demo_schema_api :: schema_api where
  "demo_schema_api =
     \<lparr>ParseGroupVersion = (\<lambda>s. case SplitN2 s CHR ''/'' of
          [v] \<Rightarrow> Inr ([], v) | [g, v] \<Rightarrow> Inr (g, v) | _ \<Rightarrow> Inl (ErrorString s)),
      GVString = (\<lambda>g. if Group g = [] then Version g else Group g @ ''/'' @ Version g),
      GVKString = (\<lambda>g. Group g @ ''/'' @ Version g @ '', Kind='' @ Kind g)\<rparr>"

end
