(* ===== verification/Conditions.thy ===== *)
theory Conditions
  imports K8s_Objects
begin

text \<open>
  The packages \<open>conditions\<close> and \<open>status\<close>: condition options, the accessor interface with its two
  providers (\<open>Status\<close> and the pointer-based \<open>conditionsAccessor\<close>), \<open>Set\<close>/\<open>Get\<close>/\<open>Remove\<close>, the
  searches, and \<open>Manager.Compute\<close>, which derives the target condition from its contributors. The
  slice operations of apimachinery's package \<open>meta\<close> are a parameter (\<open>meta_api\<close>); \<open>meta_ok\<close> states
  the documented behaviour the package relies on.
\<close>

section \<open>Options\<close>

record ConditionOptions =
  optReason :: string
  optMessage :: string
  optObservedGeneration :: int

definition zero_ConditionOptions :: ConditionOptions where
  [opt_defs]: "zero_ConditionOptions = \<lparr>optReason = [], optMessage = [], optObservedGeneration = 0\<rparr>"

definition ConditionOptions_ApplyOptions ::
    "ConditionOptions \<Rightarrow> (ConditionOptions \<Rightarrow> ConditionOptions) list \<Rightarrow> ConditionOptions" where
  "ConditionOptions_ApplyOptions t opts = apply_options opts t"

definition ConditionOptions_ApplyTo :: "ConditionOptions \<Rightarrow> ConditionOptions \<Rightarrow> ConditionOptions" where
  [opt_defs]: "ConditionOptions_ApplyTo a t =
     (let t = (if optReason a \<noteq> [] then t\<lparr>optReason := optReason a\<rparr> else t);
          t = (if optMessage a \<noteq> [] then t\<lparr>optMessage := optMessage a\<rparr> else t)
      in if optObservedGeneration a \<noteq> 0
         then t\<lparr>optObservedGeneration := optObservedGeneration a\<rparr> else t)"

definition WithReason :: "string \<Rightarrow> ConditionOptions \<Rightarrow> ConditionOptions" where
  [opt_defs]: "WithReason reason opts = opts\<lparr>optReason := reason\<rparr>"

definition WithMessage :: "string \<Rightarrow> ConditionOptions \<Rightarrow> ConditionOptions" where
  [opt_defs]: "WithMessage message opts = opts\<lparr>optMessage := message\<rparr>"

definition WithObservedGeneration :: "int \<Rightarrow> ConditionOptions \<Rightarrow> ConditionOptions" where
  [opt_defs]: "WithObservedGeneration generation opts = opts\<lparr>optObservedGeneration := generation\<rparr>"

lemma ConditionOptions_ApplyTo_fields [simp]:
  "optReason (ConditionOptions_ApplyTo a t) = (if optReason a \<noteq> [] then optReason a else optReason t)"
  "optMessage (ConditionOptions_ApplyTo a t) = (if optMessage a \<noteq> [] then optMessage a else optMessage t)"
  "optObservedGeneration (ConditionOptions_ApplyTo a t) =
     (if optObservedGeneration a \<noteq> 0 then optObservedGeneration a else optObservedGeneration t)"
  by (simp_all add: ConditionOptions_ApplyTo_def Let_def)

interpretation condition_options: overriding_option_struct ConditionOptions_ApplyTo zero_ConditionOptions
  by unfold_locales (simp_all add: ConditionOptions.equality zero_ConditionOptions_def)

section \<open>The slice operations of package meta\<close>

record meta_api =
  FindStatusCondition :: "Condition list \<Rightarrow> string \<Rightarrow> Condition option"
  SetStatusCondition :: "Condition list \<Rightarrow> Condition \<Rightarrow> Condition list"
  RemoveStatusCondition :: "Condition list \<Rightarrow> string \<Rightarrow> Condition list"
  IsStatusConditionTrue :: "Condition list \<Rightarrow> string \<Rightarrow> bool"
  IsStatusConditionFalse :: "Condition list \<Rightarrow> string \<Rightarrow> bool"

abbreviation of_type :: "string \<Rightarrow> Condition \<Rightarrow> bool" where
  "of_type t \<equiv> \<lambda>c. cType c = t"

text \<open>
  The documented behaviour: \<open>Find\<close> returns the first condition of the type; \<open>Set\<close> updates all
  fields of an existing condition of the type, the transition time only when the status changes,
  or appends the new condition; \<open>Remove\<close> removes the conditions of the type; the two tests look
  at the condition of the type.
\<close>

definition find_ok :: "meta_api \<Rightarrow> bool" where
  "find_ok M \<longleftrightarrow> (\<forall>cs t. FindStatusCondition M cs t = find (of_type t) cs)"

definition set_ok :: "meta_api \<Rightarrow> bool" where
  "set_ok M \<longleftrightarrow> (\<forall>cs c.
     (case find (of_type (cType c)) cs of
        None \<Rightarrow> (\<exists>now. SetStatusCondition M cs c = cs @ [c\<lparr>cLastTransitionTime := now\<rparr>])
      | Some old \<Rightarrow> (\<exists>ts. (cStatus c = cStatus old \<longrightarrow> ts = cLastTransitionTime old) \<and>
          (\<exists>us vs. cs = us @ old # vs \<and> find (of_type (cType c)) us = None \<and>
             SetStatusCondition M cs c = us @ c\<lparr>cLastTransitionTime := ts\<rparr> # vs))))"

definition remove_ok :: "meta_api \<Rightarrow> bool" where
  "remove_ok M \<longleftrightarrow> (\<forall>cs t. RemoveStatusCondition M cs t = filter (\<lambda>c. cType c \<noteq> t) cs)"

definition is_ok :: "meta_api \<Rightarrow> bool" where
  "is_ok M \<longleftrightarrow> (\<forall>cs t.
     IsStatusConditionTrue M cs t = (\<exists>c. find (of_type t) cs = Some c \<and> cStatus c = ConditionTrue) \<and>
     IsStatusConditionFalse M cs t = (\<exists>c. find (of_type t) cs = Some c \<and> cStatus c = ConditionFalse))"

definition meta_ok :: "meta_api \<Rightarrow> bool" where
  "meta_ok M \<longleftrightarrow> find_ok M \<and> set_ok M \<and> remove_ok M \<and> is_ok M"

lemma find_Cons_ne: "cType c \<noteq> t \<Longrightarrow> find (of_type t) (us @ c # vs) = find (of_type t) (us @ vs)"
  by (induction us) auto

lemma find_append: "find P (us @ vs) = (case find P us of None \<Rightarrow> find P vs | Some x \<Rightarrow> Some x)"
  by (induction us) auto

lemma FindStatusCondition_eq: "meta_ok M \<Longrightarrow> FindStatusCondition M cs t = find (of_type t) cs"
  by (simp add: meta_ok_def find_ok_def)

lemma set_cases:
  assumes "meta_ok M"
  obtains (app) now where "find (of_type (cType c)) cs = None"
      "SetStatusCondition M cs c = cs @ [c\<lparr>cLastTransitionTime := now\<rparr>]"
    | (upd) old ts us vs where "find (of_type (cType c)) cs = Some old" "cs = us @ old # vs"
      "find (of_type (cType c)) us = None" "cType old = cType c"
      "cStatus c = cStatus old \<longrightarrow> ts = cLastTransitionTime old"
      "SetStatusCondition M cs c = us @ c\<lparr>cLastTransitionTime := ts\<rparr> # vs"
proof -
  have ok: "case find (of_type (cType c)) cs of
        None \<Rightarrow> (\<exists>now. SetStatusCondition M cs c = cs @ [c\<lparr>cLastTransitionTime := now\<rparr>])
      | Some old \<Rightarrow> (\<exists>ts. (cStatus c = cStatus old \<longrightarrow> ts = cLastTransitionTime old) \<and>
          (\<exists>us vs. cs = us @ old # vs \<and> find (of_type (cType c)) us = None \<and>
             SetStatusCondition M cs c = us @ c\<lparr>cLastTransitionTime := ts\<rparr> # vs))"
    using assms unfolding meta_ok_def set_ok_def by blast
  show thesis
  proof (cases "find (of_type (cType c)) cs")
    case None
    with ok app show ?thesis by auto
  next
    case (Some old)
    then have "cType old = cType c" by (auto simp: find_Some_iff)
    with Some ok upd show ?thesis by auto
  qed
qed

lemma find_set_same:
  assumes "meta_ok M"
  shows "\<exists>ts. find (of_type (cType c)) (SetStatusCondition M cs c)
                = Some (c\<lparr>cLastTransitionTime := ts\<rparr>)"
  using assms by (cases rule: set_cases [of M c cs]) (auto simp: find_append)

lemma find_set_other:
  assumes "meta_ok M" and "t \<noteq> cType c"
  shows "find (of_type t) (SetStatusCondition M cs c) = find (of_type t) cs"
  using assms(1)
  by (cases rule: set_cases [of M c cs])
    (use assms(2) in \<open>auto simp: find_append split: option.split\<close>)

lemma types_set:
  assumes "meta_ok M"
  shows "map cType (SetStatusCondition M cs c) =
     (if cType c \<in> cType ` set cs then map cType cs else map cType cs @ [cType c])"
  using assms
proof (cases rule: set_cases [of M c cs])
  case (app now)
  then have "cType c \<notin> cType ` set cs" by (auto simp: find_None_iff)
  with app show ?thesis by simp
qed auto

section \<open>The accessor interface\<close>

text \<open>An \<open>Accessor\<close> is an interface value: its two methods, over the state they read and write.\<close>

record 's Accessor =
  GetConditions :: "'s \<Rightarrow> Condition list"
  SetConditions :: "Condition list \<Rightarrow> 's \<Rightarrow> 's"

definition Status_GetConditions :: "Status \<Rightarrow> Condition list" where
  "Status_GetConditions s = Conditions s"

definition Status_SetConditions :: "Condition list \<Rightarrow> Status \<Rightarrow> Status" where
  "Status_SetConditions cs s = s\<lparr>Conditions := cs\<rparr>"

definition Status_Accessor :: "Status Accessor" where
  "Status_Accessor = \<lparr>GetConditions = Status_GetConditions, SetConditions = Status_SetConditions\<rparr>"

text \<open>\<open>conditionsAccessor\<close> holds a pointer to a slice; \<open>None\<close> is the nil pointer.\<close>

type_synonym conditionsAccessor = "Condition list option"

definition conditionsAccessor_GetConditions :: "conditionsAccessor \<Rightarrow> Condition list" where
  "conditionsAccessor_GetConditions a = (case a of None \<Rightarrow> [] | Some cs \<Rightarrow> cs)"

definition conditionsAccessor_SetConditions :: "Condition list \<Rightarrow> conditionsAccessor \<Rightarrow> conditionsAccessor" where
  "conditionsAccessor_SetConditions cs a = (case a of None \<Rightarrow> None | Some _ \<Rightarrow> Some cs)"

definition conditions_NewAccessor :: "conditionsAccessor Accessor" where
  "conditions_NewAccessor =
     \<lparr>GetConditions = conditionsAccessor_GetConditions,
      SetConditions = conditionsAccessor_SetConditions\<rparr>"

section \<open>Setting and reading conditions\<close>

definition conditions_Set ::
    "meta_api \<Rightarrow> 's Accessor \<Rightarrow> string \<Rightarrow> string \<Rightarrow> (ConditionOptions \<Rightarrow> ConditionOptions) list \<Rightarrow> 's \<Rightarrow> 's" where
  "conditions_Set M accessor conditionType status opts s =
     (let condition = \<lparr>cType = conditionType, cStatus = status, cObservedGeneration = 0,
            cLastTransitionTime = None, cReason = [], cMessage = []\<rparr>;
          condOpts = ConditionOptions_ApplyOptions zero_ConditionOptions opts;
          condition = (if optReason condOpts \<noteq> []
                       then condition\<lparr>cReason := optReason condOpts\<rparr> else condition);
          condition = (if optMessage condOpts \<noteq> []
                       then condition\<lparr>cMessage := optMessage condOpts\<rparr> else condition);
          condition = (if optObservedGeneration condOpts \<noteq> 0
                       then condition\<lparr>cObservedGeneration := optObservedGeneration condOpts\<rparr>
                       else condition);
          conditions = GetConditions accessor s
      in SetConditions accessor (SetStatusCondition M conditions condition) s)"

definition conditions_MarkTrue ::
    "meta_api \<Rightarrow> 's Accessor \<Rightarrow> string \<Rightarrow> (ConditionOptions \<Rightarrow> ConditionOptions) list \<Rightarrow> 's \<Rightarrow> 's" where
  "conditions_MarkTrue M accessor conditionType opts s =
     conditions_Set M accessor conditionType ConditionTrue opts s"

definition conditions_MarkFalse ::
    "meta_api \<Rightarrow> 's Accessor \<Rightarrow> string \<Rightarrow> (ConditionOptions \<Rightarrow> ConditionOptions) list \<Rightarrow> 's \<Rightarrow> 's" where
  "conditions_MarkFalse M accessor conditionType opts s =
     conditions_Set M accessor conditionType ConditionFalse opts s"

definition conditions_MarkUnknown ::
    "meta_api \<Rightarrow> 's Accessor \<Rightarrow> string \<Rightarrow> (ConditionOptions \<Rightarrow> ConditionOptions) list \<Rightarrow> 's \<Rightarrow> 's" where
  "conditions_MarkUnknown M accessor conditionType opts s =
     conditions_Set M accessor conditionType ConditionUnknown opts s"

definition conditions_Get :: "meta_api \<Rightarrow> 's Accessor \<Rightarrow> string \<Rightarrow> 's \<Rightarrow> Condition option" where
  "conditions_Get M accessor conditionType s =
     FindStatusCondition M (GetConditions accessor s) conditionType"

definition conditions_Has :: "meta_api \<Rightarrow> 's Accessor \<Rightarrow> string \<Rightarrow> 's \<Rightarrow> bool" where
  "conditions_Has M accessor conditionType s \<longleftrightarrow>
     FindStatusCondition M (GetConditions accessor s) conditionType \<noteq> None"

definition conditions_IsTrue :: "meta_api \<Rightarrow> 's Accessor \<Rightarrow> string \<Rightarrow> 's \<Rightarrow> bool" where
  "conditions_IsTrue M accessor conditionType s =
     IsStatusConditionTrue M (GetConditions accessor s) conditionType"

definition conditions_IsFalse :: "meta_api \<Rightarrow> 's Accessor \<Rightarrow> string \<Rightarrow> 's \<Rightarrow> bool" where
  "conditions_IsFalse M accessor conditionType s =
     IsStatusConditionFalse M (GetConditions accessor s) conditionType"

definition conditions_Remove :: "meta_api \<Rightarrow> 's Accessor \<Rightarrow> string \<Rightarrow> 's \<Rightarrow> 's" where
  "conditions_Remove M accessor conditionType s =
     SetConditions accessor (RemoveStatusCondition M (GetConditions accessor s) conditionType) s"

fun FirstFalse :: "meta_api \<Rightarrow> 's Accessor \<Rightarrow> string list \<Rightarrow> 's \<Rightarrow> Condition option" where
  "FirstFalse M accessor [] s = None"
| "FirstFalse M accessor (t # ts) s =
     (case conditions_Get M accessor t s of
        None \<Rightarrow> FirstFalse M accessor ts s
      | Some c \<Rightarrow> if cStatus c = ConditionFalse then Some c else FirstFalse M accessor ts s)"

fun FirstUnknown :: "meta_api \<Rightarrow> 's Accessor \<Rightarrow> string list \<Rightarrow> 's \<Rightarrow> Condition option" where
  "FirstUnknown M accessor [] s = None"
| "FirstUnknown M accessor (t # ts) s =
     (case conditions_Get M accessor t s of
        None \<Rightarrow> FirstUnknown M accessor ts s
      | Some c \<Rightarrow> if cStatus c = ConditionUnknown then Some c else FirstUnknown M accessor ts s)"

abbreviation ConditionTypeReady :: string where "ConditionTypeReady \<equiv> ''Ready''"
abbreviation ConditionTypeAvailable :: string where "ConditionTypeAvailable \<equiv> ''Available''"
abbreviation ConditionTypeProgressing :: string where "ConditionTypeProgressing \<equiv> ''Progressing''"
abbreviation ConditionTypeDegraded :: string where "ConditionTypeDegraded \<equiv> ''Degraded''"
abbreviation ReasonConditionMissing :: string where "ReasonConditionMissing \<equiv> ''ConditionMissing''"

definition MarkAvailable :: "meta_api \<Rightarrow> 's Accessor \<Rightarrow> string \<Rightarrow> 's \<Rightarrow> 's" where
  "MarkAvailable M accessor reason s =
     conditions_MarkTrue M accessor ConditionTypeAvailable [WithReason reason] s"

definition MarkProgressing :: "meta_api \<Rightarrow> 's Accessor \<Rightarrow> string \<Rightarrow> string \<Rightarrow> 's \<Rightarrow> 's" where
  "MarkProgressing M accessor reason message s =
     conditions_MarkTrue M accessor ConditionTypeProgressing [WithReason reason, WithMessage message] s"

definition MarkDegraded :: "meta_api \<Rightarrow> 's Accessor \<Rightarrow> string \<Rightarrow> string \<Rightarrow> 's \<Rightarrow> 's" where
  "MarkDegraded M accessor reason message s =
     conditions_MarkTrue M accessor ConditionTypeDegraded [WithReason reason, WithMessage message] s"

section \<open>The manager\<close>

record Contributor =
  contribType :: string
  contribNegative :: bool

definition PositivePolarity :: "string \<Rightarrow> Contributor" where
  "PositivePolarity conditionType = \<lparr>contribType = conditionType, contribNegative = False\<rparr>"

definition NegativePolarity :: "string \<Rightarrow> Contributor" where
  "NegativePolarity conditionType = \<lparr>contribType = conditionType, contribNegative = True\<rparr>"

record Manager =
  mgrTarget :: string
  mgrContributors :: "Contributor list"

definition NewManager :: "string \<Rightarrow> Contributor list \<Rightarrow> Manager" where
  "NewManager target contributors = \<lparr>mgrTarget = target, mgrContributors = contributors\<rparr>"

text \<open>
  The loop of \<open>Compute\<close>: it carries \<open>status\<close>, \<open>reason\<close> and \<open>message\<close> and breaks at the first
  contributor that is missing or unhealthy.
\<close>

fun compute_loop ::
    "meta_api \<Rightarrow> 's Accessor \<Rightarrow> 's \<Rightarrow> Contributor list \<Rightarrow> string \<times> string \<times> string \<Rightarrow> string \<times> string \<times> string" where
  "compute_loop M accessor s [] acc = acc"
| "compute_loop M accessor s (c # cs) acc =
     (case conditions_Get M accessor (contribType c) s of
        None \<Rightarrow> (ConditionUnknown, ReasonConditionMissing, contribType c @ '' not yet reported'')
      | Some found \<Rightarrow>
          (let healthy = (if contribNegative c then cStatus found = ConditionFalse
                          else cStatus found = ConditionTrue)
           in if \<not> healthy then (ConditionFalse, cReason found, cMessage found)
              else compute_loop M accessor s cs acc))"

definition Manager_Compute :: "meta_api \<Rightarrow> 's Accessor \<Rightarrow> Manager \<Rightarrow> int \<Rightarrow> 's \<Rightarrow> 's" where
  "Manager_Compute M accessor m generation s =
     (let (status, reason, message) =
            compute_loop M accessor s (mgrContributors m)
              (ConditionTrue, ConditionTypeReady, ''All conditions met'');
          conditions = GetConditions accessor s
      in SetConditions accessor
           (SetStatusCondition M conditions
              \<lparr>cType = mgrTarget m, cStatus = status, cObservedGeneration = generation,
               cLastTransitionTime = None, cReason = reason, cMessage = message\<rparr>) s)"

definition Manager_MarkTrue ::
    "meta_api \<Rightarrow> 's Accessor \<Rightarrow> Manager \<Rightarrow> string \<Rightarrow> (ConditionOptions \<Rightarrow> ConditionOptions) list \<Rightarrow> 's \<Rightarrow> 's" where
  "Manager_MarkTrue M accessor m conditionType opts s =
     conditions_Set M accessor conditionType ConditionTrue opts s"

definition Manager_MarkFalse ::
    "meta_api \<Rightarrow> 's Accessor \<Rightarrow> Manager \<Rightarrow> string \<Rightarrow> (ConditionOptions \<Rightarrow> ConditionOptions) list \<Rightarrow> 's \<Rightarrow> 's" where
  "Manager_MarkFalse M accessor m conditionType opts s =
     conditions_Set M accessor conditionType ConditionFalse opts s"

definition Manager_MarkUnknown ::
    "meta_api \<Rightarrow> 's Accessor \<Rightarrow> Manager \<Rightarrow> string \<Rightarrow> (ConditionOptions \<Rightarrow> ConditionOptions) list \<Rightarrow> 's \<Rightarrow> 's" where
  "Manager_MarkUnknown M accessor m conditionType opts s =
     conditions_Set M accessor conditionType ConditionUnknown opts s"

section \<open>What an accessor promises, and what follows\<close>

text \<open>A contributor is healthy when its condition is reported with the status its polarity asks for.\<close>

definition contributor_healthy :: "(string \<Rightarrow> Condition option) \<Rightarrow> Contributor \<Rightarrow> bool" where
  "contributor_healthy look k \<longleftrightarrow>
     (\<exists>f. look (contribType k) = Some f \<and>
          cStatus f = (if contribNegative k then ConditionFalse else ConditionTrue))"

text \<open>The abstract verdict: the first contributor that is not healthy decides.\<close>

definition compute_spec :: "(string \<Rightarrow> Condition option) \<Rightarrow> Contributor list \<Rightarrow> string \<times> string \<times> string" where
  "compute_spec look ks =
     (case find (\<lambda>k. \<not> contributor_healthy look k) ks of
        None \<Rightarrow> (ConditionTrue, ConditionTypeReady, ''All conditions met'')
      | Some k \<Rightarrow>
          (case look (contribType k) of
             None \<Rightarrow> (ConditionUnknown, ReasonConditionMissing, contribType k @ '' not yet reported'')
           | Some f \<Rightarrow> (ConditionFalse, cReason f, cMessage f)))"

lemma compute_loop_spec:
  "compute_loop M accessor s ks (ConditionTrue, ConditionTypeReady, ''All conditions met'')
     = compute_spec (\<lambda>t. conditions_Get M accessor t s) ks"
  by (induction ks)
    (auto simp: compute_spec_def contributor_healthy_def Let_def split: option.splits)

lemma find_first_split:
  assumes "find P xs = Some x"
  shows "\<exists>us vs. xs = us @ x # vs \<and> P x \<and> (\<forall>u\<in>set us. \<not> P u)"
proof -
  from assms obtain i where i: "i < length xs" "P (xs ! i)" "x = xs ! i" "\<forall>j<i. \<not> P (xs ! j)"
    by (auto simp: find_Some_iff)
  then have "xs = take i xs @ x # drop (Suc i) xs" by (simp add: id_take_nth_drop [symmetric])
  moreover have "\<forall>u\<in>set (take i xs). \<not> P u" using i by (auto simp: in_set_conv_nth)
  ultimately show ?thesis using i by blast
qed

definition set_condition :: "string \<Rightarrow> string \<Rightarrow> ConditionOptions \<Rightarrow> int option \<Rightarrow> Condition" where
  "set_condition t st oo ts =
     \<lparr>cType = t, cStatus = st, cObservedGeneration = optObservedGeneration oo,
      cLastTransitionTime = ts, cReason = optReason oo, cMessage = optMessage oo\<rparr>"

lemma conditions_Set_eq:
  "conditions_Set M accessor t st opts s =
     SetConditions accessor (SetStatusCondition M (GetConditions accessor s)
        (set_condition t st (ConditionOptions_ApplyOptions zero_ConditionOptions opts) None)) s"
  by (auto simp: conditions_Set_def set_condition_def Let_def)

lemma set_condition_simps [simp]:
  "cType (set_condition t st oo ts) = t"
  "cStatus (set_condition t st oo ts) = st"
  "cReason (set_condition t st oo ts) = optReason oo"
  "cMessage (set_condition t st oo ts) = optMessage oo"
  "cObservedGeneration (set_condition t st oo ts) = optObservedGeneration oo"
  "(set_condition t st oo ts)\<lparr>cLastTransitionTime := ts'\<rparr> = set_condition t st oo ts'"
  by (simp_all add: set_condition_def)

locale condition_accessor =
  fixes accessor :: "'s Accessor"
    and valid :: "'s \<Rightarrow> bool"
  assumes get_set: "valid s \<Longrightarrow> GetConditions accessor (SetConditions accessor cs s) = cs"
    and valid_set: "valid s \<Longrightarrow> valid (SetConditions accessor cs s)"
begin

lemma Get_Set:
  assumes "meta_ok M" and "valid s"
  shows "\<exists>ts. conditions_Get M accessor t (conditions_Set M accessor t st opts s) =
     Some (set_condition t st (ConditionOptions_ApplyOptions zero_ConditionOptions opts) ts)"
  using find_set_same [OF assms(1), of
      "set_condition t st (ConditionOptions_ApplyOptions zero_ConditionOptions opts) None"] assms
  by (simp add: conditions_Get_def conditions_Set_eq get_set FindStatusCondition_eq)

lemma Get_Set_other:
  assumes "meta_ok M" and "valid s" and "t' \<noteq> t"
  shows "conditions_Get M accessor t' (conditions_Set M accessor t st opts s)
           = conditions_Get M accessor t' s"
  using assms
  by (simp add: conditions_Get_def conditions_Set_eq get_set FindStatusCondition_eq find_set_other)

lemma Get_Remove:
  assumes "meta_ok M" and "valid s"
  shows "conditions_Get M accessor t' (conditions_Remove M accessor t s)
           = (if t' = t then None else conditions_Get M accessor t' s)"
proof -
  have "find (of_type t') (filter (\<lambda>c. cType c \<noteq> t) cs)
          = (if t' = t then None else find (of_type t') cs)" for cs
    by (induction cs) auto
  with assms show ?thesis
    by (simp add: conditions_Get_def conditions_Remove_def get_set FindStatusCondition_eq
        meta_ok_def remove_ok_def)
qed

lemma distinct_Set:
  assumes "meta_ok M" and "valid s" and "distinct (map cType (GetConditions accessor s))"
  shows "distinct (map cType (GetConditions accessor (conditions_Set M accessor t st opts s)))"
  using assms by (simp add: conditions_Set_eq get_set types_set)

lemma distinct_Remove:
  assumes "meta_ok M" and "valid s" and "distinct (map cType (GetConditions accessor s))"
  shows "distinct (map cType (GetConditions accessor (conditions_Remove M accessor t s)))"
  using assms by (simp add: conditions_Remove_def get_set meta_ok_def remove_ok_def distinct_map_filter)

lemma Get_Compute:
  assumes "meta_ok M" and "valid s"
    and "compute_spec (\<lambda>t. conditions_Get M accessor t s) (mgrContributors m) = (st, r, msg)"
  shows "\<exists>ts. conditions_Get M accessor (mgrTarget m) (Manager_Compute M accessor m gen s) =
     Some \<lparr>cType = mgrTarget m, cStatus = st, cObservedGeneration = gen,
           cLastTransitionTime = ts, cReason = r, cMessage = msg\<rparr>"
  using find_set_same [OF assms(1), of
      "\<lparr>cType = mgrTarget m, cStatus = st, cObservedGeneration = gen,
        cLastTransitionTime = None, cReason = r, cMessage = msg\<rparr>"] assms
  by (simp add: conditions_Get_def Manager_Compute_def get_set FindStatusCondition_eq
      compute_loop_spec [unfolded conditions_Get_def])

lemma Get_Compute_other:
  assumes "meta_ok M" and "valid s" and "t \<noteq> mgrTarget m"
  shows "conditions_Get M accessor t (Manager_Compute M accessor m gen s)
           = conditions_Get M accessor t s"
  using assms
  by (simp add: conditions_Get_def Manager_Compute_def get_set FindStatusCondition_eq
      find_set_other split: prod.splits)

text \<open>
  The three verdicts of \<open>Compute\<close>, each with what it says about the contributors in their order.
\<close>

lemma Compute_verdict:
  assumes "meta_ok M" and "valid s"
  shows "\<exists>c. conditions_Get M accessor (mgrTarget m) (Manager_Compute M accessor m gen s) = Some c \<and>
     cObservedGeneration c = gen \<and>
     (cStatus c = ConditionTrue \<and>
        (\<forall>k\<in>set (mgrContributors m). contributor_healthy (\<lambda>t. conditions_Get M accessor t s) k)
      \<or> (\<exists>us k vs. mgrContributors m = us @ k # vs \<and>
          (\<forall>u\<in>set us. contributor_healthy (\<lambda>t. conditions_Get M accessor t s) u) \<and>
          \<not> contributor_healthy (\<lambda>t. conditions_Get M accessor t s) k \<and>
          (case conditions_Get M accessor (contribType k) s of
             None \<Rightarrow> cStatus c = ConditionUnknown \<and> cReason c = ReasonConditionMissing
           | Some f \<Rightarrow> cStatus c = ConditionFalse \<and> cReason c = cReason f \<and> cMessage c = cMessage f)))"
proof -
  let ?look = "\<lambda>t. conditions_Get M accessor t s"
  obtain st r msg where v: "compute_spec ?look (mgrContributors m) = (st, r, msg)"
    by (cases "compute_spec ?look (mgrContributors m)")
  obtain ts where c: "conditions_Get M accessor (mgrTarget m) (Manager_Compute M accessor m gen s) =
     Some \<lparr>cType = mgrTarget m, cStatus = st, cObservedGeneration = gen,
           cLastTransitionTime = ts, cReason = r, cMessage = msg\<rparr>"
    using Get_Compute [OF assms v] by blast
  show ?thesis
  proof (cases "find (\<lambda>k. \<not> contributor_healthy ?look k) (mgrContributors m)")
    case None
    with v c show ?thesis by (auto simp: compute_spec_def find_None_iff)
  next
    case (Some k)
    then obtain us vs where split: "mgrContributors m = us @ k # vs"
      "\<not> contributor_healthy ?look k" "\<forall>u\<in>set us. contributor_healthy ?look u"
      using find_first_split [OF Some] by auto
    let ?c = "\<lparr>cType = mgrTarget m, cStatus = st, cObservedGeneration = gen,
           cLastTransitionTime = ts, cReason = r, cMessage = msg\<rparr>"
    from Some v have "case ?look (contribType k) of
             None \<Rightarrow> cStatus ?c = ConditionUnknown \<and> cReason ?c = ReasonConditionMissing
           | Some f \<Rightarrow> cStatus ?c = ConditionFalse \<and> cReason ?c = cReason f \<and> cMessage ?c = cMessage f"
      by (auto simp: compute_spec_def split: option.splits)
    moreover have "cObservedGeneration ?c = gen" by simp
    ultimately show ?thesis using c split by blast
  qed
qed

lemma FirstFalse_spec:
  "FirstFalse M accessor ts s =
     (case find (\<lambda>t. \<exists>c. conditions_Get M accessor t s = Some c \<and> cStatus c = ConditionFalse) ts of
        None \<Rightarrow> None | Some t \<Rightarrow> conditions_Get M accessor t s)"
  by (induction ts) (auto split: option.splits)

end

interpretation status_accessor: condition_accessor Status_Accessor "\<lambda>_. True"
  by unfold_locales
    (simp_all add: Status_Accessor_def Status_GetConditions_def Status_SetConditions_def)

interpretation slice_accessor: condition_accessor conditions_NewAccessor "\<lambda>a. a \<noteq> None"
  by unfold_locales
    (auto simp: conditions_NewAccessor_def conditionsAccessor_GetConditions_def
      conditionsAccessor_SetConditions_def)

section \<open>A concrete instance of package meta\<close>

text \<open>Used to evaluate the definitions on concrete inputs; the clock always reads \<open>1\<close>.\<close>

fun demo_set :: "Condition list \<Rightarrow> Condition \<Rightarrow> Condition list" where
  "demo_set [] c = [c\<lparr>cLastTransitionTime := Some 1\<rparr>]"
| "demo_set (d # ds) c =
     (if cType d = cType c
      then c\<lparr>cLastTransitionTime :=
             (if cStatus d = cStatus c then cLastTransitionTime d else Some 1)\<rparr> # ds
      else d # demo_set ds c)"

definition demo_meta_api :: meta_api where
  "demo_meta_api =
     \<lparr>FindStatusCondition = (\<lambda>cs t. find (of_type t) cs),
      SetStatusCondition = demo_set,
      RemoveStatusCondition = (\<lambda>cs t. filter (\<lambda>c. cType c \<noteq> t) cs),
      IsStatusConditionTrue = (\<lambda>cs t. case find (of_type t) cs of
         None \<Rightarrow> False | Some c \<Rightarrow> cStatus c = ConditionTrue),
      IsStatusConditionFalse = (\<lambda>cs t. case find (of_type t) cs of
         None \<Rightarrow> False | Some c \<Rightarrow> cStatus c = ConditionFalse)\<rparr>"

lemma demo_set_append:
  "find (of_type (cType c)) cs = None \<Longrightarrow> demo_set cs c = cs @ [c\<lparr>cLastTransitionTime := Some 1\<rparr>]"
  by (induction cs) (auto split: if_splits)

lemma demo_set_update:
  "find (of_type (cType c)) cs = Some old \<Longrightarrow>
     \<exists>us vs. cs = us @ old # vs \<and> find (of_type (cType c)) us = None \<and>
       demo_set cs c = us @ c\<lparr>cLastTransitionTime :=
         (if cStatus old = cStatus c then cLastTransitionTime old else Some 1)\<rparr> # vs"
proof (induction cs)
  case (Cons d ds)
  show ?case
  proof (cases "cType d = cType c")
    case True
    with Cons.prems show ?thesis by (intro exI [of _ "[]"] exI [of _ ds]) simp
  next
    case False
    with Cons.prems have "find (of_type (cType c)) ds = Some old" by simp
    then obtain us vs where "ds = us @ old # vs" "find (of_type (cType c)) us = None"
       "demo_set ds c = us @ c\<lparr>cLastTransitionTime :=
         (if cStatus old = cStatus c then cLastTransitionTime old else Some 1)\<rparr> # vs"
      using Cons.IH by blast
    with False show ?thesis by - (rule exI [of _ "d # us"], rule exI [of _ vs], simp)
  qed
qed simp

lemma demo_set_ok: "set_ok demo_meta_api"
proof -
  have "case find (of_type (cType c)) cs of
        None \<Rightarrow> (\<exists>now. demo_set cs c = cs @ [c\<lparr>cLastTransitionTime := now\<rparr>])
      | Some old \<Rightarrow> (\<exists>ts. (cStatus c = cStatus old \<longrightarrow> ts = cLastTransitionTime old) \<and>
          (\<exists>us vs. cs = us @ old # vs \<and> find (of_type (cType c)) us = None \<and>
             demo_set cs c = us @ c\<lparr>cLastTransitionTime := ts\<rparr> # vs))" for cs c
  proof (cases "find (of_type (cType c)) cs")
    case None
    then show ?thesis by (auto simp: demo_set_append)
  next
    case (Some old)
    let ?ts = "if cStatus old = cStatus c then cLastTransitionTime old else Some 1"
    from demo_set_update [OF Some] have "(cStatus c = cStatus old \<longrightarrow> ?ts = cLastTransitionTime old) \<and>
       (\<exists>us vs. cs = us @ old # vs \<and> find (of_type (cType c)) us = None \<and>
         demo_set cs c = us @ c\<lparr>cLastTransitionTime := ?ts\<rparr> # vs)" by simp
    with Some show ?thesis by (simp only: option.case) (rule exI)
  qed
  moreover have "SetStatusCondition demo_meta_api = demo_set" by (simp add: demo_meta_api_def)
  ultimately show ?thesis unfolding set_ok_def by (simp only: simp_thms)
qed

lemma demo_meta_ok [simp]: "meta_ok demo_meta_api"
  using demo_set_ok
  by (auto simp: meta_ok_def find_ok_def remove_ok_def is_ok_def demo_meta_api_def split: option.splits)

section \<open>Properties\<close>

definition demo_manager :: Manager where
  "demo_manager = NewManager ConditionTypeReady
     [PositivePolarity ConditionTypeAvailable, NegativePolarity ConditionTypeDegraded]"

definition demo_status :: Status where
  "demo_status = conditions_MarkTrue demo_meta_api Status_Accessor ConditionTypeAvailable
     [WithReason ''Up''] \<lparr>ObservedGeneration = 0, Conditions = []\<rparr>"

lemmas demo_status_eval =
  demo_manager_def demo_status_def NewManager_def PositivePolarity_def NegativePolarity_def
  conditions_Get_def conditions_MarkTrue_def conditions_Set_def Status_Accessor_def
  Status_GetConditions_def Status_SetConditions_def ConditionOptions_ApplyOptions_def
  zero_ConditionOptions_def FunctionalOption_ApplyTo_def WithReason_def demo_meta_api_def
  contributor_healthy_def

text \<open>
  C3: after \<open>Compute\<close> the target condition is reported for the given generation. It is \<open>True\<close> when
  every contributor is reported with the status its polarity asks for; otherwise the first
  contributor (in their order) that is not decides: \<open>Unknown\<close> with reason \<open>ConditionMissing\<close> when its
  condition is missing, \<open>False\<close> with its reason and message when it is unhealthy. Every other
  condition is left as it was.
\<close>

theorem Compute_status:
  assumes "meta_ok M"
  shows "(\<exists>c. conditions_Get M Status_Accessor (mgrTarget m) (Manager_Compute M Status_Accessor m gen s) = Some c \<and>
     cObservedGeneration c = gen \<and>
     (cStatus c = ConditionTrue \<and>
        (\<forall>k\<in>set (mgrContributors m). contributor_healthy (\<lambda>t. conditions_Get M Status_Accessor t s) k)
      \<or> (\<exists>us k vs. mgrContributors m = us @ k # vs \<and>
          (\<forall>u\<in>set us. contributor_healthy (\<lambda>t. conditions_Get M Status_Accessor t s) u) \<and>
          \<not> contributor_healthy (\<lambda>t. conditions_Get M Status_Accessor t s) k \<and>
          (case conditions_Get M Status_Accessor (contribType k) s of
             None \<Rightarrow> cStatus c = ConditionUnknown \<and> cReason c = ReasonConditionMissing
           | Some f \<Rightarrow> cStatus c = ConditionFalse \<and> cReason c = cReason f \<and> cMessage c = cMessage f))))
    \<and> (\<forall>t. t \<noteq> mgrTarget m \<longrightarrow>
          conditions_Get M Status_Accessor t (Manager_Compute M Status_Accessor m gen s)
            = conditions_Get M Status_Accessor t s)"
  by (intro conjI allI impI status_accessor.Compute_verdict [OF assms]
      status_accessor.Get_Compute_other [OF assms] TrueI)

theorem Compute_status_witness:
  "(\<exists>c. conditions_Get demo_meta_api Status_Accessor ConditionTypeReady
       (Manager_Compute demo_meta_api Status_Accessor demo_manager 7 demo_status) = Some c \<and>
     cObservedGeneration c = 7) \<and>
   conditions_Get demo_meta_api Status_Accessor ConditionTypeAvailable
       (Manager_Compute demo_meta_api Status_Accessor demo_manager 7 demo_status)
     = conditions_Get demo_meta_api Status_Accessor ConditionTypeAvailable demo_status"
proof -
  have target: "mgrTarget demo_manager = ConditionTypeReady"
    by (simp add: demo_manager_def NewManager_def)
  note verdict = Compute_status [OF demo_meta_ok, of demo_manager 7 demo_status, unfolded target]
  show ?thesis
    using conjunct1 [OF verdict] conjunct2 [OF verdict, THEN spec, of ConditionTypeAvailable]
    by (intro conjI) (elim exE conjE, (rule exI, rule conjI; assumption), simp)
qed

text \<open>
  C4: after \<open>Set\<close> with any options, \<open>Get\<close> of the type returns the status given and the reason,
  message and generation the options add up to; \<open>Get\<close> of any other type returns what it did
  before; and a list of conditions with one entry per type stays one. This holds for the accessor of
  a \<open>Status\<close> and for the pointer-based one whose pointer is not nil.
\<close>

theorem Set_Get:
  assumes "meta_ok M"
  shows "(\<exists>ts. conditions_Get M Status_Accessor t (conditions_Set M Status_Accessor t st opts s) =
            Some (set_condition t st (ConditionOptions_ApplyOptions zero_ConditionOptions opts) ts)) \<and>
     (t' \<noteq> t \<longrightarrow> conditions_Get M Status_Accessor t' (conditions_Set M Status_Accessor t st opts s)
            = conditions_Get M Status_Accessor t' s) \<and>
     (distinct (map cType (GetConditions Status_Accessor s)) \<longrightarrow>
        distinct (map cType (GetConditions Status_Accessor (conditions_Set M Status_Accessor t st opts s)))) \<and>
     (\<exists>ts. conditions_Get M conditions_NewAccessor t (conditions_Set M conditions_NewAccessor t st opts (Some cs)) =
            Some (set_condition t st (ConditionOptions_ApplyOptions zero_ConditionOptions opts) ts))"
  using status_accessor.Get_Set [OF assms] status_accessor.Get_Set_other [OF assms]
    status_accessor.distinct_Set [OF assms] slice_accessor.Get_Set [OF assms, of "Some cs"]
  by simp

theorem Set_Get_witness:
  "conditions_Get demo_meta_api Status_Accessor ''Degraded''
       (conditions_Set demo_meta_api Status_Accessor ''Available'' ''False'' [WithReason ''Down''] demo_status)
     = conditions_Get demo_meta_api Status_Accessor ''Degraded'' demo_status \<and>
   (\<exists>ts. conditions_Get demo_meta_api Status_Accessor ''Available''
       (conditions_Set demo_meta_api Status_Accessor ''Available'' ''False'' [WithReason ''Down''] demo_status)
     = Some (set_condition ''Available'' ''False''
         (ConditionOptions_ApplyOptions zero_ConditionOptions [WithReason ''Down'']) ts))"
  using Set_Get [OF demo_meta_ok, of "''Available''" "''False''" "[WithReason ''Down'']" demo_status "''Degraded''" "[]"]
  by simp

end
