(* ===== verification/K8s_Env.thy ===== *)
theory K8s_Env
  imports Conditions
begin

text \<open>
  The functions of apimachinery and controller-runtime the repository calls on objects, as one
  parameter, and a client. Nothing is assumed of them here: each documented law is a predicate of
  its own (\<open>finalizers_ok\<close>, \<open>aggregate_ok\<close>, \<dots>), named where a theorem needs it. The functions
  that mutate an object through its pointer return the object they leave behind.
\<close>

record 'c env =
  envSchema :: schema_api
  envMeta :: meta_api
  ToUnstructuredConv :: "'c object \<Rightarrow> error + 'c object"
  FromUnstructuredConv :: "'c object \<Rightarrow> 'c object \<Rightarrow> error option \<times> 'c object"
  RemoveNestedField :: "'c object \<Rightarrow> string list \<Rightarrow> 'c object"
  IsNotFound :: "error option \<Rightarrow> bool"
  AddFinalizer :: "'c object \<Rightarrow> string \<Rightarrow> bool \<times> 'c object"
  ContainsFinalizer :: "'c object \<Rightarrow> string \<Rightarrow> bool"
  RemoveFinalizer :: "'c object \<Rightarrow> string \<Rightarrow> bool \<times> 'c object"
  SetControllerReference :: "'c object \<Rightarrow> 'c object \<Rightarrow> 'c scheme \<Rightarrow> error option \<times> 'c object"
  NewAggregate :: "error list \<Rightarrow> error option"

datatype ApplyOption = FieldOwner string | OtherApplyOption string

text \<open>
  A \<open>client.Client\<close>: every operation may change the object behind the pointer it is given and the
  world \<open>'w\<close> (the cluster and whatever else the call touches).
\<close>

type_synonym ('c, 'w) object_call = "'c object \<Rightarrow> 'w \<Rightarrow> error option \<times> 'c object \<times> 'w"

record ('c, 'w) client =
  clientScheme :: "'c scheme"
  clientGet :: "NamespacedName \<Rightarrow> ('c, 'w) object_call"
  clientUpdate :: "('c, 'w) object_call"
  clientStatusUpdate :: "('c, 'w) object_call"
  clientApply :: "ApplyOption list \<Rightarrow> ('c, 'w) object_call"
  clientStatusApply :: "ApplyOption list \<Rightarrow> ('c, 'w) object_call"
  clientDelete :: "('c, 'w) object_call"

section \<open>Documented laws\<close>

text \<open>\<open>controllerutil\<close>: adding appends the finalizer when absent, removing drops every occurrence;
  both report whether they changed the list.\<close>

definition finalizers_ok :: "'c env \<Rightarrow> bool" where
  "finalizers_ok E \<longleftrightarrow> (\<forall>ob f.
     ContainsFinalizer E ob f = (f \<in> set (GetFinalizers ob)) \<and>
     AddFinalizer E ob f =
       (if f \<in> set (GetFinalizers ob) then (False, ob)
        else (True, ob\<lparr>GetFinalizers := GetFinalizers ob @ [f]\<rparr>)) \<and>
     RemoveFinalizer E ob f =
       (f \<in> set (GetFinalizers ob), ob\<lparr>GetFinalizers := filter (\<lambda>g. g \<noteq> f) (GetFinalizers ob)\<rparr>))"

text \<open>\<open>utilerrors.NewAggregate\<close> returns nil exactly for no errors.\<close>

definition aggregate_ok :: "'c env \<Rightarrow> bool" where
  "aggregate_ok E \<longleftrightarrow> (\<forall>es. NewAggregate E es = None \<longleftrightarrow> es = [])"

text \<open>\<open>unstructured.RemoveNestedField\<close> clears the field named by the path and nothing else.\<close>

definition remove_field_ok :: "'c env \<Rightarrow> bool" where
  "remove_field_ok E \<longleftrightarrow> (\<forall>u.
     RemoveNestedField E u [''metadata'', ''managedFields''] = u\<lparr>GetManagedFields := []\<rparr> \<and>
     RemoveNestedField E u [''metadata'', ''resourceVersion''] = u\<lparr>GetResourceVersion := []\<rparr> \<and>
     RemoveNestedField E u [''status''] = u\<lparr>GetStatus := None\<rparr>)"

text \<open>
  The unstructured converter may fail and may lose data (unknown fields, for one). Where it does
  neither, for an object or for an object and its target, it changes the Go type only.
\<close>

definition converts_to :: "'c env \<Rightarrow> 'c object \<Rightarrow> bool" where
  "converts_to E ob \<longleftrightarrow> ToUnstructuredConv E ob = Inr (ob\<lparr>goType := UnstructuredType\<rparr>)"

definition converts_from :: "'c env \<Rightarrow> 'c object \<Rightarrow> 'c object \<Rightarrow> bool" where
  "converts_from E u into \<longleftrightarrow> FromUnstructuredConv E u into = (None, u\<lparr>goType := goType into\<rparr>)"

text \<open>
  \<open>controllerutil.SetControllerReference\<close>, when it succeeds, puts a controller reference to the owner
  (by the owner's GVK in the scheme, its name and UID) into the object's references, where no other
  controller reference stands, and changes nothing else; it refuses an owner in another namespace
  and a namespaced owner of a cluster-scoped object.
\<close>

definition controller_ref :: "'c env \<Rightarrow> gvk \<Rightarrow> 'c object \<Rightarrow> OwnerReference" where
  "controller_ref E g owner =
     \<lparr>refAPIVersion = GVString (envSchema E) g, refKind = Kind g, refName = GetName owner,
      refUID = GetUID owner, refController = Some True\<rparr>"

definition controller_reference_ok :: "'c env \<Rightarrow> 'c scheme \<Rightarrow> bool" where
  "controller_reference_ok E sch \<longleftrightarrow> (\<forall>owner ob ob'.
     SetControllerReference E owner ob sch = (None, ob') \<longrightarrow>
       (GetNamespace owner \<noteq> [] \<longrightarrow> GetNamespace ob = GetNamespace owner) \<and>
       (\<exists>g refs. GVKForObject sch owner = Inr g \<and>
          ob' = ob\<lparr>GetOwnerReferences := refs\<rparr> \<and> controller_ref E g owner \<in> set refs \<and>
          (\<forall>r\<in>set refs. refController r = Some True \<longrightarrow> r = controller_ref E g owner)))"

text \<open>A group and version survive printing and parsing (documented for names without a slash).\<close>

definition gv_roundtrip :: "schema_api \<Rightarrow> gvk \<Rightarrow> bool" where
  "gv_roundtrip S g \<longleftrightarrow> ParseGroupVersion S (GVString S g) = Inr (Group g, Version g)"

section \<open>A concrete environment\<close>

text \<open>An environment and a client to evaluate the definitions on; the world counts the calls.\<close>

definition demo_SetControllerReference ::
    "'c object \<Rightarrow> 'c object \<Rightarrow> 'c scheme \<Rightarrow> error option \<times> 'c object" where
  "demo_SetControllerReference owner ob sch =
     (case GVKForObject sch owner of
        Inl e \<Rightarrow> (Some e, ob)
      | Inr g \<Rightarrow>
          if GetNamespace owner \<noteq> [] \<and> GetNamespace ob \<noteq> GetNamespace owner
          then (Some (ErrorString ''cross-namespace owner references are disallowed''), ob)
          else (None, ob\<lparr>GetOwnerReferences :=
             filter (\<lambda>r. refController r \<noteq> Some True) (GetOwnerReferences ob) @
             [\<lparr>refAPIVersion = GVString demo_schema_api g, refKind = Kind g, refName = GetName owner,
               refUID = GetUID owner, refController = Some True\<rparr>]\<rparr>))"

definition demo_env :: "'c env" where
  "demo_env =
     \<lparr>envSchema = demo_schema_api, envMeta = demo_meta_api,
      ToUnstructuredConv = (\<lambda>ob. Inr (ob\<lparr>goType := UnstructuredType\<rparr>)),
      FromUnstructuredConv = (\<lambda>u into. (None, u\<lparr>goType := goType into\<rparr>)),
      RemoveNestedField = (\<lambda>u path.
         if path = [''metadata'', ''managedFields''] then u\<lparr>GetManagedFields := []\<rparr>
         else if path = [''metadata'', ''resourceVersion''] then u\<lparr>GetResourceVersion := []\<rparr>
         else if path = [''status''] then u\<lparr>GetStatus := None\<rparr> else u),
      IsNotFound = (\<lambda>e. e = Some (ErrorString ''not found'')),
      AddFinalizer = (\<lambda>ob f. if f \<in> set (GetFinalizers ob) then (False, ob)
         else (True, ob\<lparr>GetFinalizers := GetFinalizers ob @ [f]\<rparr>)),
      ContainsFinalizer = (\<lambda>ob f. f \<in> set (GetFinalizers ob)),
      RemoveFinalizer = (\<lambda>ob f. (f \<in> set (GetFinalizers ob),
         ob\<lparr>GetFinalizers := filter (\<lambda>g. g \<noteq> f) (GetFinalizers ob)\<rparr>)),
      SetControllerReference = demo_SetControllerReference,
      NewAggregate = (\<lambda>es. if es = [] then None
         else Some (ForeignError (intersperse_newline (map err_Error es)) es))\<rparr>"

lemma demo_env_simps [simp]:
  "envSchema demo_env = demo_schema_api"
  "envMeta demo_env = demo_meta_api"
  "IsNotFound demo_env e = (e = Some (ErrorString ''not found''))"
  by (simp_all add: demo_env_def)

lemma demo_env_ok [simp]:
  "finalizers_ok demo_env" "aggregate_ok demo_env" "remove_field_ok demo_env" "converts_to demo_env ob" "converts_from demo_env u into"
  by (simp_all add: demo_env_def finalizers_ok_def aggregate_ok_def remove_field_ok_def converts_to_def converts_from_def)

lemma demo_env_controller_reference_ok [simp]: "controller_reference_ok demo_env sch"
  unfolding controller_reference_ok_def
proof (intro allI impI)
  fix owner ob ob'
  assume "SetControllerReference demo_env owner ob sch = (None, ob')"
  then have "demo_SetControllerReference owner ob sch = (None, ob')" by (simp add: demo_env_def)
  then obtain g where g: "GVKForObject sch owner = Inr g"
    and ns: "GetNamespace owner = [] \<or> GetNamespace ob = GetNamespace owner"
    and ob': "ob' = ob\<lparr>GetOwnerReferences :=
       filter (\<lambda>r. refController r \<noteq> Some True) (GetOwnerReferences ob) @ [controller_ref demo_env g owner]\<rparr>"
    by (auto simp: demo_SetControllerReference_def controller_ref_def split: sum.splits if_splits)
  let ?refs = "filter (\<lambda>r. refController r \<noteq> Some True) (GetOwnerReferences ob) @ [controller_ref demo_env g owner]"
  have "controller_ref demo_env g owner \<in> set ?refs"
    "\<forall>r\<in>set ?refs. refController r = Some True \<longrightarrow> r = controller_ref demo_env g owner"
    by auto
  with g ns ob' show "(GetNamespace owner \<noteq> [] \<longrightarrow> GetNamespace ob = GetNamespace owner) \<and>
       (\<exists>g refs. GVKForObject sch owner = Inr g \<and>
          ob' = ob\<lparr>GetOwnerReferences := refs\<rparr> \<and> controller_ref demo_env g owner \<in> set refs \<and>
          (\<forall>r\<in>set refs. refController r = Some True \<longrightarrow> r = controller_ref demo_env g owner))"
    by blast
qed

definition demo_gvk :: gvk where
  "demo_gvk = \<lparr>Group = ''apps.example.com'', Version = ''v1'', Kind = ''App''\<rparr>"

definition demo_scheme :: "'c scheme" where
  "demo_scheme =
     \<lparr>GVKForObject = (\<lambda>ob. if Kind (GroupVersionKind ob) = [] then Inr demo_gvk
         else Inr (GroupVersionKind ob)),
      SchemeNew = (\<lambda>g. Inl (ErrorString ''no kind is registered'')),
      AllKnownTypes = []\<rparr>"

definition demo_client :: "('c, nat) client" where
  "demo_client =
     \<lparr>clientScheme = demo_scheme,
      clientGet = (\<lambda>k ob w. (None, ob, Suc w)),
      clientUpdate = (\<lambda>ob w. (None, ob, Suc w)),
      clientStatusUpdate = (\<lambda>ob w. (None, ob, Suc w)),
      clientApply = (\<lambda>opts ob w. (None, ob\<lparr>GetResourceVersion := ''42''\<rparr>, Suc w)),
      clientStatusApply = (\<lambda>opts ob w. (None, ob, Suc w)),
      clientDelete = (\<lambda>ob w. (None, ob, Suc w))\<rparr>"

definition demo_object :: "unit object" where
  "demo_object = (empty_object (TypedGo ''App'') zero_gvk ())
     \<lparr>GetName := ''app'', GetNamespace := ''prod'', GetUID := ''u-1'', GetGeneration := 3,
      GetStatus := Some \<lparr>ObservedGeneration = 0, Conditions = []\<rparr>\<rparr>"

end
