(* ===== verification/Resources_Meta.thy ===== *)
theory Resources_Meta
  imports K8s_Env
begin

text \<open>
  Labels and annotations (\<^verbatim>\<open>src/pkg/resources/meta.go\<close>). Every function accepts a nil object
  (\<open>None\<close>) and a nil map. The two families of functions are the same code over two maps, so their
  contract is one locale, \<open>meta_map\<close>, interpreted for labels and for annotations. The transform of
  \<^verbatim>\<open>src/pkg/cache/transform.go\<close> is here too.
\<close>

section \<open>Labels\<close>

definition HasLabel :: "'c object option \<Rightarrow> string \<Rightarrow> string list \<Rightarrow> bool" where
  "HasLabel obj k values =
     (case obj of None \<Rightarrow> False
      | Some ob \<Rightarrow>
          (case GetLabels ob of None \<Rightarrow> False
           | Some target \<Rightarrow>
               (case target k of None \<Rightarrow> False | Some val \<Rightarrow> List.member values val)))"

definition SetLabels :: "'c object option \<Rightarrow> (string, string) gomap \<Rightarrow> 'c object option" where
  "SetLabels obj values =
     (case obj of None \<Rightarrow> None
      | Some ob \<Rightarrow>
          (let target = (case GetLabels ob of None \<Rightarrow> Map.empty | Some m \<Rightarrow> m)
           in Some (ob\<lparr>GetLabels := Some (target ++ map_read values)\<rparr>)))"

definition SetLabel :: "'c object option \<Rightarrow> string \<Rightarrow> string \<Rightarrow> string \<times> 'c object option" where
  "SetLabel obj k v =
     (case obj of None \<Rightarrow> ([], None)
      | Some ob \<Rightarrow>
          (let target = (case GetLabels ob of None \<Rightarrow> Map.empty | Some m \<Rightarrow> m);
               old = map_index (Some target) k
           in (old, Some (ob\<lparr>GetLabels := Some (target(k \<mapsto> v))\<rparr>))))"

definition RemoveLabel :: "'c object option \<Rightarrow> string \<Rightarrow> 'c object option" where
  "RemoveLabel obj k =
     (case obj of None \<Rightarrow> None
      | Some ob \<Rightarrow>
          (case GetLabels ob of None \<Rightarrow> Some ob
           | Some target \<Rightarrow> Some (ob\<lparr>GetLabels := Some (target(k := None))\<rparr>)))"

definition GetLabel :: "'c object option \<Rightarrow> string \<Rightarrow> string" where
  "GetLabel obj k =
     (case obj of None \<Rightarrow> []
      | Some ob \<Rightarrow>
          (case GetLabels ob of None \<Rightarrow> [] | Some target \<Rightarrow> map_index (Some target) k))"

section \<open>Annotations\<close>

definition HasAnnotation :: "'c object option \<Rightarrow> string \<Rightarrow> string list \<Rightarrow> bool" where
  "HasAnnotation obj k values =
     (case obj of None \<Rightarrow> False
      | Some ob \<Rightarrow>
          (case GetAnnotations ob of None \<Rightarrow> False
           | Some target \<Rightarrow>
               (case target k of None \<Rightarrow> False | Some val \<Rightarrow> List.member values val)))"

definition SetAnnotations :: "'c object option \<Rightarrow> (string, string) gomap \<Rightarrow> 'c object option" where
  "SetAnnotations obj values =
     (case obj of None \<Rightarrow> None
      | Some ob \<Rightarrow>
          (let target = (case GetAnnotations ob of None \<Rightarrow> Map.empty | Some m \<Rightarrow> m)
           in Some (ob\<lparr>GetAnnotations := Some (target ++ map_read values)\<rparr>)))"

definition SetAnnotation :: "'c object option \<Rightarrow> string \<Rightarrow> string \<Rightarrow> string \<times> 'c object option" where
  "SetAnnotation obj k v =
     (case obj of None \<Rightarrow> ([], None)
      | Some ob \<Rightarrow>
          (let target = (case GetAnnotations ob of None \<Rightarrow> Map.empty | Some m \<Rightarrow> m);
               old = map_index (Some target) k
           in (old, Some (ob\<lparr>GetAnnotations := Some (target(k \<mapsto> v))\<rparr>))))"

definition RemoveAnnotation :: "'c object option \<Rightarrow> string \<Rightarrow> 'c object option" where
  "RemoveAnnotation obj k =
     (case obj of None \<Rightarrow> None
      | Some ob \<Rightarrow>
          (case GetAnnotations ob of None \<Rightarrow> Some ob
           | Some target \<Rightarrow> Some (ob\<lparr>GetAnnotations := Some (target(k := None))\<rparr>)))"

definition GetAnnotation :: "'c object option \<Rightarrow> string \<Rightarrow> string" where
  "GetAnnotation obj k =
     (case obj of None \<Rightarrow> []
      | Some ob \<Rightarrow>
          (case GetAnnotations ob of None \<Rightarrow> [] | Some target \<Rightarrow> map_index (Some target) k))"

section \<open>The cache transform\<close>

abbreviation AnnotationLastAppliedConfiguration :: string where
  "AnnotationLastAppliedConfiguration \<equiv> ''kubectl.kubernetes.io/last-applied-configuration''"

text \<open>
  The transform takes any value; \<open>Inl x\<close> is one that \<open>meta.Accessor\<close> rejects and passes through.
\<close>

definition StripUnusedFields :: "'x + 'c object \<Rightarrow> 'x + 'c object" where
  "StripUnusedFields obj =
     (case obj of Inl x \<Rightarrow> Inl x
      | Inr ob \<Rightarrow>
          (let ob = ob\<lparr>GetManagedFields := []\<rparr>
           in case GetAnnotations ob of None \<Rightarrow> Inr ob
              | Some annotations \<Rightarrow>
                  Inr (ob\<lparr>GetAnnotations := Some (annotations(AnnotationLastAppliedConfiguration := None))\<rparr>)))"

section \<open>The contract of a string map on an object\<close>

locale meta_map =
  fixes geti :: "'c object option \<Rightarrow> string \<Rightarrow> string"
    and seti :: "'c object option \<Rightarrow> string \<Rightarrow> string \<Rightarrow> string \<times> 'c object option"
    and setall :: "'c object option \<Rightarrow> (string, string) gomap \<Rightarrow> 'c object option"
    and removei :: "'c object option \<Rightarrow> string \<Rightarrow> 'c object option"
    and hasi :: "'c object option \<Rightarrow> string \<Rightarrow> string list \<Rightarrow> bool"
  assumes seti_old: "fst (seti obj k v) = geti obj k"
    and geti_seti: "geti (snd (seti (Some ob) k v)) k' = (if k' = k then v else geti (Some ob) k')"
    and geti_setall: "geti (setall (Some ob) m) k =
          (case map_read m k of None \<Rightarrow> geti (Some ob) k | Some v \<Rightarrow> v)"
    and geti_removei: "geti (removei obj k) k' = (if k' = k then [] else geti obj k')"
    and hasi_geti: "hasi obj k vs \<Longrightarrow> geti obj k \<in> set vs"
    and hasi_seti: "hasi (snd (seti (Some ob) k v)) k vs \<longleftrightarrow> v \<in> set vs"
    and hasi_removei: "\<not> hasi (removei obj k) k vs"
    and seti_nil: "snd (seti obj k v) = None \<longleftrightarrow> obj = None"
begin

lemma seti_Some:
  obtains ob' where "snd (seti (Some ob) k v) = Some ob'"
  using seti_nil [of "Some ob" k v] by blast

text \<open>Writing keys in sequence: the last write of a key wins, other keys keep their value.\<close>

lemma geti_fold_seti:
  "geti (fold (\<lambda>(k, v) obj. snd (seti obj k v)) kvs (Some ob)) k' =
     (case map_of (rev kvs) k' of None \<Rightarrow> geti (Some ob) k' | Some v \<Rightarrow> v)"
proof (induction kvs arbitrary: ob)
  case Nil
  show ?case by simp
next
  case (Cons kv kvs)
  obtain k v where kv: "kv = (k, v)" by (cases kv)
  obtain ob' where ob': "snd (seti (Some ob) k v) = Some ob'" by (rule seti_Some)
  have "geti (Some ob') k' = (if k' = k then v else geti (Some ob) k')"
    using geti_seti [of ob k v k'] ob' by simp
  with Cons.IH [of ob'] show ?case
    by (simp add: kv ob' map_add_def split: option.splits)
qed

lemma seti_removei_restore: "geti (removei (snd (seti (Some ob) k v)) k) k' =
    (if k' = k then [] else geti (Some ob) k')"
  by (simp add: geti_removei geti_seti)

end

lemmas label_defs = HasLabel_def SetLabels_def SetLabel_def RemoveLabel_def GetLabel_def
lemmas annotation_defs =
  HasAnnotation_def SetAnnotations_def SetAnnotation_def RemoveAnnotation_def GetAnnotation_def

interpretation label_map: meta_map GetLabel SetLabel SetLabels RemoveLabel HasLabel
  by unfold_locales
    (auto simp: label_defs Let_def map_index_def map_add_def split: option.splits if_splits)

interpretation annotation_map:
    meta_map GetAnnotation SetAnnotation SetAnnotations RemoveAnnotation HasAnnotation
  by unfold_locales
    (auto simp: annotation_defs Let_def map_index_def map_add_def split: option.splits if_splits)

text \<open>Only the map that is written changes.\<close>

lemma SetLabel_Some:
  "snd (SetLabel (Some ob) k v) = Some (ob\<lparr>GetLabels := Some ((map_read (GetLabels ob))(k \<mapsto> v))\<rparr>)"
  by (simp add: SetLabel_def Let_def map_read_def split: option.splits)

lemma SetAnnotation_Some:
  "snd (SetAnnotation (Some ob) k v) =
     Some (ob\<lparr>GetAnnotations := Some ((map_read (GetAnnotations ob))(k \<mapsto> v))\<rparr>)"
  by (simp add: SetAnnotation_def Let_def map_read_def split: option.splits)

lemma GetLabel_Some: "GetLabel (Some ob) k = map_index (GetLabels ob) k"
  by (simp add: GetLabel_def map_index_def split: option.splits)

lemma GetAnnotation_Some: "GetAnnotation (Some ob) k = map_index (GetAnnotations ob) k"
  by (simp add: GetAnnotation_def map_index_def split: option.splits)

lemma StripUnusedFields_Inr:
  "StripUnusedFields (Inr ob) = Inr ob' \<Longrightarrow>
     GetManagedFields ob' = [] \<and>
     map_read (GetAnnotations ob') AnnotationLastAppliedConfiguration = None \<and>
     (\<forall>k. k \<noteq> AnnotationLastAppliedConfiguration \<longrightarrow>
        map_read (GetAnnotations ob') k = map_read (GetAnnotations ob) k) \<and>
     GetLabels ob' = GetLabels ob \<and> content ob' = content ob"
  by (auto simp: StripUnusedFields_def Let_def split: option.splits)

end
