(* ===== verification/Resources_Util.thy ===== *)
theory Resources_Util
  imports Resources_Meta
begin

text \<open>
  Group-version-kinds of objects, conversion to and from the unstructured form, partial metadata
  and references (\<^verbatim>\<open>src/pkg/resources/util.go\<close>, \<^verbatim>\<open>deepcopy.go\<close>, \<^verbatim>\<open>crd.go\<close>), and server-side apply
  (\<^verbatim>\<open>apply.go\<close>). A function that writes through the pointer it is given returns the object it
  leaves there beside its result, on the error paths too.
\<close>

section \<open>Group, version and kind\<close>

definition GetGroupVersionKindForObject :: "'c scheme \<Rightarrow> 'c object option \<Rightarrow> error + gvk" where
  "GetGroupVersionKindForObject s obj =
     (case obj of None \<Rightarrow> Inl (ErrorString ''nil object'')
      | Some ob \<Rightarrow>
          if Version (GroupVersionKind ob) \<noteq> [] \<and> Kind (GroupVersionKind ob) \<noteq> []
          then Inr (GroupVersionKind ob)
          else (case GVKForObject s ob of
                  Inl err \<Rightarrow> Inl (WrapError ''failed to get GVK'' err)
                | Inr g \<Rightarrow> Inr g))"

definition EnsureGroupVersionKind :: "'c scheme \<Rightarrow> 'c object \<Rightarrow> error option \<times> 'c object" where
  "EnsureGroupVersionKind s ob =
     (case GetGroupVersionKindForObject s (Some ob) of
        Inl err \<Rightarrow> (Some err, ob)
      | Inr g \<Rightarrow> (None, ob\<lparr>GroupVersionKind := g\<rparr>))"

definition GvkToUnstructured :: "gvk \<Rightarrow> 'c \<Rightarrow> 'c object" where
  "GvkToUnstructured g c = empty_object UnstructuredType g c"

definition FormatObjectReference :: "schema_api \<Rightarrow> 'c object \<Rightarrow> string" where
  "FormatObjectReference S u =
     (let g = GVKString S (GroupVersionKind u); name = GetName u; ns = GetNamespace u
      in if ns \<noteq> [] then g @ '' '' @ ns @ ''/'' @ name else g @ '' '' @ name)"

definition NamespacedNameFromObject :: "'c object \<Rightarrow> NamespacedName" where
  "NamespacedNameFromObject obj = \<lparr>nnNamespace = GetNamespace obj, nnName = GetName obj\<rparr>"

definition FormatNamespacedName :: "NamespacedName \<Rightarrow> string" where
  "FormatNamespacedName nn =
     (if nnNamespace nn = [] then nnName nn else nnNamespace nn @ ''/'' @ nnName nn)"

section \<open>Conversion\<close>

text \<open>\<open>ToUnstructured\<close> on a \<open>client.Object\<close> (\<open>None\<close> is nil); the second component is the input object
  afterwards, whose type meta is filled in.\<close>

definition ToUnstructured ::
    "'c env \<Rightarrow> 'c scheme \<Rightarrow> 'c object option \<Rightarrow> (error + 'c object) \<times> 'c object option" where
  "ToUnstructured E s inp =
     (case inp of None \<Rightarrow> (Inl (ErrorString ''nil object''), None)
      | Some ob \<Rightarrow>
          (case EnsureGroupVersionKind s ob of
             (Some err, ob) \<Rightarrow> (Inl (WrapError ''failed to ensure GroupVersionKind'' err), Some ob)
           | (None, ob) \<Rightarrow>
               (case ToUnstructuredConv E ob of
                  Inl err \<Rightarrow> (Inl (WrapError ''unable to convert object to unstructured'' err), Some ob)
                | Inr u \<Rightarrow>
                    (case EnsureGroupVersionKind s u of
                       (Some err, u) \<Rightarrow>
                         (Inl (WrapError ''failed to ensure GroupVersionKind'' err), Some ob)
                     | (None, u) \<Rightarrow> (Inr u, Some ob)))))"

definition FromUnstructured ::
    "'c env \<Rightarrow> 'c scheme \<Rightarrow> 'c object option \<Rightarrow> 'c object \<Rightarrow> error option \<times> 'c object" where
  "FromUnstructured E s inObj intoObj =
     (case inObj of None \<Rightarrow> (Some (ErrorString ''nil object''), intoObj)
      | Some u \<Rightarrow>
          (let inG = GetGroupVersionKindForObject s (Some u);
               intoG = GetGroupVersionKindForObject s (Some intoObj);
               incompatible = (case (inG, intoG) of (Inr g, Inr h) \<Rightarrow> g \<noteq> h | _ \<Rightarrow> False)
           in if incompatible
              then (Some (ErrorString (''incompatible types: cannot convert '' @
                      (case inG of Inr g \<Rightarrow> GVKString (envSchema E) g | Inl _ \<Rightarrow> []) @ '' to '' @
                      (case intoG of Inr g \<Rightarrow> GVKString (envSchema E) g | Inl _ \<Rightarrow> []))), intoObj)
              else (case FromUnstructuredConv E u intoObj of
                      (Some err, intoObj) \<Rightarrow>
                        (Some (WrapError ''unable to convert unstructured object'' err), intoObj)
                    | (None, intoObj) \<Rightarrow> (None, intoObj))))"

definition IsPartialObjectMetadata :: "'c object option \<Rightarrow> bool" where
  "IsPartialObjectMetadata obj =
     (case obj of None \<Rightarrow> False | Some ob \<Rightarrow> goType ob = PartialMetadataType)"

text \<open>
  The partial copy carries the metadata and an empty content \<open>c0\<close>; copies of maps and slices are
  fresh, which values are by nature. The second component is the input object afterwards.
\<close>

definition ToPartialObjectMetadata ::
    "'c scheme \<Rightarrow> 'c \<Rightarrow> 'c object option \<Rightarrow> (error + 'c object) \<times> 'c object option" where
  "ToPartialObjectMetadata s c0 obj =
     (case obj of None \<Rightarrow> (Inl (ErrorString ''nil object''), None)
      | Some ob \<Rightarrow>
          if goType ob = PartialMetadataType then (Inr ob, Some ob)
          else (case EnsureGroupVersionKind s ob of
                  (Some err, ob) \<Rightarrow> (Inl (WrapError ''failed to ensure GroupVersionKind'' err), Some ob)
                | (None, ob) \<Rightarrow>
                    (Inr \<lparr>goType = PartialMetadataType, GroupVersionKind = GroupVersionKind ob,
                          GetName = GetName ob, GetNamespace = GetNamespace ob, GetUID = GetUID ob,
                          GetResourceVersion = GetResourceVersion ob,
                          GetGeneration = GetGeneration ob,
                          GetCreationTimestamp = GetCreationTimestamp ob,
                          GetDeletionTimestamp = GetDeletionTimestamp ob,
                          GetDeletionGracePeriodSeconds = GetDeletionGracePeriodSeconds ob,
                          GetLabels = GetLabels ob, GetAnnotations = GetAnnotations ob,
                          GetOwnerReferences = GetOwnerReferences ob,
                          GetFinalizers = GetFinalizers ob, GetManagedFields = GetManagedFields ob,
                          GetStatus = None, content = c0\<rparr>, Some ob)))"

text \<open>\<open>DeepCopySlice\<close> copies element by element with the element type's \<open>DeepCopy\<close>; \<open>None\<close> is a nil slice.\<close>

definition DeepCopySlice :: "('a \<Rightarrow> 'a) \<Rightarrow> 'a list option \<Rightarrow> 'a list option" where
  "DeepCopySlice deepCopy slice = (case slice of None \<Rightarrow> None | Some xs \<Rightarrow> Some (map deepCopy xs))"

text \<open>
  \<open>ConvertList[T]\<close>: \<open>isT\<close> is the type assertion to \<open>T\<close>, \<open>newT\<close> the reflective \<open>new\<close> with its
  assertion, \<open>convert\<close> the call \<open>scheme.Convert\<close>.
\<close>

fun ConvertList ::
    "schema_api \<Rightarrow> ('c object \<Rightarrow> bool) \<Rightarrow> 'c object option \<Rightarrow>
     ('c object \<Rightarrow> 'c object \<Rightarrow> error + 'c object) \<Rightarrow> 'c object list \<Rightarrow> error + 'c object list" where
  "ConvertList S isT newT convert [] = Inr []"
| "ConvertList S isT newT convert (u # us) =
     (if isT u
      then (case ConvertList S isT newT convert us of Inl e \<Rightarrow> Inl e | Inr rest \<Rightarrow> Inr (u # rest))
      else (case newT of
              None \<Rightarrow> Inl (ErrorString (''cannot convert to target type for '' @ FormatObjectReference S u))
            | Some out \<Rightarrow>
                (case convert u out of
                   Inl err \<Rightarrow> Inl (WrapError (''converting '' @ FormatObjectReference S u) err)
                 | Inr out \<Rightarrow>
                     (case ConvertList S isT newT convert us of
                        Inl e \<Rightarrow> Inl e | Inr rest \<Rightarrow> Inr (out # rest)))))"

section \<open>The GVK a CRD defines\<close>

text \<open>The JSON tree of an unstructured object and the readers of package \<open>unstructured\<close>.\<close>

datatype json = JMap "(string \<times> json) list" | JList "json list" | JString string | JBool bool | JOther string

record nested_api =
  NestedString :: "json \<Rightarrow> string list \<Rightarrow> string \<times> bool \<times> error option"
  NestedBool :: "json \<Rightarrow> string list \<Rightarrow> bool \<times> bool \<times> error option"
  NestedSlice :: "json \<Rightarrow> string list \<Rightarrow> json list \<times> bool \<times> error option"
  CrdName :: "json \<Rightarrow> string"

fun first_served :: "nested_api \<Rightarrow> string \<Rightarrow> string \<Rightarrow> json list \<Rightarrow> gvk option" where
  "first_served N grp kind [] = None"
| "first_served N grp kind (v # vs) =
     (case v of
        JMap m \<Rightarrow>
          (let served = fst (NestedBool N v [''served'']);
               name = fst (NestedString N v [''name''])
           in if served \<and> name \<noteq> [] then Some \<lparr>Group = grp, Version = name, Kind = kind\<rparr>
              else first_served N grp kind vs)
      | _ \<Rightarrow> first_served N grp kind vs)"

definition GVKFromCRD :: "nested_api \<Rightarrow> json \<Rightarrow> error + gvk" where
  "GVKFromCRD N crd =
     (case NestedString N crd [''spec'', ''group''] of
        (grp, found, Some err) \<Rightarrow> Inl (WrapError ''reading CRD spec.group'' err)
      | (grp, found, None) \<Rightarrow>
        if \<not> found \<or> grp = [] then Inl (ErrorString (''CRD '' @ CrdName N crd @ '' missing spec.group''))
        else
        (case NestedString N crd [''spec'', ''names'', ''kind''] of
           (kind, found, Some err) \<Rightarrow> Inl (WrapError ''reading CRD spec.names.kind'' err)
         | (kind, found, None) \<Rightarrow>
           if \<not> found \<or> kind = []
           then Inl (ErrorString (''CRD '' @ CrdName N crd @ '' missing spec.names.kind''))
           else
           (case NestedSlice N crd [''spec'', ''versions''] of
              (versions, found, Some err) \<Rightarrow> Inl (WrapError ''reading CRD spec.versions'' err)
            | (versions, found, None) \<Rightarrow>
              if \<not> found then Inl (ErrorString (''CRD '' @ CrdName N crd @ '' missing spec.versions''))
              else
              (case first_served N grp kind versions of
                 Some g \<Rightarrow> Inr g
               | None \<Rightarrow> Inl (ErrorString (''CRD '' @ CrdName N crd @ '' has no served version''))))))"

section \<open>Server-side apply\<close>

definition resources_Apply ::
    "'c env \<Rightarrow> ('c, 'w) client \<Rightarrow> ApplyOption list \<Rightarrow> ('c, 'w) object_call" where
  "resources_Apply E cli opts inp w =
     (case ToUnstructured E (clientScheme cli) (Some inp) of
        (Inl err, in') \<Rightarrow>
          (Some (WrapError ''failed to convert resource to unstructured'' err),
           (case in' of None \<Rightarrow> inp | Some ob \<Rightarrow> ob), w)
      | (Inr u, in') \<Rightarrow>
          (let inp = (case in' of None \<Rightarrow> inp | Some ob \<Rightarrow> ob);
               u = RemoveNestedField E u [''metadata'', ''managedFields''];
               u = RemoveNestedField E u [''metadata'', ''resourceVersion''];
               u = RemoveNestedField E u [''status'']
           in case clientApply cli opts u w of
                (Some err, u, w) \<Rightarrow>
                  (Some (WrapError (''unable to apply '' @ FormatObjectReference (envSchema E) u) err), inp, w)
              | (None, u, w) \<Rightarrow>
                  (case FromUnstructured E (clientScheme cli) (Some u) inp of
                     (Some err, inp) \<Rightarrow> (Some (WrapError ''failed to write modified object'' err), inp, w)
                   | (None, inp) \<Rightarrow> (None, inp, w))))"

definition resources_ApplyStatus ::
    "'c env \<Rightarrow> ('c, 'w) client \<Rightarrow> ApplyOption list \<Rightarrow> ('c, 'w) object_call" where
  "resources_ApplyStatus E cli opts inp w =
     (case ToUnstructured E (clientScheme cli) (Some inp) of
        (Inl err, in') \<Rightarrow>
          (Some (WrapError ''failed to convert resource to unstructured'' err),
           (case in' of None \<Rightarrow> inp | Some ob \<Rightarrow> ob), w)
      | (Inr u, in') \<Rightarrow>
          (let inp = (case in' of None \<Rightarrow> inp | Some ob \<Rightarrow> ob);
               u = RemoveNestedField E u [''metadata'', ''managedFields''];
               u = RemoveNestedField E u [''metadata'', ''resourceVersion'']
           in case clientStatusApply cli opts u w of
                (err, u, w) \<Rightarrow>
                  if IsNotFound E err then (None, inp, w)
                  else (case err of
                     Some e \<Rightarrow> (Some (WrapError (''unable to apply '' @
                        FormatObjectReference (envSchema E) u @ '' status'') e), inp, w)
                   | None \<Rightarrow>
                     (case FromUnstructured E (clientScheme cli) (Some u) inp of
                        (Some e, inp) \<Rightarrow> (Some (WrapError ''failed to write modified object'' e), inp, w)
                      | (None, inp) \<Rightarrow> (None, inp, w)))))"

section \<open>Lemmas\<close>

lemma GetGroupVersionKindForObject_idem:
  assumes "GetGroupVersionKindForObject s (Some ob) = Inr g" and "Version g \<noteq> []" and "Kind g \<noteq> []"
  shows "GetGroupVersionKindForObject s (Some (ob\<lparr>GroupVersionKind := g\<rparr>)) = Inr g"
  using assms by (simp add: GetGroupVersionKindForObject_def)

lemma EnsureGroupVersionKind_frame:
  "EnsureGroupVersionKind s ob = (r, ob') \<Longrightarrow> \<exists>g. ob' = ob\<lparr>GroupVersionKind := g\<rparr>"
  by (auto simp: EnsureGroupVersionKind_def split: sum.splits intro: exI [of _ "GroupVersionKind ob"])

lemma EnsureGroupVersionKind_error:
  "EnsureGroupVersionKind s ob = (Some e, ob') \<Longrightarrow> ob' = ob"
  by (auto simp: EnsureGroupVersionKind_def split: sum.splits)

lemma first_served_SomeD:
  "first_served N grp kind vs = Some g \<Longrightarrow>
     Group g = grp \<and> Kind g = kind \<and> Version g \<noteq> [] \<and>
     (\<exists>us v ws. vs = us @ v # ws \<and> fst (NestedBool N v [''served'']) \<and>
        Version g = fst (NestedString N v [''name'']) \<and> first_served N grp kind us = None)"
proof (induction vs)
  case (Cons v vs)
  show ?case
  proof (cases "first_served N grp kind [v]")
    case (Some h)
    with Cons.prems have "h = g" by (auto simp: Let_def split: json.splits if_splits)
    with Some have "Group g = grp \<and> Kind g = kind \<and> Version g \<noteq> [] \<and>
        fst (NestedBool N v [''served'']) \<and> Version g = fst (NestedString N v [''name''])"
      by (auto simp: Let_def split: json.splits if_splits)
    moreover have "v # vs = [] @ v # vs" "first_served N grp kind [] = None" by simp_all
    ultimately show ?thesis by blast
  next
    case None
    then have step: "first_served N grp kind (v # us) = first_served N grp kind us" for us
      by (auto simp: Let_def split: json.splits if_splits)
    with Cons.prems have "first_served N grp kind vs = Some g" by simp
    with Cons.IH obtain us x ws where IH: "Group g = grp" "Kind g = kind" "Version g \<noteq> []"
        "vs = us @ x # ws" "fst (NestedBool N x [''served''])"
        "Version g = fst (NestedString N x [''name''])" "first_served N grp kind us = None"
      by blast
    moreover have "v # vs = (v # us) @ x # ws" using IH(4) by simp
    moreover have "first_served N grp kind (v # us) = None" using IH(7) step by simp
    ultimately show ?thesis by blast
  qed
qed simp

lemma GVKFromCRD_InrD:
  assumes "GVKFromCRD N crd = Inr g"
  shows "Group g \<noteq> [] \<and> Version g \<noteq> [] \<and> Kind g \<noteq> [] \<and>
     Group g = fst (NestedString N crd [''spec'', ''group'']) \<and>
     Kind g = fst (NestedString N crd [''spec'', ''names'', ''kind'']) \<and>
     (\<exists>us v ws. fst (NestedSlice N crd [''spec'', ''versions'']) = us @ v # ws \<and>
        fst (NestedBool N v [''served'']) \<and> Version g = fst (NestedString N v [''name'']) \<and>
        first_served N (Group g) (Kind g) us = None)"
proof -
  from assms obtain grp kind versions where
      eqs: "NestedString N crd [''spec'', ''group''] = (grp, True, None)"
        "NestedString N crd [''spec'', ''names'', ''kind''] = (kind, True, None)"
        "NestedSlice N crd [''spec'', ''versions''] = (versions, True, None)"
      and ne: "grp \<noteq> []" "kind \<noteq> []"
      and fs: "first_served N grp kind versions = Some g"
    by (auto simp: GVKFromCRD_def split: prod.splits option.splits if_splits)
  from first_served_SomeD [OF fs] ne eqs show ?thesis by auto
qed

text \<open>The object \<open>Apply\<close> sends to the API server, and what it leaves in the caller's object.\<close>

definition apply_payload :: "gvk \<Rightarrow> 'c object \<Rightarrow> 'c object" where
  "apply_payload g ob = ob\<lparr>goType := UnstructuredType, GroupVersionKind := g,
     GetManagedFields := [], GetResourceVersion := [], GetStatus := None\<rparr>"

lemma ToUnstructured_resolved:
  assumes "converts_to E (ob\<lparr>GroupVersionKind := g\<rparr>)" and "GetGroupVersionKindForObject s (Some ob) = Inr g"
    and "Version g \<noteq> []" and "Kind g \<noteq> []"
  shows "ToUnstructured E s (Some ob) =
     (Inr (ob\<lparr>goType := UnstructuredType, GroupVersionKind := g\<rparr>), Some (ob\<lparr>GroupVersionKind := g\<rparr>))"
  using assms
  by (simp add: ToUnstructured_def EnsureGroupVersionKind_def converts_to_def
      GetGroupVersionKindForObject_def)

lemma FromUnstructured_same_gvk:
  assumes "converts_from E u into" and "GroupVersionKind u = g" and "GroupVersionKind into = g"
    and "Version g \<noteq> []" and "Kind g \<noteq> []"
  shows "FromUnstructured E s (Some u) into = (None, u\<lparr>goType := goType into\<rparr>)"
  using assms by (simp add: FromUnstructured_def converts_from_def GetGroupVersionKindForObject_def)

lemma resources_Apply_success:
  assumes "converts_to E (ob\<lparr>GroupVersionKind := g\<rparr>)" "converts_from E u (ob\<lparr>GroupVersionKind := g\<rparr>)" "remove_field_ok E"
    and "GetGroupVersionKindForObject (clientScheme cli) (Some ob) = Inr g" "Version g \<noteq> []" "Kind g \<noteq> []"
    and "clientApply cli opts (apply_payload g ob) w = (None, u, w')" and "GroupVersionKind u = g"
  shows "resources_Apply E cli opts ob w = (None, u\<lparr>goType := goType ob\<rparr>, w')"
proof -
  have "FromUnstructured E (clientScheme cli) (Some u) (ob\<lparr>GroupVersionKind := g\<rparr>)
          = (None, u\<lparr>goType := goType ob\<rparr>)"
    using assms by (simp add: FromUnstructured_same_gvk)
  with assms show ?thesis
    by (simp add: resources_Apply_def ToUnstructured_resolved remove_field_ok_def apply_payload_def)
qed

lemma resources_Apply_server_error:
  assumes "converts_to E (ob\<lparr>GroupVersionKind := g\<rparr>)" "remove_field_ok E"
    and "GetGroupVersionKindForObject (clientScheme cli) (Some ob) = Inr g" "Version g \<noteq> []" "Kind g \<noteq> []"
    and "clientApply cli opts (apply_payload g ob) w = (Some err, u, w')"
  shows "resources_Apply E cli opts ob w =
     (Some (WrapError (''unable to apply '' @ FormatObjectReference (envSchema E) u) err),
      ob\<lparr>GroupVersionKind := g\<rparr>, w')"
  using assms
  by (simp add: resources_Apply_def ToUnstructured_resolved remove_field_ok_def apply_payload_def)

text \<open>An object whose GVK cannot be resolved is never sent.\<close>

lemma resources_Apply_unresolved:
  assumes "GetGroupVersionKindForObject (clientScheme cli) (Some ob) = Inl err"
  shows "\<exists>e. resources_Apply E cli opts ob w = (Some e, ob, w)"
  using assms by (simp add: resources_Apply_def ToUnstructured_def EnsureGroupVersionKind_def)

end
