(* ===== verification/Reconciler.thy ===== *)
theory Reconciler
  imports Resources_Util
begin

text \<open>
  The package \<open>reconciler\<close>: the request and response actions work with, the controller name carried
  by the context, the conversion of typed actions, and the adapter that turns a typed reconciler
  into a controller-runtime one. Objects are pointers: \<open>ref\<close> addresses of a heap that actions,
  hooks and the client change in place, so an object added twice to a response is one object. The
  functions a user passes in (actions, cleanups, hooks) return here; one that panics, which makes
  \<open>Reconcile\<close> panic in Go, is outside the model.
\<close>

section \<open>State\<close>

type_synonym ref = nat

record ('c, 'w) pstate =
  heap :: "ref \<Rightarrow> 'c object"
  nextRef :: ref
  world :: 'w

abbreviation deref :: "('c, 'w) pstate \<Rightarrow> ref \<Rightarrow> 'c object" where
  "deref s r \<equiv> heap s r"

definition store :: "ref \<Rightarrow> 'c object \<Rightarrow> ('c, 'w) pstate \<Rightarrow> ('c, 'w) pstate" where
  "store r ob s = s\<lparr>heap := (heap s)(r := ob)\<rparr>"

definition alloc :: "'c object \<Rightarrow> ('c, 'w) pstate \<Rightarrow> ref \<times> ('c, 'w) pstate" where
  "alloc ob s = (nextRef s, s\<lparr>heap := (heap s)(nextRef s := ob), nextRef := Suc (nextRef s)\<rparr>)"

text \<open>A call of the client on the object behind a pointer.\<close>

definition on_object :: "('c, 'w) object_call \<Rightarrow> ref \<Rightarrow> ('c, 'w) pstate \<Rightarrow> error option \<times> ('c, 'w) pstate" where
  "on_object f r s =
     (case f (deref s r) (world s) of (err, ob, w) \<Rightarrow> (err, (store r ob s)\<lparr>world := w\<rparr>))"

lemma store_simps [simp]:
  "heap (store r ob s) = (heap s)(r := ob)"
  "world (store r ob s) = world s"
  "nextRef (store r ob s) = nextRef s"
  by (simp_all add: store_def)

lemma on_object_snd [simp]:
  "heap (snd (on_object f r s)) = (heap s)(r := fst (snd (f (deref s r) (world s))))"
  "world (snd (on_object f r s)) = snd (snd (f (deref s r) (world s)))"
  "fst (on_object f r s) = fst (f (deref s r) (world s))"
  by (simp_all add: on_object_def split: prod.splits)

section \<open>Context\<close>

text \<open>The context's value for the private key \<open>controllerNameKey\<close>; a nil context is \<open>None\<close>.\<close>

record goctx =
  ctxControllerName :: "string option"

definition WithControllerName :: "goctx \<Rightarrow> string \<Rightarrow> goctx" where
  "WithControllerName ctx name = ctx\<lparr>ctxControllerName := Some name\<rparr>"

definition ControllerNameFromContext :: "goctx option \<Rightarrow> string \<times> bool" where
  "ControllerNameFromContext ctx =
     (case ctx of None \<Rightarrow> ([], False)
      | Some c \<Rightarrow> (case ctxControllerName c of None \<Rightarrow> ([], False) | Some name \<Rightarrow> (name, True)))"

section \<open>Request and response\<close>

record ('c, 'w) Request =
  reqClient :: "('c, 'w) client"
  reqObject :: ref

text \<open>\<open>Ownership\<close> of \<open>ObjectOptions\<close> is a pointer: nil means the pipeline's default.\<close>

record ObjectOptions =
  objOwnership :: "bool option"

definition reconciler_WithOwnership :: "bool \<Rightarrow> ObjectOptions \<Rightarrow> ObjectOptions" where
  [opt_defs]: "reconciler_WithOwnership enabled opts = opts\<lparr>objOwnership := Some enabled\<rparr>"

record objectEntry =
  entryObj :: ref
  entryOpts :: ObjectOptions

record Response =
  respEntries :: "objectEntry list"
  requeueAfter :: int

definition NewResponse :: Response where
  "NewResponse = \<lparr>respEntries = [], requeueAfter = 0\<rparr>"

fun Response_Objects :: "ref list \<Rightarrow> Response \<Rightarrow> Response" where
  "Response_Objects [] r = r"
| "Response_Objects (ob # objs) r =
     Response_Objects objs
       (r\<lparr>respEntries := respEntries r @ [\<lparr>entryObj = ob, entryOpts = \<lparr>objOwnership = None\<rparr>\<rparr>]\<rparr>)"

definition Response_Object :: "ref \<Rightarrow> (ObjectOptions \<Rightarrow> ObjectOptions) list \<Rightarrow> Response \<Rightarrow> Response" where
  "Response_Object ob opts r =
     r\<lparr>respEntries := respEntries r @
        [\<lparr>entryObj = ob, entryOpts = apply_options opts \<lparr>objOwnership = None\<rparr>\<rparr>]\<rparr>"

definition Response_Requeue :: "int \<Rightarrow> Response \<Rightarrow> Response" where
  "Response_Requeue duration r = r\<lparr>requeueAfter := duration\<rparr>"

definition GetObjects :: "Response \<Rightarrow> ref list" where
  "GetObjects r = map entryObj (respEntries r)"

definition GetEntries :: "Response \<Rightarrow> objectEntry list" where
  "GetEntries r = map (\<lambda>e. \<lparr>entryObj = entryObj e, entryOpts = entryOpts e\<rparr>) (respEntries r)"

definition ShouldRequeue :: "Response \<Rightarrow> int" where
  "ShouldRequeue r = requeueAfter r"

lemma GetEntries_eq [simp]: "GetEntries r = respEntries r"
  by (simp add: GetEntries_def map_idI)

lemma Response_Objects_entries:
  "respEntries (Response_Objects objs r) =
     respEntries r @ map (\<lambda>ob. \<lparr>entryObj = ob, entryOpts = \<lparr>objOwnership = None\<rparr>\<rparr>) objs"
  by (induction objs r rule: Response_Objects.induct) simp_all

lemma GetObjects_Objects: "GetObjects (Response_Objects objs r) = GetObjects r @ objs"
  by (simp add: GetObjects_def Response_Objects_entries comp_def)

section \<open>Actions\<close>

type_synonym ('c, 'w) ActionFunc =
  "goctx option \<Rightarrow> ('c, 'w) Request \<Rightarrow> Response \<Rightarrow> ('c, 'w) pstate \<Rightarrow>
     error option \<times> Response \<times> ('c, 'w) pstate"

type_synonym ('c, 'w) CleanupFunc =
  "goctx option \<Rightarrow> ('c, 'w) Request \<Rightarrow> ('c, 'w) pstate \<Rightarrow> error option \<times> ('c, 'w) pstate"

type_synonym ('c, 'w) ApplyHookFunc =
  "goctx option \<Rightarrow> ref \<Rightarrow> ref list \<Rightarrow> ('c, 'w) pstate \<Rightarrow> error option \<times> ('c, 'w) pstate"

fun go_type_name :: "go_type \<Rightarrow> string" where
  "go_type_name UnstructuredType = ''*unstructured.Unstructured''"
| "go_type_name PartialMetadataType = ''*v1.PartialObjectMetadata''"
| "go_type_name (TypedGo t) = ''*'' @ t"

definition assertion_error :: "go_type \<Rightarrow> go_type \<Rightarrow> error" where
  "assertion_error expected got =
     ErrorString (''type assertion failed: expected '' @ go_type_name expected @ '', got '' @ go_type_name got)"

text \<open>A typed action converted for type \<open>T\<close>: the type assertion on the request's object first.\<close>

definition ToActionFunc :: "go_type \<Rightarrow> ('c, 'w) ActionFunc \<Rightarrow> ('c, 'w) ActionFunc" where
  "ToActionFunc T typedAction ctx req resp s =
     (if goType (deref s (reqObject req)) \<noteq> T
      then (Some (assertion_error T (goType (deref s (reqObject req)))), resp, s)
      else typedAction ctx \<lparr>reqClient = reqClient req, reqObject = reqObject req\<rparr> resp s)"

definition ToCleanupFunc :: "go_type \<Rightarrow> ('c, 'w) CleanupFunc \<Rightarrow> ('c, 'w) CleanupFunc" where
  "ToCleanupFunc T typedCleanup ctx req s =
     (if goType (deref s (reqObject req)) \<noteq> T
      then (Some (assertion_error T (goType (deref s (reqObject req)))), s)
      else typedCleanup ctx \<lparr>reqClient = reqClient req, reqObject = reqObject req\<rparr> s)"

section \<open>The adapter\<close>

record Result =
  resRequeue :: bool
  resRequeueAfter :: int

definition zero_Result :: Result where
  "zero_Result = \<lparr>resRequeue = False, resRequeueAfter = 0\<rparr>"

text \<open>A typed reconciler returns a response pointer (\<open>None\<close> is nil) and an error.\<close>

type_synonym ('c, 'w) TypedReconciler =
  "goctx option \<Rightarrow> ('c, 'w) Request \<Rightarrow> ('c, 'w) pstate \<Rightarrow>
     (Response option \<times> error option) outcome \<times> ('c, 'w) pstate"

definition reconciler_Wrap :: "('c, 'w) TypedReconciler \<Rightarrow> ('c, 'w) TypedReconciler" where
  "reconciler_Wrap fn = fn"

record ('c, 'w) typedReconcilerAdapter =
  adClient :: "('c, 'w) client"
  adControllerName :: string
  adReconciler :: "('c, 'w) TypedReconciler"

definition AsReconciler ::
    "('c, 'w) client \<Rightarrow> string \<Rightarrow> ('c, 'w) TypedReconciler \<Rightarrow> ('c, 'w) typedReconcilerAdapter" where
  "AsReconciler c controllerName typedReconciler =
     \<lparr>adClient = c, adControllerName = controllerName, adReconciler = typedReconciler\<rparr>"

definition ResultFromResponse :: "Response \<Rightarrow> Result" where
  "ResultFromResponse resp =
     (if ShouldRequeue resp > 0 then zero_Result\<lparr>resRequeueAfter := ShouldRequeue resp\<rparr>
      else zero_Result)"

text \<open>Durations are nanoseconds: one second.\<close>

abbreviation go_second :: int where "go_second \<equiv> 1000000000"

definition ResponseFromResult :: "Result \<Rightarrow> Response" where
  "ResponseFromResult result =
     (if resRequeueAfter result > 0 then Response_Requeue (resRequeueAfter result) NewResponse
      else if resRequeue result then Response_Requeue go_second NewResponse
      else NewResponse)"

text \<open>
  \<open>typedReconcilerAdapter.Reconcile\<close>: \<open>zero\<close> is the zero value of \<open>T\<close> that \<open>reflect.New\<close> allocates.
  A nil response without an error makes \<open>resp.ShouldRequeue()\<close> dereference nil.
\<close>

definition adapter_Reconcile ::
    "'c object \<Rightarrow> ('c, 'w) typedReconcilerAdapter \<Rightarrow> goctx \<Rightarrow> request \<Rightarrow> ('c, 'w) pstate \<Rightarrow>
     (Result \<times> error option) outcome \<times> ('c, 'w) pstate" where
  "adapter_Reconcile zero a ctx req s =
     (let ctx = WithControllerName ctx (adControllerName a);
          (obj, s) = alloc zero s
      in case on_object (clientGet (adClient a) req) obj s of
           (Some err, s) \<Rightarrow> (Ret (zero_Result, Some (WrapError ''failed to get object'' err)), s)
         | (None, s) \<Rightarrow>
             (case adReconciler a (Some ctx) \<lparr>reqClient = adClient a, reqObject = obj\<rparr> s of
                (Panic m, s) \<Rightarrow> (Panic m, s)
              | (Ret (resp, Some err), s) \<Rightarrow>
                  (Ret (zero_Result, Some (WrapError ''reconciler failed'' err)), s)
              | (Ret (None, None), s) \<Rightarrow>
                  (Panic ''invalid memory address or nil pointer dereference'', s)
              | (Ret (Some resp, None), s) \<Rightarrow>
                  (let result = zero_Result;
                       requeueAfter = ShouldRequeue resp;
                       result = (if requeueAfter > 0 then result\<lparr>resRequeueAfter := requeueAfter\<rparr> else result)
                   in (Ret (result, None), s))))"

section \<open>Lemmas\<close>

lemma ResultFromResponse_ResponseFromResult:
  "ResultFromResponse (ResponseFromResult res) =
     \<lparr>resRequeue = False,
      resRequeueAfter = (if resRequeueAfter res > 0 then resRequeueAfter res
                         else if resRequeue res then go_second else 0)\<rparr>"
  by (simp add: ResultFromResponse_def ResponseFromResult_def ShouldRequeue_def Response_Requeue_def
      NewResponse_def zero_Result_def)

lemma ShouldRequeue_ResponseFromResult:
  "ShouldRequeue (ResponseFromResult (ResultFromResponse resp)) = max 0 (ShouldRequeue resp)"
  by (simp add: ResultFromResponse_def ResponseFromResult_def ShouldRequeue_def Response_Requeue_def
      NewResponse_def zero_Result_def)

lemma ToActionFunc_wrong_type:
  "goType (deref s (reqObject req)) \<noteq> T \<Longrightarrow>
     \<exists>e. ToActionFunc T f ctx req resp s = (Some e, resp, s) \<and> errors_As (\<lambda>x. x = e) (Some e)"
  by (auto simp: ToActionFunc_def errors_As_def assertion_error_def)

end
