(* ===== verification/Predicates.thy ===== *)
theory Predicates
  imports Reconciler
begin

text \<open>
  Events, predicates and event handlers, and the package \<open>predicates\<close>. A \<open>predicate.Predicate\<close> and a
  \<open>handler.EventHandler\<close> are interface values with one method per kind of event, so they are records
  of four functions; an object of an event may be nil (\<open>None\<close>). Methods run in a state \<open>'s evstate\<close>
  of what they can touch: the work queue (the requests added, in order), the conversion error
  metric (its increments, in order) and anything else of the caller's. \<open>predicate.Or\<close> and
  \<open>predicate.And\<close> are parameters with their documented meaning (\<open>combinators_ok\<close>).
\<close>

section \<open>Events\<close>

type_synonym 'c create_event = "'c object option"

record 'c update_event =
  ObjectOld :: "'c object option"
  ObjectNew :: "'c object option"

record 'c delete_event =
  delObject :: "'c object option"
  DeleteStateUnknown :: bool

type_synonym 'c generic_event = "'c object option"

record 's evstate =
  queue :: "request list"
  conversionErrors :: "(string \<times> string \<times> string \<times> string) list"
  caller :: 's

definition queue_Add :: "request \<Rightarrow> 's evstate \<Rightarrow> 's evstate" where
  "queue_Add req s = s\<lparr>queue := queue s @ [req]\<rparr>"

record ('c, 's) Predicate =
  pCreate :: "'c create_event \<Rightarrow> 's evstate \<Rightarrow> bool \<times> 's evstate"
  pUpdate :: "'c update_event \<Rightarrow> 's evstate \<Rightarrow> bool \<times> 's evstate"
  pDelete :: "'c delete_event \<Rightarrow> 's evstate \<Rightarrow> bool \<times> 's evstate"
  pGeneric :: "'c generic_event \<Rightarrow> 's evstate \<Rightarrow> bool \<times> 's evstate"

record ('c, 's) EventHandler =
  hCreate :: "goctx option \<Rightarrow> 'c create_event \<Rightarrow> 's evstate \<Rightarrow> 's evstate"
  hUpdate :: "goctx option \<Rightarrow> 'c update_event \<Rightarrow> 's evstate \<Rightarrow> 's evstate"
  hDelete :: "goctx option \<Rightarrow> 'c delete_event \<Rightarrow> 's evstate \<Rightarrow> 's evstate"
  hGeneric :: "goctx option \<Rightarrow> 'c generic_event \<Rightarrow> 's evstate \<Rightarrow> 's evstate"

section \<open>The predicates\<close>

definition predicates_Updated :: "('c object \<Rightarrow> 'c object \<Rightarrow> bool) \<Rightarrow> ('c, 's) Predicate" where
  "predicates_Updated compare =
     \<lparr>pCreate = (\<lambda>e s. (False, s)),
      pUpdate = (\<lambda>e s. (case (ObjectOld e, ObjectNew e) of
                          (None, None) \<Rightarrow> False
                        | (Some old, Some new) \<Rightarrow> compare old new
                        | _ \<Rightarrow> True, s)),
      pDelete = (\<lambda>e s. (False, s)),
      pGeneric = (\<lambda>e s. (False, s))\<rparr>"

definition predicates_Created :: "('c, 's) Predicate" where
  "predicates_Created =
     \<lparr>pCreate = (\<lambda>e s. (True, s)), pUpdate = (\<lambda>e s. (False, s)),
      pDelete = (\<lambda>e s. (False, s)), pGeneric = (\<lambda>e s. (False, s))\<rparr>"

definition predicates_Deleted :: "('c, 's) Predicate" where
  "predicates_Deleted =
     \<lparr>pCreate = (\<lambda>e s. (False, s)), pUpdate = (\<lambda>e s. (False, s)),
      pDelete = (\<lambda>e s. (True, s)), pGeneric = (\<lambda>e s. (False, s))\<rparr>"

definition generation_changed :: "'c object \<Rightarrow> 'c object \<Rightarrow> bool" where
  "generation_changed oldObj newObj =
     (if GetGeneration newObj = 0 \<or> GetGeneration oldObj = 0 then True
      else GetGeneration newObj \<noteq> GetGeneration oldObj)"

definition GenerationChanged :: "('c, 's) Predicate" where
  "GenerationChanged = predicates_Updated generation_changed"

definition LabelChanged :: "('c, 's) Predicate" where
  "LabelChanged =
     predicates_Updated (\<lambda>oldObj newObj. \<not> maps_Equal (GetLabels newObj) (GetLabels oldObj))"

definition AnnotationChanged :: "('c, 's) Predicate" where
  "AnnotationChanged =
     predicates_Updated (\<lambda>oldObj newObj. \<not> maps_Equal (GetAnnotations newObj) (GetAnnotations oldObj))"

definition ResourceVersionChanged :: "('c, 's) Predicate" where
  "ResourceVersionChanged =
     predicates_Updated (\<lambda>oldObj newObj. GetResourceVersion newObj \<noteq> GetResourceVersion oldObj)"

record ('c, 's) combinators =
  predicate_And :: "('c, 's) Predicate list \<Rightarrow> ('c, 's) Predicate"
  predicate_Or :: "('c, 's) Predicate list \<Rightarrow> ('c, 's) Predicate"

definition predicates_And :: "('c, 's) combinators \<Rightarrow> ('c, 's) Predicate list \<Rightarrow> ('c, 's) Predicate" where
  "predicates_And B ps = predicate_And B ps"

definition predicates_Or :: "('c, 's) combinators \<Rightarrow> ('c, 's) Predicate list \<Rightarrow> ('c, 's) Predicate" where
  "predicates_Or B ps = predicate_Or B ps"

definition predicates_Default :: "('c, 's) combinators \<Rightarrow> ('c, 's) Predicate" where
  "predicates_Default B =
     predicates_Or B [GenerationChanged, LabelChanged, AnnotationChanged, predicates_Deleted]"

section \<open>Evaluation of several predicates\<close>

text \<open>Left to right, until one decides: the short circuits of \<open>Or\<close> and \<open>And\<close>, and the loop
  \<open>for _, p := range predicates { if !p.Create(e) { return } }\<close>.\<close>

fun eval_any :: "('s \<Rightarrow> bool \<times> 's) list \<Rightarrow> 's \<Rightarrow> bool \<times> 's" where
  "eval_any [] s = (False, s)"
| "eval_any (f # fs) s = (case f s of (True, s') \<Rightarrow> (True, s') | (False, s') \<Rightarrow> eval_any fs s')"

fun eval_all :: "('s \<Rightarrow> bool \<times> 's) list \<Rightarrow> 's \<Rightarrow> bool \<times> 's" where
  "eval_all [] s = (True, s)"
| "eval_all (f # fs) s = (case f s of (False, s') \<Rightarrow> (False, s') | (True, s') \<Rightarrow> eval_all fs s')"

definition combinators_ok :: "('c, 's) combinators \<Rightarrow> bool" where
  "combinators_ok B \<longleftrightarrow> (\<forall>ps e u d.
     pCreate (predicate_Or B ps) e = eval_any (map (\<lambda>p. pCreate p e) ps) \<and>
     pUpdate (predicate_Or B ps) u = eval_any (map (\<lambda>p. pUpdate p u) ps) \<and>
     pDelete (predicate_Or B ps) d = eval_any (map (\<lambda>p. pDelete p d) ps) \<and>
     pGeneric (predicate_Or B ps) e = eval_any (map (\<lambda>p. pGeneric p e) ps) \<and>
     pCreate (predicate_And B ps) e = eval_all (map (\<lambda>p. pCreate p e) ps) \<and>
     pUpdate (predicate_And B ps) u = eval_all (map (\<lambda>p. pUpdate p u) ps) \<and>
     pDelete (predicate_And B ps) d = eval_all (map (\<lambda>p. pDelete p d) ps) \<and>
     pGeneric (predicate_And B ps) e = eval_all (map (\<lambda>p. pGeneric p e) ps))"

definition demo_combinators :: "('c, 's) combinators" where
  "demo_combinators =
     \<lparr>predicate_And = (\<lambda>ps.
        \<lparr>pCreate = (\<lambda>e. eval_all (map (\<lambda>p. pCreate p e) ps)),
         pUpdate = (\<lambda>e. eval_all (map (\<lambda>p. pUpdate p e) ps)),
         pDelete = (\<lambda>e. eval_all (map (\<lambda>p. pDelete p e) ps)),
         pGeneric = (\<lambda>e. eval_all (map (\<lambda>p. pGeneric p e) ps))\<rparr>),
      predicate_Or = (\<lambda>ps.
        \<lparr>pCreate = (\<lambda>e. eval_any (map (\<lambda>p. pCreate p e) ps)),
         pUpdate = (\<lambda>e. eval_any (map (\<lambda>p. pUpdate p e) ps)),
         pDelete = (\<lambda>e. eval_any (map (\<lambda>p. pDelete p e) ps)),
         pGeneric = (\<lambda>e. eval_any (map (\<lambda>p. pGeneric p e) ps))\<rparr>)\<rparr>"

lemma demo_combinators_ok [simp]: "combinators_ok demo_combinators"
  by (simp add: combinators_ok_def demo_combinators_def)

section \<open>Lemmas\<close>

lemmas predicate_defs =
  predicates_Updated_def predicates_Created_def predicates_Deleted_def GenerationChanged_def
  LabelChanged_def AnnotationChanged_def ResourceVersionChanged_def

text \<open>Pure predicates: their answer depends on the event only and they leave the state alone.\<close>

lemma eval_any_pure: "eval_any (map (\<lambda>b s. (b, s)) bs) s = (list_ex id bs, s)"
  by (induction bs) (auto split: bool.splits)

lemma eval_any_pure_list:
  "eval_any [\<lambda>s. (a, s), \<lambda>s. (b, s), \<lambda>s. (c, s), \<lambda>s. (d, s)] s = (a \<or> b \<or> c \<or> d, s)"
  by (auto split: bool.splits)

lemma Default_Create: "combinators_ok B \<Longrightarrow> pCreate (predicates_Default B) e s = (False, s)"
  by (simp add: predicates_Default_def predicates_Or_def combinators_ok_def predicate_defs)

lemma Default_Generic: "combinators_ok B \<Longrightarrow> pGeneric (predicates_Default B) e s = (False, s)"
  by (simp add: predicates_Default_def predicates_Or_def combinators_ok_def predicate_defs)

lemma Default_Delete: "combinators_ok B \<Longrightarrow> pDelete (predicates_Default B) d s = (True, s)"
  by (simp add: predicates_Default_def predicates_Or_def combinators_ok_def predicate_defs)

lemma Default_Update:
  "combinators_ok B \<Longrightarrow> pUpdate (predicates_Default B) u s =
     (case (ObjectOld u, ObjectNew u) of
        (None, None) \<Rightarrow> False
      | (Some old, Some new) \<Rightarrow>
          generation_changed old new \<or> \<not> maps_Equal (GetLabels new) (GetLabels old) \<or>
          \<not> maps_Equal (GetAnnotations new) (GetAnnotations old)
      | _ \<Rightarrow> True, s)"
  by (simp add: predicates_Default_def predicates_Or_def combinators_ok_def predicate_defs
      split: option.splits bool.splits)

end
