(* ===== verification/Watch_Handler.thy ===== *)
theory Watch_Handler
  imports Predicates
begin

text \<open>
  The event handlers of the package \<open>watch\<close> (\<^verbatim>\<open>handler.go\<close>, \<^verbatim>\<open>handler_label.go\<close>): an event of a
  watched object is mapped to a request for its owner, through its owner references first and
  through the owner labels otherwise.
\<close>

abbreviation LabelOwnerName :: string where
  "LabelOwnerName \<equiv> ''controller-lib.k8s.io/owner-name''"
abbreviation LabelOwnerNamespace :: string where
  "LabelOwnerNamespace \<equiv> ''controller-lib.k8s.io/owner-namespace''"

text \<open>The loop over the owner references, for the owner's GVK.\<close>

fun match_reference ::
    "schema_api \<Rightarrow> gvk \<Rightarrow> bool \<Rightarrow> string \<Rightarrow> OwnerReference list \<Rightarrow> request option" where
  "match_reference S ownerGVK isController ns [] = None"
| "match_reference S ownerGVK isController ns (ref # refs) =
     (case ParseGroupVersion S (refAPIVersion ref) of
        Inl err \<Rightarrow> match_reference S ownerGVK isController ns refs
      | Inr (refGroup, refVersion) \<Rightarrow>
          if refGroup \<noteq> Group ownerGVK \<or> refKind ref \<noteq> Kind ownerGVK
          then match_reference S ownerGVK isController ns refs
          else if isController \<and> (refController ref = None \<or> refController ref = Some False)
          then match_reference S ownerGVK isController ns refs
          else Some \<lparr>nnNamespace = ns, nnName = refName ref\<rparr>)"

definition getOwnerFromReferences ::
    "schema_api \<Rightarrow> 'c scheme \<Rightarrow> 'c object \<Rightarrow> bool \<Rightarrow> 'c object \<Rightarrow> request option" where
  "getOwnerFromReferences S scheme ownerType isController obj =
     (case GVKForObject scheme ownerType of
        Inl err \<Rightarrow> None
      | Inr ownerGVK \<Rightarrow>
          match_reference S ownerGVK isController (GetNamespace obj) (GetOwnerReferences obj))"

definition getOwnerFromLabels :: "'c object \<Rightarrow> string \<Rightarrow> string \<Rightarrow> request option" where
  "getOwnerFromLabels obj ownerNameLabel ownerNamespaceLabel =
     (case GetLabels obj of
        None \<Rightarrow> None
      | Some labels \<Rightarrow>
          (let ownerName = map_index (Some labels) ownerNameLabel
           in if ownerName = [] then None
              else (let ownerNamespace = map_index (Some labels) ownerNamespaceLabel;
                        ownerNamespace = (if ownerNamespace = [] then GetNamespace obj else ownerNamespace)
                    in Some \<lparr>nnNamespace = ownerNamespace, nnName = ownerName\<rparr>)))"

definition enqueueOwner ::
    "schema_api \<Rightarrow> 'c scheme \<Rightarrow> 'c object \<Rightarrow> bool \<Rightarrow> string \<Rightarrow> string \<Rightarrow>
     'c object option \<Rightarrow> 's evstate \<Rightarrow> 's evstate" where
  "enqueueOwner S scheme ownerType isController ownerNameLabel ownerNamespaceLabel obj q =
     (case obj of None \<Rightarrow> q
      | Some ob \<Rightarrow>
          (case getOwnerFromReferences S scheme ownerType isController ob of
             Some req \<Rightarrow> queue_Add req q
           | None \<Rightarrow>
               (case getOwnerFromLabels ob ownerNameLabel ownerNamespaceLabel of
                  Some req \<Rightarrow> queue_Add req q
                | None \<Rightarrow> q)))"

definition EnqueueRequestForOwnerOrLabel ::
    "schema_api \<Rightarrow> 'c scheme \<Rightarrow> 'c object \<Rightarrow> bool \<Rightarrow> string \<Rightarrow> string \<Rightarrow> ('c, 's) EventHandler" where
  "EnqueueRequestForOwnerOrLabel S scheme ownerType isController ownerNameLabel ownerNamespaceLabel =
     (let enqueue = enqueueOwner S scheme ownerType isController ownerNameLabel ownerNamespaceLabel
      in \<lparr>hCreate = (\<lambda>_ evt q. enqueue evt q),
          hUpdate = (\<lambda>_ evt q. enqueue (ObjectNew evt) q),
          hDelete = (\<lambda>_ evt q. enqueue (delObject evt) q),
          hGeneric = (\<lambda>_ evt q. enqueue evt q)\<rparr>)"

text \<open>\<open>ByLabel\<close>: the label's value is the name, whatever it is; the namespace stays empty.\<close>

definition ByLabel :: "string \<Rightarrow> goctx option \<Rightarrow> 'c object \<Rightarrow> request list" where
  "ByLabel labelKey ctx obj =
     (case map_read (GetLabels obj) labelKey of
        None \<Rightarrow> []
      | Some name \<Rightarrow> [\<lparr>nnNamespace = [], nnName = name\<rparr>])"

section \<open>Lemmas\<close>

text \<open>The reference that is chosen is the first one that matches group, kind and controller flag.\<close>

definition reference_matches :: "schema_api \<Rightarrow> gvk \<Rightarrow> bool \<Rightarrow> OwnerReference \<Rightarrow> bool" where
  "reference_matches S g isController r \<longleftrightarrow>
     (\<exists>v. ParseGroupVersion S (refAPIVersion r) = Inr (Group g, v)) \<and> refKind r = Kind g \<and>
     (isController \<longrightarrow> refController r = Some True)"

lemma match_reference_spec:
  "match_reference S g isController ns refs =
     map_option (\<lambda>r. \<lparr>nnNamespace = ns, nnName = refName r\<rparr>)
       (find (reference_matches S g isController) refs)"
proof (induction refs)
  case (Cons r refs)
  have "refController r = None \<or> refController r = Some False \<or> refController r = Some True"
    by (cases "refController r") auto
  with Cons show ?case
    by (auto simp: reference_matches_def split: sum.splits prod.splits)
qed simp

lemma getOwnerFromReferences_controller:
  assumes "GVKForObject scheme ownerType = Inr g"
    and "r \<in> set (GetOwnerReferences ob)" and "reference_matches S g True r"
    and "\<And>r'. r' \<in> set (GetOwnerReferences ob) \<Longrightarrow> refController r' = Some True \<Longrightarrow> r' = r"
  shows "getOwnerFromReferences S scheme ownerType True ob =
     Some \<lparr>nnNamespace = GetNamespace ob, nnName = refName r\<rparr>"
proof -
  have "find (reference_matches S g True) (GetOwnerReferences ob) \<noteq> None"
    using assms(2,3) by (auto simp: find_None_iff)
  then obtain r' where r': "find (reference_matches S g True) (GetOwnerReferences ob) = Some r'"
    by blast
  then have "r' \<in> set (GetOwnerReferences ob)" "reference_matches S g True r'"
    by (auto simp: find_Some_iff)
  with assms(4) have "r' = r" by (auto simp: reference_matches_def)
  with r' assms(1) show ?thesis
    by (simp add: getOwnerFromReferences_def match_reference_spec)
qed

lemma getOwnerFromReferences_none:
  assumes "\<And>r g. GVKForObject scheme ownerType = Inr g \<Longrightarrow> r \<in> set (GetOwnerReferences ob) \<Longrightarrow>
      \<not> reference_matches S g isController r"
  shows "getOwnerFromReferences S scheme ownerType isController ob = None"
proof (cases "GVKForObject scheme ownerType")
  case (Inr g)
  with assms have "find (reference_matches S g isController) (GetOwnerReferences ob) = None"
    by (simp add: find_None_iff)
  with Inr show ?thesis by (simp add: getOwnerFromReferences_def match_reference_spec)
qed (simp add: getOwnerFromReferences_def)

lemma getOwnerFromLabels_eq:
  "getOwnerFromLabels ob nl nsl =
     (if map_index (GetLabels ob) nl = [] then None
      else Some \<lparr>nnNamespace = (if map_index (GetLabels ob) nsl = [] then GetNamespace ob
                                else map_index (GetLabels ob) nsl),
                 nnName = map_index (GetLabels ob) nl\<rparr>)"
  by (simp add: getOwnerFromLabels_def Let_def split: option.splits)

lemma enqueueOwner_queue:
  "queue (enqueueOwner S scheme ownerType isC nl nsl (Some ob) q) =
     queue q @ (case getOwnerFromReferences S scheme ownerType isC ob of
        Some req \<Rightarrow> [req]
      | None \<Rightarrow> (case getOwnerFromLabels ob nl nsl of Some req \<Rightarrow> [req] | None \<Rightarrow> []))"
  by (simp add: enqueueOwner_def queue_Add_def split: option.splits)

lemma enqueueOwner_frame:
  "conversionErrors (enqueueOwner S scheme ownerType isC nl nsl obj q) = conversionErrors q"
  "caller (enqueueOwner S scheme ownerType isC nl nsl obj q) = caller q"
  by (simp_all add: enqueueOwner_def queue_Add_def split: option.splits)

end
