(* ===== verification/Watch.thy ===== *)
theory Watch
  imports Watch_Handler
begin

text \<open>
  The dynamic watcher (\<^verbatim>\<open>src/pkg/reconciler/watch/watch_opts.go\<close>, \<^verbatim>\<open>watch.go\<close>): the options that
  configure a watch, the \<open>Watcher\<close> with its state per GVK, and \<open>Watch\<close>, which registers a source
  with the controller once per GVK. \<open>Watch\<close> takes the read lock for a first check, releases it and
  takes the write lock to register, so its two critical sections are two definitions
  (\<open>already_settled\<close> and \<open>register\<close>); the last part of the theory runs them as atomic steps of any
  number of goroutines. The controller is a parameter: a function that is given a source and answers
  with an error or none.
\<close>

section \<open>Options\<close>

record ('c, 's) Config =
  cfgGVK :: gvk
  cfgPredicates :: "('c, 's) Predicate list"
  cfgHandler :: "('c, 's) EventHandler option"
  cfgDisabled :: bool
  cfgPartial :: bool

definition zero_Config :: "gvk \<Rightarrow> ('c, 's) Config" where
  [opt_defs]: "zero_Config g =
     \<lparr>cfgGVK = g, cfgPredicates = [], cfgHandler = None, cfgDisabled = False, cfgPartial = False\<rparr>"

definition Config_Clone :: "('c, 's) Config \<Rightarrow> ('c, 's) Config" where
  "Config_Clone c =
     (let clone = \<lparr>cfgGVK = cfgGVK c, cfgPredicates = [], cfgHandler = cfgHandler c,
                   cfgDisabled = cfgDisabled c, cfgPartial = cfgPartial c\<rparr>
      in if length (cfgPredicates c) > 0 then clone\<lparr>cfgPredicates := cfgPredicates c\<rparr> else clone)"

definition Config_ApplyTo :: "('c, 's) Config \<Rightarrow> ('c, 's) Config \<Rightarrow> ('c, 's) Config" where
  [opt_defs]: "Config_ApplyTo c target =
     (let target = (if length (cfgPredicates c) > 0
            then target\<lparr>cfgPredicates := cfgPredicates target @ cfgPredicates c\<rparr> else target);
          target = (if cfgHandler c \<noteq> None then target\<lparr>cfgHandler := cfgHandler c\<rparr> else target);
          target = (if cfgDisabled c then target\<lparr>cfgDisabled := cfgDisabled c\<rparr> else target)
      in if cfgPartial c then target\<lparr>cfgPartial := cfgPartial c\<rparr> else target)"

record ('c, 's) ConfigOptions =
  coPredicates :: "('c, 's) Predicate list"
  coHandler :: "('c, 's) EventHandler option"
  coDisabled :: bool
  coPartial :: bool

definition ConfigOptions_ApplyTo :: "('c, 's) ConfigOptions \<Rightarrow> ('c, 's) Config \<Rightarrow> ('c, 's) Config" where
  [opt_defs]: "ConfigOptions_ApplyTo opt cfg =
     (let cfg = (if length (coPredicates opt) > 0
            then cfg\<lparr>cfgPredicates := cfgPredicates cfg @ coPredicates opt\<rparr> else cfg);
          cfg = (if coHandler opt \<noteq> None then cfg\<lparr>cfgHandler := coHandler opt\<rparr> else cfg);
          cfg = (if coDisabled opt then cfg\<lparr>cfgDisabled := coDisabled opt\<rparr> else cfg)
      in if coPartial opt then cfg\<lparr>cfgPartial := coPartial opt\<rparr> else cfg)"

type_synonym ('c, 's) ConfigOption = "('c, 's) Config \<Rightarrow> ('c, 's) Config"

definition WithPredicates :: "('c, 's) Predicate list \<Rightarrow> ('c, 's) ConfigOption" where
  [opt_defs]: "WithPredicates ps cfg = cfg\<lparr>cfgPredicates := cfgPredicates cfg @ ps\<rparr>"

definition WithHandler :: "('c, 's) EventHandler option \<Rightarrow> ('c, 's) ConfigOption" where
  [opt_defs]: "WithHandler h cfg = cfg\<lparr>cfgHandler := h\<rparr>"

definition Disabled :: "('c, 's) ConfigOption" where
  [opt_defs]: "Disabled cfg = cfg\<lparr>cfgDisabled := True\<rparr>"

definition Partial :: "('c, 's) ConfigOption" where
  [opt_defs]: "Partial cfg = cfg\<lparr>cfgPartial := True\<rparr>"

record ('c, 's) ForOptions =
  foConfigs :: "('c, 's) Config list"

definition ForOptions_ApplyTo :: "('c, 's) ForOptions \<Rightarrow> ('c, 's) ForOptions \<Rightarrow> ('c, 's) ForOptions" where
  [opt_defs]: "ForOptions_ApplyTo opt opts = opts\<lparr>foConfigs := foConfigs opts @ foConfigs opt\<rparr>"

definition ForOptions_ApplyOptions ::
    "('c, 's) ForOptions \<Rightarrow> (('c, 's) ForOptions \<Rightarrow> ('c, 's) ForOptions) list \<Rightarrow> ('c, 's) ForOptions" where
  "ForOptions_ApplyOptions t opts = apply_options opts t"

definition NewConfig :: "gvk \<Rightarrow> ('c, 's) ConfigOption \<Rightarrow> ('c, 's) ConfigOption list \<Rightarrow> ('c, 's) Config" where
  "NewConfig g opt opts =
     (let cfg = zero_Config g; cfg = opt cfg in apply_options opts cfg)"

definition watch_For ::
    "gvk \<Rightarrow> ('c, 's) ConfigOption \<Rightarrow> ('c, 's) ConfigOption list \<Rightarrow>
     ('c, 's) ForOptions \<Rightarrow> ('c, 's) ForOptions" where
  "watch_For g opt opts =
     (let cfg = zero_Config g; cfg = opt cfg; cfg = apply_options opts cfg
      in (\<lambda>awOpts. awOpts\<lparr>foConfigs := foConfigs awOpts @ [cfg]\<rparr>))"

text \<open>What \<open>source.Kind(cache, obj, handler, predicates...)\<close> is given, and a controller's \<open>Watch\<close>.\<close>

record ('c, 's, 'k) kind_source =
  srcCache :: 'k
  srcObject :: "'c object"
  srcHandler :: "('c, 's) EventHandler"
  srcPredicates :: "('c, 's) Predicate list"

type_synonym ('c, 's, 'k, 'w) controller = "('c, 's, 'k) kind_source \<Rightarrow> 'w \<Rightarrow> error option \<times> 'w"

record ('c, 's, 'k, 'w) WatchOptions =
  woConfigs :: "('c, 's) Config list"
  woClient :: "('c, 'w) client option"
  woCache :: "'k option"
  woController :: "('c, 's, 'k, 'w) controller option"

definition zero_WatchOptions :: "('c, 's, 'k, 'w) WatchOptions" where
  [opt_defs]: "zero_WatchOptions = \<lparr>woConfigs = [], woClient = None, woCache = None, woController = None\<rparr>"

definition WatchOptions_ApplyTo ::
    "('c, 's, 'k, 'w) WatchOptions \<Rightarrow> ('c, 's, 'k, 'w) WatchOptions \<Rightarrow> ('c, 's, 'k, 'w) WatchOptions" where
  [opt_defs]: "WatchOptions_ApplyTo opt opts =
     (let opts = opts\<lparr>woConfigs := woConfigs opts @ woConfigs opt\<rparr>;
          opts = (if woClient opt \<noteq> None then opts\<lparr>woClient := woClient opt\<rparr> else opts);
          opts = (if woCache opt \<noteq> None then opts\<lparr>woCache := woCache opt\<rparr> else opts)
      in if woController opt \<noteq> None then opts\<lparr>woController := woController opt\<rparr> else opts)"

definition WatchOptions_ApplyOptions ::
    "('c, 's, 'k, 'w) WatchOptions \<Rightarrow> (('c, 's, 'k, 'w) WatchOptions \<Rightarrow> ('c, 's, 'k, 'w) WatchOptions) list \<Rightarrow>
     ('c, 's, 'k, 'w) WatchOptions" where
  "WatchOptions_ApplyOptions t opts = apply_options opts t"

definition WithConfigs ::
    "('c, 's) Config list \<Rightarrow> ('c, 's, 'k, 'w) WatchOptions \<Rightarrow> ('c, 's, 'k, 'w) WatchOptions" where
  [opt_defs]: "WithConfigs cfgs opts = opts\<lparr>woConfigs := woConfigs opts @ cfgs\<rparr>"

definition watch_WithClient ::
    "('c, 'w) client option \<Rightarrow> ('c, 's, 'k, 'w) WatchOptions \<Rightarrow> ('c, 's, 'k, 'w) WatchOptions" where
  [opt_defs]: "watch_WithClient c opts = opts\<lparr>woClient := c\<rparr>"

definition watch_WithController ::
    "('c, 's, 'k, 'w) controller option \<Rightarrow> ('c, 's, 'k, 'w) WatchOptions \<Rightarrow> ('c, 's, 'k, 'w) WatchOptions" where
  [opt_defs]: "watch_WithController ctrl opts = opts\<lparr>woController := ctrl\<rparr>"

definition watch_WithCache ::
    "'k option \<Rightarrow> ('c, 's, 'k, 'w) WatchOptions \<Rightarrow> ('c, 's, 'k, 'w) WatchOptions" where
  [opt_defs]: "watch_WithCache c opts = opts\<lparr>woCache := c\<rparr>"

section \<open>The watcher\<close>

record ('c, 's) State =
  stConfig :: "('c, 's) Config"
  stWatched :: bool

definition State_Clone :: "('c, 's) State option \<Rightarrow> ('c, 's) State option" where
  "State_Clone s =
     (case s of None \<Rightarrow> None
      | Some st \<Rightarrow> Some \<lparr>stConfig = Config_Clone (stConfig st), stWatched = stWatched st\<rparr>)"

record ('c, 's, 'k, 'w) Watcher =
  wController :: "('c, 's, 'k, 'w) controller option"
  wCache :: "'k option"
  wClient :: "('c, 'w) client option"
  states :: "gvk \<rightharpoonup> ('c, 's) State"

definition watch_New ::
    "(('c, 's, 'k, 'w) WatchOptions \<Rightarrow> ('c, 's, 'k, 'w) WatchOptions) list \<Rightarrow> ('c, 's, 'k, 'w) Watcher" where
  "watch_New opts =
     (let options = WatchOptions_ApplyOptions zero_WatchOptions opts;
          w = \<lparr>wController = woController options, wCache = woCache options,
               wClient = woClient options, states = Map.empty\<rparr>
      in fold (\<lambda>cfg w. w\<lparr>states := (states w)(cfgGVK cfg \<mapsto> \<lparr>stConfig = cfg, stWatched = False\<rparr>)\<rparr>)
           (woConfigs options) w)"

definition watch_SetClient ::
    "('c, 'w) client option \<Rightarrow> ('c, 's, 'k, 'w) Watcher \<Rightarrow> ('c, 's, 'k, 'w) Watcher" where
  "watch_SetClient c w = w\<lparr>wClient := c\<rparr>"

definition watch_SetCache :: "'k option \<Rightarrow> ('c, 's, 'k, 'w) Watcher \<Rightarrow> ('c, 's, 'k, 'w) Watcher" where
  "watch_SetCache c w = w\<lparr>wCache := c\<rparr>"

definition watch_SetController ::
    "('c, 's, 'k, 'w) controller option \<Rightarrow> ('c, 's, 'k, 'w) Watcher \<Rightarrow> ('c, 's, 'k, 'w) Watcher" where
  "watch_SetController ctrl w = w\<lparr>wController := ctrl\<rparr>"

definition watch_ready :: "('c, 's, 'k, 'w) Watcher \<Rightarrow> bool" where
  "watch_ready w \<longleftrightarrow> wController w \<noteq> None \<and> wCache w \<noteq> None \<and> wClient w \<noteq> None"

definition Watcher_State :: "('c, 's, 'k, 'w) Watcher \<Rightarrow> gvk \<Rightarrow> ('c, 's) State option" where
  "Watcher_State w g =
     (case states w g of None \<Rightarrow> None | Some state \<Rightarrow> State_Clone (Some state))"

definition setupState ::
    "gvk \<Rightarrow> ('c, 's, 'k, 'w) Watcher \<Rightarrow> ('c, 's) State \<times> ('c, 's, 'k, 'w) Watcher" where
  "setupState g w =
     (case states w g of
        Some state \<Rightarrow> (state, w)
      | None \<Rightarrow>
          (let state = \<lparr>stConfig = zero_Config g, stWatched = False\<rparr>
           in (state, w\<lparr>states := (states w)(g \<mapsto> state)\<rparr>)))"

text \<open>
  \<open>setupSource\<close> also returns the watched object as the conversion to partial metadata leaves it.
  \<open>c0\<close> is the content of a partial object, \<open>B\<close> the predicate combinators.
\<close>

definition setupSource ::
    "'c env \<Rightarrow> ('c, 's) combinators \<Rightarrow> 'c \<Rightarrow> ('c, 's, 'k, 'w) Watcher \<Rightarrow> 'c object \<Rightarrow> 'c object \<Rightarrow>
     ('c, 's) State \<Rightarrow> (error + ('c, 's, 'k) kind_source) \<times> 'c object" where
  "setupSource E B c0 w obj ownerObj state =
     (let scheme = clientScheme (the (wClient w));
          (converted, obj) =
            (if cfgPartial (stConfig state)
             then (case ToPartialObjectMetadata scheme c0 (Some obj) of
                     (r, obj') \<Rightarrow> (r, case obj' of None \<Rightarrow> obj | Some ob \<Rightarrow> ob))
             else (Inr obj, obj))
      in case converted of
           Inl err \<Rightarrow> (Inl (WrapError ''failed to convert to PartialObjectMetadata'' err), obj)
         | Inr watchObj \<Rightarrow>
             (let preds = cfgPredicates (stConfig state);
                  preds = (if length preds = 0 \<and> \<not> IsPartialObjectMetadata (Some watchObj)
                           then [predicates_Default B] else preds);
                  hdler = (case cfgHandler (stConfig state) of
                             Some h \<Rightarrow> h
                           | None \<Rightarrow> EnqueueRequestForOwnerOrLabel (envSchema E) scheme ownerObj True
                                      LabelOwnerName LabelOwnerNamespace)
              in (Inr \<lparr>srcCache = the (wCache w), srcObject = watchObj, srcHandler = hdler,
                       srcPredicates = preds\<rparr>, obj)))"

text \<open>The process: the watcher, the gauge \<open>DynamicWatchedResourcesTotal\<close> and the rest of the world.\<close>

record ('c, 's, 'k, 'w) wstate =
  theWatcher :: "('c, 's, 'k, 'w) Watcher"
  dynamicWatched :: "string \<times> string \<times> string \<rightharpoonup> int"
  wworld :: 'w

text \<open>What the second critical section did: nothing to do, an error, or a registration.\<close>

datatype ('c, 's, 'k) watch_result =
  NotNeeded | WatchFailed error | Registered "('c, 's, 'k) kind_source"

primrec result_error :: "('c, 's, 'k) watch_result \<Rightarrow> error option" where
  "result_error NotNeeded = None"
| "result_error (WatchFailed e) = Some e"
| "result_error (Registered src) = None"

text \<open>The first critical section, under the read lock.\<close>

definition already_settled :: "gvk \<Rightarrow> ('c, 's, 'k, 'w) Watcher \<Rightarrow> bool" where
  "already_settled g w =
     (case states w g of None \<Rightarrow> False | Some state \<Rightarrow> stWatched state \<or> cfgDisabled (stConfig state))"

text \<open>The second critical section, under the write lock.\<close>

definition register ::
    "'c env \<Rightarrow> ('c, 's) combinators \<Rightarrow> 'c \<Rightarrow> goctx option \<Rightarrow> 'c object \<Rightarrow> 'c object \<Rightarrow>
     ('c, 's) ConfigOption list \<Rightarrow> gvk \<Rightarrow> ('c, 's, 'k, 'w) wstate \<Rightarrow>
     ('c, 's, 'k) watch_result \<times> 'c object \<times> ('c, 's, 'k, 'w) wstate" where
  "register E B c0 ctx ownerObj obj opts g s =
     (let (state, w) = setupState g (theWatcher s);
          state = state\<lparr>stConfig := apply_options opts (stConfig state)\<rparr>;
          w = w\<lparr>states := (states w)(g \<mapsto> state)\<rparr>;
          s = s\<lparr>theWatcher := w\<rparr>
      in if stWatched state \<or> cfgDisabled (stConfig state) then (NotNeeded, obj, s)
         else (case setupSource E B c0 w obj ownerObj state of
                 (Inl err, obj) \<Rightarrow>
                   (WatchFailed (WrapError (''unable to setup watch for '' @ GVKString (envSchema E) g) err), obj, s)
               | (Inr src, obj) \<Rightarrow>
                   (case the (wController w) src (wworld s) of
                      (Some err, wd) \<Rightarrow>
                        (WatchFailed (WrapError (''failed to watch '' @ GVKString (envSchema E) g) err), obj,
                         s\<lparr>wworld := wd\<rparr>)
                    | (None, wd) \<Rightarrow>
                        (let controllerName = (case ControllerNameFromContext ctx of
                               (name, True) \<Rightarrow> name | (_, False) \<Rightarrow> ToLower (Kind g));
                             gauge = (dynamicWatched s)
                               ((controllerName, GVString (envSchema E) g, Kind g) \<mapsto> 1);
                             state = state\<lparr>stWatched := True\<rparr>
                         in (Registered src, obj,
                             s\<lparr>theWatcher := w\<lparr>states := (states w)(g \<mapsto> state)\<rparr>,
                               dynamicWatched := gauge, wworld := wd\<rparr>)))))"

definition watchObject ::
    "'c env \<Rightarrow> ('c, 's) combinators \<Rightarrow> 'c \<Rightarrow> goctx option \<Rightarrow> 'c object \<Rightarrow> 'c object \<Rightarrow>
     ('c, 's) ConfigOption list \<Rightarrow> ('c, 's, 'k, 'w) wstate \<Rightarrow>
     ('c, 's, 'k) watch_result \<times> 'c object \<times> ('c, 's, 'k, 'w) wstate" where
  "watchObject E B c0 ctx ownerObj obj opts s =
     (case GVKForObject (clientScheme (the (wClient (theWatcher s)))) obj of
        Inl err \<Rightarrow> (WatchFailed (WrapError (''unable to get GVK for '' @ go_type_name (goType obj)) err), obj, s)
      | Inr g \<Rightarrow>
          if already_settled g (theWatcher s) then (NotNeeded, obj, s)
          else register E B c0 ctx ownerObj obj opts g s)"

definition Watcher_Watch ::
    "'c env \<Rightarrow> ('c, 's) combinators \<Rightarrow> 'c \<Rightarrow> goctx option \<Rightarrow> 'c object \<Rightarrow> 'c object option \<Rightarrow>
     ('c, 's) ConfigOption list \<Rightarrow> ('c, 's, 'k, 'w) wstate \<Rightarrow>
     error option \<times> 'c object option \<times> ('c, 's, 'k, 'w) wstate" where
  "Watcher_Watch E B c0 ctx ownerObj obj opts s =
     (if obj = None \<or> \<not> watch_ready (theWatcher s) then (None, obj, s)
      else (case watchObject E B c0 ctx ownerObj (the obj) opts s of
              (r, ob, s) \<Rightarrow> (result_error r, Some ob, s)))"

text \<open>
  \<open>All\<close>: the hook over the objects of a response, whose world is the watcher's state; address 0 is
  the nil pointer.
\<close>

abbreviation (input) nil_ref :: ref where "nil_ref \<equiv> 0"

definition watch_one ::
    "'c env \<Rightarrow> ('c, 's) combinators \<Rightarrow> 'c \<Rightarrow> goctx option \<Rightarrow> ref \<Rightarrow> ref \<Rightarrow>
     ('c, ('c, 's, 'k, 'w) wstate) pstate \<Rightarrow> error option \<times> ('c, ('c, 's, 'k, 'w) wstate) pstate" where
  "watch_one E B c0 ctx ownerObj obj s =
     (if obj = nil_ref then (None, s)
      else (case Watcher_Watch E B c0 ctx (deref s ownerObj) (Some (deref s obj)) [] (world s) of
              (err, ob, w) \<Rightarrow>
                (err, (case ob of None \<Rightarrow> s | Some ob \<Rightarrow> store obj ob s)\<lparr>world := w\<rparr>)))"

definition watch_All ::
    "'c env \<Rightarrow> ('c, 's) combinators \<Rightarrow> 'c \<Rightarrow> ('c, ('c, 's, 'k, 'w) wstate) ApplyHookFunc" where
  "watch_All E B c0 ctx ownerObj objects s = until_error (watch_one E B c0 ctx ownerObj) objects s"

section \<open>Options compose\<close>

lemma Config_ApplyTo_fields [simp]:
  "cfgGVK (Config_ApplyTo c t) = cfgGVK t"
  "cfgPredicates (Config_ApplyTo c t) = cfgPredicates t @ cfgPredicates c"
  "cfgHandler (Config_ApplyTo c t) = (if cfgHandler c \<noteq> None then cfgHandler c else cfgHandler t)"
  "cfgDisabled (Config_ApplyTo c t) = (cfgDisabled t \<or> cfgDisabled c)"
  "cfgPartial (Config_ApplyTo c t) = (cfgPartial t \<or> cfgPartial c)"
  by (simp_all add: Config_ApplyTo_def Let_def)

lemma WatchOptions_ApplyTo_fields [simp]:
  "woConfigs (WatchOptions_ApplyTo c t) = woConfigs t @ woConfigs c"
  "woClient (WatchOptions_ApplyTo c t) = (if woClient c \<noteq> None then woClient c else woClient t)"
  "woCache (WatchOptions_ApplyTo c t) = (if woCache c \<noteq> None then woCache c else woCache t)"
  "woController (WatchOptions_ApplyTo c t) = (if woController c \<noteq> None then woController c else woController t)"
  by (simp_all add: WatchOptions_ApplyTo_def Let_def)

interpretation config_options: option_struct Config_ApplyTo "zero_Config zero_gvk"
  by unfold_locales (rule Config.equality; auto simp: zero_Config_def)+

interpretation for_options: option_struct ForOptions_ApplyTo "\<lparr>foConfigs = []\<rparr>"
  by unfold_locales (simp_all add: ForOptions_ApplyTo_def)

interpretation watch_options: option_struct WatchOptions_ApplyTo zero_WatchOptions
  by unfold_locales (rule WatchOptions.equality; auto simp: zero_WatchOptions_def)+

text \<open>\<open>ConfigOptions\<close> is \<open>Config\<close> without the GVK.\<close>

lemma ConfigOptions_ApplyTo_Config:
  "ConfigOptions_ApplyTo opt = Config_ApplyTo \<lparr>cfgGVK = g, cfgPredicates = coPredicates opt,
     cfgHandler = coHandler opt, cfgDisabled = coDisabled opt, cfgPartial = coPartial opt\<rparr>"
  by (rule ext) (simp add: ConfigOptions_ApplyTo_def Config_ApplyTo_def Let_def)

lemma Config_Clone_id [simp]: "Config_Clone c = c"
  by (simp add: Config_Clone_def Let_def)

lemma Watcher_State_eq: "Watcher_State w g = states w g"
  by (simp add: Watcher_State_def State_Clone_def split: option.splits)

section \<open>What a call changes\<close>

definition watched :: "gvk \<Rightarrow> ('c, 's, 'k, 'w) Watcher \<Rightarrow> bool" where
  "watched g w = (case states w g of None \<Rightarrow> False | Some state \<Rightarrow> stWatched state)"

lemma watch_New_unwatched: "\<not> watched g (watch_New opts)"
proof -
  have "\<not> watched g (fold (\<lambda>cfg w. w\<lparr>states := (states w)(cfgGVK cfg \<mapsto> \<lparr>stConfig = cfg, stWatched = False\<rparr>)\<rparr>) cfgs w)"
    if "\<not> watched g w" for cfgs and w :: "('a, 'b, 'c, 'd) Watcher"
    using that by (induction cfgs arbitrary: w) (auto simp: watched_def)
  then show ?thesis by (simp add: watch_New_def Let_def watched_def)
qed

lemma setupState_eq:
  "fst (setupState g w) = (case states w g of Some st \<Rightarrow> st | None \<Rightarrow> \<lparr>stConfig = zero_Config g, stWatched = False\<rparr>)"
  "snd (setupState g w) = w\<lparr>states := (states w)(g \<mapsto> fst (setupState g w))\<rparr>"
  by (cases w, auto simp: setupState_def Let_def fun_upd_idem split: option.splits)

text \<open>The configuration the registration works with: the stored one with the call's options.\<close>

definition effective_state ::
    "('c, 's) ConfigOption list \<Rightarrow> gvk \<Rightarrow> ('c, 's, 'k, 'w) Watcher \<Rightarrow> ('c, 's) State" where
  "effective_state opts g w =
     (let st = fst (setupState g w) in st\<lparr>stConfig := apply_options opts (stConfig st)\<rparr>)"

definition with_state :: "gvk \<Rightarrow> ('c, 's) State \<Rightarrow> ('c, 's, 'k, 'w) wstate \<Rightarrow> ('c, 's, 'k, 'w) wstate" where
  "with_state g st s = s\<lparr>theWatcher := (theWatcher s)\<lparr>states := (states (theWatcher s))(g \<mapsto> st)\<rparr>\<rparr>"

lemma with_state_simps [simp]:
  "states (theWatcher (with_state g st s)) = (states (theWatcher s))(g \<mapsto> st)"
  "wController (theWatcher (with_state g st s)) = wController (theWatcher s)"
  "wCache (theWatcher (with_state g st s)) = wCache (theWatcher s)"
  "wClient (theWatcher (with_state g st s)) = wClient (theWatcher s)"
  "dynamicWatched (with_state g st s) = dynamicWatched s"
  "wworld (with_state g st s) = wworld s"
  "watch_ready (theWatcher (with_state g st s)) = watch_ready (theWatcher s)"
  by (simp_all add: with_state_def watch_ready_def)

lemma setupSource_states [simp]:
  "setupSource E B c0 (w\<lparr>states := m\<rparr>) obj owner st = setupSource E B c0 w obj owner st"
  by (simp add: setupSource_def Let_def split: prod.splits sum.splits)

lemma effective_watched [simp]: "stWatched (effective_state opts g w) = watched g w"
  by (simp add: effective_state_def setupState_eq watched_def Let_def split: option.splits)

lemma register_eq:
  "register E B c0 ctx ownerObj obj opts g s =
     (let w = theWatcher s; st = effective_state opts g w
      in if watched g w \<or> cfgDisabled (stConfig st) then (NotNeeded, obj, with_state g st s)
         else (case setupSource E B c0 w obj ownerObj st of
                 (Inl err, obj) \<Rightarrow>
                   (WatchFailed (WrapError (''unable to setup watch for '' @ GVKString (envSchema E) g) err), obj,
                    with_state g st s)
               | (Inr src, obj) \<Rightarrow>
                   (case the (wController w) src (wworld s) of
                      (Some err, wd) \<Rightarrow>
                        (WatchFailed (WrapError (''failed to watch '' @ GVKString (envSchema E) g) err), obj,
                         (with_state g st s)\<lparr>wworld := wd\<rparr>)
                    | (None, wd) \<Rightarrow>
                        (Registered src, obj,
                         (with_state g (st\<lparr>stWatched := True\<rparr>) s)
                           \<lparr>dynamicWatched := (dynamicWatched s)
                              ((case ControllerNameFromContext ctx of
                                  (name, True) \<Rightarrow> name | (_, False) \<Rightarrow> ToLower (Kind g),
                                GVString (envSchema E) g, Kind g) \<mapsto> 1),
                            wworld := wd\<rparr>))))"
proof -
  obtain st w where st: "setupState g (theWatcher s) = (st, w)" by (cases "setupState g (theWatcher s)")
  then have w: "w = (theWatcher s)\<lparr>states := (states (theWatcher s))(g \<mapsto> st)\<rparr>"
    using setupState_eq(2) [of g "theWatcher s"] by simp
  have eff: "effective_state opts g (theWatcher s) = st\<lparr>stConfig := apply_options opts (stConfig st)\<rparr>"
    using st by (simp add: effective_state_def)
  then have watched: "watched g (theWatcher s) = stWatched st"
    by (metis (no_types) State.simps(1,2,3,4) State.surjective State.update_convs(1) effective_watched)
  show ?thesis
    unfolding register_def st eff Let_def prod.case watched w
    by (simp add: with_state_def split: prod.splits sum.splits option.splits bool.splits)
qed

lemma register_frame:
  assumes "register E B c0 ctx ownerObj obj opts g s = (r, obj', s')"
  shows "h \<noteq> g \<Longrightarrow> states (theWatcher s') h = states (theWatcher s) h"
    and "watched g (theWatcher s') \<longleftrightarrow> watched g (theWatcher s) \<or> (\<exists>src. r = Registered src)"
    and "r = Registered src \<Longrightarrow> \<not> watched g (theWatcher s)"
    and "watch_ready (theWatcher s') = watch_ready (theWatcher s)"
  using assms unfolding register_eq
  by (auto simp: Let_def watched_def [of _ "theWatcher s'"] watch_ready_def with_state_def
      split: if_splits prod.splits sum.splits option.splits)

section \<open>Goroutines\<close>

text \<open>
  Any number of goroutines call \<open>Watch\<close> on one watcher. A call that passes the readiness check,
  resolves its GVK and finds it unsettled under the read lock is then \<open>Checked\<close>, with the lock
  released; from there it runs \<open>register\<close> under the write lock and returns. A call that returns
  earlier changes nothing. The setters may run at any time and are given non-nil values, as
  \<open>Complete\<close> and the manager give them: setting a dependency back to nil between the readiness check
  and \<open>register\<close> would make the code dereference a nil interface, which the model does not follow.
  \<open>registered\<close> records the successful calls of the controller.
\<close>

record ('c, 's) watch_call =
  callCtx :: "goctx option"
  callOwner :: "'c object"
  callObj :: "'c object"
  callOpts :: "('c, 's) ConfigOption list"

datatype ('c, 's) goroutine = Idle | Checked gvk "('c, 's) watch_call"

record ('c, 's, 'k, 'w) watch_system =
  shared :: "('c, 's, 'k, 'w) wstate"
  procs :: "nat \<Rightarrow> ('c, 's) goroutine"
  registered :: "(gvk \<times> ('c, 's, 'k) kind_source) list"

definition committed :: "gvk \<Rightarrow> ('c, 's, 'k) watch_result \<Rightarrow> (gvk \<times> ('c, 's, 'k) kind_source) list" where
  "committed g r = (case r of Registered src \<Rightarrow> [(g, src)] | _ \<Rightarrow> [])"

inductive wstep ::
    "'c env \<Rightarrow> ('c, 's) combinators \<Rightarrow> 'c \<Rightarrow> ('c, 's, 'k, 'w) watch_system \<Rightarrow> ('c, 's, 'k, 'w) watch_system \<Rightarrow> bool"
  for E B c0 where
  check: "procs S i = Idle \<Longrightarrow> watch_ready (theWatcher (shared S)) \<Longrightarrow>
     GVKForObject (clientScheme (the (wClient (theWatcher (shared S))))) (callObj c) = Inr g \<Longrightarrow>
     \<not> already_settled g (theWatcher (shared S)) \<Longrightarrow>
     wstep E B c0 S (S\<lparr>procs := (procs S)(i := Checked g c)\<rparr>)"
| commit: "procs S i = Checked g c \<Longrightarrow>
     register E B c0 (callCtx c) (callOwner c) (callObj c) (callOpts c) g (shared S) = (r, ob, s') \<Longrightarrow>
     wstep E B c0 S (S\<lparr>shared := s', procs := (procs S)(i := Idle),
                       registered := registered S @ committed g r\<rparr>)"
| set_client: "wstep E B c0 S (S\<lparr>shared := (shared S)
     \<lparr>theWatcher := watch_SetClient (Some cli) (theWatcher (shared S))\<rparr>\<rparr>)"
| set_cache: "wstep E B c0 S (S\<lparr>shared := (shared S)
     \<lparr>theWatcher := watch_SetCache (Some k) (theWatcher (shared S))\<rparr>\<rparr>)"
| set_controller: "wstep E B c0 S (S\<lparr>shared := (shared S)
     \<lparr>theWatcher := watch_SetController (Some ctrl) (theWatcher (shared S))\<rparr>\<rparr>)"

inductive_cases wstep_elim: "wstep E B c0 S T"

definition watch_start :: "('c, 's, 'k, 'w) watch_system \<Rightarrow> bool" where
  "watch_start S \<longleftrightarrow> (\<exists>opts. theWatcher (shared S) = watch_New opts) \<and>
     (\<forall>i. procs S i = Idle) \<and> registered S = []"

abbreviation registrations :: "gvk \<Rightarrow> ('c, 's, 'k, 'w) watch_system \<Rightarrow> ('c, 's, 'k) kind_source list" where
  "registrations g S \<equiv> map snd (filter (\<lambda>r. fst r = g) (registered S))"

definition registered_inv :: "('c, 's, 'k, 'w) watch_system \<Rightarrow> bool" where
  "registered_inv S \<longleftrightarrow> (\<forall>g. length (registrations g S) = (if watched g (theWatcher (shared S)) then 1 else 0))"

lemma watched_setters [simp]:
  "watched g (watch_SetClient c w) = watched g w"
  "watched g (watch_SetCache k w) = watched g w"
  "watched g (watch_SetController ctrl w) = watched g w"
  by (simp_all add: watched_def watch_SetClient_def watch_SetCache_def watch_SetController_def)

lemma registered_inv_commit:
  assumes "registered_inv S"
    and reg: "register E B c0 ctx owner obj opts g (shared S) = (r, ob, s')"
  shows "registered_inv (S\<lparr>shared := s', procs := p, registered := registered S @ committed g r\<rparr>)"
proof -
  have "length (filter (\<lambda>x. fst x = h) (registered S)) + length (filter (\<lambda>x. fst x = h) (committed g r))
          = (if watched h (theWatcher s') then 1 else 0)" for h
  proof (cases "h = g")
    case True
    with assms(1) register_frame(2,3) [OF reg] show ?thesis
      by (auto simp: registered_inv_def committed_def split: watch_result.splits)
  next
    case False
    then have "watched h (theWatcher s') = watched h (theWatcher (shared S))"
      using register_frame(1) [OF reg] by (simp add: watched_def)
    with False assms(1) show ?thesis
      by (auto simp: registered_inv_def committed_def split: watch_result.splits)
  qed
  then show ?thesis by (simp add: registered_inv_def)
qed

interpretation watch_protocol: inductive_invariant watch_start "wstep E B c0" registered_inv for E B c0
proof unfold_locales
  fix S :: "('a, 'b, 'c, 'd) watch_system"
  assume "watch_start S"
  then show "registered_inv S"
    by (auto simp: watch_start_def registered_inv_def watch_New_unwatched)
next
  fix S T :: "('a, 'b, 'c, 'd) watch_system"
  assume inv: "registered_inv S" and "wstep E B c0 S T"
  from this(2) show "registered_inv T"
  proof cases
    case (commit i g c r ob s')
    from registered_inv_commit [OF inv commit(3)] commit(1) show ?thesis by simp
  qed (use inv in \<open>simp_all add: registered_inv_def\<close>)
qed

text \<open>A call that runs alone is its two critical sections one after the other.\<close>

lemma watchObject_settled:
  assumes "GVKForObject (clientScheme (the (wClient (theWatcher s)))) obj = Inr g"
    and "already_settled g (theWatcher s)"
  shows "watchObject E B c0 ctx owner obj opts s = (NotNeeded, obj, s)"
  using assms by (simp add: watchObject_def)

lemma watchObject_unsettled:
  assumes "GVKForObject (clientScheme (the (wClient (theWatcher s)))) obj = Inr g"
    and "\<not> already_settled g (theWatcher s)"
  shows "watchObject E B c0 ctx owner obj opts s = register E B c0 ctx owner obj opts g s"
  using assms by (simp add: watchObject_def)

lemma already_settled_iff:
  "already_settled g w \<longleftrightarrow> watched g w \<or> (\<exists>st. states w g = Some st \<and> cfgDisabled (stConfig st))"
  by (auto simp: already_settled_def watched_def split: option.splits)

lemma register_settles:
  assumes "register E B c0 ctx owner obj opts g s = (r, obj', s')"
  shows "result_error r = None \<longleftrightarrow> already_settled g (theWatcher s')"
  using assms unfolding register_eq
  by (auto simp: Let_def already_settled_def split: if_splits prod.splits sum.splits option.splits)

lemma register_client: "register E B c0 ctx owner obj opts g s = (r, obj', s') \<Longrightarrow> wClient (theWatcher s') = wClient (theWatcher s)"
  unfolding register_eq
  by (auto simp: Let_def split: if_splits prod.splits sum.splits option.splits)

lemma Watcher_Watch_settles:
  assumes "watch_ready (theWatcher s)"
    and "GVKForObject (clientScheme (the (wClient (theWatcher s)))) ob = Inr g"
    and "Watcher_Watch E B c0 ctx owner (Some ob) opts s = (err, ob', s')"
  shows "(err = None \<longleftrightarrow> already_settled g (theWatcher s')) \<and>
     (already_settled g (theWatcher s) \<longrightarrow> s' = s \<and> ob' = Some ob) \<and>
     (\<forall>h. h \<noteq> g \<longrightarrow> states (theWatcher s') h = states (theWatcher s) h)"
proof (cases "already_settled g (theWatcher s)")
  case True
  with assms show ?thesis by (simp add: Watcher_Watch_def watchObject_settled)
next
  case False
  with assms obtain r o' where "register E B c0 ctx owner ob opts g s = (r, o', s')"
    and err: "err = result_error r"
    by (auto simp: Watcher_Watch_def watchObject_unsettled split: prod.splits)
  note reg = this(1)
  have "h \<noteq> g \<Longrightarrow> states (theWatcher s') h = states (theWatcher s) h" for h
    by (rule register_frame(1) [OF reg])
  with False err register_settles [OF reg] show ?thesis by simp
qed

lemma Watcher_Watch_frame:
  assumes "Watcher_Watch E B c0 ctx owner ob opts s = (err, ob', s')"
  shows "watch_ready (theWatcher s') = watch_ready (theWatcher s) \<and> wClient (theWatcher s') = wClient (theWatcher s)"
  using assms register_frame(4) register_client
  by (fastforce simp: Watcher_Watch_def watchObject_def split: if_splits prod.splits sum.splits)

lemma Watcher_Watch_unresolved:
  assumes "watch_ready (theWatcher s)" and "Watcher_Watch E B c0 ctx owner (Some ob) opts s = (None, ob', s')"
  shows "\<exists>g. GVKForObject (clientScheme (the (wClient (theWatcher s)))) ob = Inr g"
  using assms by (auto simp: Watcher_Watch_def watchObject_def split: if_splits prod.splits sum.splits)

lemma effective_state_fresh:
  "states w g = None \<Longrightarrow> effective_state [] g w = \<lparr>stConfig = zero_Config g, stWatched = False\<rparr>"
  by (simp add: effective_state_def setupState_eq)

lemma retry_appends_predicates:
  assumes "states (theWatcher s) g = None"
    and "register E B c0 ctx owner obj [WithPredicates ps] g s = (WatchFailed e, obj', s')"
  shows "cfgPredicates (stConfig (effective_state [WithPredicates ps] g (theWatcher s'))) = ps @ ps"
proof -
  have "states (theWatcher s') g = Some (effective_state [WithPredicates ps] g (theWatcher s))"
    using assms(2) unfolding register_eq
    by (auto simp: Let_def split: if_splits prod.splits sum.splits option.splits)
  with assms(1) show ?thesis
    by (simp add: effective_state_def setupState_eq zero_Config_def WithPredicates_def
        FunctionalOption_ApplyTo_def)
qed

section \<open>Properties\<close>

text \<open>
  C5: however many goroutines call \<open>Watch\<close> on one watcher, in whatever interleaving of the two
  critical sections and of the setters, the controller accepts at most one source per GVK, and the
  watcher reports a GVK as watched exactly when its source has been accepted.
\<close>

theorem watch_registered_once:
  assumes "watch_start S" and "(wstep E B c0)\<^sup>*\<^sup>* S T"
  shows "length (registrations g T) \<le> 1 \<and>
     (watched g (theWatcher (shared T)) \<longleftrightarrow> registrations g T \<noteq> [])"
proof -
  from watch_protocol.inv_reachable [OF assms]
  have "length (registrations g T) = (if watched g (theWatcher (shared T)) then 1 else 0)"
    by (simp add: registered_inv_def)
  then show ?thesis by (auto split: if_splits)
qed

text \<open>Two goroutines pass the check before either registers: the loser finds the GVK watched.\<close>

definition demo_watcher :: "(unit, unit, unit, nat) Watcher" where
  "demo_watcher = watch_New [watch_WithClient (Some demo_client), watch_WithCache (Some ()),
     watch_WithController (Some (\<lambda>src n. (None, Suc n)))]"

definition demo_wstate :: "(unit, unit, unit, nat) wstate" where
  "demo_wstate = \<lparr>theWatcher = demo_watcher, dynamicWatched = Map.empty, wworld = 0\<rparr>"

definition demo_system :: "(unit, unit, unit, nat) watch_system" where
  "demo_system = \<lparr>shared = demo_wstate, procs = (\<lambda>_. Idle), registered = []\<rparr>"

definition demo_call :: "(unit, unit) watch_call" where
  "demo_call = \<lparr>callCtx = None, callOwner = demo_object, callObj = demo_object, callOpts = []\<rparr>"

lemma demo_watcher_simps [simp]:
  "wClient demo_watcher = Some demo_client" "wCache demo_watcher = Some ()"
  "wController demo_watcher = Some (\<lambda>src n. (None, Suc n))" "states demo_watcher = Map.empty"
  by (simp_all add: demo_watcher_def watch_New_def WatchOptions_ApplyOptions_def opt_defs
      FunctionalOption_ApplyTo_def)

lemma demo_GVKForObject [simp]:
  "GVKForObject (clientScheme demo_client) demo_object = Inr demo_gvk"
  by (simp add: demo_client_def demo_scheme_def demo_object_def empty_object_def zero_gvk_def)

lemma demo_ready [simp]: "watch_ready demo_watcher"
  by (simp add: watch_ready_def)

lemma demo_watch_start: "watch_start demo_system"
  by (auto simp: watch_start_def demo_system_def demo_wstate_def demo_watcher_def)

theorem watch_registered_once_witness:
  "\<exists>T. (wstep demo_env demo_combinators ())\<^sup>*\<^sup>* demo_system T \<and>
     length (registrations demo_gvk T) \<le> 1 \<and> registrations demo_gvk T \<noteq> [] \<and> wworld (shared T) = 1"
proof -
  let ?step = "wstep demo_env demo_combinators ()"
  let ?S1 = "demo_system\<lparr>procs := (procs demo_system)(0 := Checked demo_gvk demo_call)\<rparr>"
  let ?S2 = "?S1\<lparr>procs := (procs ?S1)(Suc 0 := Checked demo_gvk demo_call)\<rparr>"
  let ?reg = "register demo_env demo_combinators () (callCtx demo_call) (callOwner demo_call)
     (callObj demo_call) (callOpts demo_call) demo_gvk"
  obtain r1 o1 s1 where reg1: "?reg (shared ?S2) = (r1, o1, s1)" by (cases "?reg (shared ?S2)") auto
  let ?S3 = "?S2\<lparr>shared := s1, procs := (procs ?S2)(0 := Idle), registered := registered ?S2 @ committed demo_gvk r1\<rparr>"
  obtain r2 o2 s2 where reg2: "?reg (shared ?S3) = (r2, o2, s2)" by (cases "?reg (shared ?S3)") auto
  let ?S4 = "?S3\<lparr>shared := s2, procs := (procs ?S3)(Suc 0 := Idle), registered := registered ?S3 @ committed demo_gvk r2\<rparr>"
  have 1: "?step demo_system ?S1" and 2: "?step ?S1 ?S2"
    by (rule wstep.check; simp add: demo_system_def demo_wstate_def demo_call_def already_settled_def)+
  have 3: "?step ?S2 ?S3" by (rule wstep.commit [OF _ reg1]) simp
  have 4: "?step ?S3 ?S4" by (rule wstep.commit [OF _ reg2]) simp
  have steps: "?step\<^sup>*\<^sup>* demo_system ?S4"
    using 1 2 3 4 by (meson converse_rtranclp_into_rtranclp r_into_rtranclp)
  have s1: "wworld s1 = 1" "watched demo_gvk (theWatcher s1)"
    using reg1
    by (auto simp: register_eq demo_system_def demo_wstate_def demo_call_def watched_def
        effective_state_fresh setupSource_def zero_Config_def with_state_def)
  have "wworld s2 = 1" "watched demo_gvk (theWatcher s2)"
    using reg2 s1
    by (auto simp: register_eq Let_def with_state_def watched_def)
  with watch_registered_once [OF demo_watch_start steps, of demo_gvk] steps show ?thesis
    by (intro exI [of _ ?S4]) simp
qed

text \<open>
  C15: What a call of \<open>Watch\<close> returns and changes, in every case. A nil object and a watcher that
  is not ready (one that lacks its client, cache or controller) are no-ops: no error, nothing changed.
  When the GVK of the object cannot be resolved, the wrapped error is returned and nothing is
  changed. Otherwise the call returns no error exactly when the GVK is settled afterwards (watched or
  disabled): after an error the GVK is still unsettled and the next call tries again, after a success
  every later call returns at once and changes nothing. The states of other GVKs are left alone.
\<close>

theorem Watch_settles:
  assumes "Watcher_Watch E B c0 ctx owner obj opts s = (err, obj', s')"
  shows "case obj of
       None \<Rightarrow> err = None \<and> obj' = None \<and> s' = s
     | Some ob \<Rightarrow>
         if \<not> watch_ready (theWatcher s) then err = None \<and> obj' = obj \<and> s' = s
         else (case GVKForObject (clientScheme (the (wClient (theWatcher s)))) ob of
             Inl e \<Rightarrow> err = Some (WrapError (''unable to get GVK for '' @ go_type_name (goType ob)) e) \<and>
               obj' = obj \<and> s' = s
           | Inr g \<Rightarrow> (err = None \<longleftrightarrow> already_settled g (theWatcher s')) \<and>
               (already_settled g (theWatcher s) \<longrightarrow> s' = s \<and> obj' = obj) \<and>
               (\<forall>h. h \<noteq> g \<longrightarrow> states (theWatcher s') h = states (theWatcher s) h))"
proof (cases "\<exists>ob g. obj = Some ob \<and> watch_ready (theWatcher s) \<and>
    GVKForObject (clientScheme (the (wClient (theWatcher s)))) ob = Inr g")
  case True
  then obtain ob g where res: "obj = Some ob" "watch_ready (theWatcher s)"
      "GVKForObject (clientScheme (the (wClient (theWatcher s)))) ob = Inr g"
    by blast
  with assms have "Watcher_Watch E B c0 ctx owner (Some ob) opts s = (err, obj', s')" by simp
  from Watcher_Watch_settles [OF res(2,3) this] res show ?thesis by simp
next
  case False
  with assms show ?thesis
    by (auto simp: Watcher_Watch_def watchObject_def split: option.splits sum.splits if_splits)
qed

theorem Watch_settles_witness:
  "\<exists>err ob' s'. Watcher_Watch demo_env demo_combinators () None demo_object (Some demo_object) [] demo_wstate
       = (err, ob', s') \<and> (err = None \<longleftrightarrow> already_settled demo_gvk (theWatcher s'))"
proof -
  obtain err ob' s' where call: "Watcher_Watch demo_env demo_combinators () None demo_object
       (Some demo_object) [] demo_wstate = (err, ob', s')"
    by (metis prod_cases3)
  have ready: "watch_ready (theWatcher demo_wstate)" by (simp add: demo_wstate_def)
  have gvk: "GVKForObject (clientScheme (the (wClient (theWatcher demo_wstate)))) demo_object = Inr demo_gvk"
    by (simp add: demo_wstate_def)
  from Watch_settles [OF call] ready gvk have "err = None \<longleftrightarrow> already_settled demo_gvk (theWatcher s')"
    by simp
  with call show ?thesis by blast
qed

text \<open>
  C16: on a watcher with controller, cache and client, the first \<open>Watch\<close>, without options, of an
  object that is not partial metadata and whose GVK is resolvable and has no configuration hands the
  controller a source on the watcher's cache for the object itself, with the default predicate and the handler that
  enqueues the controlling owner or the owner named by the labels. If the controller accepts it, the
  GVK is watched and the gauge of the controller's name (the lower-case kind when the context has
  none), API version and kind is 1.
\<close>

theorem Watch_default_source:
  assumes "wController (theWatcher s) = Some ctrl" and "wCache (theWatcher s) = Some k"
    and "wClient (theWatcher s) = Some cli"
    and "GVKForObject (clientScheme cli) ob = Inr g" and "states (theWatcher s) g = None"
    and "goType ob \<noteq> PartialMetadataType"
    and "ctrl \<lparr>srcCache = k, srcObject = ob,
           srcHandler = EnqueueRequestForOwnerOrLabel (envSchema E) (clientScheme cli) owner True
             LabelOwnerName LabelOwnerNamespace,
           srcPredicates = [predicates_Default B]\<rparr> (wworld s) = (None, wd)"
    and "name = (case ControllerNameFromContext ctx of (n, True) \<Rightarrow> n | (_, False) \<Rightarrow> ToLower (Kind g))"
  shows "\<exists>s'. Watcher_Watch E B c0 ctx owner (Some ob) [] s = (None, Some ob, s') \<and>
     wworld s' = wd \<and> watched g (theWatcher s') \<and>
     dynamicWatched s' (name, GVString (envSchema E) g, Kind g) = Some 1"
proof -
  have "\<not> watched g (theWatcher s)" "watch_ready (theWatcher s)" "\<not> already_settled g (theWatcher s)"
    using assms(1-3,5) by (simp_all add: watched_def watch_ready_def already_settled_def)
  with assms show ?thesis
    by (simp add: Watcher_Watch_def watchObject_unsettled register_eq effective_state_fresh
        setupSource_def zero_Config_def IsPartialObjectMetadata_def watched_def)
qed

theorem Watch_default_source_witness:
  "\<exists>s'. Watcher_Watch demo_env demo_combinators () None demo_object (Some demo_object) [] demo_wstate
       = (None, Some demo_object, s') \<and> watched demo_gvk (theWatcher s')"
proof -
  have typed: "goType demo_object \<noteq> PartialMetadataType" by (simp add: demo_object_def empty_object_def)
  show ?thesis
    using Watch_default_source [of demo_wstate "\<lambda>src n. (None, Suc n)" "()" demo_client demo_object demo_gvk
        demo_env demo_object demo_combinators 1 "ToLower (Kind demo_gvk)" None "()"] typed
    by (auto simp: demo_wstate_def ControllerNameFromContext_def)
qed

end
