(* ===== verification/Builder_Conversion.thy ===== *)
theory Builder_Conversion
  imports Watch
begin

text \<open>
  The conversion layer of the builder (\<^verbatim>\<open>src/pkg/builder/builder_conversion.go\<close>): watches run on
  unstructured or partial objects, and predicates, handlers and mappers see typed ones. The converter
  counts its failures in a metric, which is part of the event state. A generic type parameter is a
  value of \<open>type_param\<close>: the interface \<open>client.Object\<close> or a concrete Go type, against which a type
  assertion is checked.
\<close>

section \<open>The converter\<close>

record 'c converter =
  convScheme :: "'c scheme"
  convControllerName :: string

abbreviation ReasonTypeNotInScheme :: string where "ReasonTypeNotInScheme \<equiv> ''type_not_in_scheme''"
abbreviation ReasonNotClientObject :: string where "ReasonNotClientObject \<equiv> ''not_client_object''"
abbreviation ReasonConversionFailed :: string where "ReasonConversionFailed \<equiv> ''conversion_failed''"

text \<open>\<open>ConversionErrorsTotal.WithLabelValues(...).Inc()\<close>.\<close>

definition count_conversion_error :: "schema_api \<Rightarrow> 'c converter \<Rightarrow> gvk \<Rightarrow> string \<Rightarrow> 's evstate \<Rightarrow> 's evstate" where
  "count_conversion_error S c g reason s =
     s\<lparr>conversionErrors := conversionErrors s @ [(convControllerName c, GVString S g, Kind g, reason)]\<rparr>"

definition converter_Convert ::
    "'c env \<Rightarrow> 'c converter \<Rightarrow> 'c object option \<Rightarrow> 's evstate \<Rightarrow> (error + 'c object option) \<times> 's evstate" where
  "converter_Convert E c obj s =
     (case obj of
        Some u \<Rightarrow>
          if goType u = UnstructuredType
          then (let g = GroupVersionKind u
                in case SchemeNew (convScheme c) g of
                     Inl err \<Rightarrow>
                       (Inl (WrapError ''failed to create target type from scheme'' err),
                        count_conversion_error (envSchema E) c g ReasonTypeNotInScheme s)
                   | Inr None \<Rightarrow>
                       (Inl (ErrorString ''target type does not implement client.Object''),
                        count_conversion_error (envSchema E) c g ReasonNotClientObject s)
                   | Inr (Some targetObj) \<Rightarrow>
                       (case FromUnstructured E (convScheme c) (Some u) targetObj of
                          (Some err, _) \<Rightarrow>
                            (Inl (WrapError ''failed to convert from unstructured'' err),
                             count_conversion_error (envSchema E) c g ReasonConversionFailed s)
                        | (None, targetObj) \<Rightarrow> (Inr (Some targetObj), s)))
          else (Inr obj, s)
      | None \<Rightarrow> (Inr obj, s))"

text \<open>The object a watch is registered for, with only its GVK set, and whether events need conversion.\<close>

definition processObject :: "'c scheme \<Rightarrow> 'c \<Rightarrow> bool \<Rightarrow> 'c object \<Rightarrow> error + ('c object \<times> bool)" where
  "processObject scheme c0 asPartial obj =
     (case goType obj of
        UnstructuredType \<Rightarrow> Inr (empty_object UnstructuredType (GroupVersionKind obj) c0, False)
      | PartialMetadataType \<Rightarrow> Inr (empty_object PartialMetadataType (GroupVersionKind obj) c0, False)
      | TypedGo t \<Rightarrow>
          (case GetGroupVersionKindForObject scheme (Some obj) of
             Inl err \<Rightarrow>
               Inl (WrapError (''failed to get GVK for object type '' @ go_type_name (goType obj)) err)
           | Inr g \<Rightarrow>
               if asPartial then Inr (empty_object PartialMetadataType g c0, True)
               else Inr (empty_object UnstructuredType g c0, True)))"

section \<open>Wrapped predicates and handlers\<close>

definition predicateWrapper :: "'c env \<Rightarrow> 'c converter \<Rightarrow> ('c, 's) Predicate \<Rightarrow> ('c, 's) Predicate" where
  "predicateWrapper E conv pred =
     \<lparr>pCreate = (\<lambda>e s. case converter_Convert E conv e s of
         (Inl err, s) \<Rightarrow> (False, s) | (Inr typed, s) \<Rightarrow> pCreate pred typed s),
      pUpdate = (\<lambda>e s. case converter_Convert E conv (ObjectOld e) s of
         (Inl err, s) \<Rightarrow> (False, s)
       | (Inr typedOld, s) \<Rightarrow>
           (case converter_Convert E conv (ObjectNew e) s of
              (Inl err, s) \<Rightarrow> (False, s)
            | (Inr typedNew, s) \<Rightarrow> pUpdate pred \<lparr>ObjectOld = typedOld, ObjectNew = typedNew\<rparr> s)),
      pDelete = (\<lambda>e s. case converter_Convert E conv (delObject e) s of
         (Inl err, s) \<Rightarrow> (False, s)
       | (Inr typed, s) \<Rightarrow>
           pDelete pred \<lparr>delObject = typed, DeleteStateUnknown = DeleteStateUnknown e\<rparr> s),
      pGeneric = (\<lambda>e s. case converter_Convert E conv e s of
         (Inl err, s) \<Rightarrow> (False, s) | (Inr typed, s) \<Rightarrow> pGeneric pred typed s)\<rparr>"

definition wrapPredicates ::
    "'c env \<Rightarrow> 'c scheme \<Rightarrow> ('c, 's) Predicate list \<Rightarrow> bool \<Rightarrow> string \<Rightarrow> ('c, 's) Predicate list" where
  "wrapPredicates E scheme preds needsConversion controllerName =
     (if \<not> needsConversion then preds
      else map (predicateWrapper E \<lparr>convScheme = scheme, convControllerName = controllerName\<rparr>) preds)"

definition handlerWrapper :: "'c env \<Rightarrow> 'c converter \<Rightarrow> ('c, 's) EventHandler \<Rightarrow> ('c, 's) EventHandler" where
  "handlerWrapper E conv h =
     \<lparr>hCreate = (\<lambda>ctx e s. case converter_Convert E conv e s of
         (Inl err, s) \<Rightarrow> s | (Inr typed, s) \<Rightarrow> hCreate h ctx typed s),
      hUpdate = (\<lambda>ctx e s. case converter_Convert E conv (ObjectOld e) s of
         (Inl err, s) \<Rightarrow> s
       | (Inr typedOld, s) \<Rightarrow>
           (case converter_Convert E conv (ObjectNew e) s of
              (Inl err, s) \<Rightarrow> s
            | (Inr typedNew, s) \<Rightarrow> hUpdate h ctx \<lparr>ObjectOld = typedOld, ObjectNew = typedNew\<rparr> s)),
      hDelete = (\<lambda>ctx e s. case converter_Convert E conv (delObject e) s of
         (Inl err, s) \<Rightarrow> s
       | (Inr typed, s) \<Rightarrow>
           hDelete h ctx \<lparr>delObject = typed, DeleteStateUnknown = DeleteStateUnknown e\<rparr> s),
      hGeneric = (\<lambda>ctx e s. case converter_Convert E conv e s of
         (Inl err, s) \<Rightarrow> s | (Inr typed, s) \<Rightarrow> hGeneric h ctx typed s)\<rparr>"

definition wrapHandler ::
    "'c env \<Rightarrow> 'c scheme \<Rightarrow> ('c, 's) EventHandler \<Rightarrow> bool \<Rightarrow> string \<Rightarrow> ('c, 's) EventHandler" where
  "wrapHandler E scheme h needsConversion controllerName =
     (if \<not> needsConversion then h
      else handlerWrapper E \<lparr>convScheme = scheme, convControllerName = controllerName\<rparr> h)"

text \<open>
  The combined handler: one conversion, then the predicates, then the handler. In the code they all
  get the one converted object; here objects are values, so a predicate that writes to that object
  is not represented (predicates are functions that read their event).
\<close>

definition convertingHandler ::
    "'c env \<Rightarrow> 'c converter \<Rightarrow> ('c, 's) EventHandler \<Rightarrow> ('c, 's) Predicate list \<Rightarrow> ('c, 's) EventHandler" where
  "convertingHandler E conv h preds =
     \<lparr>hCreate = (\<lambda>ctx e s. case converter_Convert E conv e s of
         (Inl err, s) \<Rightarrow> s
       | (Inr typed, s) \<Rightarrow>
           (case eval_all (map (\<lambda>p. pCreate p typed) preds) s of
              (False, s) \<Rightarrow> s | (True, s) \<Rightarrow> hCreate h ctx typed s)),
      hUpdate = (\<lambda>ctx e s. case converter_Convert E conv (ObjectOld e) s of
         (Inl err, s) \<Rightarrow> s
       | (Inr typedOld, s) \<Rightarrow>
           (case converter_Convert E conv (ObjectNew e) s of
              (Inl err, s) \<Rightarrow> s
            | (Inr typedNew, s) \<Rightarrow>
                (let typedEvent = \<lparr>ObjectOld = typedOld, ObjectNew = typedNew\<rparr>
                 in case eval_all (map (\<lambda>p. pUpdate p typedEvent) preds) s of
                      (False, s) \<Rightarrow> s | (True, s) \<Rightarrow> hUpdate h ctx typedEvent s))),
      hDelete = (\<lambda>ctx e s. case converter_Convert E conv (delObject e) s of
         (Inl err, s) \<Rightarrow> s
       | (Inr typed, s) \<Rightarrow>
           (let typedEvent = \<lparr>delObject = typed, DeleteStateUnknown = DeleteStateUnknown e\<rparr>
            in case eval_all (map (\<lambda>p. pDelete p typedEvent) preds) s of
                 (False, s) \<Rightarrow> s | (True, s) \<Rightarrow> hDelete h ctx typedEvent s)),
      hGeneric = (\<lambda>ctx e s. case converter_Convert E conv e s of
         (Inl err, s) \<Rightarrow> s
       | (Inr typed, s) \<Rightarrow>
           (case eval_all (map (\<lambda>p. pGeneric p typed) preds) s of
              (False, s) \<Rightarrow> s | (True, s) \<Rightarrow> hGeneric h ctx typed s))\<rparr>"

definition newConvertingHandler ::
    "'c env \<Rightarrow> 'c scheme \<Rightarrow> ('c, 's) EventHandler \<Rightarrow> ('c, 's) Predicate list \<Rightarrow> string \<Rightarrow> ('c, 's) EventHandler" where
  "newConvertingHandler E scheme h preds controllerName =
     convertingHandler E \<lparr>convScheme = scheme, convControllerName = controllerName\<rparr> h preds"

section \<open>Typed mappers\<close>

datatype type_param = ClientObjectParam | ConcreteParam go_type

text \<open>The type assertion \<open>obj.(O)\<close>: a nil interface value fails it.\<close>

definition asserts :: "type_param \<Rightarrow> 'c object option \<Rightarrow> 'c object option" where
  "asserts O' obj =
     (case obj of None \<Rightarrow> None
      | Some ob \<Rightarrow>
          (case O' of ClientObjectParam \<Rightarrow> Some ob
           | ConcreteParam t \<Rightarrow> if goType ob = t then Some ob else None))"

datatype MapperExpectation =
  MapperExpectsUnstructured | MapperExpectsPartial | MapperExpectsClientObject | MapperExpectsTyped

fun getMapperExpectation :: "type_param \<Rightarrow> MapperExpectation" where
  "getMapperExpectation (ConcreteParam UnstructuredType) = MapperExpectsUnstructured"
| "getMapperExpectation (ConcreteParam PartialMetadataType) = MapperExpectsPartial"
| "getMapperExpectation ClientObjectParam = MapperExpectsClientObject"
| "getMapperExpectation (ConcreteParam (TypedGo t)) = MapperExpectsTyped"

definition typeRequiresConversion :: "type_param \<Rightarrow> bool" where
  "typeRequiresConversion O' \<longleftrightarrow>
     O' \<noteq> ConcreteParam UnstructuredType \<and> O' \<noteq> ConcreteParam PartialMetadataType \<and> O' \<noteq> ClientObjectParam"

text \<open>\<open>getTypedObject\<close>, the same for predicates and mappers: convert if there is a converter, then assert.\<close>

definition getTypedObject ::
    "'c env \<Rightarrow> 'c converter option \<Rightarrow> type_param \<Rightarrow> 'c object option \<Rightarrow> 's evstate \<Rightarrow>
     'c object option \<times> 's evstate" where
  "getTypedObject E conv O' obj s =
     (case conv of
        None \<Rightarrow> (asserts O' obj, s)
      | Some c \<Rightarrow>
          (case converter_Convert E c obj s of
             (Inl err, s) \<Rightarrow> (None, s) | (Inr typed, s) \<Rightarrow> (asserts O' typed, s)))"

type_synonym ('c, 's) filter_fn = "'c object \<Rightarrow> 's evstate \<Rightarrow> bool \<times> 's evstate"

definition typedPredicateWrapper ::
    "'c env \<Rightarrow> 'c converter option \<Rightarrow> type_param \<Rightarrow> ('c, 's) filter_fn \<Rightarrow> ('c, 's) Predicate" where
  "typedPredicateWrapper E conv O' filter_fn =
     (let check = (\<lambda>obj s. case getTypedObject E conv O' obj s of
            (None, s) \<Rightarrow> (False, s) | (Some ob, s) \<Rightarrow> filter_fn ob s)
      in \<lparr>pCreate = check, pUpdate = (\<lambda>e. check (ObjectNew e)),
          pDelete = (\<lambda>e. check (delObject e)), pGeneric = check\<rparr>)"

type_synonym ('c, 's) TypedPredicateFactory = "'c scheme \<Rightarrow> string \<Rightarrow> ('c, 's) Predicate"

definition CreateTypedPredicate ::
    "'c env \<Rightarrow> type_param \<Rightarrow> ('c, 's) filter_fn \<Rightarrow> ('c, 's) TypedPredicateFactory" where
  "CreateTypedPredicate E O' filter_fn =
     (let predicateNeedsConversion = typeRequiresConversion O'
      in (\<lambda>scheme controllerName.
            typedPredicateWrapper E
              (if predicateNeedsConversion
               then Some \<lparr>convScheme = scheme, convControllerName = controllerName\<rparr> else None)
              O' filter_fn))"

type_synonym ('c, 's) mapper_fn = "goctx option \<Rightarrow> 'c object \<Rightarrow> 's evstate \<Rightarrow> request list \<times> 's evstate"

record ('c, 's) typedMapperHandler =
  tmConverter :: "'c converter option"
  tmType :: type_param
  tmMapper :: "('c, 's) mapper_fn"
  tmPredicates :: "('c, 's) Predicate list"

definition processCreateEvent ::
    "'c env \<Rightarrow> ('c, 's) typedMapperHandler \<Rightarrow> 'c create_event \<Rightarrow> 's evstate \<Rightarrow>
     ('c object \<times> 'c create_event) option \<times> 's evstate" where
  "processCreateEvent E tmh e s =
     (case getTypedObject E (tmConverter tmh) (tmType tmh) e s of
        (None, s) \<Rightarrow> (None, s)
      | (Some obj, s) \<Rightarrow>
          (case eval_all (map (\<lambda>p. pCreate p (Some obj)) (tmPredicates tmh)) s of
             (False, s) \<Rightarrow> (None, s) | (True, s) \<Rightarrow> (Some (obj, Some obj), s)))"

definition processUpdateEvent ::
    "'c env \<Rightarrow> ('c, 's) typedMapperHandler \<Rightarrow> 'c update_event \<Rightarrow> 's evstate \<Rightarrow>
     ('c object \<times> 'c update_event) option \<times> 's evstate" where
  "processUpdateEvent E tmh e s =
     (let (okOld, objOld, s) =
            (case ObjectOld e of
               None \<Rightarrow> (True, None, s)
             | Some old \<Rightarrow>
                 (case getTypedObject E (tmConverter tmh) (tmType tmh) (Some old) s of
                    (None, s) \<Rightarrow> (False, None, s) | (Some typed, s) \<Rightarrow> (True, Some typed, s)))
      in if \<not> okOld then (None, s)
         else (case getTypedObject E (tmConverter tmh) (tmType tmh) (ObjectNew e) s of
                 (None, s) \<Rightarrow> (None, s)
               | (Some objNew, s) \<Rightarrow>
                   (let convertedEvent = \<lparr>ObjectOld = objOld, ObjectNew = Some objNew\<rparr>
                    in case eval_all (map (\<lambda>p. pUpdate p convertedEvent) (tmPredicates tmh)) s of
                         (False, s) \<Rightarrow> (None, s) | (True, s) \<Rightarrow> (Some (objNew, convertedEvent), s))))"

definition processDeleteEvent ::
    "'c env \<Rightarrow> ('c, 's) typedMapperHandler \<Rightarrow> 'c delete_event \<Rightarrow> 's evstate \<Rightarrow>
     ('c object \<times> 'c delete_event) option \<times> 's evstate" where
  "processDeleteEvent E tmh e s =
     (case getTypedObject E (tmConverter tmh) (tmType tmh) (delObject e) s of
        (None, s) \<Rightarrow> (None, s)
      | (Some obj, s) \<Rightarrow>
          (let convertedEvent = \<lparr>delObject = Some obj, DeleteStateUnknown = DeleteStateUnknown e\<rparr>
           in case eval_all (map (\<lambda>p. pDelete p convertedEvent) (tmPredicates tmh)) s of
                (False, s) \<Rightarrow> (None, s) | (True, s) \<Rightarrow> (Some (obj, convertedEvent), s)))"

definition processGenericEvent ::
    "'c env \<Rightarrow> ('c, 's) typedMapperHandler \<Rightarrow> 'c generic_event \<Rightarrow> 's evstate \<Rightarrow>
     ('c object \<times> 'c generic_event) option \<times> 's evstate" where
  "processGenericEvent E tmh e s =
     (case getTypedObject E (tmConverter tmh) (tmType tmh) e s of
        (None, s) \<Rightarrow> (None, s)
      | (Some obj, s) \<Rightarrow>
          (case eval_all (map (\<lambda>p. pGeneric p (Some obj)) (tmPredicates tmh)) s of
             (False, s) \<Rightarrow> (None, s) | (True, s) \<Rightarrow> (Some (obj, Some obj), s)))"

text \<open>\<open>for _, req := range tmh.mapper(ctx, typedObj) { q.Add(req) }\<close>.\<close>

definition enqueue_mapped ::
    "('c, 's) typedMapperHandler \<Rightarrow> goctx option \<Rightarrow> ('c object \<times> 'e) option \<times> 's evstate \<Rightarrow> 's evstate" where
  "enqueue_mapped tmh ctx r =
     (case r of
        (None, s) \<Rightarrow> s
      | (Some (typedObj, _), s) \<Rightarrow>
          (case tmMapper tmh ctx typedObj s of (reqs, s) \<Rightarrow> fold queue_Add reqs s))"

definition typedMapperHandler_EventHandler ::
    "'c env \<Rightarrow> ('c, 's) typedMapperHandler \<Rightarrow> ('c, 's) EventHandler" where
  "typedMapperHandler_EventHandler E tmh =
     \<lparr>hCreate = (\<lambda>ctx e s. enqueue_mapped tmh ctx (processCreateEvent E tmh e s)),
      hUpdate = (\<lambda>ctx e s. enqueue_mapped tmh ctx (processUpdateEvent E tmh e s)),
      hDelete = (\<lambda>ctx e s. enqueue_mapped tmh ctx (processDeleteEvent E tmh e s)),
      hGeneric = (\<lambda>ctx e s. enqueue_mapped tmh ctx (processGenericEvent E tmh e s))\<rparr>"

record ('c, 's) MapperFactory =
  Expectation :: MapperExpectation
  Create :: "'c scheme \<Rightarrow> bool \<Rightarrow> string \<Rightarrow> ('c, 's) Predicate list \<Rightarrow> ('c, 's) EventHandler"

definition CreateTypedMapperHandler ::
    "'c env \<Rightarrow> type_param \<Rightarrow> ('c, 's) mapper_fn \<Rightarrow> ('c, 's) MapperFactory" where
  "CreateTypedMapperHandler E O' mapper =
     (let expectation = getMapperExpectation O';
          mapperNeedsConversion = (expectation = MapperExpectsTyped)
      in \<lparr>Expectation = expectation,
          Create = (\<lambda>scheme needsConversion controllerName preds.
             (let actualNeedsConversion = needsConversion \<or> mapperNeedsConversion
              in typedMapperHandler_EventHandler E
                   \<lparr>tmConverter = (if actualNeedsConversion
                       then Some \<lparr>convScheme = scheme, convControllerName = controllerName\<rparr> else None),
                    tmType = O', tmMapper = mapper, tmPredicates = preds\<rparr>))\<rparr>)"

section \<open>Lemmas\<close>

text \<open>A conversion does not depend on the event state; it changes it only to count a failure.\<close>

definition convert_outcome :: "'c env \<Rightarrow> 'c converter \<Rightarrow> 'c object option \<Rightarrow> (error \<times> string) + 'c object option" where
  "convert_outcome E c obj =
     (case obj of None \<Rightarrow> Inr None
      | Some u \<Rightarrow>
          if goType u \<noteq> UnstructuredType then Inr obj
          else (case SchemeNew (convScheme c) (GroupVersionKind u) of
                  Inl err \<Rightarrow> Inl (WrapError ''failed to create target type from scheme'' err, ReasonTypeNotInScheme)
                | Inr None \<Rightarrow> Inl (ErrorString ''target type does not implement client.Object'', ReasonNotClientObject)
                | Inr (Some tgt) \<Rightarrow>
                    (case FromUnstructured E (convScheme c) (Some u) tgt of
                       (Some err, _) \<Rightarrow> Inl (WrapError ''failed to convert from unstructured'' err, ReasonConversionFailed)
                     | (None, tgt) \<Rightarrow> Inr (Some tgt))))"

lemma converter_Convert_eq:
  "converter_Convert E c obj s =
     (case convert_outcome E c obj of
        Inl (err, reason) \<Rightarrow>
          (Inl err, count_conversion_error (envSchema E) c (GroupVersionKind (the obj)) reason s)
      | Inr t \<Rightarrow> (Inr t, s))"
  by (auto simp: converter_Convert_def convert_outcome_def Let_def
      split: option.splits sum.splits prod.splits)

lemma Convert_ok: "convert_outcome E c obj = Inr t \<Longrightarrow> converter_Convert E c obj s = (Inr t, s)"
  by (simp add: converter_Convert_eq)

lemma Convert_fail:
  "convert_outcome E c obj = Inl (err, reason) \<Longrightarrow>
     converter_Convert E c obj s = (Inl err, count_conversion_error (envSchema E) c (GroupVersionKind (the obj)) reason s)"
  by (simp add: converter_Convert_eq)

text \<open>A wrapped predicate is the predicate on the converted event, or refuses it.\<close>

lemma predicateWrapper_ok:
  "convert_outcome E c e = Inr t \<Longrightarrow> pCreate (predicateWrapper E c p) e = pCreate p t"
  "convert_outcome E c e = Inr t \<Longrightarrow> pGeneric (predicateWrapper E c p) e = pGeneric p t"
  "convert_outcome E c (delObject d) = Inr t \<Longrightarrow> pDelete (predicateWrapper E c p) d =
     pDelete p \<lparr>delObject = t, DeleteStateUnknown = DeleteStateUnknown d\<rparr>"
  "convert_outcome E c (ObjectOld u) = Inr t \<Longrightarrow> convert_outcome E c (ObjectNew u) = Inr t' \<Longrightarrow>
     pUpdate (predicateWrapper E c p) u = pUpdate p \<lparr>ObjectOld = t, ObjectNew = t'\<rparr>"
  by (simp_all add: predicateWrapper_def Convert_ok)

lemma predicateWrapper_fail:
  "convert_outcome E c e = Inl f \<Longrightarrow>
     pCreate (predicateWrapper E c p) e s = (False, snd (converter_Convert E c e s))"
  "convert_outcome E c e = Inl f \<Longrightarrow>
     pGeneric (predicateWrapper E c p) e s = (False, snd (converter_Convert E c e s))"
  "convert_outcome E c (delObject d) = Inl f \<Longrightarrow>
     pDelete (predicateWrapper E c p) d s = (False, snd (converter_Convert E c (delObject d) s))"
  "convert_outcome E c (ObjectOld u) = Inl f \<Longrightarrow>
     pUpdate (predicateWrapper E c p) u s = (False, snd (converter_Convert E c (ObjectOld u) s))"
  "convert_outcome E c (ObjectOld u) = Inr t \<Longrightarrow> convert_outcome E c (ObjectNew u) = Inl f \<Longrightarrow>
     pUpdate (predicateWrapper E c p) u s = (False, snd (converter_Convert E c (ObjectNew u) s))"
  by (cases f; simp add: predicateWrapper_def Convert_ok Convert_fail)+

lemma handlers_ok:
  "convert_outcome E c e = Inr t \<Longrightarrow> hCreate (handlerWrapper E c h) ctx e s = hCreate h ctx t s"
  "convert_outcome E c e = Inr t \<Longrightarrow> hCreate (convertingHandler E c h ps) ctx e s =
     (case eval_all (map (\<lambda>p. pCreate p t) ps) s of (False, s) \<Rightarrow> s | (True, s) \<Rightarrow> hCreate h ctx t s)"
  "convert_outcome E c e = Inr t \<Longrightarrow> hGeneric (handlerWrapper E c h) ctx e s = hGeneric h ctx t s"
  "convert_outcome E c e = Inr t \<Longrightarrow> hGeneric (convertingHandler E c h ps) ctx e s =
     (case eval_all (map (\<lambda>p. pGeneric p t) ps) s of (False, s) \<Rightarrow> s | (True, s) \<Rightarrow> hGeneric h ctx t s)"
  "convert_outcome E c (delObject d) = Inr t \<Longrightarrow> hDelete (handlerWrapper E c h) ctx d s =
     hDelete h ctx \<lparr>delObject = t, DeleteStateUnknown = DeleteStateUnknown d\<rparr> s"
  "convert_outcome E c (delObject d) = Inr t \<Longrightarrow> hDelete (convertingHandler E c h ps) ctx d s =
     (case eval_all (map (\<lambda>p. pDelete p \<lparr>delObject = t, DeleteStateUnknown = DeleteStateUnknown d\<rparr>) ps) s of
        (False, s) \<Rightarrow> s | (True, s) \<Rightarrow> hDelete h ctx \<lparr>delObject = t, DeleteStateUnknown = DeleteStateUnknown d\<rparr> s)"
  "convert_outcome E c (ObjectOld u) = Inr t \<Longrightarrow> convert_outcome E c (ObjectNew u) = Inr t' \<Longrightarrow>
     hUpdate (handlerWrapper E c h) ctx u s = hUpdate h ctx \<lparr>ObjectOld = t, ObjectNew = t'\<rparr> s"
  "convert_outcome E c (ObjectOld u) = Inr t \<Longrightarrow> convert_outcome E c (ObjectNew u) = Inr t' \<Longrightarrow>
     hUpdate (convertingHandler E c h ps) ctx u s =
     (case eval_all (map (\<lambda>p. pUpdate p \<lparr>ObjectOld = t, ObjectNew = t'\<rparr>) ps) s of
        (False, s) \<Rightarrow> s | (True, s) \<Rightarrow> hUpdate h ctx \<lparr>ObjectOld = t, ObjectNew = t'\<rparr> s)"
  by (simp_all add: handlerWrapper_def convertingHandler_def Convert_ok Let_def)

lemma handlers_fail:
  "convert_outcome E c e = Inl f \<Longrightarrow>
     hCreate (handlerWrapper E c h) ctx e s = snd (converter_Convert E c e s) \<and>
     hCreate (convertingHandler E c h ps) ctx e s = snd (converter_Convert E c e s)"
  "convert_outcome E c e = Inl f \<Longrightarrow>
     hGeneric (handlerWrapper E c h) ctx e s = snd (converter_Convert E c e s) \<and>
     hGeneric (convertingHandler E c h ps) ctx e s = snd (converter_Convert E c e s)"
  "convert_outcome E c (delObject d) = Inl f \<Longrightarrow>
     hDelete (handlerWrapper E c h) ctx d s = snd (converter_Convert E c (delObject d) s) \<and>
     hDelete (convertingHandler E c h ps) ctx d s = snd (converter_Convert E c (delObject d) s)"
  "convert_outcome E c (ObjectOld u) = Inl f \<Longrightarrow>
     hUpdate (handlerWrapper E c h) ctx u s = snd (converter_Convert E c (ObjectOld u) s) \<and>
     hUpdate (convertingHandler E c h ps) ctx u s = snd (converter_Convert E c (ObjectOld u) s)"
  "convert_outcome E c (ObjectOld u) = Inr t \<Longrightarrow> convert_outcome E c (ObjectNew u) = Inl f \<Longrightarrow>
     hUpdate (handlerWrapper E c h) ctx u s = snd (converter_Convert E c (ObjectNew u) s) \<and>
     hUpdate (convertingHandler E c h ps) ctx u s = snd (converter_Convert E c (ObjectNew u) s)"
  by (cases f; simp add: handlerWrapper_def convertingHandler_def Convert_ok Convert_fail)+

text \<open>
  How controller-runtime documents that a \<open>source.Kind\<close> delivers an event to what it was given: the
  predicates in their order, until one refuses, then the handler. These four definitions are not
  code of the repository; they only say in which order its predicates and handlers are called.
\<close>

definition deliver_create ::
    "('c, 's) Predicate list \<Rightarrow> ('c, 's) EventHandler \<Rightarrow> goctx option \<Rightarrow> 'c create_event \<Rightarrow> 's evstate \<Rightarrow> 's evstate" where
  "deliver_create preds h ctx e s =
     (case eval_all (map (\<lambda>p. pCreate p e) preds) s of (False, s) \<Rightarrow> s | (True, s) \<Rightarrow> hCreate h ctx e s)"

definition deliver_update ::
    "('c, 's) Predicate list \<Rightarrow> ('c, 's) EventHandler \<Rightarrow> goctx option \<Rightarrow> 'c update_event \<Rightarrow> 's evstate \<Rightarrow> 's evstate" where
  "deliver_update preds h ctx e s =
     (case eval_all (map (\<lambda>p. pUpdate p e) preds) s of (False, s) \<Rightarrow> s | (True, s) \<Rightarrow> hUpdate h ctx e s)"

definition deliver_delete ::
    "('c, 's) Predicate list \<Rightarrow> ('c, 's) EventHandler \<Rightarrow> goctx option \<Rightarrow> 'c delete_event \<Rightarrow> 's evstate \<Rightarrow> 's evstate" where
  "deliver_delete preds h ctx e s =
     (case eval_all (map (\<lambda>p. pDelete p e) preds) s of (False, s) \<Rightarrow> s | (True, s) \<Rightarrow> hDelete h ctx e s)"

definition deliver_generic ::
    "('c, 's) Predicate list \<Rightarrow> ('c, 's) EventHandler \<Rightarrow> goctx option \<Rightarrow> 'c generic_event \<Rightarrow> 's evstate \<Rightarrow> 's evstate" where
  "deliver_generic preds h ctx e s =
     (case eval_all (map (\<lambda>p. pGeneric p e) preds) s of (False, s) \<Rightarrow> s | (True, s) \<Rightarrow> hGeneric h ctx e s)"

lemmas wrapping_simps =
  wrapPredicates_def wrapHandler_def newConvertingHandler_def comp_def predicateWrapper_ok
  predicateWrapper_fail handlers_ok handlers_fail

lemma deliver_create_combined:
  "deliver_create (wrapPredicates E scheme ps True n) (wrapHandler E scheme h True n) ctx e s =
   deliver_create [] (newConvertingHandler E scheme h ps n) ctx e s"
proof (cases "convert_outcome E \<lparr>convScheme = scheme, convControllerName = n\<rparr> e")
  case (Inl f)
  then show ?thesis by (cases ps) (simp_all add: deliver_create_def wrapping_simps)
qed (simp add: deliver_create_def wrapping_simps split: prod.splits bool.splits)

lemma deliver_generic_combined:
  "deliver_generic (wrapPredicates E scheme ps True n) (wrapHandler E scheme h True n) ctx e s =
   deliver_generic [] (newConvertingHandler E scheme h ps n) ctx e s"
proof (cases "convert_outcome E \<lparr>convScheme = scheme, convControllerName = n\<rparr> e")
  case (Inl f)
  then show ?thesis by (cases ps) (simp_all add: deliver_generic_def wrapping_simps)
qed (simp add: deliver_generic_def wrapping_simps split: prod.splits bool.splits)

lemma deliver_delete_combined:
  "deliver_delete (wrapPredicates E scheme ps True n) (wrapHandler E scheme h True n) ctx e s =
   deliver_delete [] (newConvertingHandler E scheme h ps n) ctx e s"
proof (cases "convert_outcome E \<lparr>convScheme = scheme, convControllerName = n\<rparr> (delObject e)")
  case (Inl f)
  then show ?thesis by (cases ps) (simp_all add: deliver_delete_def wrapping_simps)
qed (simp add: deliver_delete_def wrapping_simps split: prod.splits bool.splits)

lemma deliver_update_combined:
  "deliver_update (wrapPredicates E scheme ps True n) (wrapHandler E scheme h True n) ctx e s =
   deliver_update [] (newConvertingHandler E scheme h ps n) ctx e s"
proof (cases "convert_outcome E \<lparr>convScheme = scheme, convControllerName = n\<rparr> (ObjectOld e)")
  case (Inl f)
  then show ?thesis by (cases ps) (simp_all add: deliver_update_def wrapping_simps)
next
  case (Inr old)
  show ?thesis
  proof (cases "convert_outcome E \<lparr>convScheme = scheme, convControllerName = n\<rparr> (ObjectNew e)")
    case (Inl f)
    with Inr show ?thesis by (cases ps) (simp_all add: deliver_update_def wrapping_simps)
  qed (use Inr in \<open>simp add: deliver_update_def wrapping_simps split: prod.splits bool.splits\<close>)
qed

lemma getTypedObject_Some:
  "getTypedObject E conv O' obj s = (Some ob, s') \<Longrightarrow> O' = ConcreteParam t \<Longrightarrow> goType ob = t"
  by (auto simp: getTypedObject_def asserts_def split: option.splits prod.splits sum.splits if_splits)

lemma getTypedObject_queue: "queue (snd (getTypedObject E conv O' obj s)) = queue s"
  by (auto simp: getTypedObject_def converter_Convert_eq count_conversion_error_def
      split: option.splits sum.splits)

lemma fold_queue_Add: "queue (fold queue_Add reqs s) = queue s @ reqs"
  by (induction reqs arbitrary: s) (simp_all add: queue_Add_def)

section \<open>Properties\<close>

text \<open>
  C10: converting once in the combined handler is equivalent to wrapping the predicates and the
  handler separately: for every kind of event, every list of predicates, every handler and every
  scheme, delivering the event either way leaves the same work queue, the same conversion-error
  counts and the same state of everything the predicates and the handler touch, also when a
  conversion fails.
\<close>

theorem convertingHandler_equiv:
  "deliver_create (wrapPredicates E scheme ps True n) (wrapHandler E scheme h True n) ctx ce s =
     deliver_create [] (newConvertingHandler E scheme h ps n) ctx ce s \<and>
   deliver_update (wrapPredicates E scheme ps True n) (wrapHandler E scheme h True n) ctx ue s =
     deliver_update [] (newConvertingHandler E scheme h ps n) ctx ue s \<and>
   deliver_delete (wrapPredicates E scheme ps True n) (wrapHandler E scheme h True n) ctx de s =
     deliver_delete [] (newConvertingHandler E scheme h ps n) ctx de s \<and>
   deliver_generic (wrapPredicates E scheme ps True n) (wrapHandler E scheme h True n) ctx ge s =
     deliver_generic [] (newConvertingHandler E scheme h ps n) ctx ge s"
  by (intro conjI deliver_create_combined deliver_update_combined deliver_delete_combined
      deliver_generic_combined)

text \<open>
  A mapper for a Go type on a full watch combined with a \<open>TypedPredicate\<close> that asks for
  unstructured objects never enqueues anything: the mapper converts the event first, and the
  converted object fails the predicate's type assertion, so every event is dropped whatever the
  filter says. (The scheme creates typed objects, as schemes do.)
\<close>

theorem unstructured_predicate_drops_typed_events:
  assumes "O' = ConcreteParam (TypedGo t)"
    and "h = Create (CreateTypedMapperHandler E O' mapper) scheme False n
           [CreateTypedPredicate E (ConcreteParam UnstructuredType) filter_fn scheme n]"
  shows "queue (hCreate h ctx obj s) = queue s"
proof -
  let ?c = "Some \<lparr>convScheme = scheme, convControllerName = n\<rparr>"
  let ?p = "CreateTypedPredicate E (ConcreteParam UnstructuredType) filter_fn scheme n"
  let ?tmh = "\<lparr>tmConverter = ?c, tmType = O', tmMapper = mapper, tmPredicates = [?p]\<rparr>"
  have h: "hCreate h ctx obj s = enqueue_mapped ?tmh ctx (processCreateEvent E ?tmh obj s)"
    using assms by (simp add: CreateTypedMapperHandler_def typedMapperHandler_EventHandler_def)
  have p: "pCreate ?p (Some ob) s' = (False, s')" if "goType ob = TypedGo t" for ob s'
    using that by (simp add: CreateTypedPredicate_def typeRequiresConversion_def
        typedPredicateWrapper_def getTypedObject_def asserts_def Let_def)
  obtain r s' where get: "getTypedObject E ?c O' obj s = (r, s')" by fastforce
  then have q: "queue s' = queue s" using getTypedObject_queue [of E ?c O' obj s] by simp
  show ?thesis
  proof (cases r)
    case None
    with get q show ?thesis by (simp add: h processCreateEvent_def enqueue_mapped_def)
  next
    case (Some ob)
    with get assms(1) have "goType ob = TypedGo t" using getTypedObject_Some by blast
    with Some get q p show ?thesis by (simp add: h processCreateEvent_def enqueue_mapped_def)
  qed
qed

definition empty_evstate :: "unit evstate" where
  "empty_evstate = \<lparr>queue = [], conversionErrors = [], caller = ()\<rparr>"

theorem unstructured_predicate_drops_typed_events_witness:
  "queue (hCreate (Create (CreateTypedMapperHandler demo_env (ConcreteParam (TypedGo ''Pod''))
        (\<lambda>ctx ob s. ([NamespacedNameFromObject ob], s))) demo_scheme False ''ctl''
        [CreateTypedPredicate demo_env (ConcreteParam UnstructuredType) (\<lambda>ob s. (True, s)) demo_scheme ''ctl''])
      None (Some (demo_object\<lparr>goType := TypedGo ''Pod''\<rparr>)) empty_evstate) = []"
  using unstructured_predicate_drops_typed_events [OF refl refl, of demo_env "''Pod''"
      "\<lambda>ctx ob s. ([NamespacedNameFromObject ob], s)" demo_scheme "''ctl''" "\<lambda>ob s. (True, s)" None
      "Some (demo_object\<lparr>goType := TypedGo ''Pod''\<rparr>)" empty_evstate]
  by (simp add: empty_evstate_def)

end
