(* ===== verification/Builder.thy ===== *)
theory Builder
  imports Builder_Conversion
begin

text \<open>
  The controller builder (\<^verbatim>\<open>src/pkg/builder/builder.go\<close>, \<^verbatim>\<open>builder_opts.go\<close>): options, \<open>For\<close>, \<open>Owns\<close>
  and \<open>Watches\<close>, which record watches and errors, and \<open>Complete\<close>, which creates the controller,
  injects the dependencies and registers the recorded watches. What controller-runtime provides
  (creating a controller and the two stock handlers) is the parameter \<open>builder_api\<close>; its
  \<open>EnqueueRequestForOwner\<close> is a total function here, while controller-runtime's panics when the
  owner's type is in no scheme, so the model is that of owner types the scheme knows. Handlers
  that reach \<open>doRegisterWatch\<close> are never nil: \<open>For\<close> and \<open>Owns\<close> supply one, \<open>Watches\<close> demands one.
\<close>

section \<open>Controller options\<close>

record ('c, 'k, 'w, 'r) ControllerOptions =
  ctlName :: string
  ctlCache :: "'k option"
  ctlClient :: "('c, 'w) client option"
  ctlMaxConcurrentReconciles :: int
  ctlRateLimiter :: "'r option"

type_synonym ('c, 'k, 'w, 'r) ControllerOption =
  "('c, 'k, 'w, 'r) ControllerOptions \<Rightarrow> ('c, 'k, 'w, 'r) ControllerOptions"

definition zero_ControllerOptions :: "('c, 'k, 'w, 'r) ControllerOptions" where
  [opt_defs]: "zero_ControllerOptions = \<lparr>ctlName = [], ctlCache = None, ctlClient = None,
     ctlMaxConcurrentReconciles = 0, ctlRateLimiter = None\<rparr>"

definition ControllerOptions_ApplyTo :: "('c, 'k, 'w, 'r) ControllerOptions \<Rightarrow> ('c, 'k, 'w, 'r) ControllerOption" where
  [opt_defs]: "ControllerOptions_ApplyTo opt target =
     (let target = (if ctlName opt \<noteq> [] then target\<lparr>ctlName := ctlName opt\<rparr> else target);
          target = (if ctlCache opt \<noteq> None then target\<lparr>ctlCache := ctlCache opt\<rparr> else target);
          target = (if ctlClient opt \<noteq> None then target\<lparr>ctlClient := ctlClient opt\<rparr> else target);
          target = (if ctlMaxConcurrentReconciles opt > 0
             then target\<lparr>ctlMaxConcurrentReconciles := ctlMaxConcurrentReconciles opt\<rparr> else target)
      in if ctlRateLimiter opt \<noteq> None then target\<lparr>ctlRateLimiter := ctlRateLimiter opt\<rparr> else target)"

definition ControllerOptions_ApplyOptions ::
    "('c, 'k, 'w, 'r) ControllerOptions \<Rightarrow> ('c, 'k, 'w, 'r) ControllerOption list \<Rightarrow> ('c, 'k, 'w, 'r) ControllerOptions" where
  "ControllerOptions_ApplyOptions t opts = apply_options opts t"

definition WithName :: "string \<Rightarrow> ('c, 'k, 'w, 'r) ControllerOption" where
  [opt_defs]: "WithName name opts = opts\<lparr>ctlName := name\<rparr>"

definition builder_WithCache :: "'k option \<Rightarrow> ('c, 'k, 'w, 'r) ControllerOption" where
  [opt_defs]: "builder_WithCache c opts = opts\<lparr>ctlCache := c\<rparr>"

definition builder_WithClient :: "('c, 'w) client option \<Rightarrow> ('c, 'k, 'w, 'r) ControllerOption" where
  [opt_defs]: "builder_WithClient c opts = opts\<lparr>ctlClient := c\<rparr>"

definition WithMaxConcurrentReconciles :: "int \<Rightarrow> ('c, 'k, 'w, 'r) ControllerOption" where
  [opt_defs]: "WithMaxConcurrentReconciles n opts = opts\<lparr>ctlMaxConcurrentReconciles := n\<rparr>"

definition WithRateLimiter :: "'r option \<Rightarrow> ('c, 'k, 'w, 'r) ControllerOption" where
  [opt_defs]: "WithRateLimiter limiter opts = opts\<lparr>ctlRateLimiter := limiter\<rparr>"

section \<open>Watch options\<close>

datatype WatchStrategy = WatchFull | WatchPartial

text \<open>A mapper factory whose \<open>Create\<close> is nil is \<open>None\<close>.\<close>

record ('c, 's) BuilderWatchOptions =
  bwHandler :: "('c, 's) EventHandler option"
  bwMapperFactory :: "('c, 's) MapperFactory option"
  bwPredicates :: "('c, 's) Predicate list"
  bwTypedPredicateFactories :: "('c, 's) TypedPredicateFactory list"
  bwStrategy :: WatchStrategy

type_synonym ('c, 's) BuilderWatchOption = "('c, 's) BuilderWatchOptions \<Rightarrow> ('c, 's) BuilderWatchOptions"

definition zero_BuilderWatchOptions :: "('c, 's) BuilderWatchOptions" where
  [opt_defs]: "zero_BuilderWatchOptions = \<lparr>bwHandler = None, bwMapperFactory = None, bwPredicates = [],
     bwTypedPredicateFactories = [], bwStrategy = WatchFull\<rparr>"

definition hasMapper :: "('c, 's) BuilderWatchOptions \<Rightarrow> bool" where
  [opt_defs]: "hasMapper opt \<longleftrightarrow> bwMapperFactory opt \<noteq> None"

definition isPartial :: "('c, 's) BuilderWatchOptions \<Rightarrow> bool" where
  [opt_defs]: "isPartial opt \<longleftrightarrow> bwStrategy opt = WatchPartial"

definition BuilderWatchOptions_ApplyTo :: "('c, 's) BuilderWatchOptions \<Rightarrow> ('c, 's) BuilderWatchOption" where
  [opt_defs]: "BuilderWatchOptions_ApplyTo opt target =
     (let target = (if bwHandler opt \<noteq> None then target\<lparr>bwHandler := bwHandler opt\<rparr> else target);
          target = (if hasMapper opt then target\<lparr>bwMapperFactory := bwMapperFactory opt\<rparr> else target);
          target = target\<lparr>bwPredicates := bwPredicates target @ bwPredicates opt\<rparr>;
          target = target\<lparr>bwTypedPredicateFactories :=
             bwTypedPredicateFactories target @ bwTypedPredicateFactories opt\<rparr>
      in if bwStrategy opt = WatchPartial then target\<lparr>bwStrategy := WatchPartial\<rparr> else target)"

definition BuilderWatchOptions_ApplyOptions ::
    "('c, 's) BuilderWatchOptions \<Rightarrow> ('c, 's) BuilderWatchOption list \<Rightarrow> ('c, 's) BuilderWatchOptions" where
  "BuilderWatchOptions_ApplyOptions t opts = apply_options opts t"

definition builder_WithHandler :: "('c, 's) EventHandler option \<Rightarrow> ('c, 's) BuilderWatchOption" where
  [opt_defs]: "builder_WithHandler h opts = opts\<lparr>bwHandler := h\<rparr>"

definition WithMapper :: "'c env \<Rightarrow> type_param \<Rightarrow> ('c, 's) mapper_fn \<Rightarrow> ('c, 's) BuilderWatchOption" where
  [opt_defs]: "WithMapper E O' mapper opts = opts\<lparr>bwMapperFactory := Some (CreateTypedMapperHandler E O' mapper)\<rparr>"

definition builder_WithPredicates :: "('c, 's) Predicate list \<Rightarrow> ('c, 's) BuilderWatchOption" where
  [opt_defs]: "builder_WithPredicates ps opts = opts\<lparr>bwPredicates := bwPredicates opts @ ps\<rparr>"

definition TypedPredicate :: "'c env \<Rightarrow> type_param \<Rightarrow> ('c, 's) filter_fn \<Rightarrow> ('c, 's) BuilderWatchOption" where
  [opt_defs]: "TypedPredicate E O' filter_fn opts =
     opts\<lparr>bwTypedPredicateFactories := bwTypedPredicateFactories opts @ [CreateTypedPredicate E O' filter_fn]\<rparr>"

definition WithStrategy :: "WatchStrategy \<Rightarrow> ('c, 's) BuilderWatchOption" where
  [opt_defs]: "WithStrategy strategy opts = opts\<lparr>bwStrategy := strategy\<rparr>"

definition AsPartial :: "('c, 's) BuilderWatchOption" where
  [opt_defs]: "AsPartial = WithStrategy WatchPartial"

section \<open>The builder\<close>

record ('c, 'k, 'w) manager =
  managerCache :: 'k
  managerClient :: "('c, 'w) client"
  managerScheme :: "'c scheme"

record ('c, 's) watchRegistration =
  regObj :: "'c object"
  regHandler :: "('c, 's) EventHandler"
  regPredicates :: "('c, 's) Predicate list"
  regAsPartial :: bool

record ('c, 's, 'k, 'w, 'r) Builder =
  bCtrl :: "('c, 's, 'k, 'w) controller option"
  bMgr :: "('c, 'k, 'w) manager"
  bScheme :: "'c scheme"
  bCache :: 'k
  bClient :: "('c, 'w) client"
  bErrors :: "error list"
  bForSet :: bool
  bName :: string
  bOptions :: "('c, 'k, 'w, 'r) ControllerOptions"
  bWatches :: "('c, 's) watchRegistration list"

record ('c, 'r) controller_config =
  cfgMaxConcurrentReconciles :: int
  cfgRateLimiter :: "'r option"

record ('c, 's, 'k, 'w, 'r) builder_api =
  NewController :: "string \<Rightarrow> ('c, 'k, 'w) manager \<Rightarrow> ('c, 'w) typedReconcilerAdapter \<Rightarrow> ('c, 'r) controller_config \<Rightarrow>
     'w \<Rightarrow> (error + ('c, 's, 'k, 'w) controller) \<times> 'w"
  EnqueueRequestForObject :: "('c, 's) EventHandler"
  EnqueueRequestForOwner :: "'c scheme \<Rightarrow> 'c object \<Rightarrow> ('c, 's) EventHandler"

definition NewControllerBuilder ::
    "('c, 'k, 'w) manager option \<Rightarrow> ('c, 'k, 'w, 'r) ControllerOption list \<Rightarrow> error + ('c, 's, 'k, 'w, 'r) Builder" where
  "NewControllerBuilder mgr opts =
     (case mgr of
        None \<Rightarrow> Inl (ErrorString ''manager is required'')
      | Some mgr \<Rightarrow>
          (let ctrlOpts = ControllerOptions_ApplyOptions zero_ControllerOptions opts;
               cacheToUse = (case ctlCache ctrlOpts of None \<Rightarrow> managerCache mgr | Some c \<Rightarrow> c);
               clientToUse = (case ctlClient ctrlOpts of None \<Rightarrow> managerClient mgr | Some c \<Rightarrow> c)
           in Inr \<lparr>bCtrl = None, bMgr = mgr, bScheme = managerScheme mgr, bCache = cacheToUse,
                   bClient = clientToUse, bErrors = [], bForSet = False, bName = ctlName ctrlOpts,
                   bOptions = ctrlOpts, bWatches = []\<rparr>))"

text \<open>The name of a Go type without its package.\<close>

fun type_base_name :: "go_type \<Rightarrow> string" where
  "type_base_name UnstructuredType = ''Unstructured''"
| "type_base_name PartialMetadataType = ''PartialObjectMetadata''"
| "type_base_name (TypedGo t) = rev (takeWhile (\<lambda>c. c \<noteq> CHR ''.'') (rev t))"

definition deriveControllerNameFromObject :: "'c object \<Rightarrow> string" where
  "deriveControllerNameFromObject obj = ToLower (type_base_name (goType obj))"

definition builder_error :: "error \<Rightarrow> ('c, 's, 'k, 'w, 'r) Builder \<Rightarrow> ('c, 's, 'k, 'w, 'r) Builder" where
  "builder_error err b = b\<lparr>bErrors := bErrors b @ [err]\<rparr>"

definition validateGVK :: "gvk \<Rightarrow> string \<Rightarrow> error option" where
  "validateGVK g method =
     (if Kind g = [] then Some (ErrorString (method @ ''(): GVK must have a Kind''))
      else if Version g = [] then Some (ErrorString (method @ ''(): GVK must have a Version''))
      else None)"

definition validateMapperExpectation :: "('c, 's) BuilderWatchOptions \<Rightarrow> error option" where
  "validateMapperExpectation watchOpts =
     (case Expectation (the (bwMapperFactory watchOpts)) of
        MapperExpectsUnstructured \<Rightarrow>
          if isPartial watchOpts then Some (ErrorString (''mapper expects *unstructured.Unstructured but WatchPartial is set; '' @
             ''use WatchFull or a mapper that accepts *metav1.PartialObjectMetadata or client.Object'')) else None
      | MapperExpectsPartial \<Rightarrow>
          if \<not> isPartial watchOpts then Some (ErrorString (''mapper expects *metav1.PartialObjectMetadata but WatchFull is set; '' @
             ''use AsPartial() or a mapper that accepts *unstructured.Unstructured or client.Object'')) else None
      | MapperExpectsTyped \<Rightarrow>
          if isPartial watchOpts then Some (ErrorString (''mapper expects typed object but WatchPartial is set; '' @
             ''partial metadata lacks data for conversion to typed objects; use WatchFull'')) else None
      | MapperExpectsClientObject \<Rightarrow> None)"

definition resolvePredicates ::
    "('c, 's, 'k, 'w, 'r) Builder \<Rightarrow> ('c, 's) BuilderWatchOptions \<Rightarrow> ('c, 's) Predicate list" where
  "resolvePredicates b watchOpts =
     bwPredicates watchOpts @
     map (\<lambda>factory. factory (bScheme b) (bName b)) (bwTypedPredicateFactories watchOpts)"

definition registerWatch ::
    "'c object \<Rightarrow> ('c, 's) EventHandler \<Rightarrow> ('c, 's) Predicate list \<Rightarrow> bool \<Rightarrow>
     ('c, 's, 'k, 'w, 'r) Builder \<Rightarrow> ('c, 's, 'k, 'w, 'r) Builder" where
  "registerWatch obj h preds asPartial b =
     (if asPartial \<and> goType obj \<noteq> UnstructuredType \<and> goType obj \<noteq> PartialMetadataType
      then builder_error (ErrorString (''AsPartial() cannot be used with typed object '' @
             go_type_name (goType obj) @ '': partial metadata conversion to typed objects results in incomplete data. '' @
             ''Use *unstructured.Unstructured or *metav1.PartialObjectMetadata instead'')) b
      else b\<lparr>bWatches := bWatches b @
             [\<lparr>regObj = obj, regHandler = h, regPredicates = preds, regAsPartial = asPartial\<rparr>]\<rparr>)"

definition registerWatchGVK ::
    "'c object \<Rightarrow> ('c, 's) EventHandler \<Rightarrow> ('c, 's) Predicate list \<Rightarrow>
     ('c, 's, 'k, 'w, 'r) Builder \<Rightarrow> ('c, 's, 'k, 'w, 'r) Builder" where
  "registerWatchGVK watchObj h preds b =
     b\<lparr>bWatches := bWatches b @
        [\<lparr>regObj = watchObj, regHandler = h, regPredicates = preds, regAsPartial = False\<rparr>]\<rparr>"

definition Builder_For ::
    "('c, 's, 'k, 'w, 'r) builder_api \<Rightarrow> 'c object \<Rightarrow> ('c, 's) BuilderWatchOption list \<Rightarrow>
     ('c, 's, 'k, 'w, 'r) Builder \<Rightarrow> ('c, 's, 'k, 'w, 'r) Builder" where
  "Builder_For A obj opts b =
     (if bForSet b then builder_error (ErrorString ''For() can only be called once'') b
      else
        (let b = b\<lparr>bForSet := True\<rparr>;
             b = (if bName b = [] then b\<lparr>bName := deriveControllerNameFromObject obj\<rparr> else b);
             watchOpts = BuilderWatchOptions_ApplyOptions zero_BuilderWatchOptions opts
         in if bwHandler watchOpts \<noteq> None
            then builder_error (ErrorString ''For() does not support WithHandler'') b
            else if hasMapper watchOpts
            then builder_error (ErrorString ''For() does not support WithMapper'') b
            else registerWatch obj (EnqueueRequestForObject A) (bwPredicates watchOpts) (isPartial watchOpts) b))"

text \<open>The object a GVK-based watch is registered for.\<close>

definition gvk_watch_object :: "'c \<Rightarrow> ('c, 's) BuilderWatchOptions \<Rightarrow> gvk \<Rightarrow> 'c object" where
  "gvk_watch_object c0 watchOpts g =
     (if isPartial watchOpts then empty_object PartialMetadataType g c0 else empty_object UnstructuredType g c0)"

text \<open>\<open>newT\<close> is the new value of \<open>T\<close> that reflection makes; it is a \<open>client.Object\<close> by \<open>T\<close>'s constraint.\<close>

definition Builder_Owns ::
    "('c, 's, 'k, 'w, 'r) builder_api \<Rightarrow> 'c \<Rightarrow> 'c object \<Rightarrow> gvk \<Rightarrow> ('c, 's) BuilderWatchOption list \<Rightarrow>
     ('c, 's, 'k, 'w, 'r) Builder \<Rightarrow> ('c, 's, 'k, 'w, 'r) Builder" where
  "Builder_Owns A c0 newT g opts b =
     (let watchOpts = BuilderWatchOptions_ApplyOptions zero_BuilderWatchOptions opts
      in if hasMapper watchOpts
         then builder_error (ErrorString ''Owns() does not support WithMapper; use Watches() instead'') b
         else (case validateGVK g ''Owns'' of
                 Some err \<Rightarrow> builder_error err b
               | None \<Rightarrow>
                   (let watchObj = gvk_watch_object c0 watchOpts g;
                        h = (case bwHandler watchOpts of
                               Some h \<Rightarrow> h | None \<Rightarrow> EnqueueRequestForOwner A (bScheme b) newT);
                        preds = resolvePredicates b watchOpts
                    in registerWatchGVK watchObj h preds b)))"

definition Builder_Watches ::
    "'c \<Rightarrow> gvk \<Rightarrow> ('c, 's) BuilderWatchOption list \<Rightarrow>
     ('c, 's, 'k, 'w, 'r) Builder \<Rightarrow> ('c, 's, 'k, 'w, 'r) Builder" where
  "Builder_Watches c0 g opts b =
     (let watchOpts = BuilderWatchOptions_ApplyOptions zero_BuilderWatchOptions opts
      in if hasMapper watchOpts \<and> bwHandler watchOpts \<noteq> None
         then builder_error (ErrorString ''WithMapper and WithHandler are mutually exclusive'') b
         else if \<not> hasMapper watchOpts \<and> bwHandler watchOpts = None
         then builder_error (ErrorString ''Watches() requires either WithMapper or WithHandler'') b
         else (case validateGVK g ''Watches'' of
                 Some err \<Rightarrow> builder_error err b
               | None \<Rightarrow>
                   (case (if hasMapper watchOpts then validateMapperExpectation watchOpts else None) of
                      Some err \<Rightarrow> builder_error err b
                    | None \<Rightarrow>
                        (let watchObj = gvk_watch_object c0 watchOpts g;
                             allPredicates = resolvePredicates b watchOpts
                         in case bwMapperFactory watchOpts of
                              Some factory \<Rightarrow>
                                registerWatchGVK watchObj (Create factory (bScheme b) False (bName b) allPredicates) [] b
                            | None \<Rightarrow> registerWatchGVK watchObj (the (bwHandler watchOpts)) allPredicates b))))"

text \<open>The gauge \<open>StaticWatchedResourcesTotal\<close> and the rest of the world.\<close>

record 'w bstate =
  staticWatched :: "string \<times> string \<times> string \<rightharpoonup> int"
  bworld :: 'w

definition watch_source ::
    "'c env \<Rightarrow> ('c, 's, 'k, 'w, 'r) Builder \<Rightarrow> 'c object \<Rightarrow> bool \<Rightarrow> ('c, 's) EventHandler \<Rightarrow>
     ('c, 's) Predicate list \<Rightarrow> ('c, 's, 'k) kind_source" where
  "watch_source E b watchObj needsConversion h preds =
     (let (wrappedHandler, wrappedPreds) =
            (if needsConversion \<and> length preds > 0
             then (newConvertingHandler E (bScheme b) h preds (bName b), [])
             else (wrapHandler E (bScheme b) h needsConversion (bName b),
                   wrapPredicates E (bScheme b) preds needsConversion (bName b)))
      in \<lparr>srcCache = bCache b, srcObject = watchObj, srcHandler = wrappedHandler, srcPredicates = wrappedPreds\<rparr>)"

definition doRegisterWatch ::
    "'c env \<Rightarrow> 'c \<Rightarrow> ('c, 's) watchRegistration \<Rightarrow> ('c, 's, 'k, 'w, 'r) Builder \<times> 'w bstate \<Rightarrow>
     ('c, 's, 'k, 'w, 'r) Builder \<times> 'w bstate" where
  "doRegisterWatch E c0 w bs =
     (case bs of (b, s) \<Rightarrow>
        case processObject (bScheme b) c0 (regAsPartial w) (regObj w) of
          Inl err \<Rightarrow> (builder_error err b, s)
        | Inr (watchObj, needsConversion) \<Rightarrow>
            (let src = watch_source E b watchObj needsConversion (regHandler w) (regPredicates w)
             in case the (bCtrl b) src (bworld s) of
                  (Some err, wd) \<Rightarrow>
                    (builder_error (WrapError (''failed to watch '' @ go_type_name (goType (regObj w))) err) b,
                     s\<lparr>bworld := wd\<rparr>)
                | (None, wd) \<Rightarrow>
                    (let g = GroupVersionKind watchObj; s = s\<lparr>bworld := wd\<rparr>
                     in (b, if Kind g \<noteq> []
                            then s\<lparr>staticWatched := (staticWatched s)
                                     ((bName b, GVString (envSchema E) g, Kind g) \<mapsto> 1)\<rparr>
                            else s))))"

text \<open>A typed reconciler with the aware interfaces it implements.\<close>

record ('c, 's, 'k, 'w) reconciler_impl =
  implReconcile :: "('c, 'w) TypedReconciler"
  implSetController :: "(('c, 's, 'k, 'w) controller \<Rightarrow> 'w \<Rightarrow> 'w) option"
  implSetClient :: "(('c, 'w) client \<Rightarrow> 'w \<Rightarrow> 'w) option"
  implSetCache :: "('k \<Rightarrow> 'w \<Rightarrow> 'w) option"

definition inject :: "('a \<Rightarrow> 'w \<Rightarrow> 'w) option \<Rightarrow> 'a \<Rightarrow> 'w \<Rightarrow> 'w" where
  "inject setter x w = (case setter of None \<Rightarrow> w | Some f \<Rightarrow> f x w)"

definition Builder_Complete ::
    "'c env \<Rightarrow> ('c, 's, 'k, 'w, 'r) builder_api \<Rightarrow> 'c \<Rightarrow> ('c, 's, 'k, 'w) reconciler_impl \<Rightarrow>
     ('c, 's, 'k, 'w, 'r) Builder \<Rightarrow> 'w bstate \<Rightarrow> error option \<times> ('c, 's, 'k, 'w, 'r) Builder \<times> 'w bstate" where
  "Builder_Complete E A c0 r b s =
     (if \<not> bForSet b then (Some (ErrorString ''For() must be called before Complete()''), b, s)
      else if bName b = []
      then (Some (ErrorString ''controller name is required: call For() or provide WithName()''), b, s)
      else if length (bErrors b) > 0
      then (map_option (WrapError (''builder has '' @ itoa (length (bErrors b)) @ '' error(s)''))
              (errors_Join (bErrors b)), b, s)
      else
        (let wrappedReconciler = AsReconciler (bClient b) (bName b) (implReconcile r);
             config = \<lparr>cfgMaxConcurrentReconciles = 0, cfgRateLimiter = None\<rparr>;
             config = (if ctlMaxConcurrentReconciles (bOptions b) > 0
               then config\<lparr>cfgMaxConcurrentReconciles := ctlMaxConcurrentReconciles (bOptions b)\<rparr> else config);
             config = (if ctlRateLimiter (bOptions b) \<noteq> None
               then config\<lparr>cfgRateLimiter := ctlRateLimiter (bOptions b)\<rparr> else config)
         in case NewController A (bName b) (bMgr b) wrappedReconciler config (bworld s) of
              (Inl err, wd) \<Rightarrow> (Some (WrapError ''failed to create controller'' err), b, s\<lparr>bworld := wd\<rparr>)
            | (Inr ctrl, wd) \<Rightarrow>
                (let b = b\<lparr>bCtrl := Some ctrl\<rparr>;
                     wd = inject (implSetController r) ctrl wd;
                     wd = inject (implSetClient r) (bClient b) wd;
                     wd = inject (implSetCache r) (bCache b) wd;
                     (b, s) = fold (doRegisterWatch E c0) (bWatches b) (b, s\<lparr>bworld := wd\<rparr>)
                 in if length (bErrors b) > 0
                    then (map_option (WrapError ''failed to register watches'') (errors_Join (bErrors b)), b, s)
                    else (None, b, s))))"

definition GetController :: "('c, 's, 'k, 'w, 'r) Builder \<Rightarrow> ('c, 's, 'k, 'w) controller option" where
  "GetController b = bCtrl b"

definition GetWatchedGVKs :: "('c, 's, 'k, 'w, 'r) Builder \<Rightarrow> gvk list" where
  "GetWatchedGVKs b =
     filter (\<lambda>g. Kind g \<noteq> []) (map (\<lambda>w. GroupVersionKind (regObj w)) (bWatches b))"

section \<open>Lemmas\<close>

lemma ControllerOptions_ApplyTo_fields [simp]:
  "ctlName (ControllerOptions_ApplyTo a t) = (if ctlName a \<noteq> [] then ctlName a else ctlName t)"
  "ctlCache (ControllerOptions_ApplyTo a t) = (if ctlCache a \<noteq> None then ctlCache a else ctlCache t)"
  "ctlClient (ControllerOptions_ApplyTo a t) = (if ctlClient a \<noteq> None then ctlClient a else ctlClient t)"
  "ctlMaxConcurrentReconciles (ControllerOptions_ApplyTo a t) =
     (if ctlMaxConcurrentReconciles a > 0 then ctlMaxConcurrentReconciles a else ctlMaxConcurrentReconciles t)"
  "ctlRateLimiter (ControllerOptions_ApplyTo a t) =
     (if ctlRateLimiter a \<noteq> None then ctlRateLimiter a else ctlRateLimiter t)"
  by (simp_all add: ControllerOptions_ApplyTo_def Let_def)

interpretation controller_options: overriding_option_struct ControllerOptions_ApplyTo zero_ControllerOptions
  by unfold_locales (rule ControllerOptions.equality; auto simp: zero_ControllerOptions_def)+

lemma BuilderWatchOptions_ApplyTo_fields [simp]:
  "bwHandler (BuilderWatchOptions_ApplyTo a t) = (if bwHandler a \<noteq> None then bwHandler a else bwHandler t)"
  "bwMapperFactory (BuilderWatchOptions_ApplyTo a t) =
     (if bwMapperFactory a \<noteq> None then bwMapperFactory a else bwMapperFactory t)"
  "bwPredicates (BuilderWatchOptions_ApplyTo a t) = bwPredicates t @ bwPredicates a"
  "bwTypedPredicateFactories (BuilderWatchOptions_ApplyTo a t) =
     bwTypedPredicateFactories t @ bwTypedPredicateFactories a"
  "bwStrategy (BuilderWatchOptions_ApplyTo a t) =
     (if bwStrategy a = WatchPartial then WatchPartial else bwStrategy t)"
  by (simp_all add: BuilderWatchOptions_ApplyTo_def hasMapper_def Let_def)

lemma not_WatchPartial: "s \<noteq> WatchPartial \<Longrightarrow> s = WatchFull"
  by (cases s) simp_all

interpretation builder_watch_options: option_struct BuilderWatchOptions_ApplyTo zero_BuilderWatchOptions
  by unfold_locales (rule BuilderWatchOptions.equality; auto simp: zero_BuilderWatchOptions_def)+

text \<open>A call of the builder's fluent interface.\<close>

datatype ('c, 's) builder_call =
    is_CallFor: CallFor "'c object" "('c, 's) BuilderWatchOption list"
  | CallOwns gvk "('c, 's) BuilderWatchOption list"
  | CallWatches gvk "('c, 's) BuilderWatchOption list"

primrec builder_step ::
    "('c, 's, 'k, 'w, 'r) builder_api \<Rightarrow> 'c \<Rightarrow> 'c object \<Rightarrow> ('c, 's) builder_call \<Rightarrow>
     ('c, 's, 'k, 'w, 'r) Builder \<Rightarrow> ('c, 's, 'k, 'w, 'r) Builder" where
  "builder_step A c0 newT (CallFor obj opts) b = Builder_For A obj opts b"
| "builder_step A c0 newT (CallOwns g opts) b = Builder_Owns A c0 newT g opts b"
| "builder_step A c0 newT (CallWatches g opts) b = Builder_Watches c0 g opts b"

abbreviation recorded :: "('c, 's, 'k, 'w, 'r) Builder \<Rightarrow> nat" where
  "recorded b \<equiv> length (bWatches b) + length (bErrors b)"

lemma builder_error_simps [simp]:
  "bErrors (builder_error e b) = bErrors b @ [e]" "bWatches (builder_error e b) = bWatches b"
  "bForSet (builder_error e b) = bForSet b" "bName (builder_error e b) = bName b"
  "bScheme (builder_error e b) = bScheme b" "bCache (builder_error e b) = bCache b"
  "bCtrl (builder_error e b) = bCtrl b"
  by (simp_all add: builder_error_def)

lemma recorded_registerWatch [simp]: "recorded (registerWatch obj h ps part b) = Suc (recorded b)"
  by (simp add: registerWatch_def)

lemma registerWatchGVK_simps [simp]:
  "bErrors (registerWatchGVK obj h ps b) = bErrors b"
  "bWatches (registerWatchGVK obj h ps b) =
     bWatches b @ [\<lparr>regObj = obj, regHandler = h, regPredicates = ps, regAsPartial = False\<rparr>]"
  by (simp_all add: registerWatchGVK_def)

lemma recorded_step: "recorded (builder_step A c0 newT call b) = Suc (recorded b)"
proof (cases call)
  case (CallFor obj opts)
  then show ?thesis
    using recorded_registerWatch [of obj "EnqueueRequestForObject A"]
    by (simp add: Builder_For_def Let_def)
qed (auto simp: Builder_Owns_def Builder_Watches_def Let_def split: option.splits)

lemma recorded_steps: "recorded (fold (builder_step A c0 newT) calls b) = length calls + recorded b"
  by (induction calls arbitrary: b) (simp_all add: recorded_step)

text \<open>
  The watch a call asks for, on a builder with the given scheme and name: the object it is for, its
  handler and its predicates.
\<close>

primrec call_watch ::
    "('c, 's, 'k, 'w, 'r) builder_api \<Rightarrow> 'c \<Rightarrow> 'c object \<Rightarrow> 'c scheme \<Rightarrow> string \<Rightarrow> ('c, 's) builder_call \<Rightarrow>
     ('c, 's) watchRegistration" where
  "call_watch A c0 newT scheme name (CallFor obj opts) =
     (let o' = BuilderWatchOptions_ApplyOptions zero_BuilderWatchOptions opts
      in \<lparr>regObj = obj, regHandler = EnqueueRequestForObject A, regPredicates = bwPredicates o',
          regAsPartial = isPartial o'\<rparr>)"
| "call_watch A c0 newT scheme name (CallOwns g opts) =
     (let o' = BuilderWatchOptions_ApplyOptions zero_BuilderWatchOptions opts
      in \<lparr>regObj = gvk_watch_object c0 o' g,
          regHandler = (case bwHandler o' of Some h \<Rightarrow> h | None \<Rightarrow> EnqueueRequestForOwner A scheme newT),
          regPredicates = bwPredicates o' @ map (\<lambda>f. f scheme name) (bwTypedPredicateFactories o'),
          regAsPartial = False\<rparr>)"
| "call_watch A c0 newT scheme name (CallWatches g opts) =
     (let o' = BuilderWatchOptions_ApplyOptions zero_BuilderWatchOptions opts;
          preds = bwPredicates o' @ map (\<lambda>f. f scheme name) (bwTypedPredicateFactories o')
      in case bwMapperFactory o' of
           Some factory \<Rightarrow> \<lparr>regObj = gvk_watch_object c0 o' g,
             regHandler = Create factory scheme False name preds, regPredicates = [], regAsPartial = False\<rparr>
         | None \<Rightarrow> \<lparr>regObj = gvk_watch_object c0 o' g, regHandler = the (bwHandler o'),
             regPredicates = preds, regAsPartial = False\<rparr>)"

text \<open>A call records its own watch after those already there, or one error, and never both.\<close>

definition records_one ::
    "('c, 's) watchRegistration \<Rightarrow> ('c, 's, 'k, 'w, 'r) Builder \<Rightarrow> ('c, 's, 'k, 'w, 'r) Builder \<Rightarrow> bool" where
  "records_one w b b' \<longleftrightarrow>
     bErrors b' = bErrors b \<and> bWatches b' = bWatches b @ [w] \<or>
     (\<exists>e. bErrors b' = bErrors b @ [e]) \<and> bWatches b' = bWatches b"

lemma step_records_one:
  "records_one (call_watch A c0 newT (bScheme b) (bName b) call) b (builder_step A c0 newT call b)"
  by (cases call)
    (auto simp: records_one_def Builder_For_def Builder_Owns_def Builder_Watches_def registerWatch_def
      resolvePredicates_def hasMapper_def Let_def split: option.splits)

lemma step_scheme: "bScheme (builder_step A c0 newT call b) = bScheme b"
  by (cases call) (auto simp: Builder_For_def Builder_Owns_def Builder_Watches_def registerWatch_def
      registerWatchGVK_def Let_def split: option.splits)

lemma steps_scheme [simp]: "bScheme (fold (builder_step A c0 newT) calls b) = bScheme b"
  by (induction calls arbitrary: b) (simp_all add: step_scheme)

text \<open>The builder after the first \<open>i\<close> calls of a sequence, and the watch the next one asks for.\<close>

definition builder_at where
  "builder_at A c0 newT calls b0 i = fold (builder_step A c0 newT) (take i calls) b0"

definition watch_at where
  "watch_at A c0 newT calls b0 i =
     call_watch A c0 newT (bScheme b0) (bName (builder_at A c0 newT calls b0 i)) (calls ! i)"

lemma steps_records_one:
  assumes "i < length calls"
  shows "records_one (watch_at A c0 newT calls b0 i) (builder_at A c0 newT calls b0 i)
     (builder_at A c0 newT calls b0 (Suc i))"
  using assms step_records_one [of A c0 newT "builder_at A c0 newT calls b0 i" "calls ! i"]
  by (simp add: watch_at_def builder_at_def take_Suc_conv_app_nth)

lemma steps_watches:
  assumes "i \<le> length calls" and "bErrors (builder_at A c0 newT calls b0 i) = []"
  shows "bWatches (builder_at A c0 newT calls b0 i) = bWatches b0 @ map (watch_at A c0 newT calls b0) [0..<i]"
  using assms
proof (induction i)
  case 0
  then show ?case by (simp add: builder_at_def)
next
  case (Suc i)
  then have "records_one (watch_at A c0 newT calls b0 i) (builder_at A c0 newT calls b0 i)
     (builder_at A c0 newT calls b0 (Suc i))" by (simp add: steps_records_one)
  with Suc show ?case by (auto simp: records_one_def)
qed

text \<open>\<open>For\<close> is remembered, and a second call of it is an error.\<close>

lemma step_For:
  "bForSet (builder_step A c0 newT call b) \<longleftrightarrow> bForSet b \<or> is_CallFor call"
  "bForSet b \<Longrightarrow> is_CallFor call \<Longrightarrow>
     bErrors (builder_step A c0 newT call b) = bErrors b @ [ErrorString ''For() can only be called once'']"
  by (cases call; auto simp: Builder_For_def Builder_Owns_def Builder_Watches_def registerWatch_def
      registerWatchGVK_def Let_def split: option.splits)+

lemma steps_For: "bForSet (fold (builder_step A c0 newT) calls b) \<longleftrightarrow> bForSet b \<or> (\<exists>c\<in>set calls. is_CallFor c)"
  by (induction calls arbitrary: b) (auto simp: step_For)

lemma steps_errors: "set (bErrors b) \<subseteq> set (bErrors (fold (builder_step A c0 newT) calls b))"
proof (induction calls arbitrary: b)
  case (Cons call calls)
  have "set (bErrors b) \<subseteq> set (bErrors (builder_step A c0 newT call b))"
    using step_records_one [of A c0 newT b call] by (auto simp: records_one_def)
  with Cons [of "builder_step A c0 newT call b"] show ?case by auto
qed simp

lemma steps_For_twice:
  assumes "bForSet b" and "\<exists>c\<in>set calls. is_CallFor c"
  shows "ErrorString ''For() can only be called once'' \<in> set (bErrors (fold (builder_step A c0 newT) calls b))"
  using assms
proof (induction calls arbitrary: b)
  case (Cons call calls)
  show ?case
  proof (cases "is_CallFor call")
    case True
    with Cons.prems(1) steps_errors [of "builder_step A c0 newT call b" A c0 newT calls]
    show ?thesis by (auto simp: step_For(2))
  next
    case False
    with Cons.prems have "bForSet (builder_step A c0 newT call b)" "\<exists>c\<in>set calls. is_CallFor c"
      by (auto simp: step_For(1))
    then show ?thesis using Cons.IH by simp
  qed
qed simp

lemma steps_two_Fors:
  assumes "length (filter is_CallFor calls) > 1"
  shows "ErrorString ''For() can only be called once'' \<in> set (bErrors (fold (builder_step A c0 newT) calls b))"
  using assms
proof (induction calls arbitrary: b)
  case (Cons call calls)
  show ?case
  proof (cases "is_CallFor call")
    case True
    with Cons.prems have "\<exists>c\<in>set calls. is_CallFor c"
      by (auto simp: filter_empty_conv simp flip: length_greater_0_conv)
    with True show ?thesis by (simp add: steps_For_twice step_For(1))
  qed (use Cons in simp)
qed simp

text \<open>The sources the controller is given, one per recorded watch.\<close>

definition source_of ::
    "'c env \<Rightarrow> 'c \<Rightarrow> ('c, 's, 'k, 'w, 'r) Builder \<Rightarrow> ('c, 's) watchRegistration \<Rightarrow> ('c, 's, 'k) kind_source option" where
  "source_of E c0 b w =
     (case processObject (bScheme b) c0 (regAsPartial w) (regObj w) of
        Inl err \<Rightarrow> None
      | Inr (watchObj, needsConversion) \<Rightarrow>
          Some (watch_source E b watchObj needsConversion (regHandler w) (regPredicates w)))"

text \<open>The controller accepts a list of sources one after the other.\<close>

fun accepts :: "('c, 's, 'k, 'w) controller \<Rightarrow> ('c, 's, 'k) kind_source list \<Rightarrow> 'w \<Rightarrow> 'w option" where
  "accepts ctrl [] w = Some w"
| "accepts ctrl (src # srcs) w =
     (case ctrl src w of (None, w') \<Rightarrow> accepts ctrl srcs w' | (Some err, w') \<Rightarrow> None)"

lemma doRegisterWatch_errors:
  "doRegisterWatch E c0 w (b, s) = (b', s') \<Longrightarrow> \<exists>es. b' = b\<lparr>bErrors := bErrors b @ es\<rparr>"
  by (auto simp: doRegisterWatch_def builder_error_def Let_def
      split: sum.splits prod.splits option.splits if_splits intro: exI [of _ "[]"])

lemma fold_doRegisterWatch_errors:
  "fold (doRegisterWatch E c0) ws (b, s) = (b', s') \<Longrightarrow> \<exists>es. b' = b\<lparr>bErrors := bErrors b @ es\<rparr>"
proof (induction ws arbitrary: b s)
  case Nil
  then show ?case by (auto intro: exI [of _ "[]"])
next
  case (Cons w ws)
  obtain b1 s1 where one: "doRegisterWatch E c0 w (b, s) = (b1, s1)" by fastforce
  from doRegisterWatch_errors [OF one] obtain es1 where b1: "b1 = b\<lparr>bErrors := bErrors b @ es1\<rparr>" ..
  from one Cons.prems have "fold (doRegisterWatch E c0) ws (b1, s1) = (b', s')" by simp
  from Cons.IH [OF this] b1 show ?case by auto
qed

lemma doRegisterWatch_ok:
  assumes "doRegisterWatch E c0 w (b, s) = (b, s')" and "bCtrl b = Some ctrl"
  shows "\<exists>src. source_of E c0 b w = Some src \<and> ctrl src (bworld s) = (None, bworld s')"
proof -
  have neq: "builder_error e b \<noteq> b" for e
    using builder_error_simps(1) [of e b] by (metis append_self_conv list.distinct(1))
  from assms neq show ?thesis
    by (auto simp: doRegisterWatch_def source_of_def Let_def
        split: sum.splits prod.splits option.splits if_splits)
qed

lemma fold_doRegisterWatch_ok:
  assumes "fold (doRegisterWatch E c0) ws (b, s) = (b, s')" and "bCtrl b = Some ctrl"
  shows "\<exists>srcs. map (source_of E c0 b) ws = map Some srcs \<and> accepts ctrl srcs (bworld s) = Some (bworld s')"
  using assms(1)
proof (induction ws arbitrary: s)
  case (Cons w ws)
  obtain b1 s1 where one: "doRegisterWatch E c0 w (b, s) = (b1, s1)" by fastforce
  with Cons.prems have rest: "fold (doRegisterWatch E c0) ws (b1, s1) = (b, s')" by simp
  from doRegisterWatch_errors [OF one] obtain es1 where es1: "b1 = b\<lparr>bErrors := bErrors b @ es1\<rparr>" ..
  from fold_doRegisterWatch_errors [OF rest] obtain es2 where es2: "b = b1\<lparr>bErrors := bErrors b1 @ es2\<rparr>" ..
  have "bErrors b1 = bErrors b @ es1" using arg_cong [OF es1, where f = bErrors] by simp
  moreover have "bErrors b = bErrors b1 @ es2" using arg_cong [OF es2, where f = bErrors] by simp
  ultimately have "es1 = []" by simp
  with es1 have b1: "b1 = b" by simp
  from doRegisterWatch_ok [OF _ assms(2), of E c0 w s s1] one b1
  obtain src where "source_of E c0 b w = Some src" "ctrl src (bworld s) = (None, bworld s1)" by blast
  moreover from Cons.IH [of s1] rest b1 obtain srcs where
    "map (source_of E c0 b) ws = map Some srcs" "accepts ctrl srcs (bworld s1) = Some (bworld s')"
    by blast
  ultimately show ?case by (intro exI [of _ "src # srcs"]) simp
qed simp

lemma source_of_cache: "source_of E c0 b w = Some src \<Longrightarrow> srcCache src = bCache b"
  by (auto simp: source_of_def watch_source_def Let_def split: sum.splits if_splits)

lemma Complete_ok:
  assumes "Builder_Complete E A c0 r b s = (None, b', s')"
  shows "bForSet b \<and> bErrors b = [] \<and>
     (\<exists>cfg ctrl w srcs.
        NewController A (bName b) (bMgr b) (AsReconciler (bClient b) (bName b) (implReconcile r)) cfg (bworld s) =
          (Inr ctrl, w) \<and>
        map (source_of E c0 b') (bWatches b) = map Some srcs \<and> (\<forall>src\<in>set srcs. srcCache src = bCache b) \<and>
        accepts ctrl srcs (inject (implSetCache r) (bCache b)
          (inject (implSetClient r) (bClient b) (inject (implSetController r) ctrl w))) = Some (bworld s'))"
proof -
  have noerr: "bForSet b" "bErrors b = []"
    using assms by (auto simp: Builder_Complete_def errors_Join_def split: if_splits)
  from assms noerr obtain cfg ctrl w where
      new: "NewController A (bName b) (bMgr b) (AsReconciler (bClient b) (bName b) (implReconcile r)) cfg (bworld s)
        = (Inr ctrl, w)"
    and reg: "fold (doRegisterWatch E c0) (bWatches b) (b\<lparr>bCtrl := Some ctrl\<rparr>, s\<lparr>bworld := inject (implSetCache r) (bCache b)
          (inject (implSetClient r) (bClient b) (inject (implSetController r) ctrl w))\<rparr>) = (b', s')" "bErrors b' = []"
    by (auto simp: Builder_Complete_def errors_Join_def Let_def split: if_splits sum.splits prod.splits)
  from fold_doRegisterWatch_errors [OF reg(1)] obtain es where
    es: "b' = (b\<lparr>bCtrl := Some ctrl\<rparr>)\<lparr>bErrors := bErrors (b\<lparr>bCtrl := Some ctrl\<rparr>) @ es\<rparr>" ..
  with reg(2) have "es = []" by simp
  with es have b': "b' = b\<lparr>bCtrl := Some ctrl\<rparr>" by simp
  then have ctrl: "bCtrl b' = Some ctrl" and cache: "bCache b' = bCache b" by simp_all
  from fold_doRegisterWatch_ok [OF reg(1) [folded b'] ctrl] obtain srcs where
    srcs: "map (source_of E c0 b') (bWatches b) = map Some srcs" "accepts ctrl srcs (inject (implSetCache r) (bCache b)
          (inject (implSetClient r) (bClient b) (inject (implSetController r) ctrl w))) = Some (bworld s')"
    by auto
  have "srcCache src = bCache b" if "src \<in> set srcs" for src
  proof -
    from that have "Some src \<in> set (map (source_of E c0 b') (bWatches b))" unfolding srcs(1) by simp
    then obtain v where "source_of E c0 b' v = Some src" by (auto simp: eq_commute [of "Some src"])
    then show ?thesis using source_of_cache cache by metis
  qed
  with noerr new srcs show ?thesis by blast
qed

text \<open>\<open>For\<close> does not use typed predicates; a primary type without type meta is not among the watched GVKs.\<close>

lemma For_ignores_typed_predicates:
  "Builder_For A obj [TypedPredicate E O' f] b = Builder_For A obj [] b"
  by (simp add: Builder_For_def BuilderWatchOptions_ApplyOptions_def FunctionalOption_ApplyTo_def
      TypedPredicate_def zero_BuilderWatchOptions_def hasMapper_def isPartial_def)

lemma GetWatchedGVKs_misses_primary:
  assumes "\<not> bForSet b" and "Kind (GroupVersionKind obj) = []"
  shows "length (bWatches (Builder_For A obj [] b)) = Suc (length (bWatches b)) \<and>
     GetWatchedGVKs (Builder_For A obj [] b) = GetWatchedGVKs b"
  using assms
  by (simp add: Builder_For_def BuilderWatchOptions_ApplyOptions_def zero_BuilderWatchOptions_def
      hasMapper_def isPartial_def registerWatch_def GetWatchedGVKs_def Let_def)

lemma GetWatchedGVKs_Owns:
  assumes "Kind g \<noteq> []" and "Version g \<noteq> []"
    and "\<not> hasMapper (BuilderWatchOptions_ApplyOptions zero_BuilderWatchOptions opts)"
  shows "GetWatchedGVKs (Builder_Owns A c0 newT g opts b) = GetWatchedGVKs b @ [g]"
  using assms
  by (simp add: Builder_Owns_def validateGVK_def Let_def GetWatchedGVKs_def gvk_watch_object_def
      empty_object_def)

text \<open>The handler a mapper stands for: one request in the queue for each that it returns.\<close>

definition enqueue_requests :: "('c, 's) mapper_fn \<Rightarrow> goctx option \<Rightarrow> 'c object \<Rightarrow> 's evstate \<Rightarrow> 's evstate" where
  "enqueue_requests mapper ctx ob s = (case mapper ctx ob s of (reqs, s) \<Rightarrow> fold queue_Add reqs s)"

definition map_handler :: "('c, 's) mapper_fn \<Rightarrow> ('c, 's) EventHandler" where
  "map_handler mapper =
     \<lparr>hCreate = (\<lambda>ctx e. enqueue_requests mapper ctx (the e)),
      hUpdate = (\<lambda>ctx e. enqueue_requests mapper ctx (the (ObjectNew e))),
      hDelete = (\<lambda>ctx e. enqueue_requests mapper ctx (the (delObject e))),
      hGeneric = (\<lambda>ctx e. enqueue_requests mapper ctx (the e))\<rparr>"

text \<open>A mapper that needs no conversion and whose type assertion holds is that handler behind the predicates.\<close>

lemma Create_untyped:
  assumes "getMapperExpectation O' \<noteq> MapperExpectsTyped"
  shows "Create (CreateTypedMapperHandler E O' mapper) scheme False name ps = typedMapperHandler_EventHandler E
     \<lparr>tmConverter = None, tmType = O', tmMapper = mapper, tmPredicates = ps\<rparr>"
  using assms by (simp add: CreateTypedMapperHandler_def)

lemma getTypedObject_untyped [simp]: "getTypedObject E None O' obj s = (asserts O' obj, s)"
  by (simp add: getTypedObject_def)

lemmas mapper_event_defs =
  Create_untyped typedMapperHandler_EventHandler_def enqueue_mapped_def map_handler_def enqueue_requests_def

lemma typed_mapper_handler_delivers:
  fixes ob :: "'c object"
  assumes "getMapperExpectation O' \<noteq> MapperExpectsTyped"
    and "\<forall>ob :: 'c object. goType ob = t \<longrightarrow> asserts O' (Some ob) = Some ob"
    and "h = Create (CreateTypedMapperHandler E O' mapper) scheme False name ps"
    and "goType ob = t"
  shows "deliver_create [] h ctx (Some ob) s = deliver_create ps (map_handler mapper) ctx (Some ob) s"
    and "deliver_generic [] h ctx (Some ob) s = deliver_generic ps (map_handler mapper) ctx (Some ob) s"
    and "deliver_delete [] h ctx \<lparr>delObject = Some ob, DeleteStateUnknown = unknown\<rparr> s =
       deliver_delete ps (map_handler mapper) ctx \<lparr>delObject = Some ob, DeleteStateUnknown = unknown\<rparr> s"
    and "old = None \<or> goType (the old) = t \<Longrightarrow>
       deliver_update [] h ctx \<lparr>ObjectOld = old, ObjectNew = Some ob\<rparr> s =
       deliver_update ps (map_handler mapper) ctx \<lparr>ObjectOld = old, ObjectNew = Some ob\<rparr> s"
proof -
  have ob: "asserts O' (Some ob) = Some ob" using assms(2,4) by blast
  have "asserts O' old = old" if "old = None \<or> goType (the old) = t"
    using that assms(2) by (cases old) (auto simp: asserts_def)
  note old = this
  show "deliver_create [] h ctx (Some ob) s = deliver_create ps (map_handler mapper) ctx (Some ob) s"
    using assms(1) ob
    by (simp add: assms(3) mapper_event_defs processCreateEvent_def deliver_create_def split: prod.splits bool.splits)
  show "deliver_generic [] h ctx (Some ob) s = deliver_generic ps (map_handler mapper) ctx (Some ob) s"
    using assms(1) ob
    by (simp add: assms(3) mapper_event_defs processGenericEvent_def deliver_generic_def split: prod.splits bool.splits)
  show "deliver_delete [] h ctx \<lparr>delObject = Some ob, DeleteStateUnknown = unknown\<rparr> s =
       deliver_delete ps (map_handler mapper) ctx \<lparr>delObject = Some ob, DeleteStateUnknown = unknown\<rparr> s"
    using assms(1) ob
    by (simp add: assms(3) mapper_event_defs processDeleteEvent_def deliver_delete_def split: prod.splits bool.splits)
  show "deliver_update [] h ctx \<lparr>ObjectOld = old, ObjectNew = Some ob\<rparr> s =
       deliver_update ps (map_handler mapper) ctx \<lparr>ObjectOld = old, ObjectNew = Some ob\<rparr> s"
    if "old = None \<or> goType (the old) = t"
    using assms(1) ob old [OF that]
    by (cases old)
      (simp_all add: assms(3) mapper_event_defs processUpdateEvent_def deliver_update_def split: prod.splits bool.splits)
qed

lemma asserts_accepted:
  assumes "validateMapperExpectation o' = None"
    and "bwMapperFactory o' = Some (CreateTypedMapperHandler E O' mapper)"
    and "getMapperExpectation O' \<noteq> MapperExpectsTyped"
    and "goType ob = goType (gvk_watch_object c0 o' g)"
  shows "asserts O' (Some ob) = Some ob"
proof (cases O')
  case (ConcreteParam t)
  with assms show ?thesis
    by (cases t) (auto simp: asserts_def validateMapperExpectation_def CreateTypedMapperHandler_def
        gvk_watch_object_def empty_object_def split: if_splits)
qed (simp add: asserts_def)

section \<open>A concrete controller-runtime\<close>

text \<open>The world is the number of sources the controller accepted.\<close>

definition demo_handler :: "(unit, unit) EventHandler" where
  "demo_handler = \<lparr>hCreate = (\<lambda>_ _ s. s), hUpdate = (\<lambda>_ _ s. s), hDelete = (\<lambda>_ _ s. s), hGeneric = (\<lambda>_ _ s. s)\<rparr>"

definition demo_builder_api :: "(unit, unit, unit, nat, unit) builder_api" where
  "demo_builder_api = \<lparr>NewController = (\<lambda>name mgr r cfg w. (Inr (\<lambda>src n. (None, Suc n)), w)),
     EnqueueRequestForObject = demo_handler, EnqueueRequestForOwner = (\<lambda>scheme owner. demo_handler)\<rparr>"

definition demo_manager_rt :: "(unit, unit, nat) manager" where
  "demo_manager_rt = \<lparr>managerCache = (), managerClient = demo_client, managerScheme = demo_scheme\<rparr>"

definition demo_impl :: "(unit, unit, unit, nat) reconciler_impl" where
  "demo_impl = \<lparr>implReconcile = (\<lambda>ctx req s. (Ret (Some NewResponse, None), s)), implSetController = None,
     implSetClient = None, implSetCache = None\<rparr>"

definition demo_calls :: "(unit, unit) builder_call list" where
  "demo_calls = [CallFor demo_object [], CallOwns demo_gvk []]"

definition demo_builder :: "(unit, unit, unit, nat, unit) Builder" where
  "demo_builder = \<lparr>bCtrl = None, bMgr = demo_manager_rt, bScheme = demo_scheme, bCache = (), bClient = demo_client,
     bErrors = [], bForSet = False, bName = [], bOptions = zero_ControllerOptions, bWatches = []\<rparr>"

lemma demo_builder_new: "NewControllerBuilder (Some demo_manager_rt) [] = Inr demo_builder"
  by (simp add: NewControllerBuilder_def demo_builder_def demo_manager_rt_def zero_ControllerOptions_def
      ControllerOptions_ApplyOptions_def)

section \<open>Properties\<close>



text \<open>
  C25: \<open>Complete\<close> creates nothing while anything is wrong. After any sequence of calls on a new
  builder: if \<open>For\<close> was never called, \<open>Complete\<close> returns the error that says so; if it was called and
  the name is still empty, the error that a name is required; if it was called, there is a name and
  some call recorded an error, an error in which every recorded error is found. In these three cases
  neither the builder nor the world changes. Calling \<open>For\<close> more than once is a recorded error.
\<close>

theorem Complete_refuses:
  assumes "NewControllerBuilder (Some mgr) copts = Inr b0"
    and "b = fold (builder_step A c0 newT) calls b0"
  shows "((\<forall>c\<in>set calls. \<not> is_CallFor c) \<longrightarrow>
       Builder_Complete E A c0 r b s = (Some (ErrorString ''For() must be called before Complete()''), b, s)) \<and>
     ((\<exists>c\<in>set calls. is_CallFor c) \<and> bName b = [] \<longrightarrow> Builder_Complete E A c0 r b s =
       (Some (ErrorString ''controller name is required: call For() or provide WithName()''), b, s)) \<and>
     ((\<exists>c\<in>set calls. is_CallFor c) \<and> bName b \<noteq> [] \<and> bErrors b \<noteq> [] \<longrightarrow>
       (\<exists>e. Builder_Complete E A c0 r b s = (Some e, b, s) \<and> (\<forall>err\<in>set (bErrors b). errors_Is (Some e) err))) \<and>
     (length (filter is_CallFor calls) > 1 \<longrightarrow>
       ErrorString ''For() can only be called once'' \<in> set (bErrors b))"
proof (intro conjI impI)
  have "\<not> bForSet b0" using assms(1) by (auto simp: NewControllerBuilder_def Let_def)
  then have for_set: "bForSet b \<longleftrightarrow> (\<exists>c\<in>set calls. is_CallFor c)" by (simp add: assms(2) steps_For)
  show "Builder_Complete E A c0 r b s = (Some (ErrorString ''For() must be called before Complete()''), b, s)"
    if "\<forall>c\<in>set calls. \<not> is_CallFor c"
    using that for_set by (simp add: Builder_Complete_def)
  show "Builder_Complete E A c0 r b s =
       (Some (ErrorString ''controller name is required: call For() or provide WithName()''), b, s)"
    if "(\<exists>c\<in>set calls. is_CallFor c) \<and> bName b = []"
    using that for_set by (simp add: Builder_Complete_def)
  show "\<exists>e. Builder_Complete E A c0 r b s = (Some e, b, s) \<and> (\<forall>err\<in>set (bErrors b). errors_Is (Some e) err)"
    if "(\<exists>c\<in>set calls. is_CallFor c) \<and> bName b \<noteq> [] \<and> bErrors b \<noteq> []"
    using that for_set by (auto simp: Builder_Complete_def errors_Join_def errors_Is_def intro: err_chain_self)
  show "ErrorString ''For() can only be called once'' \<in> set (bErrors b)" if "length (filter is_CallFor calls) > 1"
    using steps_two_Fors [OF that] by (simp add: assms(2))
qed

theorem Complete_refuses_witness:
  "Builder_Complete demo_env demo_builder_api () demo_impl
      (fold (builder_step demo_builder_api () demo_object) [CallOwns demo_gvk []] demo_builder)
      \<lparr>staticWatched = Map.empty, bworld = 0\<rparr> =
      (Some (ErrorString ''For() must be called before Complete()''),
       fold (builder_step demo_builder_api () demo_object) [CallOwns demo_gvk []] demo_builder,
       \<lparr>staticWatched = Map.empty, bworld = 0\<rparr>) \<and>
   ErrorString ''For() can only be called once'' \<in> set (bErrors
      (fold (builder_step demo_builder_api () demo_object) (demo_calls @ demo_calls) demo_builder))"
proof
  show "Builder_Complete demo_env demo_builder_api () demo_impl
      (fold (builder_step demo_builder_api () demo_object) [CallOwns demo_gvk []] demo_builder)
      \<lparr>staticWatched = Map.empty, bworld = 0\<rparr> =
      (Some (ErrorString ''For() must be called before Complete()''),
       fold (builder_step demo_builder_api () demo_object) [CallOwns demo_gvk []] demo_builder,
       \<lparr>staticWatched = Map.empty, bworld = 0\<rparr>)"
    using Complete_refuses [OF demo_builder_new refl, where calls = "[CallOwns demo_gvk []]"]
    by simp
  show "ErrorString ''For() can only be called once'' \<in> set (bErrors
      (fold (builder_step demo_builder_api () demo_object) (demo_calls @ demo_calls) demo_builder))"
    using Complete_refuses [OF demo_builder_new refl, where calls = "demo_calls @ demo_calls"]
    by (simp add: demo_calls_def)
qed

text \<open>
  C26: a mapper over unstructured objects, partial metadata or \<open>client.Object\<close> that \<open>Watches\<close> accepts
  receives the events of its watch. If the call, with any other options, recorded no error, then the
  watch it recorded has a source on the object of the requested GVK, and on every create, update,
  delete and generic event for objects of the Go type that source delivers, the source does exactly
  what is asked for: the predicates given with the call (the plain ones, then the typed ones) in
  their order, until one refuses the event, then one request in the queue for each that the mapper
  returns for the object (the new one, on an update). Mappers over a typed object are not covered:
  they see the converted object.
\<close>

theorem Watches_mapper_delivers:
  assumes "o' = BuilderWatchOptions_ApplyOptions zero_BuilderWatchOptions opts"
    and "bwMapperFactory o' = Some (CreateTypedMapperHandler E O' mapper)"
    and "getMapperExpectation O' \<noteq> MapperExpectsTyped"
    and "b' = Builder_Watches c0 g opts b" and "bErrors b' = bErrors b"
  shows "\<exists>w src. bWatches b' = bWatches b @ [w] \<and> source_of E c0 bc w = Some src \<and>
     srcObject src = gvk_watch_object c0 o' g \<and> GroupVersionKind (srcObject src) = g \<and>
     (\<forall>ctx ob s. goType ob = goType (srcObject src) \<longrightarrow>
        deliver_create (srcPredicates src) (srcHandler src) ctx (Some ob) s =
          deliver_create (resolvePredicates b o') (map_handler mapper) ctx (Some ob) s \<and>
        deliver_generic (srcPredicates src) (srcHandler src) ctx (Some ob) s =
          deliver_generic (resolvePredicates b o') (map_handler mapper) ctx (Some ob) s \<and>
        (\<forall>unknown. deliver_delete (srcPredicates src) (srcHandler src) ctx
             \<lparr>delObject = Some ob, DeleteStateUnknown = unknown\<rparr> s =
           deliver_delete (resolvePredicates b o') (map_handler mapper) ctx
             \<lparr>delObject = Some ob, DeleteStateUnknown = unknown\<rparr> s) \<and>
        (\<forall>old. old = None \<or> goType (the old) = goType (srcObject src) \<longrightarrow>
           deliver_update (srcPredicates src) (srcHandler src) ctx \<lparr>ObjectOld = old, ObjectNew = Some ob\<rparr> s =
           deliver_update (resolvePredicates b o') (map_handler mapper) ctx
             \<lparr>ObjectOld = old, ObjectNew = Some ob\<rparr> s))"
proof -
  let ?h = "Create (CreateTypedMapperHandler E O' mapper) (bScheme b) False (bName b) (resolvePredicates b o')"
  let ?w = "\<lparr>regObj = gvk_watch_object c0 o' g, regHandler = ?h, regPredicates = [], regAsPartial = False\<rparr>"
  let ?src = "\<lparr>srcCache = bCache bc, srcObject = gvk_watch_object c0 o' g, srcHandler = ?h, srcPredicates = []\<rparr>"
  have ok: "validateMapperExpectation o' = None" "bWatches b' = bWatches b @ [?w]"
    using assms by (auto simp: Builder_Watches_def hasMapper_def Let_def split: if_splits option.splits)
  have src: "source_of E c0 bc ?w = Some ?src"
    by (auto simp: source_of_def watch_source_def processObject_def gvk_watch_object_def empty_object_def
        wrapHandler_def wrapPredicates_def)
  have "\<forall>ob. goType ob = goType (gvk_watch_object c0 o' g) \<longrightarrow> asserts O' (Some ob) = Some ob"
    using asserts_accepted [OF ok(1) assms(2,3)] by blast
  note handlers = typed_mapper_handler_delivers [OF assms(3) this refl]
  have "GroupVersionKind (gvk_watch_object c0 o' g) = g"
    by (simp add: gvk_watch_object_def empty_object_def)
  with ok(2) src show ?thesis
    by (intro exI [of _ ?w] exI [of _ ?src] conjI allI impI) (simp_all add: handlers)
qed

theorem Watches_mapper_delivers_witness:
  "\<exists>w src. bWatches (Builder_Watches () demo_gvk
      [WithMapper demo_env ClientObjectParam (\<lambda>ctx ob s. ([NamespacedNameFromObject ob], s)), AsPartial]
      demo_builder) = [w] \<and> source_of demo_env () demo_builder w = Some src \<and>
     queue (deliver_generic (srcPredicates src) (srcHandler src) None
       (Some (empty_object PartialMetadataType demo_gvk ())) empty_evstate) = [\<lparr>nnNamespace = [], nnName = []\<rparr>]"
proof -
  let ?m = "\<lambda>ctx ob s. ([NamespacedNameFromObject ob], s)"
  let ?opts = "[WithMapper demo_env ClientObjectParam ?m, AsPartial]"
  let ?o = "BuilderWatchOptions_ApplyOptions zero_BuilderWatchOptions ?opts"
  let ?b = "Builder_Watches () demo_gvk ?opts demo_builder"
  let ?ob = "empty_object PartialMetadataType demo_gvk ()"
  have o: "bwMapperFactory ?o = Some (CreateTypedMapperHandler demo_env ClientObjectParam ?m)"
    "resolvePredicates demo_builder ?o = []" "gvk_watch_object () ?o demo_gvk = ?ob"
    by (simp_all add: BuilderWatchOptions_ApplyOptions_def FunctionalOption_ApplyTo_def opt_defs
        resolvePredicates_def gvk_watch_object_def)
  have b: "bErrors ?b = bErrors demo_builder"
    by (simp add: Builder_Watches_def BuilderWatchOptions_ApplyOptions_def FunctionalOption_ApplyTo_def opt_defs
        CreateTypedMapperHandler_def validateGVK_def validateMapperExpectation_def demo_gvk_def Let_def)
  have "getMapperExpectation ClientObjectParam \<noteq> MapperExpectsTyped" by simp
  from Watches_mapper_delivers [OF refl o(1) this refl b, where bc = demo_builder, unfolded o] obtain w src where
    ws: "bWatches ?b = bWatches demo_builder @ [w]" "source_of demo_env () demo_builder w = Some src"
      "deliver_generic (srcPredicates src) (srcHandler src) None (Some ?ob) empty_evstate =
       deliver_generic [] (map_handler ?m) None (Some ?ob) empty_evstate"
  proof (elim exE conjE, goal_cases)
    case (1 w src)
    from 1(6) [rule_format, of ?ob None empty_evstate] 1(4) show ?case by (intro 1(1) [OF 1(2,3)]) simp
  qed
  have "queue (deliver_generic [] (map_handler ?m) None (Some ?ob) empty_evstate) = [\<lparr>nnNamespace = [], nnName = []\<rparr>]"
    by (simp add: deliver_generic_def map_handler_def enqueue_requests_def queue_Add_def NamespacedNameFromObject_def
        empty_object_def empty_evstate_def)
  with ws show ?thesis by (simp add: demo_builder_def)
qed

end
