(* ===== verification/Pipeline.thy ===== *)
theory Pipeline
  imports Watch_Handler
begin

text \<open>
  The pipeline (\<^verbatim>\<open>src/pkg/reconciler/pipeline\<close>): its options, \<open>StopError\<close>, and the reconcile loop:
  deletion with cleanup actions in reverse order, the finalizer, the actions with their accumulated
  errors, the hooks, the application of the response's entries and the status update. The state is
  the heap of objects and the world of the reconciler theory. \<open>Reconcile\<close>, \<open>run\<close> and the functions
  they call each read the pipeline's client; nothing in a reconcile changes it, so it is read once,
  where \<open>Reconcile\<close> does, and passed on.
\<close>

section \<open>StopError\<close>

definition pipeline_Stop :: "error option \<Rightarrow> error" where
  "pipeline_Stop err = StopErr err"

fun is_StopErr :: "error \<Rightarrow> bool" where
  "is_StopErr (StopErr cause) = True"
| "is_StopErr _ = False"

definition IsStopError :: "error option \<Rightarrow> bool" where
  "IsStopError err = errors_As is_StopErr err"

definition StopError_Error :: "error option \<Rightarrow> string" where
  "StopError_Error cause =
     (case cause of Some e \<Rightarrow> ''pipeline stopped: '' @ err_Error e | None \<Rightarrow> ''pipeline stopped'')"

definition StopError_Unwrap :: "error option \<Rightarrow> error option" where
  "StopError_Unwrap cause = cause"

section \<open>Options\<close>

record ('c, 'w) PipelineOptions =
  Actions :: "('c, 'w) ActionFunc list"
  CleanupActions :: "('c, 'w) CleanupFunc list"
  Finalizer :: string
  plFieldOwner :: string
  Ownership :: bool
  AnnotateNonOwnedObjects :: bool
  LabelNonOwnedObjects :: bool
  plClient :: "('c, 'w) client option"
  PreApply :: "('c, 'w) ApplyHookFunc list"
  PostApply :: "('c, 'w) ApplyHookFunc list"

type_synonym ('c, 'w) PipelineOption = "('c, 'w) PipelineOptions \<Rightarrow> ('c, 'w) PipelineOptions"

definition zero_PipelineOptions :: "('c, 'w) PipelineOptions" where
  [opt_defs]: "zero_PipelineOptions =
     \<lparr>Actions = [], CleanupActions = [], Finalizer = [], plFieldOwner = [], Ownership = False,
      AnnotateNonOwnedObjects = False, LabelNonOwnedObjects = False, plClient = None,
      PreApply = [], PostApply = []\<rparr>"

definition PipelineOptions_ApplyTo :: "('c, 'w) PipelineOptions \<Rightarrow> ('c, 'w) PipelineOption" where
  [opt_defs]: "PipelineOptions_ApplyTo opt opts =
     (let opts = opts\<lparr>Actions := Actions opts @ Actions opt\<rparr>;
          opts = opts\<lparr>CleanupActions := CleanupActions opts @ CleanupActions opt\<rparr>;
          opts = (if Finalizer opt \<noteq> [] then opts\<lparr>Finalizer := Finalizer opt\<rparr> else opts);
          opts = (if plFieldOwner opt \<noteq> [] then opts\<lparr>plFieldOwner := plFieldOwner opt\<rparr> else opts);
          opts = opts\<lparr>Ownership := Ownership opt\<rparr>;
          opts = opts\<lparr>AnnotateNonOwnedObjects := AnnotateNonOwnedObjects opt\<rparr>;
          opts = opts\<lparr>LabelNonOwnedObjects := LabelNonOwnedObjects opt\<rparr>;
          opts = (if plClient opt \<noteq> None then opts\<lparr>plClient := plClient opt\<rparr> else opts);
          opts = opts\<lparr>PreApply := PreApply opts @ PreApply opt\<rparr>
      in opts\<lparr>PostApply := PostApply opts @ PostApply opt\<rparr>)"

definition PipelineOptions_ApplyOptions ::
    "('c, 'w) PipelineOptions \<Rightarrow> ('c, 'w) PipelineOption list \<Rightarrow> ('c, 'w) PipelineOptions" where
  "PipelineOptions_ApplyOptions t opts = apply_options opts t"

definition WithActions :: "('c, 'w) ActionFunc list \<Rightarrow> ('c, 'w) PipelineOption" where
  [opt_defs]: "WithActions actions opts = opts\<lparr>Actions := Actions opts @ actions\<rparr>"

definition WithCleanupActions :: "('c, 'w) CleanupFunc list \<Rightarrow> ('c, 'w) PipelineOption" where
  [opt_defs]: "WithCleanupActions actions opts = opts\<lparr>CleanupActions := CleanupActions opts @ actions\<rparr>"

definition WithFinalizer :: "string \<Rightarrow> ('c, 'w) PipelineOption" where
  [opt_defs]: "WithFinalizer name opts = opts\<lparr>Finalizer := name\<rparr>"

definition WithFieldOwner :: "string \<Rightarrow> ('c, 'w) PipelineOption" where
  [opt_defs]: "WithFieldOwner name opts = opts\<lparr>plFieldOwner := name\<rparr>"

definition WithTypedActions :: "go_type \<Rightarrow> ('c, 'w) ActionFunc list \<Rightarrow> ('c, 'w) PipelineOption" where
  [opt_defs]: "WithTypedActions T actions =
     (let converted = map (ToActionFunc T) actions
      in (\<lambda>opts. opts\<lparr>Actions := Actions opts @ converted\<rparr>))"

definition WithTypedCleanup :: "go_type \<Rightarrow> ('c, 'w) CleanupFunc list \<Rightarrow> ('c, 'w) PipelineOption" where
  [opt_defs]: "WithTypedCleanup T actions =
     (let converted = map (ToCleanupFunc T) actions
      in (\<lambda>opts. opts\<lparr>CleanupActions := CleanupActions opts @ converted\<rparr>))"

definition pipeline_WithClient :: "('c, 'w) client option \<Rightarrow> ('c, 'w) PipelineOption" where
  [opt_defs]: "pipeline_WithClient c opts = opts\<lparr>plClient := c\<rparr>"

definition WithPreApply :: "('c, 'w) ApplyHookFunc list \<Rightarrow> ('c, 'w) PipelineOption" where
  [opt_defs]: "WithPreApply hooks opts = opts\<lparr>PreApply := PreApply opts @ hooks\<rparr>"

definition WithPostApply :: "('c, 'w) ApplyHookFunc list \<Rightarrow> ('c, 'w) PipelineOption" where
  [opt_defs]: "WithPostApply hooks opts = opts\<lparr>PostApply := PostApply opts @ hooks\<rparr>"

definition pipeline_WithOwnership :: "bool \<Rightarrow> ('c, 'w) PipelineOption" where
  [opt_defs]: "pipeline_WithOwnership enabled opts = opts\<lparr>Ownership := enabled\<rparr>"

definition WithOwnerTracking :: "bool \<Rightarrow> ('c, 'w) PipelineOption" where
  [opt_defs]: "WithOwnerTracking enabled opts =
     opts\<lparr>AnnotateNonOwnedObjects := enabled, LabelNonOwnedObjects := enabled\<rparr>"

definition WithOwnerAnnotations :: "bool \<Rightarrow> ('c, 'w) PipelineOption" where
  [opt_defs]: "WithOwnerAnnotations enabled opts = opts\<lparr>AnnotateNonOwnedObjects := enabled\<rparr>"

definition WithOwnerLabels :: "bool \<Rightarrow> ('c, 'w) PipelineOption" where
  [opt_defs]: "WithOwnerLabels enabled opts = opts\<lparr>LabelNonOwnedObjects := enabled\<rparr>"

section \<open>The pipeline\<close>

abbreviation DefaultFinalizer :: string where
  "DefaultFinalizer \<equiv> ''reconciler.k8s-controller-lib/finalizer''"
abbreviation ConditionTypeProvisioningSucceeded :: string where
  "ConditionTypeProvisioningSucceeded \<equiv> ''ProvisioningSucceeded''"
abbreviation AnnotationOwnerGroup :: string where
  "AnnotationOwnerGroup \<equiv> ''controller-lib.k8s.io/owner-group''"
abbreviation AnnotationOwnerVersion :: string where
  "AnnotationOwnerVersion \<equiv> ''controller-lib.k8s.io/owner-version''"
abbreviation AnnotationOwnerKind :: string where
  "AnnotationOwnerKind \<equiv> ''controller-lib.k8s.io/owner-kind''"
abbreviation AnnotationOwnerName :: string where
  "AnnotationOwnerName \<equiv> ''controller-lib.k8s.io/owner-name''"
abbreviation AnnotationOwnerNamespace :: string where
  "AnnotationOwnerNamespace \<equiv> ''controller-lib.k8s.io/owner-namespace''"

record ('c, 'w) Pipeline =
  plOpts :: "('c, 'w) PipelineOptions"

definition NewPipeline :: "('c, 'w) PipelineOption list \<Rightarrow> ('c, 'w) Pipeline" where
  "NewPipeline opts =
     (let options = zero_PipelineOptions\<lparr>Ownership := True\<rparr>;
          options = PipelineOptions_ApplyOptions options opts;
          options = (if Finalizer options = [] \<and> length (CleanupActions options) > 0
                     then options\<lparr>Finalizer := DefaultFinalizer\<rparr> else options)
      in \<lparr>plOpts = options\<rparr>)"

definition Pipeline_SetClient :: "('c, 'w) client option \<Rightarrow> ('c, 'w) Pipeline \<Rightarrow> ('c, 'w) Pipeline" where
  "Pipeline_SetClient c p = p\<lparr>plOpts := (plOpts p)\<lparr>plClient := c\<rparr>\<rparr>"

definition getClient :: "('c, 'w) Pipeline \<Rightarrow> ('c, 'w) client outcome" where
  "getClient p =
     (case plClient (plOpts p) of
        None \<Rightarrow> Panic ''pipeline: client not set - use WithClient option or ensure Builder injects it''
      | Some c \<Rightarrow> Ret c)"

text \<open>The field owner \<open>execute\<close> and \<open>updateStatus\<close> determine: configured, or the controller's name.\<close>

definition field_owner :: "('c, 'w) Pipeline \<Rightarrow> goctx option \<Rightarrow> string option" where
  "field_owner p ctx =
     (if plFieldOwner (plOpts p) \<noteq> [] then Some (plFieldOwner (plOpts p))
      else (case ControllerNameFromContext ctx of (name, True) \<Rightarrow> Some name | (_, False) \<Rightarrow> None))"

definition addOwnerTracking ::
    "('c, 'w) Pipeline \<Rightarrow> ('c, 'w) client \<Rightarrow> 'c object \<Rightarrow> 'c object \<Rightarrow> error option \<times> 'c object" where
  "addOwnerTracking p cli owner obj =
     (if \<not> AnnotateNonOwnedObjects (plOpts p) \<and> \<not> LabelNonOwnedObjects (plOpts p) then (None, obj)
      else (case GVKForObject (clientScheme cli) owner of
              Inl err \<Rightarrow> (Some (WrapError ''failed to get GVK for owner'' err), obj)
            | Inr g \<Rightarrow>
                (let ob = Some obj;
                     ob = (if AnnotateNonOwnedObjects (plOpts p)
                       then (let ob = snd (SetAnnotation ob AnnotationOwnerGroup (Group g));
                                 ob = snd (SetAnnotation ob AnnotationOwnerVersion (Version g));
                                 ob = snd (SetAnnotation ob AnnotationOwnerKind (Kind g));
                                 ob = snd (SetAnnotation ob AnnotationOwnerName (GetName owner))
                             in if GetNamespace owner \<noteq> []
                                then snd (SetAnnotation ob AnnotationOwnerNamespace (GetNamespace owner))
                                else ob)
                       else ob);
                     ob = (if LabelNonOwnedObjects (plOpts p)
                       then (let ob = snd (SetLabel ob LabelOwnerName (GetName owner))
                             in if GetNamespace owner \<noteq> []
                                then snd (SetLabel ob LabelOwnerNamespace (GetNamespace owner))
                                else ob)
                       else ob)
                 in (None, the ob))))"

text \<open>
  One iteration of the loop of \<open>processEntries\<close>, for an entry whose object is not nil. (A nil object
  in a response makes the code dereference a nil interface; the model has no such entry.)
\<close>

definition process_entry ::
    "'c env \<Rightarrow> ('c, 'w) Pipeline \<Rightarrow> ('c, 'w) client \<Rightarrow> ref \<Rightarrow> string \<Rightarrow> objectEntry \<Rightarrow>
     ('c, 'w) pstate \<Rightarrow> error option \<times> ('c, 'w) pstate" where
  "process_entry E p cli owner fieldOwner entry s =
     (let withOwnership = (case objOwnership (entryOpts entry) of
            None \<Rightarrow> Ownership (plOpts p) | Some b \<Rightarrow> b);
          obj = entryObj entry;
          ref = (\<lambda>s. FormatObjectReference (envSchema E) (deref s obj));
          (err, s) =
            (if withOwnership
             then (case SetControllerReference E (deref s owner) (deref s obj) (clientScheme cli) of
                     (err, ob) \<Rightarrow>
                       (map_option (WrapError (''unable to set controller reference to '' @ ref (store obj ob s))) err,
                        store obj ob s))
             else (case addOwnerTracking p cli (deref s owner) (deref s obj) of
                     (err, ob) \<Rightarrow>
                       (map_option (WrapError (''unable to add owner tracking to '' @ ref (store obj ob s))) err,
                        store obj ob s)))
      in case err of
           Some e \<Rightarrow> (Some e, s)
         | None \<Rightarrow>
             (case on_object (resources_Apply E cli [FieldOwner fieldOwner]) obj s of
                (Some e, s) \<Rightarrow> (Some (WrapError (''unable to apply '' @ ref s) e), s)
              | (None, s) \<Rightarrow> (None, s)))"

definition processEntries ::
    "'c env \<Rightarrow> ('c, 'w) Pipeline \<Rightarrow> ('c, 'w) client \<Rightarrow> ref \<Rightarrow> objectEntry list \<Rightarrow> string \<Rightarrow>
     ('c, 'w) pstate \<Rightarrow> error option \<times> ('c, 'w) pstate" where
  "processEntries E p cli owner entries fieldOwner s =
     until_error (process_entry E p cli owner fieldOwner) entries s"

text \<open>The loop over the actions: \<open>Inl\<close> is the stop error, \<open>Inr\<close> the accumulated errors.\<close>

fun run_actions ::
    "goctx option \<Rightarrow> ('c, 'w) Request \<Rightarrow> ('c, 'w) ActionFunc list \<Rightarrow> error list \<Rightarrow> Response \<Rightarrow>
     ('c, 'w) pstate \<Rightarrow> (error + error list) \<times> Response \<times> ('c, 'w) pstate" where
  "run_actions ctx req [] actionErrs resp s = (Inr actionErrs, resp, s)"
| "run_actions ctx req (action # actions) actionErrs resp s =
     (case action ctx req resp s of
        (None, resp, s) \<Rightarrow> run_actions ctx req actions actionErrs resp s
      | (Some err, resp, s) \<Rightarrow>
          if IsStopError (Some err) then (Inl err, resp, s)
          else run_actions ctx req actions (actionErrs @ [err]) resp s)"

definition run_hooks ::
    "string \<Rightarrow> goctx option \<Rightarrow> ref \<Rightarrow> ref list \<Rightarrow> ('c, 'w) ApplyHookFunc list \<Rightarrow> ('c, 'w) pstate \<Rightarrow>
     error option \<times> ('c, 'w) pstate" where
  "run_hooks msg ctx owner objects hooks s =
     until_error (\<lambda>hook s. case hook ctx owner objects s of
        (Some err, s) \<Rightarrow> (Some (WrapError msg err), s) | (None, s) \<Rightarrow> (None, s)) hooks s"

text \<open>\<open>execute\<close> after the actions: field owner, hooks, entries; the accumulated errors come last.\<close>

definition provision ::
    "'c env \<Rightarrow> ('c, 'w) Pipeline \<Rightarrow> ('c, 'w) client \<Rightarrow> goctx option \<Rightarrow> ref \<Rightarrow> Response \<Rightarrow> error list \<Rightarrow>
     ('c, 'w) pstate \<Rightarrow> error option \<times> ('c, 'w) pstate" where
  "provision E p cli ctx owner resp actionErrs s =
     (case field_owner p ctx of
        None \<Rightarrow> (Some (ErrorString ''field owner not configured and controller name not in context''), s)
      | Some fieldOwner \<Rightarrow>
          (let entries = GetEntries resp; allObjects = GetObjects resp
           in case run_hooks ''pre-apply hook failed'' ctx owner allObjects (PreApply (plOpts p)) s of
                (Some err, s) \<Rightarrow> (Some err, s)
              | (None, s) \<Rightarrow>
                  (case processEntries E p cli owner entries fieldOwner s of
                     (Some err, s) \<Rightarrow> (Some err, s)
                   | (None, s) \<Rightarrow>
                       (case run_hooks ''post-apply hook failed'' ctx owner allObjects (PostApply (plOpts p)) s of
                          (Some err, s) \<Rightarrow> (Some err, s)
                        | (None, s) \<Rightarrow> (NewAggregate E actionErrs, s)))))"

definition pipeline_execute ::
    "'c env \<Rightarrow> ('c, 'w) Pipeline \<Rightarrow> ('c, 'w) client \<Rightarrow> goctx option \<Rightarrow> ('c, 'w) Request \<Rightarrow> Response \<Rightarrow>
     ('c, 'w) pstate \<Rightarrow> error option \<times> Response \<times> ('c, 'w) pstate" where
  "pipeline_execute E p cli ctx req resp s =
     (case run_actions ctx req (Actions (plOpts p)) [] resp s of
        (Inl err, resp, s) \<Rightarrow> (Some err, resp, s)
      | (Inr actionErrs, resp, s) \<Rightarrow>
          (case provision E p cli ctx (reqObject req) resp actionErrs s of (err, s) \<Rightarrow> (err, resp, s)))"

text \<open>The loop over the cleanup actions, from the last to the first; every one runs.\<close>

fun run_cleanups ::
    "goctx option \<Rightarrow> ('c, 'w) Request \<Rightarrow> ('c, 'w) CleanupFunc list \<Rightarrow> error list \<Rightarrow> ('c, 'w) pstate \<Rightarrow>
     error list \<times> ('c, 'w) pstate" where
  "run_cleanups ctx req [] errs s = (errs, s)"
| "run_cleanups ctx req (action # actions) errs s =
     (case action ctx req s of
        (None, s) \<Rightarrow> run_cleanups ctx req actions errs s
      | (Some err, s) \<Rightarrow> run_cleanups ctx req actions (errs @ [err]) s)"

definition pipeline_cleanup ::
    "'c env \<Rightarrow> ('c, 'w) Pipeline \<Rightarrow> ('c, 'w) client \<Rightarrow> goctx option \<Rightarrow> ('c, 'w) Request \<Rightarrow>
     ('c, 'w) pstate \<Rightarrow> error option \<times> ('c, 'w) pstate" where
  "pipeline_cleanup E p cli ctx req s =
     (let fin = Finalizer (plOpts p); r = reqObject req
      in if fin = [] \<or> \<not> ContainsFinalizer E (deref s r) fin then (None, s)
         else (case run_cleanups ctx req (rev (CleanupActions (plOpts p))) [] s of
                 (errs, s) \<Rightarrow>
                   (case NewAggregate E errs of
                      Some err \<Rightarrow> (Some (WrapError ''cleanup failed'' err), s)
                    | None \<Rightarrow>
                        (case RemoveFinalizer E (deref s r) fin of
                           (removed, ob) \<Rightarrow>
                             let s = store r ob s
                             in if \<not> removed then (None, s)
                                else (case on_object (clientUpdate cli) r s of
                                        (Some err, s) \<Rightarrow> (Some (WrapError ''failed to remove finalizer'' err), s)
                                      | (None, s) \<Rightarrow> (None, s))))))"

text \<open>The status a reconcile leaves: the generation and the provisioning condition.\<close>

definition provisioning_status ::
    "meta_api \<Rightarrow> error option \<Rightarrow> int \<Rightarrow> Status \<Rightarrow> Status" where
  "provisioning_status M execErr generation st =
     (case execErr of
        Some err \<Rightarrow>
          (let st = st\<lparr>ObservedGeneration := generation\<rparr>
           in conditions_MarkFalse M Status_Accessor ConditionTypeProvisioningSucceeded
                [WithReason ''ReconciliationFailed'', WithMessage (err_Error err),
                 WithObservedGeneration (ObservedGeneration st)] st)
      | None \<Rightarrow>
          (let st = st\<lparr>ObservedGeneration := generation\<rparr>
           in conditions_MarkTrue M Status_Accessor ConditionTypeProvisioningSucceeded
                [WithReason ''ReconciliationSucceeded'', WithObservedGeneration (ObservedGeneration st)] st))"

definition updateStatus ::
    "'c env \<Rightarrow> ('c, 'w) Pipeline \<Rightarrow> ('c, 'w) client \<Rightarrow> goctx option \<Rightarrow> ('c, 'w) Request \<Rightarrow> error option \<Rightarrow>
     ('c, 'w) pstate \<Rightarrow> error option \<times> ('c, 'w) pstate" where
  "updateStatus E p cli ctx req execErr s =
     (let r = reqObject req
      in case GetStatus (deref s r) of
           None \<Rightarrow> (None, s)
         | Some st \<Rightarrow>
             (case field_owner p ctx of
                None \<Rightarrow> (None, s)
              | Some _ \<Rightarrow>
                  (let st = provisioning_status (envMeta E) execErr (GetGeneration (deref s r)) st;
                       s = store r ((deref s r)\<lparr>GetStatus := Some st\<rparr>) s
                   in case EnsureGroupVersionKind (clientScheme cli) (deref s r) of
                        (Some err, ob) \<Rightarrow> (Some (WrapError ''failed to ensure GVK on object'' err), store r ob s)
                      | (None, ob) \<Rightarrow>
                          (case on_object (clientStatusUpdate cli) r (store r ob s) of
                             (Some err, s) \<Rightarrow> (Some (WrapError ''failed to update status'' err), s)
                           | (None, s) \<Rightarrow> (None, s)))))"

definition pipeline_run ::
    "'c env \<Rightarrow> ('c, 'w) Pipeline \<Rightarrow> ('c, 'w) client \<Rightarrow> goctx option \<Rightarrow> ('c, 'w) Request \<Rightarrow>
     ('c, 'w) pstate \<Rightarrow> Response \<times> error option \<times> ('c, 'w) pstate" where
  "pipeline_run E p cli ctx req s =
     (let resp = NewResponse; r = reqObject req; fin = Finalizer (plOpts p)
      in if GetDeletionTimestamp (deref s r) \<noteq> None
         then (case pipeline_cleanup E p cli ctx req s of (err, s) \<Rightarrow> (resp, err, s))
         else
           (let (added, s) = (if fin = [] then (False, s)
                  else (case AddFinalizer E (deref s r) fin of (added, ob) \<Rightarrow> (added, store r ob s)));
                (updErr, s) = (if added then on_object (clientUpdate cli) r s else (None, s))
            in case updErr of
                 Some err \<Rightarrow> (resp, Some (WrapError ''failed to add finalizer'' err), s)
               | None \<Rightarrow>
                   (case pipeline_execute E p cli ctx req resp s of
                      (execErr, resp, s) \<Rightarrow>
                        (case updateStatus E p cli ctx req execErr s of
                           (Some err, s) \<Rightarrow> (resp, Some err, s)
                         | (None, s) \<Rightarrow> (resp, execErr, s)))))"

definition Pipeline_Reconcile ::
    "'c env \<Rightarrow> ('c, 'w) Pipeline \<Rightarrow> goctx option \<Rightarrow> ref \<Rightarrow> ('c, 'w) pstate \<Rightarrow>
     (Result \<times> error option) outcome \<times> ('c, 'w) pstate" where
  "Pipeline_Reconcile E p ctx obj s =
     (case getClient p of
        Panic m \<Rightarrow> (Panic m, s)
      | Ret cli \<Rightarrow>
          (case pipeline_run E p cli ctx \<lparr>reqClient = cli, reqObject = obj\<rparr> s of
             (resp, err, s) \<Rightarrow> (Ret (zero_Result\<lparr>resRequeueAfter := ShouldRequeue resp\<rparr>, err), s)))"

definition NewTyped :: "('c, 'w) PipelineOption list \<Rightarrow> ('c, 'w) Pipeline" where
  "NewTyped opts = NewPipeline opts"

definition TypedPipeline_Reconcile :: "'c env \<Rightarrow> ('c, 'w) Pipeline \<Rightarrow> ('c, 'w) TypedReconciler" where
  "TypedPipeline_Reconcile E p ctx req s =
     (case Pipeline_Reconcile E p ctx (reqObject req) s of
        (Panic m, s) \<Rightarrow> (Panic m, s)
      | (Ret (result, err), s) \<Rightarrow> (Ret (Some (ResponseFromResult result), err), s))"

section \<open>Lemmas\<close>

lemma IsStopError_Stop: "IsStopError (Some (pipeline_Stop cause))"
  by (cases cause) (simp_all add: IsStopError_def pipeline_Stop_def errors_As_def)

lemma IsStopError_Wrap: "IsStopError (Some e) \<Longrightarrow> IsStopError (Some (WrapError m e))"
  by (simp add: IsStopError_def)

lemma err_Error_Stop: "err_Error (pipeline_Stop cause) = StopError_Error cause"
  by (cases cause) (simp_all add: pipeline_Stop_def StopError_Error_def)

lemma run_actions_append:
  "run_actions ctx req (xs @ ys) errs resp s =
     (case run_actions ctx req xs errs resp s of
        (Inl e, resp, s) \<Rightarrow> (Inl e, resp, s)
      | (Inr errs, resp, s) \<Rightarrow> run_actions ctx req ys errs resp s)"
  by (induction xs arbitrary: errs resp s) (auto split: prod.splits option.splits)

text \<open>
  What the loops are measured against: the functions run one after the other from a start state,
  with the error, or nil, each of them returned.
\<close>

primrec action_results ::
    "goctx option \<Rightarrow> ('c, 'w) Request \<Rightarrow> ('c, 'w) ActionFunc list \<Rightarrow> Response \<Rightarrow>
     ('c, 'w) pstate \<Rightarrow> error option list \<times> Response \<times> ('c, 'w) pstate" where
  "action_results ctx req [] resp s = ([], resp, s)"
| "action_results ctx req (action # actions) resp s =
     (case action ctx req resp s of (r, resp, s) \<Rightarrow> apfst (Cons r) (action_results ctx req actions resp s))"

primrec cleanup_results ::
    "goctx option \<Rightarrow> ('c, 'w) Request \<Rightarrow> ('c, 'w) CleanupFunc list \<Rightarrow> ('c, 'w) pstate \<Rightarrow>
     error option list \<times> ('c, 'w) pstate" where
  "cleanup_results ctx req [] s = ([], s)"
| "cleanup_results ctx req (action # actions) s =
     (case action ctx req s of (r, s) \<Rightarrow> apfst (Cons r) (cleanup_results ctx req actions s))"

abbreviation failures :: "error option list \<Rightarrow> error list" where
  "failures \<equiv> List.map_filter (\<lambda>r. r)"

lemma failures_Nil_iff: "failures rs = [] \<longleftrightarrow> (\<forall>r \<in> set rs. r = None)"
  by (induction rs) (auto simp: List.map_filter_simps split: option.splits)

lemma run_actions_results:
  assumes "action_results ctx req actions resp s = (rs, resp1, s1)" and "\<forall>r \<in> set rs. \<not> IsStopError r"
  shows "run_actions ctx req actions errs resp s = (Inr (errs @ failures rs), resp1, s1)"
  using assms
  by (induction actions arbitrary: errs resp s rs)
    (auto simp: List.map_filter_simps apfst_def map_prod_def split: prod.splits option.splits)

lemma run_cleanups_results:
  assumes "cleanup_results ctx req actions s = (rs, s1)"
  shows "run_cleanups ctx req actions errs s = (errs @ failures rs, s1)"
  using assms
  by (induction actions arbitrary: errs s rs)
    (auto simp: List.map_filter_simps apfst_def map_prod_def split: prod.splits option.splits)

text \<open>The errors of the actions do not influence the provisioning, only the final answer.\<close>

lemma provision_errs:
  assumes "aggregate_ok E"
  shows "provision E p cli ctx owner resp errs s =
     (case provision E p cli ctx owner resp [] s of
        (Some e, s2) \<Rightarrow> (Some e, s2) | (None, s2) \<Rightarrow> (NewAggregate E errs, s2))"
proof -
  have "NewAggregate E [] = None" using assms by (simp add: aggregate_ok_def)
  then show ?thesis
    by (auto simp: provision_def Let_def split: option.splits prod.splits)
qed

lemma NewPipeline_Finalizer:
  "CleanupActions (plOpts (NewPipeline opts)) \<noteq> [] \<Longrightarrow> Finalizer (plOpts (NewPipeline opts)) \<noteq> []"
  by (auto simp: NewPipeline_def Let_def)

lemma zero_struct_drops_ownership:
  "Ownership (plOpts (NewPipeline [])) \<and>
   \<not> Ownership (plOpts (NewPipeline [PipelineOptions_ApplyTo (zero_PipelineOptions\<lparr>plFieldOwner := owner\<rparr>)]))"
  by (simp add: NewPipeline_def PipelineOptions_ApplyOptions_def PipelineOptions_ApplyTo_def
      zero_PipelineOptions_def FunctionalOption_ApplyTo_def Let_def)

lemma addOwnerTracking_labels:
  assumes "LabelNonOwnedObjects (plOpts p)" and "GVKForObject (clientScheme cli) owner = Inr g"
  shows "\<exists>ob'. addOwnerTracking p cli owner obj = (None, ob') \<and> GetNamespace ob' = GetNamespace obj \<and>
     GetLabels ob' = Some ((if GetNamespace owner = [] then (map_read (GetLabels obj))(LabelOwnerName \<mapsto> GetName owner)
        else (map_read (GetLabels obj))(LabelOwnerName \<mapsto> GetName owner, LabelOwnerNamespace \<mapsto> GetNamespace owner)))"
  using assms by (auto simp: addOwnerTracking_def Let_def SetLabel_Some SetAnnotation_Some)

lemma provisioning_status_spec:
  assumes "meta_ok M"
  shows "ObservedGeneration (provisioning_status M execErr gen st) = gen \<and>
     (\<exists>c. conditions_Get M Status_Accessor ConditionTypeProvisioningSucceeded (provisioning_status M execErr gen st) = Some c \<and>
        cStatus c = (if execErr = None then ConditionTrue else ConditionFalse) \<and>
        cObservedGeneration c = gen \<and>
        cMessage c = (case execErr of None \<Rightarrow> [] | Some e \<Rightarrow> err_Error e))"
proof -
  have frame: "ObservedGeneration (conditions_Set M Status_Accessor t b opts st') = ObservedGeneration st'"
    for t b opts st'
    by (simp add: conditions_Set_def Let_def Status_Accessor_def Status_SetConditions_def)
  note get = status_accessor.Get_Set [OF assms]
  show ?thesis
  proof (cases execErr)
    case None
    with get [where t = ConditionTypeProvisioningSucceeded and st = ConditionTrue
        and s = "st\<lparr>ObservedGeneration := gen\<rparr>" and opts = "[WithReason ''ReconciliationSucceeded'', WithObservedGeneration gen]"] frame
    show ?thesis
      by (auto simp: provisioning_status_def conditions_MarkTrue_def ConditionOptions_ApplyOptions_def
          FunctionalOption_ApplyTo_def opt_defs)
  next
    case (Some e)
    with get [where t = ConditionTypeProvisioningSucceeded and st = ConditionFalse
        and s = "st\<lparr>ObservedGeneration := gen\<rparr>" and opts = "[WithReason ''ReconciliationFailed'', WithMessage (err_Error e), WithObservedGeneration gen]"] frame
    show ?thesis
      by (auto simp: provisioning_status_def conditions_MarkFalse_def ConditionOptions_ApplyOptions_def
          FunctionalOption_ApplyTo_def opt_defs)
  qed
qed

section \<open>A concrete pipeline\<close>

definition demo_state :: "(unit, nat) pstate" where
  "demo_state = \<lparr>heap = (\<lambda>_. demo_object), nextRef = 2, world = 0\<rparr>"

definition demo_request :: "(unit, nat) Request" where
  "demo_request = \<lparr>reqClient = demo_client, reqObject = 1\<rparr>"

text \<open>An action that fails, one that stops, one that counts; a cleanup that counts.\<close>

definition failing_action :: "(unit, nat) ActionFunc" where
  "failing_action ctx req resp s = (Some (ErrorString ''boom''), resp, s\<lparr>world := world s + 10\<rparr>)"

definition stopping_action :: "(unit, nat) ActionFunc" where
  "stopping_action ctx req resp s = (Some (pipeline_Stop None), resp, s\<lparr>world := world s + 100\<rparr>)"

definition counting_action :: "(unit, nat) ActionFunc" where
  "counting_action ctx req resp s = (None, resp, s\<lparr>world := world s + 1000\<rparr>)"

definition counting_cleanup :: "nat \<Rightarrow> (unit, nat) CleanupFunc" where
  "counting_cleanup n ctx req s = (None, s\<lparr>world := 2 * world s + n\<rparr>)"

definition demo_pipeline :: "(unit, nat) PipelineOption list \<Rightarrow> (unit, nat) Pipeline" where
  "demo_pipeline opts = NewPipeline (pipeline_WithClient (Some demo_client) # WithFieldOwner ''demo'' # opts)"

lemmas demo_pipeline_eval =
  demo_pipeline_def NewPipeline_def PipelineOptions_ApplyOptions_def FunctionalOption_ApplyTo_def Let_def

lemmas demo_action_eval =
  failing_action_def stopping_action_def counting_action_def counting_cleanup_def

lemma demo_not_stop: "\<not> IsStopError (Some (ErrorString m))"
  by (simp add: IsStopError_def errors_As_def)

section \<open>Properties\<close>

text \<open>
  C7: a \<open>StopError\<close> (bare or wrapped) halts the pipeline at once. When the actions before it ran
  without stopping, \<open>execute\<close> returns exactly that error in exactly the state the stopping action
  left: no later action runs, no hook runs and no object is applied.
\<close>

theorem execute_stop:
  assumes "Actions (plOpts p) = before @ a # after"
    and "action_results ctx req before resp s = (rs, respM, sM)" and "\<forall>r \<in> set rs. \<not> IsStopError r"
    and "a ctx req respM sM = (Some e, resp2, s2)" and "IsStopError (Some e)"
  shows "pipeline_execute E p cli ctx req resp s = (Some e, resp2, s2)"
  using assms run_actions_results [OF assms(2,3)] by (simp add: pipeline_execute_def run_actions_append)

theorem execute_stop_witness:
  "pipeline_execute demo_env (demo_pipeline [WithActions [failing_action, stopping_action, counting_action]])
     demo_client None demo_request NewResponse demo_state
   = (Some (pipeline_Stop None), NewResponse, demo_state\<lparr>world := 110\<rparr>)"
  by (rule execute_stop [where before = "[failing_action]" and after = "[counting_action]" and a = stopping_action
        and rs = "[Some (ErrorString ''boom'')]" and respM = NewResponse and sM = "demo_state\<lparr>world := 10\<rparr>"])
    (simp_all add: demo_pipeline_eval opt_defs demo_action_eval demo_not_stop IsStopError_Stop demo_state_def)

text \<open>
  C12: an action that fails without stopping does not keep the pipeline from provisioning. When no
  action stops, all of them run in order, each on the response and state of the one before. If
  provisioning the response of the last succeeds, \<open>execute\<close> ends in the state that
  provisioning leaves, and its error is the aggregate of every error an action returned, in their
  order, which is nil exactly when no action failed. If provisioning fails, its error alone is returned.
\<close>

theorem execute_accumulates:
  assumes "aggregate_ok E"
    and "action_results ctx req (Actions (plOpts p)) resp s = (rs, resp1, s1)"
    and "\<forall>r \<in> set rs. \<not> IsStopError r"
    and "provision E p cli ctx (reqObject req) resp1 [] s1 = (perr, s2)"
  shows "pipeline_execute E p cli ctx req resp s =
           (case perr of None \<Rightarrow> NewAggregate E (failures rs) | Some e \<Rightarrow> Some e, resp1, s2) \<and>
     (fst (pipeline_execute E p cli ctx req resp s) = None \<longleftrightarrow> perr = None \<and> (\<forall>r \<in> set rs. r = None))"
proof -
  have run: "run_actions ctx req (Actions (plOpts p)) [] resp s = (Inr (failures rs), resp1, s1)"
    using run_actions_results [OF assms(2,3), of "[]"] by simp
  show ?thesis
    using assms(1,4) run provision_errs [OF assms(1), of p cli ctx "reqObject req" resp1 "failures rs" s1]
    by (auto simp: pipeline_execute_def aggregate_ok_def failures_Nil_iff [symmetric] split: option.splits)
qed

theorem execute_accumulates_witness:
  "pipeline_execute demo_env (demo_pipeline [WithActions [failing_action, counting_action, failing_action]])
     demo_client None demo_request NewResponse demo_state
   = (NewAggregate (demo_env :: unit env) [ErrorString ''boom'', ErrorString ''boom''], NewResponse,
      demo_state\<lparr>world := 1020\<rparr>)"
proof -
  let ?p = "demo_pipeline [WithActions [failing_action, counting_action, failing_action]]"
  let ?rs = "[Some (ErrorString ''boom''), None, Some (ErrorString ''boom'')]"
  have acts: "action_results None demo_request (Actions (plOpts ?p)) NewResponse demo_state =
      (?rs, NewResponse, demo_state\<lparr>world := 1020\<rparr>)"
    by (simp add: demo_pipeline_eval opt_defs demo_action_eval demo_state_def)
  have stop: "\<forall>r \<in> set ?rs. \<not> IsStopError r"
    by (simp add: demo_not_stop IsStopError_def errors_As_def)
  have prov: "provision demo_env ?p demo_client None (reqObject demo_request) NewResponse []
      (demo_state\<lparr>world := 1020\<rparr>) = (None, demo_state\<lparr>world := 1020\<rparr>)"
    by (simp add: provision_def field_owner_def demo_pipeline_eval opt_defs NewResponse_def GetObjects_def
        run_hooks_def processEntries_def demo_env_def)
  from execute_accumulates [OF demo_env_ok(2) acts stop prov] show ?thesis
    by (simp add: List.map_filter_simps)
qed

text \<open>
  C9: when an object with the pipeline's finalizer is being deleted, every cleanup action runs, from
  the last registered to the first, whatever the others return. If any fails, the pipeline returns
  the aggregate of all their errors and leaves the object with its finalizers as the actions left it; the finalizer is removed
  and the object updated only when all of them succeeded. The regular actions do not run.
\<close>

theorem cleanup_on_deletion:
  assumes "finalizers_ok E" and "aggregate_ok E"
    and "GetDeletionTimestamp (deref s (reqObject req)) \<noteq> None"
    and "Finalizer (plOpts p) \<noteq> []" and "Finalizer (plOpts p) \<in> set (GetFinalizers (deref s (reqObject req)))"
    and "cleanup_results ctx req (rev (CleanupActions (plOpts p))) s = (rs, s1)"
  shows "(\<forall>e. NewAggregate E (failures rs) = Some e \<longrightarrow>
        pipeline_run E p cli ctx req s = (NewResponse, Some (WrapError ''cleanup failed'' e), s1)) \<and>
     (NewAggregate E (failures rs) = None \<longleftrightarrow> (\<forall>r \<in> set rs. r = None)) \<and>
     ((\<forall>r \<in> set rs. r = None) \<and> Finalizer (plOpts p) \<in> set (GetFinalizers (deref s1 (reqObject req))) \<longrightarrow>
        pipeline_run E p cli ctx req s =
          (case on_object (clientUpdate cli) (reqObject req)
                  (store (reqObject req) ((deref s1 (reqObject req))\<lparr>GetFinalizers :=
                     filter (\<lambda>g. g \<noteq> Finalizer (plOpts p)) (GetFinalizers (deref s1 (reqObject req)))\<rparr>) s1)
           of (uerr, s2) \<Rightarrow> (NewResponse, map_option (WrapError ''failed to remove finalizer'') uerr, s2)))"
proof -
  have run: "run_cleanups ctx req (rev (CleanupActions (plOpts p))) [] s = (failures rs, s1)"
    using run_cleanups_results [OF assms(6), of "[]"] by simp
  have present: "ContainsFinalizer E (deref s (reqObject req)) (Finalizer (plOpts p))"
    using assms(1,5) by (simp add: finalizers_ok_def)
  have agg: "NewAggregate E (failures rs) = None \<longleftrightarrow> (\<forall>r \<in> set rs. r = None)"
    using assms(2) by (simp add: aggregate_ok_def failures_Nil_iff)
  have fin: "RemoveFinalizer E ob f = (f \<in> set (GetFinalizers ob),
      ob\<lparr>GetFinalizers := filter (\<lambda>g. g \<noteq> f) (GetFinalizers ob)\<rparr>)" for ob f
    using assms(1) by (simp add: finalizers_ok_def)
  show ?thesis
    using run assms(3,4) present agg fin
    by (auto simp: pipeline_run_def pipeline_cleanup_def Let_def split: prod.splits option.splits)
qed

definition deleted_object :: "unit object" where
  "deleted_object = demo_object\<lparr>GetDeletionTimestamp := Some 5, GetFinalizers := [DefaultFinalizer]\<rparr>"

theorem cleanup_on_deletion_witness:
  "pipeline_run demo_env (demo_pipeline [WithCleanupActions [counting_cleanup 3, counting_cleanup 2]])
       demo_client None demo_request (demo_state\<lparr>heap := (\<lambda>_. deleted_object)\<rparr>) =
     (NewResponse, None, (store 1 (deleted_object\<lparr>GetFinalizers := []\<rparr>)
        (demo_state\<lparr>heap := (\<lambda>_. deleted_object)\<rparr>))\<lparr>world := 8\<rparr>)"
proof -
  let ?p = "demo_pipeline [WithCleanupActions [counting_cleanup 3, counting_cleanup 2]]"
  let ?s = "demo_state\<lparr>heap := (\<lambda>_. deleted_object)\<rparr>"
  let ?s1 = "?s\<lparr>world := 7\<rparr>"
  have p: "Finalizer (plOpts ?p) = DefaultFinalizer"
    "CleanupActions (plOpts ?p) = [counting_cleanup 3, counting_cleanup 2]"
    by (simp_all add: demo_pipeline_eval opt_defs)
  have run: "cleanup_results None demo_request (rev (CleanupActions (plOpts ?p))) ?s = ([None, None], ?s1)"
    by (simp add: p demo_action_eval demo_state_def)
  have del: "GetDeletionTimestamp (deref ?s (reqObject demo_request)) \<noteq> None"
    "Finalizer (plOpts ?p) \<noteq> []" "Finalizer (plOpts ?p) \<in> set (GetFinalizers (deref ?s (reqObject demo_request)))"
    by (simp_all add: deleted_object_def p)
  note result = cleanup_on_deletion [OF demo_env_ok(1,2) del run, of demo_client]
  have fin: "Finalizer (plOpts ?p) \<in> set (GetFinalizers (deref ?s1 (reqObject demo_request)))"
    by (simp add: deleted_object_def p)
  have upd: "on_object (clientUpdate demo_client) (reqObject demo_request)
      (store (reqObject demo_request) ((deref ?s1 (reqObject demo_request))\<lparr>GetFinalizers :=
         filter (\<lambda>g. g \<noteq> Finalizer (plOpts ?p)) (GetFinalizers (deref ?s1 (reqObject demo_request)))\<rparr>) ?s1)
      = (None, (store 1 (deleted_object\<lparr>GetFinalizers := []\<rparr>) ?s1)\<lparr>world := 8\<rparr>)"
    by (simp add: p deleted_object_def demo_client_def on_object_def demo_request_def store_def)
  have none: "\<forall>r \<in> set [None, None]. r = None" by simp
  show ?thesis
    using result [THEN conjunct2, THEN conjunct2, THEN mp, OF conjI [OF none fin]] unfolding upd
    by (simp add: store_def)
qed

text \<open>
  C13: a pipeline built with cleanup actions has a finalizer, and on an object that is not being
  deleted and lacks it, the finalizer is added and the object updated before anything else: if the
  update fails, the pipeline returns that error in the state the update left, with no action run;
  otherwise the actions start in the state the update left.
\<close>

theorem finalizer_before_actions:
  assumes "p = NewPipeline opts" and "CleanupActions (plOpts p) \<noteq> []" and "finalizers_ok E"
    and "GetDeletionTimestamp (deref s r) = None" and "Finalizer (plOpts p) \<notin> set (GetFinalizers (deref s r))"
    and "reqObject req = r"
    and "on_object (clientUpdate cli) r
           (store r ((deref s r)\<lparr>GetFinalizers := GetFinalizers (deref s r) @ [Finalizer (plOpts p)]\<rparr>) s) = (uerr, sU)"
  shows "Finalizer (plOpts p) \<noteq> [] \<and>
     pipeline_run E p cli ctx req s =
       (case uerr of
          Some e \<Rightarrow> (NewResponse, Some (WrapError ''failed to add finalizer'' e), sU)
        | None \<Rightarrow>
            (case pipeline_execute E p cli ctx req NewResponse sU of
               (execErr, resp, sX) \<Rightarrow>
                 (case updateStatus E p cli ctx req execErr sX of
                    (Some err, sY) \<Rightarrow> (resp, Some err, sY) | (None, sY) \<Rightarrow> (resp, execErr, sY))))"
proof -
  have fin: "Finalizer (plOpts p) \<noteq> []" using assms(1,2) NewPipeline_Finalizer by blast
  have "AddFinalizer E (deref s r) (Finalizer (plOpts p)) =
      (True, (deref s r)\<lparr>GetFinalizers := GetFinalizers (deref s r) @ [Finalizer (plOpts p)]\<rparr>)"
    using assms(3,5) by (simp add: finalizers_ok_def)
  with fin assms(4,6,7) show ?thesis
    by (simp add: pipeline_run_def Let_def split: option.splits)
qed

theorem finalizer_before_actions_witness:
  "let p = demo_pipeline [WithCleanupActions [counting_cleanup 3], WithActions [counting_action]]
   in Finalizer (plOpts p) \<noteq> [] \<and>
      (\<exists>sU. world sU = 1 \<and>
        pipeline_run demo_env p demo_client None demo_request demo_state =
          (case pipeline_execute demo_env p demo_client None demo_request NewResponse sU of
             (execErr, resp, sX) \<Rightarrow>
               (case updateStatus demo_env p demo_client None demo_request execErr sX of
                  (Some err, sY) \<Rightarrow> (resp, Some err, sY) | (None, sY) \<Rightarrow> (resp, execErr, sY))))"
proof -
  let ?opts = "pipeline_WithClient (Some demo_client) # WithFieldOwner ''demo'' #
     [WithCleanupActions [counting_cleanup 3], WithActions [counting_action]]"
  let ?p = "NewPipeline ?opts"
  let ?s = "store 1 ((deref demo_state 1)\<lparr>GetFinalizers := GetFinalizers (deref demo_state 1) @ [Finalizer (plOpts ?p)]\<rparr>) demo_state"
  have cleanups: "CleanupActions (plOpts ?p) \<noteq> []"
    by (simp add: demo_pipeline_eval opt_defs)
  have obj: "GetDeletionTimestamp (deref demo_state 1) = None" "GetFinalizers (deref demo_state 1) = []"
    by (simp_all add: demo_state_def demo_object_def empty_object_def)
  have upd: "on_object (clientUpdate demo_client) 1 ?s = (None, snd (on_object (clientUpdate demo_client) 1 ?s))"
    "world (snd (on_object (clientUpdate demo_client) 1 ?s)) = 1"
    by (simp_all add: on_object_def demo_client_def demo_state_def)
  have req: "reqObject demo_request = 1" by (simp add: demo_request_def)
  have "Finalizer (plOpts ?p) \<notin> set (GetFinalizers (deref demo_state 1))" using obj(2) by simp
  note result = finalizer_before_actions [OF refl cleanups demo_env_ok(1) obj(1) this req upd(1), of None,
      unfolded option.case]
  show ?thesis unfolding demo_pipeline_def Let_def
    by (rule conjI [OF result [THEN conjunct1]], rule exI, rule conjI [OF upd(2) result [THEN conjunct2]])
qed

text \<open>The first stage of a run that is not a deletion: the finalizer, if there is one, is made sure of.\<close>

definition finalizer_stage ::
    "'c env \<Rightarrow> ('c, 'w) Pipeline \<Rightarrow> ('c, 'w) client \<Rightarrow> ref \<Rightarrow> ('c, 'w) pstate \<Rightarrow> error option \<times> ('c, 'w) pstate" where
  "finalizer_stage E p cli r s =
     (if Finalizer (plOpts p) = [] then (None, s)
      else (case AddFinalizer E (deref s r) (Finalizer (plOpts p)) of
              (True, ob) \<Rightarrow> on_object (clientUpdate cli) r (store r ob s)
            | (False, ob) \<Rightarrow> (None, store r ob s)))"

lemma pipeline_run_stages:
  assumes "GetDeletionTimestamp (deref s (reqObject req)) = None"
  shows "pipeline_run E p cli ctx req s =
     (case finalizer_stage E p cli (reqObject req) s of
        (Some e, sU) \<Rightarrow> (NewResponse, Some (WrapError ''failed to add finalizer'' e), sU)
      | (None, sU) \<Rightarrow>
          (case pipeline_execute E p cli ctx req NewResponse sU of
             (execErr, resp, sX) \<Rightarrow>
               (case updateStatus E p cli ctx req execErr sX of
                  (Some err, sY) \<Rightarrow> (resp, Some err, sY) | (None, sY) \<Rightarrow> (resp, execErr, sY))))"
  using assms
  by (auto simp: pipeline_run_def finalizer_stage_def Let_def split: prod.splits bool.splits option.splits)

text \<open>The status that reports the outcome of an execution for a generation.\<close>

definition reports :: "meta_api \<Rightarrow> error option \<Rightarrow> int \<Rightarrow> Status \<Rightarrow> bool" where
  "reports M execErr generation st \<longleftrightarrow> ObservedGeneration st = generation \<and>
     (\<exists>c. conditions_Get M Status_Accessor ConditionTypeProvisioningSucceeded st = Some c \<and>
        cStatus c = (if execErr = None then ConditionTrue else ConditionFalse) \<and>
        cObservedGeneration c = generation \<and>
        cMessage c = (case execErr of None \<Rightarrow> [] | Some e \<Rightarrow> err_Error e))"

lemma updateStatus_reports:
  assumes "meta_ok (envMeta E)" and "GetStatus (deref s r) = Some st" and "field_owner p ctx = Some f" and "reqObject req = r"
  shows "\<exists>st'. reports (envMeta E) execErr (GetGeneration (deref s r)) st' \<and>
     updateStatus E p cli ctx req execErr s =
       (case EnsureGroupVersionKind (clientScheme cli) ((deref s r)\<lparr>GetStatus := Some st'\<rparr>) of
          (Some e, ob) \<Rightarrow> (Some (WrapError ''failed to ensure GVK on object'' e), store r ob s)
        | (None, ob) \<Rightarrow>
            (case on_object (clientStatusUpdate cli) r (store r ob s) of
               (Some e, sY) \<Rightarrow> (Some (WrapError ''failed to update status'' e), sY)
             | (None, sY) \<Rightarrow> (None, sY)))"
proof -
  let ?st = "provisioning_status (envMeta E) execErr (GetGeneration (deref s r)) st"
  have store2: "store r ob2 (store r ob1 s) = store r ob2 s" for ob1 ob2 by (simp add: store_def)
  have "reports (envMeta E) execErr (GetGeneration (deref s r)) ?st"
    using provisioning_status_spec [OF assms(1), of execErr "GetGeneration (deref s r)" st] by (simp add: reports_def)
  moreover have "updateStatus E p cli ctx req execErr s =
       (case EnsureGroupVersionKind (clientScheme cli) ((deref s r)\<lparr>GetStatus := Some ?st\<rparr>) of
          (Some e, ob) \<Rightarrow> (Some (WrapError ''failed to ensure GVK on object'' e), store r ob s)
        | (None, ob) \<Rightarrow>
            (case on_object (clientStatusUpdate cli) r (store r ob s) of
               (Some e, sY) \<Rightarrow> (Some (WrapError ''failed to update status'' e), sY)
             | (None, sY) \<Rightarrow> (None, sY)))"
    using assms(2-4) by (simp add: updateStatus_def Let_def store2 split: prod.splits option.splits)
  ultimately show ?thesis by blast
qed

text \<open>
  C11: how a run of an object that is not being deleted ends, with or without a finalizer. If the
  finalizer cannot be written, that error is returned and no action runs. Otherwise, after the actions
  ran with outcome \<open>execErr\<close>: an object without a status, or a run with neither a field owner nor a
  controller name, returns that outcome and sends nothing. In every other case a status is
  made that carries the object's generation and a \<open>ProvisioningSucceeded\<close> condition for it, \<open>True\<close>
  when there was no error, \<open>False\<close> with the error's text as message otherwise; it is sent with the GVK of
  the object, and the run returns the error of that (of finding the GVK, or of the update) if there is
  one and the outcome of the actions if there is none.
\<close>

theorem run_reports_status:
  assumes "meta_ok (envMeta E)" and "GetDeletionTimestamp (deref s r) = None" and "reqObject req = r"
  shows "case finalizer_stage E p cli r s of
     (Some e, sU) \<Rightarrow> pipeline_run E p cli ctx req s = (NewResponse, Some (WrapError ''failed to add finalizer'' e), sU)
   | (None, sU) \<Rightarrow>
       (case pipeline_execute E p cli ctx req NewResponse sU of
          (execErr, resp, sX) \<Rightarrow>
            if GetStatus (deref sX r) = None \<or> field_owner p ctx = None
            then pipeline_run E p cli ctx req s = (resp, execErr, sX)
            else (\<exists>st. reports (envMeta E) execErr (GetGeneration (deref sX r)) st \<and>
               pipeline_run E p cli ctx req s =
                 (case EnsureGroupVersionKind (clientScheme cli) ((deref sX r)\<lparr>GetStatus := Some st\<rparr>) of
                    (Some e, ob) \<Rightarrow> (resp, Some (WrapError ''failed to ensure GVK on object'' e), store r ob sX)
                  | (None, ob) \<Rightarrow>
                      (case on_object (clientStatusUpdate cli) r (store r ob sX) of
                         (Some e, sY) \<Rightarrow> (resp, Some (WrapError ''failed to update status'' e), sY)
                       | (None, sY) \<Rightarrow> (resp, execErr, sY)))))"
proof (cases "finalizer_stage E p cli r s")
  case (Pair ferr sU)
  note run = pipeline_run_stages [of s req E p cli ctx, unfolded assms(3), OF assms(2), unfolded Pair]
  obtain execErr resp sX where exec: "pipeline_execute E p cli ctx req NewResponse sU = (execErr, resp, sX)"
    by (metis prod_cases3)
  show ?thesis
  proof (cases ferr)
    case (Some e)
    with Pair run show ?thesis by simp
  next
    case None
    show ?thesis
    proof (cases "GetStatus (deref sX r) = None \<or> field_owner p ctx = None")
      case True
      then have "updateStatus E p cli ctx req execErr sX = (None, sX)"
        using assms(3) by (auto simp: updateStatus_def Let_def split: option.splits)
      with Pair None run exec True show ?thesis by simp
    next
      case False
      then obtain st f where "GetStatus (deref sX r) = Some st" "field_owner p ctx = Some f" by auto
      from updateStatus_reports [OF assms(1) this assms(3), of execErr cli] obtain st' where
        "reports (envMeta E) execErr (GetGeneration (deref sX r)) st'"
        "updateStatus E p cli ctx req execErr sX =
          (case EnsureGroupVersionKind (clientScheme cli) ((deref sX r)\<lparr>GetStatus := Some st'\<rparr>) of
             (Some e, ob) \<Rightarrow> (Some (WrapError ''failed to ensure GVK on object'' e), store r ob sX)
           | (None, ob) \<Rightarrow>
               (case on_object (clientStatusUpdate cli) r (store r ob sX) of
                  (Some e, sY) \<Rightarrow> (Some (WrapError ''failed to update status'' e), sY)
                | (None, sY) \<Rightarrow> (None, sY)))" by blast
      with Pair None run exec False show ?thesis
        by (auto intro!: exI [of _ st'] split: prod.splits option.splits)
    qed
  qed
qed

theorem run_reports_status_witness:
  "\<exists>st. reports demo_meta_api (Some (pipeline_Stop None)) 3 st \<and>
     pipeline_run demo_env (demo_pipeline [WithActions [stopping_action]]) demo_client None demo_request demo_state =
       (case EnsureGroupVersionKind demo_scheme ((deref demo_state 1)\<lparr>GetStatus := Some st\<rparr>) of
          (Some e, ob) \<Rightarrow> (NewResponse, Some (WrapError ''failed to ensure GVK on object'' e), store 1 ob (demo_state\<lparr>world := 100\<rparr>))
        | (None, ob) \<Rightarrow>
            (case on_object (clientStatusUpdate demo_client) 1 (store 1 ob (demo_state\<lparr>world := 100\<rparr>)) of
               (Some e, sY) \<Rightarrow> (NewResponse, Some (WrapError ''failed to update status'' e), sY)
             | (None, sY) \<Rightarrow> (NewResponse, Some (pipeline_Stop None), sY)))"
proof -
  let ?p = "demo_pipeline [WithActions [stopping_action]]"
  let ?sX = "demo_state\<lparr>world := 100\<rparr>"
  have p: "finalizer_stage demo_env ?p demo_client 1 demo_state = (None, demo_state)" "field_owner ?p None = Some ''demo''"
    by (simp_all add: finalizer_stage_def demo_pipeline_eval opt_defs field_owner_def)
  have exec: "pipeline_execute demo_env ?p demo_client None demo_request NewResponse demo_state =
      (Some (pipeline_Stop None), NewResponse, ?sX)"
    by (simp add: pipeline_execute_def demo_pipeline_eval opt_defs demo_action_eval IsStopError_Stop demo_state_def)
  have obj: "GetDeletionTimestamp (deref demo_state 1) = None" "reqObject demo_request = 1"
    "GetStatus (deref ?sX 1) \<noteq> None" "GetGeneration (deref ?sX 1) = 3" "deref ?sX 1 = deref demo_state 1"
    "clientScheme demo_client = demo_scheme"
    by (simp_all add: demo_state_def demo_object_def demo_request_def empty_object_def demo_client_def)
  have meta: "meta_ok (envMeta (demo_env :: unit env))" by simp
  have sent: "\<not> (GetStatus (deref ?sX 1) = None \<or> field_owner ?p None = None)" using obj(3) p(2) by simp
  note result = run_reports_status [OF meta obj(1,2), where p = ?p and cli = demo_client and ctx = None,
      unfolded p(1) exec prod.case option.case if_not_P [OF sent] obj(4) demo_env_simps(2)]
  show ?thesis using result unfolding obj(5,6) .
qed

end
