(* ===== verification/Pipeline_Watch.thy ===== *)
theory Pipeline_Watch
  imports Pipeline Watch
begin

text \<open>
  The pipeline with the watcher as its post-apply hook (\<open>pipeline.WithPostApply(watch.All(w))\<close>), the
  composition the library is made for: what a reconcile applied is watched when it returns.
\<close>

section \<open>The hook\<close>

text \<open>The GVK under which the watcher of a state resolves an object.\<close>

abbreviation watch_gvk :: "('c, 's, 'k, 'w) wstate \<Rightarrow> 'c object \<Rightarrow> error + gvk" where
  "watch_gvk w ob \<equiv> GVKForObject (clientScheme (the (wClient (theWatcher w)))) ob"

lemma watch_one_spec:
  assumes "watch_ready (theWatcher (world s))" and "watch_one E B c0 ctx owner r s = (err, s')"
  shows "watch_ready (theWatcher (world s'))" and "watch_gvk (world s') ob = watch_gvk (world s) ob"
    and "already_settled h (theWatcher (world s)) \<Longrightarrow> already_settled h (theWatcher (world s'))"
    and "q \<noteq> r \<Longrightarrow> deref s' q = deref s q"
    and "err = None \<Longrightarrow> r \<noteq> nil_ref \<Longrightarrow>
           \<exists>g. watch_gvk (world s) (deref s r) = Inr g \<and> already_settled g (theWatcher (world s'))"
proof -
  obtain e ob' w where call: "Watcher_Watch E B c0 ctx (deref s owner) (Some (deref s r)) [] (world s) = (e, ob', w)"
    by (metis prod_cases3)
  show "watch_ready (theWatcher (world s'))" "watch_gvk (world s') ob = watch_gvk (world s) ob"
    "q \<noteq> r \<Longrightarrow> deref s' q = deref s q"
    using assms call Watcher_Watch_frame [OF call] by (auto simp: watch_one_def split: if_splits option.splits)
  show "\<exists>g. watch_gvk (world s) (deref s r) = Inr g \<and> already_settled g (theWatcher (world s'))"
    if "err = None" "r \<noteq> nil_ref"
    using that assms call Watcher_Watch_unresolved [OF assms(1), of E B c0 ctx "deref s owner" "deref s r" "[]" ob' w]
      Watcher_Watch_settles [OF assms(1) _ call]
    by (auto simp: watch_one_def)
  show "already_settled h (theWatcher (world s'))" if "already_settled h (theWatcher (world s))"
  proof (cases "watch_gvk (world s) (deref s r)")
    case (Inl e')
    then have "w = world s" using call by (auto simp: Watcher_Watch_def watchObject_def split: if_splits)
    with that assms(2) call show ?thesis by (auto simp: watch_one_def split: if_splits option.splits)
  next
    case (Inr g)
    have "already_settled h (theWatcher w)"
      using Watcher_Watch_settles [OF assms(1) Inr call] that
      by (cases "h = g") (auto simp: already_settled_def)
    with that assms(2) call show ?thesis by (auto simp: watch_one_def split: if_splits option.splits)
  qed
qed

lemma watch_All_settles:
  assumes "watch_ready (theWatcher (world s))" and "watch_All E B c0 ctx owner objs s = (None, s')"
  shows "(\<forall>h. already_settled h (theWatcher (world s)) \<longrightarrow> already_settled h (theWatcher (world s'))) \<and>
     (\<forall>r \<in> set objs. r \<noteq> nil_ref \<longrightarrow>
        (\<exists>g. watch_gvk (world s) (deref s r) = Inr g \<and> already_settled g (theWatcher (world s'))))"
  using assms unfolding watch_All_def
proof (induction objs arbitrary: s)
  case (Cons r objs)
  obtain err t where one: "watch_one E B c0 ctx owner r s = (err, t)" by fastforce
  with Cons.prems have "err = None" and rest: "until_error (watch_one E B c0 ctx owner) objs t = (None, s')"
    by (auto split: option.splits)
  note one = one [unfolded \<open>err = None\<close>]
  note spec = watch_one_spec [OF Cons.prems(1) one]
  note IH = Cons.IH [OF spec(1) rest]
  have "\<exists>g. watch_gvk (world s) (deref s q) = Inr g \<and> already_settled g (theWatcher (world s'))"
    if q: "q \<in> set (r # objs)" "q \<noteq> nil_ref" for q
  proof (cases "q = r")
    case True
    with spec(5) q IH show ?thesis by blast
  next
    case False
    with q IH have "\<exists>g. watch_gvk (world t) (deref t q) = Inr g \<and> already_settled g (theWatcher (world s'))" by simp
    with spec(2,4) False show ?thesis by simp
  qed
  with spec(3) IH show ?case by blast
qed simp

lemma execute_nil_phases:
  assumes "aggregate_ok E" and "PreApply (plOpts p) = []" and "PostApply (plOpts p) = [hook]"
    and "pipeline_execute E p cli ctx req resp s = (None, resp', s')"
  shows "\<exists>fo sA sE. run_actions ctx req (Actions (plOpts p)) [] resp s = (Inr [], resp', sA) \<and>
     field_owner p ctx = Some fo \<and>
     processEntries E p cli (reqObject req) (GetEntries resp') fo sA = (None, sE) \<and>
     hook ctx (reqObject req) (GetObjects resp') sE = (None, s')"
  using assms
  by (auto simp: pipeline_execute_def provision_def run_hooks_def Let_def aggregate_ok_def
      split: prod.splits option.splits sum.splits)

section \<open>A concrete composition\<close>

text \<open>A client, in the world that also holds the watcher.\<close>

definition lift_call :: "('c, 'v) object_call \<Rightarrow> ('c, ('c, 's, 'k, 'v) wstate) object_call" where
  "lift_call f ob w = (case f ob (wworld w) of (err, ob, v) \<Rightarrow> (err, ob, w\<lparr>wworld := v\<rparr>))"

definition lift_client :: "('c, 'v) client \<Rightarrow> ('c, ('c, 's, 'k, 'v) wstate) client" where
  "lift_client cli =
     \<lparr>clientScheme = clientScheme cli, clientGet = (\<lambda>k. lift_call (clientGet cli k)),
      clientUpdate = lift_call (clientUpdate cli), clientStatusUpdate = lift_call (clientStatusUpdate cli),
      clientApply = (\<lambda>opts. lift_call (clientApply cli opts)),
      clientStatusApply = (\<lambda>opts. lift_call (clientStatusApply cli opts)),
      clientDelete = lift_call (clientDelete cli)\<rparr>"

definition watched_client :: "(unit, (unit, unit, unit, nat) wstate) client" where
  "watched_client = lift_client demo_client"

definition adding_action :: "(unit, (unit, unit, unit, nat) wstate) ActionFunc" where
  "adding_action ctx req resp s = (None, Response_Object 2 [reconciler_WithOwnership False] resp, s)"

definition watched_pipeline :: "(unit, (unit, unit, unit, nat) wstate) Pipeline" where
  "watched_pipeline = NewPipeline [WithFieldOwner ''demo'', WithActions [adding_action],
     WithPostApply [watch_All demo_env demo_combinators ()]]"

lemma watched_pipeline_fields [simp]:
  "Actions (plOpts watched_pipeline) = [adding_action]" "PreApply (plOpts watched_pipeline) = []"
  "PostApply (plOpts watched_pipeline) = [watch_All demo_env demo_combinators ()]"
  "plFieldOwner (plOpts watched_pipeline) = ''demo''" "AnnotateNonOwnedObjects (plOpts watched_pipeline) = False"
  "LabelNonOwnedObjects (plOpts watched_pipeline) = False"
  by (simp_all add: watched_pipeline_def demo_pipeline_eval opt_defs)

section \<open>Property\<close>

text \<open>
  C8: what a pipeline applies is watched. When a pipeline with the watcher's hook executes without an
  error, then no action failed, every entry of the response was applied, and, if the watcher was ready
  when the hook started, every object of the response resolves to a GVK that is settled afterwards
  (watched, or disabled by configuration), while no GVK that was settled before is lost.
\<close>

theorem provisioned_kinds_watched:
  assumes "aggregate_ok E" and "PreApply (plOpts p) = []" and "PostApply (plOpts p) = [watch_All E B c0]"
    and "pipeline_execute E p cli ctx req resp s = (None, resp', s')"
  shows "\<exists>fo sA sE. run_actions ctx req (Actions (plOpts p)) [] resp s = (Inr [], resp', sA) \<and>
     field_owner p ctx = Some fo \<and> processEntries E p cli (reqObject req) (GetEntries resp') fo sA = (None, sE) \<and>
     (watch_ready (theWatcher (world sE)) \<longrightarrow>
       (\<forall>r \<in> set (GetObjects resp'). r \<noteq> nil_ref \<longrightarrow>
          (\<exists>g. watch_gvk (world sE) (deref sE r) = Inr g \<and> already_settled g (theWatcher (world s')))) \<and>
       (\<forall>h. already_settled h (theWatcher (world sE)) \<longrightarrow> already_settled h (theWatcher (world s'))))"
proof -
  from execute_nil_phases [OF assms] obtain fo sA sE where
    phases: "run_actions ctx req (Actions (plOpts p)) [] resp s = (Inr [], resp', sA)" "field_owner p ctx = Some fo"
      "processEntries E p cli (reqObject req) (GetEntries resp') fo sA = (None, sE)"
      "watch_All E B c0 ctx (reqObject req) (GetObjects resp') sE = (None, s')"
    by blast
  from watch_All_settles [OF _ phases(4)] phases(1-3) show ?thesis by blast
qed

theorem provisioned_kinds_watched_witness:
  "\<exists>resp' s'. pipeline_execute demo_env watched_pipeline watched_client None \<lparr>reqClient = watched_client, reqObject = 1\<rparr>
       NewResponse \<lparr>heap = (\<lambda>_. demo_object), nextRef = 3, world = demo_wstate\<rparr> = (None, resp', s') \<and>
     GetObjects resp' = [2] \<and> (\<exists>g. already_settled g (theWatcher (world s')))"
proof -
  let ?req = "\<lparr>reqClient = watched_client, reqObject = 1\<rparr>"
  let ?s = "\<lparr>heap = (\<lambda>_. demo_object), nextRef = 3, world = demo_wstate\<rparr>"
  let ?resp = "Response_Object 2 [reconciler_WithOwnership False] NewResponse"
  let ?w = "demo_wstate\<lparr>wworld := 1\<rparr>"
  have ready: "watch_ready (theWatcher ?w)" by (simp add: demo_wstate_def)
  have "\<exists>ob. resources_Apply demo_env watched_client [FieldOwner ''demo''] demo_object demo_wstate = (None, ob, ?w)"
    by (simp add: resources_Apply_def ToUnstructured_def FromUnstructured_def EnsureGroupVersionKind_def
        GetGroupVersionKindForObject_def demo_scheme_def demo_env_def demo_gvk_def zero_gvk_def Let_def
        watched_client_def lift_client_def lift_call_def demo_client_def demo_object_def empty_object_def demo_wstate_def)
  then obtain ob where app: "resources_Apply demo_env watched_client [FieldOwner ''demo''] demo_object demo_wstate = (None, ob, ?w)" ..
  have entries: "processEntries demo_env watched_pipeline watched_client 1 (GetEntries ?resp) ''demo'' ?s =
      (None, (store 2 ob (store 2 demo_object ?s))\<lparr>world := ?w\<rparr>)"
    using app
    by (simp add: processEntries_def process_entry_def addOwnerTracking_def Response_Object_def NewResponse_def
        FunctionalOption_ApplyTo_def reconciler_WithOwnership_def on_object_def)
  let ?sE = "(store 2 ob (store 2 demo_object ?s))\<lparr>world := ?w\<rparr>"
  have objs: "GetObjects ?resp = [2]" by (simp add: GetObjects_def Response_Object_def NewResponse_def)
  obtain e s' where hook: "watch_All demo_env demo_combinators () None 1 [2] ?sE = (e, s')" by fastforce
  have "e = None"
    using hook
    by (auto simp: watch_All_def watch_one_def Watcher_Watch_def watchObject_def register_def setupState_def setupSource_def
        already_settled_def demo_wstate_def demo_client_def demo_scheme_def Let_def watch_ready_def zero_Config_def
        split: if_splits)
  then have exec: "pipeline_execute demo_env watched_pipeline watched_client None ?req NewResponse ?s = (None, ?resp, s')"
    using hook entries objs
    by (simp add: pipeline_execute_def provision_def field_owner_def run_hooks_def adding_action_def demo_env_def)
  have run: "run_actions None ?req (Actions (plOpts watched_pipeline)) [] NewResponse ?s = (Inr [], ?resp, ?s)"
    "field_owner watched_pipeline None = Some ''demo''"
    by (simp_all add: adding_action_def field_owner_def)
  from provisioned_kinds_watched [OF demo_env_ok(2) watched_pipeline_fields(2,3) exec] run entries ready
  have "\<exists>g. already_settled g (theWatcher (world s'))" by (auto simp: objs)
  with exec objs show ?thesis by blast
qed

end
