(* ===== verification/Finalizer_Protocol.thy ===== *)
theory Finalizer_Protocol
  imports Pipeline
begin

text \<open>
  The finalizer protocol over the whole life of an object: any number of requests served by the
  adapter and the pipeline (\<^verbatim>\<open>src/pkg/reconciler/adapter.go\<close>, \<^verbatim>\<open>src/pkg/reconciler/pipeline\<close>),
  interleaved with whatever users and other controllers do to the cluster. The cluster is the world
  of the client; what is assumed of it is what the API server documents of finalizers, and each
  assumption lets other parties act during the call. The first part shows what a pipeline keeps of
  the world in general.
\<close>

section \<open>What serving a request keeps of the world\<close>

definition call_keeps :: "('w \<Rightarrow> bool) \<Rightarrow> ('c, 'w) object_call \<Rightarrow> bool" where
  "call_keeps I f \<longleftrightarrow> (\<forall>ob w. I w \<longrightarrow> I (snd (snd (f ob w))))"

definition action_keeps :: "('w \<Rightarrow> bool) \<Rightarrow> ('c, 'w) client \<Rightarrow> ('c, 'w) ActionFunc \<Rightarrow> bool" where
  "action_keeps I cli a \<longleftrightarrow>
     (\<forall>ctx req resp s. reqClient req = cli \<longrightarrow> I (world s) \<longrightarrow> I (world (snd (snd (a ctx req resp s)))))"

definition cleanup_keeps :: "('w \<Rightarrow> bool) \<Rightarrow> ('c, 'w) client \<Rightarrow> ('c, 'w) CleanupFunc \<Rightarrow> bool" where
  "cleanup_keeps I cli a \<longleftrightarrow>
     (\<forall>ctx req s. reqClient req = cli \<longrightarrow> I (world s) \<longrightarrow> I (world (snd (a ctx req s))))"

definition hook_keeps :: "('w \<Rightarrow> bool) \<Rightarrow> ('c, 'w) ApplyHookFunc \<Rightarrow> bool" where
  "hook_keeps I h \<longleftrightarrow> (\<forall>ctx owner objs s. I (world s) \<longrightarrow> I (world (snd (h ctx owner objs s))))"

text \<open>Everything \<open>execute\<close> and \<open>updateStatus\<close> call keeps the predicate.\<close>

definition serving_keeps :: "('w \<Rightarrow> bool) \<Rightarrow> ('c, 'w) client \<Rightarrow> ('c, 'w) Pipeline \<Rightarrow> bool" where
  "serving_keeps I cli p \<longleftrightarrow>
     (\<forall>opts. call_keeps I (clientApply cli opts)) \<and> call_keeps I (clientStatusUpdate cli) \<and>
     (\<forall>a \<in> set (Actions (plOpts p)). action_keeps I cli a) \<and>
     (\<forall>h \<in> set (PreApply (plOpts p)) \<union> set (PostApply (plOpts p)). hook_keeps I h)"

lemma on_object_keeps: "call_keeps I f \<Longrightarrow> I (world s) \<Longrightarrow> I (world (snd (on_object f r s)))"
  by (simp add: call_keeps_def)

lemma resources_Apply_keeps:
  assumes "call_keeps I (clientApply cli opts)"
  shows "call_keeps I (resources_Apply E cli opts)"
proof -
  have applied: "I w'" if "clientApply cli opts u w = (r, u', w')" "I w" for u w r u' w'
    using assms that unfolding call_keeps_def by (metis snd_conv)
  show ?thesis
    unfolding call_keeps_def resources_Apply_def Let_def
    by (auto split: prod.splits sum.splits option.splits intro: applied)
qed

lemma run_actions_keeps:
  assumes "\<forall>a \<in> set actions. action_keeps I (reqClient req) a" and "I (world s)"
  shows "I (world (snd (snd (run_actions ctx req actions errs resp s))))"
  using assms
proof (induction actions arbitrary: errs resp s)
  case (Cons a actions)
  obtain r resp1 s1 where a: "a ctx req resp s = (r, resp1, s1)" by (cases "a ctx req resp s")
  with Cons.prems have "I (world s1)" unfolding action_keeps_def by (metis list.set_intros(1) snd_conv)
  with a Cons show ?case by (simp split: option.splits)
qed simp

lemma run_cleanups_keeps:
  assumes "\<forall>a \<in> set actions. cleanup_keeps I (reqClient req) a" and "I (world s)"
  shows "I (world (snd (run_cleanups ctx req actions errs s)))"
  using assms
proof (induction actions arbitrary: errs s)
  case (Cons a actions)
  obtain r s1 where a: "a ctx req s = (r, s1)" by (cases "a ctx req s")
  with Cons.prems have "I (world s1)" unfolding cleanup_keeps_def by (metis list.set_intros(1) snd_conv)
  with a Cons show ?case by (simp split: option.splits)
qed simp

lemma run_hooks_keeps:
  assumes "\<forall>h \<in> set hooks. hook_keeps I h" and "I (world s)"
  shows "I (world (snd (run_hooks msg ctx owner objs hooks s)))"
  unfolding run_hooks_def using assms
proof (induction hooks arbitrary: s)
  case (Cons h hooks)
  obtain r s1 where h: "h ctx owner objs s = (r, s1)" by (cases "h ctx owner objs s")
  with Cons.prems have "I (world s1)" unfolding hook_keeps_def by (metis list.set_intros(1) snd_conv)
  with h Cons show ?case by (simp split: option.splits)
qed simp

lemma process_entry_keeps:
  assumes "\<forall>opts. call_keeps I (clientApply cli opts)" and "I (world s)"
  shows "I (world (snd (process_entry E p cli owner fo entry s)))"
proof -
  have applied: "I (world s')"
    if "on_object (resources_Apply E cli opts) r t = (e, s')" "I (world t)" for opts r t e s'
    using on_object_keeps [OF resources_Apply_keeps [of I cli opts E] that(2), of r] assms(1) that(1) by simp
  show ?thesis
    using assms(2)
    by (auto simp: process_entry_def Let_def split: prod.splits option.splits if_splits intro: applied)
qed

lemma processEntries_keeps:
  assumes "\<forall>opts. call_keeps I (clientApply cli opts)" and "I (world s)"
  shows "I (world (snd (processEntries E p cli owner entries fo s)))"
  unfolding processEntries_def
  by (rule until_error_invariant [where P = "\<lambda>s. I (world s)"])
    (use assms in \<open>auto intro: process_entry_keeps\<close>)

lemma provision_keeps:
  assumes "serving_keeps I cli p" and "I (world s)"
  shows "I (world (snd (provision E p cli ctx owner resp errs s)))"
proof -
  from assms(1) have hooks: "\<forall>h \<in> set (PreApply (plOpts p)). hook_keeps I h" "\<forall>h \<in> set (PostApply (plOpts p)). hook_keeps I h"
    and app: "\<forall>opts. call_keeps I (clientApply cli opts)"
    by (auto simp: serving_keeps_def)
  have pre: "I (world t)" if "run_hooks m ctx owner objs (PreApply (plOpts p)) s = (e, t)" for m objs e t
    using run_hooks_keeps [OF hooks(1) assms(2), of m ctx owner objs] that by simp
  have ents: "I (world u)" if "processEntries E p cli owner es fo t = (e, u)" "I (world t)" for es fo e t u
    using processEntries_keeps [OF app that(2), of E p owner es fo] that(1) by simp
  have post: "I (world v)" if "run_hooks m ctx owner objs (PostApply (plOpts p)) u = (e, v)" "I (world u)" for m objs e u v
    using run_hooks_keeps [OF hooks(2) that(2), of m ctx owner objs] that(1) by simp
  show ?thesis
    by (auto simp: provision_def Let_def assms(2) split: option.splits prod.splits intro: pre ents)
      (blast intro: pre ents post)+
qed

lemma execute_keeps:
  assumes "serving_keeps I cli p" and "reqClient req = cli" and "I (world s)"
  shows "I (world (snd (snd (pipeline_execute E p cli ctx req resp s))))"
proof -
  have acts: "\<forall>a \<in> set (Actions (plOpts p)). action_keeps I (reqClient req) a"
    using assms(1,2) by (simp add: serving_keeps_def)
  obtain r resp1 s1 where run: "run_actions ctx req (Actions (plOpts p)) [] resp s = (r, resp1, s1)"
    by (cases "run_actions ctx req (Actions (plOpts p)) [] resp s")
  with run_actions_keeps [OF acts assms(3), of ctx "[]" resp] have "I (world s1)" by simp
  with provision_keeps [OF assms(1), of s1 E ctx "reqObject req" resp1] run show ?thesis
    by (auto simp: pipeline_execute_def split: sum.splits prod.splits) (metis snd_conv)
qed

lemma updateStatus_keeps:
  assumes "call_keeps I (clientStatusUpdate cli)" and "I (world s)"
  shows "I (world (snd (updateStatus E p cli ctx req execErr s)))"
proof -
  have upd: "I (world t')" if "on_object (clientStatusUpdate cli) r t = (e, t')" "I (world t)" for r t e t'
    using on_object_keeps [OF assms(1) that(2), of r] that(1) by simp
  show ?thesis
    using assms(2) by (auto simp: updateStatus_def Let_def split: option.splits prod.splits intro: upd)
qed

text \<open>With \<open>Get\<close>, \<open>Update\<close> and the cleanup actions, a whole request keeps the predicate.\<close>

definition controller_keeps :: "('w \<Rightarrow> bool) \<Rightarrow> ('c, 'w) client \<Rightarrow> ('c, 'w) Pipeline \<Rightarrow> bool" where
  "controller_keeps I cli p \<longleftrightarrow> serving_keeps I cli p \<and>
     (\<forall>k. call_keeps I (clientGet cli k)) \<and> call_keeps I (clientUpdate cli) \<and>
     (\<forall>a \<in> set (CleanupActions (plOpts p)). cleanup_keeps I cli a)"

lemma pipeline_cleanup_keeps:
  assumes "controller_keeps I cli p" and "reqClient req = cli" and "I (world s)"
  shows "I (world (snd (pipeline_cleanup E p cli ctx req s)))"
proof -
  have upd: "I (world t')" if "on_object (clientUpdate cli) r t = (e, t')" "I (world t)" for r t e t'
    using on_object_keeps [of I "clientUpdate cli" t r] assms(1) that by (simp add: controller_keeps_def)
  obtain es t where run: "run_cleanups ctx req (rev (CleanupActions (plOpts p))) [] s = (es, t)"
    by (cases "run_cleanups ctx req (rev (CleanupActions (plOpts p))) [] s")
  then have "I (world t)"
    using run_cleanups_keeps [of "rev (CleanupActions (plOpts p))" I req s ctx "[]"] assms
    by (simp add: controller_keeps_def)
  with run assms(3) show ?thesis
    by (auto simp: pipeline_cleanup_def Let_def split: prod.splits option.splits dest: upd)
qed

lemma pipeline_run_keeps:
  assumes "controller_keeps I cli p" and "reqClient req = cli" and "I (world s)"
  shows "I (world (snd (snd (pipeline_run E p cli ctx req s))))"
proof -
  have serve: "serving_keeps I cli p" and stat: "call_keeps I (clientStatusUpdate cli)"
    using assms(1) by (simp_all add: controller_keeps_def serving_keeps_def)
  have upd: "I (world t')" if "on_object (clientUpdate cli) r t = (e, t')" "I (world t)" for r t e t'
    using on_object_keeps [of I "clientUpdate cli" t r] assms(1) that by (simp add: controller_keeps_def)
  have exec: "I (world t')" if "pipeline_execute E p cli ctx req resp t = (e, resp', t')" "I (world t)" for resp t e resp' t'
    using execute_keeps [OF serve assms(2) that(2), of E ctx resp] that(1) by simp
  have status: "I (world t')" if "updateStatus E p cli ctx req ee t = (e, t')" "I (world t)" for ee t e t'
    using updateStatus_keeps [OF stat that(2), of E p ctx req ee] that(1) by simp
  have done': "I (world (snd (snd (case pipeline_execute E p cli ctx req NewResponse t of (ee, resp, u) \<Rightarrow>
      (case updateStatus E p cli ctx req ee u of (Some err, v) \<Rightarrow> (resp, Some err, v) | (None, v) \<Rightarrow> (resp, ee, v))))))"
    if "I (world t)" for t
    using that by (auto split: prod.splits option.splits dest: exec status)
  show ?thesis
  proof (cases "GetDeletionTimestamp (deref s (reqObject req))")
    case (Some d)
    with pipeline_cleanup_keeps [OF assms, of E ctx] show ?thesis
      by (simp add: pipeline_run_def Let_def split: prod.splits)
  next
    case None
    obtain added s1 where add: "(if Finalizer (plOpts p) = [] then (False, s)
        else (case AddFinalizer E (deref s (reqObject req)) (Finalizer (plOpts p)) of (added, ob) \<Rightarrow> (added, store (reqObject req) ob s))) = (added, s1)"
      by (meson surj_pair)
    obtain uerr s2 where up: "(if added then on_object (clientUpdate cli) (reqObject req) s1 else (None, s1)) = (uerr, s2)"
      by (meson surj_pair)
    have "I (world s1)" using add assms(3) by (auto split: if_splits prod.splits)
    with up have inv2: "I (world s2)" by (auto split: if_splits dest: upd)
    have "pipeline_run E p cli ctx req s = (case uerr of
         Some err \<Rightarrow> (NewResponse, Some (WrapError ''failed to add finalizer'' err), s2)
       | None \<Rightarrow> (case pipeline_execute E p cli ctx req NewResponse s2 of (ee, resp, u) \<Rightarrow>
           (case updateStatus E p cli ctx req ee u of (Some err, v) \<Rightarrow> (resp, Some err, v) | (None, v) \<Rightarrow> (resp, ee, v))))"
      using None add up by (simp add: pipeline_run_def Let_def)
    with inv2 done' [OF inv2] show ?thesis by (cases uerr) simp_all
  qed
qed

text \<open>The state a request of a pipeline leaves: \<open>Get\<close>, then \<open>run\<close> on the object read.\<close>

lemma adapter_pipeline_state:
  assumes "alloc zero s = (r, s1)" and "on_object (clientGet cli k) r s1 = (gerr, s2)"
    and "plClient (plOpts p) = Some cli"
  shows "snd (adapter_Reconcile zero (AsReconciler cli name (TypedPipeline_Reconcile E p)) ctx k s) =
     (case gerr of Some e \<Rightarrow> s2
      | None \<Rightarrow> snd (snd (pipeline_run E p cli (Some (WithControllerName ctx name)) \<lparr>reqClient = cli, reqObject = r\<rparr> s2)))"
  using assms
  by (cases gerr; cases "pipeline_run E p cli (Some (WithControllerName ctx name)) \<lparr>reqClient = cli, reqObject = r\<rparr> s2")
    (auto simp: adapter_Reconcile_def AsReconciler_def TypedPipeline_Reconcile_def Pipeline_Reconcile_def
      getClient_def Let_def split: option.splits)

lemma adapter_keeps:
  assumes "controller_keeps I cli p" and "plClient (plOpts p) = Some cli" and "I (world s)"
    and "adapter_Reconcile zero (AsReconciler cli name (TypedPipeline_Reconcile E p)) ctx k s = (r, s')"
  shows "I (world s')"
proof -
  obtain o1 s1 where al: "alloc zero s = (o1, s1)" by (cases "alloc zero s")
  then have w1: "world s1 = world s" by (auto simp: alloc_def)
  obtain gerr s2 where get: "on_object (clientGet cli k) o1 s1 = (gerr, s2)"
    by (cases "on_object (clientGet cli k) o1 s1")
  have inv2: "I (world s2)"
    using on_object_keeps [of I "clientGet cli k" s1 o1] assms(1,3) get w1 by (simp add: controller_keeps_def)
  let ?run = "pipeline_run E p cli (Some (WithControllerName ctx name)) \<lparr>reqClient = cli, reqObject = o1\<rparr> s2"
  have "I (world (snd (snd ?run)))" by (rule pipeline_run_keeps [OF assms(1) _ inv2]) simp
  with adapter_pipeline_state [OF al get assms(2), of name E ctx] assms(4) inv2 show ?thesis
    by (simp split: option.splits)
qed

section \<open>The protocol\<close>

text \<open>
  \<open>server w\<close> is the object the API server stores under the request's key, \<open>res w\<close> says that resources
  the pipeline created for it exist, outside the reach of garbage collection. \<open>valid\<close> is what else is
  known of the worlds the system can be in; the assumptions are about valid worlds only.
\<close>

definition protected :: "('w \<Rightarrow> 'c object option) \<Rightarrow> string \<Rightarrow> 'w \<Rightarrow> bool" where
  "protected server f w \<longleftrightarrow> (\<exists>ob. server w = Some ob \<and> f \<in> set (GetFinalizers ob))"

abbreviation guarded :: "('w \<Rightarrow> bool) \<Rightarrow> ('w \<Rightarrow> 'c object option) \<Rightarrow> string \<Rightarrow> 'w \<Rightarrow> bool" where
  "guarded valid server f \<equiv> (\<lambda>w. valid w \<and> protected server f w)"

text \<open>
  The API server: an object that carries the finalizer stays stored until the finalizer is taken off;
  a \<open>Get\<close> that returns an object with the finalizer found it stored (reads are not stale), and
  returns an object of the stored \<open>shape\<close>; an accepted \<open>Update\<close> stores the finalizers it was given.
  Neither call creates resources. Other parties may act during a call, but do not take the finalizer
  off and do not create resources of this pipeline.
\<close>

definition api_server_ok ::
    "('w \<Rightarrow> bool) \<Rightarrow> ('w \<Rightarrow> 'c object option) \<Rightarrow> string \<Rightarrow> ('w \<Rightarrow> bool) \<Rightarrow> ('c object \<Rightarrow> bool) \<Rightarrow>
     ('c, 'w) client \<Rightarrow> request \<Rightarrow> bool" where
  "api_server_ok valid server f res shape cli k \<longleftrightarrow>
     (\<forall>ob w err ob' w'. clientGet cli k ob w = (err, ob', w') \<and> valid w \<longrightarrow> valid w' \<and>
        (protected server f w \<longrightarrow> protected server f w') \<and> (res w' \<longrightarrow> res w) \<and>
        (err = None \<longrightarrow> shape ob' \<and> (f \<in> set (GetFinalizers ob') \<longrightarrow> protected server f w'))) \<and>
     (\<forall>ob w err ob' w'. clientUpdate cli ob w = (err, ob', w') \<and> valid w \<longrightarrow> valid w' \<and> (res w' \<longrightarrow> res w) \<and>
        (f \<in> set (GetFinalizers ob) \<longrightarrow>
           (protected server f w \<longrightarrow> protected server f w') \<and> (err = None \<longrightarrow> protected server f w')))"

definition environment_ok ::
    "('w \<Rightarrow> bool) \<Rightarrow> ('w \<Rightarrow> 'c object option) \<Rightarrow> string \<Rightarrow> ('w \<Rightarrow> bool) \<Rightarrow> ('w \<Rightarrow> 'w \<Rightarrow> bool) \<Rightarrow> bool" where
  "environment_ok valid server f res env \<longleftrightarrow>
     (\<forall>w w'. env w w' \<and> valid w \<longrightarrow>
        valid w' \<and> (protected server f w \<longrightarrow> protected server f w') \<and> (res w' \<longrightarrow> res w))"

text \<open>
  The cleanup actions: none takes the finalizer off by itself, and when all of them return nil the
  resources are gone.
\<close>

definition cleanups_ok ::
    "('w \<Rightarrow> bool) \<Rightarrow> ('w \<Rightarrow> 'c object option) \<Rightarrow> string \<Rightarrow> ('w \<Rightarrow> bool) \<Rightarrow> ('c object \<Rightarrow> bool) \<Rightarrow>
     ('c, 'w) client \<Rightarrow> ('c, 'w) CleanupFunc list \<Rightarrow> bool" where
  "cleanups_ok valid server f res shape cli actions \<longleftrightarrow>
     (\<forall>a \<in> set actions. cleanup_keeps (guarded valid server f) cli a) \<and>
     (\<forall>ctx req s rs s1. reqClient req = cli \<and> valid (world s) \<and> shape (deref s (reqObject req)) \<and>
        cleanup_results ctx req (rev actions) s = (rs, s1) \<and> (\<forall>r \<in> set rs. r = None) \<longrightarrow> \<not> res (world s1))"

inductive controller_step ::
    "'c env \<Rightarrow> ('c, 'w) Pipeline \<Rightarrow> ('c, 'w) client \<Rightarrow> string \<Rightarrow> request \<Rightarrow> 'c object \<Rightarrow> ('w \<Rightarrow> 'w \<Rightarrow> bool) \<Rightarrow>
     'w \<Rightarrow> 'w \<Rightarrow> bool"
  for E p cli name k zero env where
  environment: "env w w' \<Longrightarrow> controller_step E p cli name k zero env w w'"
| reconcile: "adapter_Reconcile zero (AsReconciler cli name (TypedPipeline_Reconcile E p)) ctx k s = (r, s') \<Longrightarrow>
     controller_step E p cli name k zero env (world s) (world s')"

lemma on_object_call: "on_object f r s = (e, s') \<Longrightarrow> f (deref s r) (world s) = (e, deref s' r, world s')"
  by (auto simp: on_object_def split: prod.splits)

lemma api_update:
  assumes "api_server_ok valid server f res shape cli k" and "on_object (clientUpdate cli) r s = (e, s')"
    and "valid (world s)"
  shows "valid (world s') \<and> (res (world s') \<longrightarrow> res (world s)) \<and>
     (f \<in> set (GetFinalizers (deref s r)) \<longrightarrow>
        (protected server f (world s) \<longrightarrow> protected server f (world s')) \<and> (e = None \<longrightarrow> protected server f (world s')))"
proof -
  have "\<forall>ob w err ob' w'. clientUpdate cli ob w = (err, ob', w') \<and> valid w \<longrightarrow> valid w' \<and> (res w' \<longrightarrow> res w) \<and>
        (f \<in> set (GetFinalizers ob) \<longrightarrow>
           (protected server f w \<longrightarrow> protected server f w') \<and> (err = None \<longrightarrow> protected server f w'))"
    using assms(1) unfolding api_server_ok_def by (rule conjunct2)
  with on_object_call [OF assms(2)] assms(3) show ?thesis by blast
qed

text \<open>The invariant, and what a request adds to it once the object was read.\<close>

abbreviation no_orphans ::
    "('w \<Rightarrow> bool) \<Rightarrow> ('w \<Rightarrow> 'c object option) \<Rightarrow> string \<Rightarrow> ('w \<Rightarrow> bool) \<Rightarrow> 'w \<Rightarrow> bool" where
  "no_orphans valid server f res w \<equiv> valid w \<and> (res w \<longrightarrow> protected server f w)"

lemma cleanup_protocol:
  assumes ok: "finalizers_ok E" "aggregate_ok E" "api_server_ok valid server f res shape cli k"
    and cl: "cleanups_ok valid server f res shape cli (CleanupActions (plOpts p))"
    and req: "Finalizer (plOpts p) = f" "reqClient req = cli" "shape (deref s (reqObject req))"
    and inv: "no_orphans valid server f res (world s)"
    and got: "f \<in> set (GetFinalizers (deref s (reqObject req))) \<longrightarrow> protected server f (world s)"
    and run: "pipeline_cleanup E p cli ctx req s = (err, s')"
  shows "no_orphans valid server f res (world s')"
proof (cases "f = [] \<or> \<not> ContainsFinalizer E (deref s (reqObject req)) f")
  case True
  with run req(1) inv show ?thesis by (auto simp: pipeline_cleanup_def Let_def)
next
  case False
  with ok(1) got have prot: "protected server f (world s)" by (simp add: finalizers_ok_def)
  obtain rs s1 where results: "cleanup_results ctx req (rev (CleanupActions (plOpts p))) s = (rs, s1)"
    by (cases "cleanup_results ctx req (rev (CleanupActions (plOpts p))) s")
  note cleanups = run_cleanups_results [OF results, of "[]"]
  have prot1: "guarded valid server f (world s1)"
    using run_cleanups_keeps [of "rev (CleanupActions (plOpts p))" "guarded valid server f" req s ctx "[]"]
      cl req(2) prot inv cleanups by (simp add: cleanups_ok_def)
  show ?thesis
  proof (cases "NewAggregate E (failures rs)")
    case (Some e)
    with run cleanups False req(1) have "s' = s1" by (auto simp: pipeline_cleanup_def Let_def)
    with prot1 show ?thesis by simp
  next
    case None
    with ok(2) have "\<forall>r \<in> set rs. r = None" by (simp add: aggregate_ok_def failures_Nil_iff)
    with cl req(2,3) inv results have gone: "\<not> res (world s1)" unfolding cleanups_ok_def by blast
    have upd: "valid (world t') \<and> \<not> res (world t')"
      if "on_object (clientUpdate cli) r t = (e, t')" "world t = world s1" for r t e t'
      using api_update [OF ok(3) that(1)] that(2) gone prot1 by simp
    from run None cleanups False req(1) have "valid (world s') \<and> \<not> res (world s')"
      by (auto simp: pipeline_cleanup_def Let_def gone prot1 split: prod.splits if_splits option.splits dest: upd)
    then show ?thesis by simp
  qed
qed

lemma run_protocol:
  assumes ok: "finalizers_ok E" "aggregate_ok E" "api_server_ok valid server f res shape cli k"
    and cl: "cleanups_ok valid server f res shape cli (CleanupActions (plOpts p))"
    and keeps: "serving_keeps (guarded valid server f) cli p"
    and req: "Finalizer (plOpts p) = f" "f \<noteq> []" "reqClient req = cli" "shape (deref s (reqObject req))"
    and inv: "no_orphans valid server f res (world s)"
    and got: "f \<in> set (GetFinalizers (deref s (reqObject req))) \<longrightarrow> protected server f (world s)"
    and run: "pipeline_run E p cli ctx req s = (resp, err, s')"
  shows "no_orphans valid server f res (world s')"
proof (cases "GetDeletionTimestamp (deref s (reqObject req))")
  case (Some t)
  with run have "pipeline_cleanup E p cli ctx req s = (err, s')"
    by (auto simp: pipeline_run_def Let_def split: prod.splits)
  from cleanup_protocol [OF ok cl req(1,3,4) inv got this] show ?thesis .
next
  case None
  let ?r = "reqObject req"
  obtain added s1 where add: "(case AddFinalizer E (deref s ?r) f of (added, ob) \<Rightarrow> (added, store ?r ob s)) = (added, s1)"
    by (cases "case AddFinalizer E (deref s ?r) f of (added, ob) \<Rightarrow> (added, store ?r ob s)")
  obtain uerr s2 where upd: "(if added then on_object (clientUpdate cli) ?r s1 else (None, s1)) = (uerr, s2)"
    by (cases "if added then on_object (clientUpdate cli) ?r s1 else (None, s1)")
  have s1: "world s1 = world s" "f \<in> set (GetFinalizers (deref s1 ?r))"
    "\<not> added \<longrightarrow> f \<in> set (GetFinalizers (deref s ?r))"
    using add ok(1) by (auto simp: finalizers_ok_def split: if_splits)
  have written: "no_orphans valid server f res (world s2) \<and> (uerr = None \<longrightarrow> protected server f (world s2))"
  proof (cases added)
    case True
    with upd have "on_object (clientUpdate cli) ?r s1 = (uerr, s2)" by simp
    from api_update [OF ok(3) this] s1 inv show ?thesis by simp
  next
    case False
    with upd s1 got inv show ?thesis by simp
  qed
  show ?thesis
  proof (cases uerr)
    case (Some e)
    with run None add upd req(1,2) have "s' = s2" by (simp add: pipeline_run_def Let_def)
    with written show ?thesis by simp
  next
    case None': None
    obtain execErr resp1 s3 where exec: "pipeline_execute E p cli ctx req NewResponse s2 = (execErr, resp1, s3)"
      by (cases "pipeline_execute E p cli ctx req NewResponse s2")
    have "guarded valid server f (world s2)" using written None' by simp
    from execute_keeps [OF keeps req(3) this, of E ctx NewResponse]
    have "guarded valid server f (world s3)" unfolding exec by simp
    moreover have "call_keeps (guarded valid server f) (clientStatusUpdate cli)"
      using keeps by (simp add: serving_keeps_def)
    ultimately have kept: "guarded valid server f (world (snd (updateStatus E p cli ctx req execErr s3)))"
      using updateStatus_keeps [of "guarded valid server f" cli s3 E p ctx req execErr] by blast
    have "pipeline_run E p cli ctx req s =
        (case updateStatus E p cli ctx req execErr s3 of
           (Some err, t) \<Rightarrow> (resp1, Some err, t) | (None, t) \<Rightarrow> (resp1, execErr, t))"
      using None add upd None' exec req(1,2) by (simp add: pipeline_run_def Let_def)
    with run have "s' = snd (updateStatus E p cli ctx req execErr s3)"
      by (simp split: prod.splits option.splits)
    with kept show ?thesis by simp
  qed
qed

lemma reconcile_protocol:
  assumes ok: "finalizers_ok E" "aggregate_ok E" "api_server_ok valid server f res shape cli k"
    and cl: "cleanups_ok valid server f res shape cli (CleanupActions (plOpts p))"
    and keeps: "serving_keeps (guarded valid server f) cli p"
    and p: "Finalizer (plOpts p) = f" "f \<noteq> []" "plClient (plOpts p) = Some cli"
    and inv: "no_orphans valid server f res (world s)"
    and rec: "adapter_Reconcile zero (AsReconciler cli name (TypedPipeline_Reconcile E p)) ctx k s = (r, s')"
  shows "no_orphans valid server f res (world s')"
proof -
  obtain o1 s1 where al: "alloc zero s = (o1, s1)" by (cases "alloc zero s")
  then have w1: "world s1 = world s" by (auto simp: alloc_def)
  obtain gerr s2 where get: "on_object (clientGet cli k) o1 s1 = (gerr, s2)"
    by (cases "on_object (clientGet cli k) o1 s1")
  note call = on_object_call [OF this]
  have inv2: "no_orphans valid server f res (world s2)"
    and got: "gerr = None \<longrightarrow> shape (deref s2 o1) \<and> (f \<in> set (GetFinalizers (deref s2 o1)) \<longrightarrow> protected server f (world s2))"
    using ok(3) call inv w1 unfolding api_server_ok_def by metis+
  note state = adapter_pipeline_state [OF al get p(3), of name E ctx]
  show ?thesis
  proof (cases gerr)
    case (Some e)
    with rec state inv2 show ?thesis by simp
  next
    case None
    let ?req = "\<lparr>reqClient = cli, reqObject = o1\<rparr>"
    obtain resp err s3 where run: "pipeline_run E p cli (Some (WithControllerName ctx name)) ?req s2 = (resp, err, s3)"
      by (cases "pipeline_run E p cli (Some (WithControllerName ctx name)) ?req s2")
    with None rec state have "s' = s3" by simp
    with run_protocol [OF ok cl keeps p(1,2) _ _ inv2 _ run] got None show ?thesis by simp
  qed
qed

lemma protocol_invariant:
  assumes p: "p = Pipeline_SetClient (Some cli) (NewPipeline opts)" "CleanupActions (plOpts p) \<noteq> []" "f = Finalizer (plOpts p)"
    and ok: "finalizers_ok E" "aggregate_ok E" "api_server_ok valid server f res shape cli k"
      "environment_ok valid server f res env"
    and cl: "cleanups_ok valid server f res shape cli (CleanupActions (plOpts p))"
    and keeps: "serving_keeps (guarded valid server f) cli p"
    and start: "valid w0" "\<not> res w0" and steps: "(controller_step E p cli name k zero env)\<^sup>*\<^sup>* w0 w"
  shows "no_orphans valid server f res w"
  using steps
proof (induction rule: rtranclp_induct)
  case base
  with start show ?case by simp
next
  case (step v w)
  have p': "Finalizer (plOpts p) = f" "f \<noteq> []" "plClient (plOpts p) = Some cli"
    using p NewPipeline_Finalizer [of opts] by (simp_all add: Pipeline_SetClient_def)
  from step.hyps(2) show ?case
  proof cases
    case environment
    with ok(4) step.IH show ?thesis by (auto simp: environment_ok_def)
  next
    case (reconcile ctx s r s')
    from reconcile_protocol [OF ok(1-3) cl keeps p' _ reconcile(3)] step.IH reconcile(1,2) show ?thesis by simp
  qed
qed

section \<open>A concrete cluster\<close>

text \<open>
  One object, whose metadata other than finalizers and deletion never changes, and the names of the
  config maps that are stored and not being deleted. The server keeps an object with finalizers when it is deleted and drops it
  with the last finalizer.
\<close>

record cluster =
  clStored :: bool
  clFinalizers :: "string list"
  clDeleting :: bool
  clMaps :: "(string \<times> string) list"

abbreviation not_found :: error where "not_found \<equiv> ErrorString ''not found''"

definition cluster_object :: "'c object \<Rightarrow> cluster \<Rightarrow> 'c object" where
  "cluster_object base w = base\<lparr>GetFinalizers := clFinalizers w,
     GetDeletionTimestamp := (if clDeleting w then Some 0 else None)\<rparr>"

definition cluster_server :: "'c object \<Rightarrow> cluster \<Rightarrow> 'c object option" where
  "cluster_server base w = (if clStored w then Some (cluster_object base w) else None)"

definition cluster_client :: "'c object \<Rightarrow> ('c, cluster) client" where
  "cluster_client base =
     \<lparr>clientScheme = demo_scheme,
      clientGet = (\<lambda>k ob w. if clStored w then (None, cluster_object base w, w) else (Some not_found, ob, w)),
      clientUpdate = (\<lambda>ob w. if clStored w
         then (None, ob, if clDeleting w \<and> GetFinalizers ob = [] then w\<lparr>clStored := False\<rparr>
                         else w\<lparr>clFinalizers := GetFinalizers ob\<rparr>)
         else (Some not_found, ob, w)),
      clientStatusUpdate = (\<lambda>ob w. (None, ob, w)),
      clientApply = (\<lambda>opts ob w. (None, ob, w\<lparr>clMaps := (GetNamespace ob, GetName ob) # clMaps w\<rparr>)),
      clientStatusApply = (\<lambda>opts ob w. (None, ob, w)),
      clientDelete = (\<lambda>ob w. if List.member (clMaps w) (GetNamespace ob, GetName ob)
         then (None, ob, w\<lparr>clMaps := removeAll (GetNamespace ob, GetName ob) (clMaps w)\<rparr>)
         else (Some not_found, ob, w))\<rparr>"

definition user_delete :: "cluster \<Rightarrow> cluster \<Rightarrow> bool" where
  "user_delete w w' \<longleftrightarrow>
     w' = (if clFinalizers w = [] then w\<lparr>clStored := False\<rparr> else w\<lparr>clDeleting := True\<rparr>)"

lemma protected_cluster: "protected (cluster_server base) f w \<longleftrightarrow> clStored w \<and> f \<in> set (clFinalizers w)"
  by (auto simp: protected_def cluster_server_def cluster_object_def)

lemma cluster_api_ok:
  assumes "\<And>w. shape (cluster_object base w)" and "\<And>w. res w \<longleftrightarrow> R (clMaps w)"
  shows "api_server_ok (\<lambda>w. True) (cluster_server base) f res shape (cluster_client base) k"
    and "environment_ok (\<lambda>w. True) (cluster_server base) f res user_delete"
  using assms
  by (auto simp: api_server_ok_def environment_ok_def protected_cluster cluster_client_def user_delete_def
      cluster_object_def split: if_splits)

lemma cluster_calls_keep:
  "call_keeps (guarded (\<lambda>w. True) (cluster_server base) f) (clientApply (cluster_client base) opts)"
  "call_keeps (guarded (\<lambda>w. True) (cluster_server base) f) (clientStatusUpdate (cluster_client base))"
  "call_keeps (guarded (\<lambda>w. True) (cluster_server base) f) (clientDelete (cluster_client base))"
  by (simp_all add: call_keeps_def protected_cluster cluster_client_def)

definition creating_action :: "(unit, cluster) ActionFunc" where
  "creating_action ctx req resp s = (None, resp, s\<lparr>world := (world s)\<lparr>clMaps := [(''prod'', ''data'')]\<rparr>\<rparr>)"

definition deleting_cleanup :: "(unit, cluster) CleanupFunc" where
  "deleting_cleanup ctx req s = (None, s\<lparr>world := (world s)\<lparr>clMaps := []\<rparr>\<rparr>)"

section \<open>Property\<close>



end
