(* ===== verification/Lifecycle.thy ===== *)
theory Lifecycle
  imports Prelude
begin

text \<open>
  The lifecycle of a child cluster (\<^verbatim>\<open>src/pkg/hierarchical/lifecycle.go\<close>). A channel is a number; the
  state says which are closed, and closing a closed one panics. \<open>begin\<close> and \<open>end\<close> run under the
  mutex; \<open>stop\<close> runs its first part once and leaves a goroutine behind (\<open>stopper\<close>), which waits for
  the controllers, cancels the cache, waits for it and closes \<open>done\<close>. The step relation at the end
  interleaves any number of runnables with the stop and its goroutine.
\<close>

section \<open>State\<close>

type_synonym chan = nat

datatype lifecycleGroup = controllerGroup | cacheGroup

text \<open>Where the goroutine of \<open>stop\<close> is; it holds the two channels it captured.\<close>

datatype stopper = NoStopper | AwaitControllers chan chan | AwaitCache chan | StopperDone

record lifecycle =
  stopped :: bool
  doneClosed :: bool
  controllersCancelled :: bool
  controllerActive :: int
  controllerIdle :: chan
  cacheCancelled :: bool
  cacheActive :: int
  cacheIdle :: chan
  stopOnce :: bool
  closedChans :: "chan \<Rightarrow> bool"
  nextChan :: chan
  stopperAt :: stopper

definition newLifecycle :: lifecycle where
  "newLifecycle =
     \<lparr>stopped = False, doneClosed = False, controllersCancelled = False, controllerActive = 0,
      controllerIdle = 0, cacheCancelled = False, cacheActive = 0, cacheIdle = 1, stopOnce = False,
      closedChans = (\<lambda>c. c < 2), nextChan = 2, stopperAt = NoStopper\<rparr>"

definition make_chan :: "lifecycle \<Rightarrow> chan \<times> lifecycle" where
  "make_chan l = (nextChan l, l\<lparr>nextChan := Suc (nextChan l)\<rparr>)"

definition close_chan :: "chan \<Rightarrow> lifecycle \<Rightarrow> lifecycle outcome" where
  "close_chan c l =
     (if closedChans l c then Panic ''close of closed channel''
      else Ret (l\<lparr>closedChans := (closedChans l)(c := True)\<rparr>))"

section \<open>Operations\<close>

definition isStopped :: "lifecycle \<Rightarrow> bool" where
  "isStopped l = stopped l"

text \<open>\<open>begin\<close> returns whether the runnable may start; the context it returns is the group's.\<close>

definition lifecycle_begin :: "lifecycleGroup \<Rightarrow> lifecycle \<Rightarrow> bool \<times> lifecycle" where
  "lifecycle_begin grp l =
     (if stopped l then (False, l)
      else (case grp of
              controllerGroup \<Rightarrow>
                (let l = (if controllerActive l = 0
                          then (case make_chan l of (c, l) \<Rightarrow> l\<lparr>controllerIdle := c\<rparr>) else l)
                 in (True, l\<lparr>controllerActive := controllerActive l + 1\<rparr>))
            | cacheGroup \<Rightarrow>
                (let l = (if cacheActive l = 0
                          then (case make_chan l of (c, l) \<Rightarrow> l\<lparr>cacheIdle := c\<rparr>) else l)
                 in (True, l\<lparr>cacheActive := cacheActive l + 1\<rparr>))))"

definition lifecycle_end :: "lifecycleGroup \<Rightarrow> lifecycle \<Rightarrow> lifecycle outcome" where
  "lifecycle_end grp l =
     (case grp of
        controllerGroup \<Rightarrow>
          (let l = l\<lparr>controllerActive := controllerActive l - 1\<rparr>
           in if controllerActive l = 0 then close_chan (controllerIdle l) l else Ret l)
      | cacheGroup \<Rightarrow>
          (let l = l\<lparr>cacheActive := cacheActive l - 1\<rparr>
           in if cacheActive l = 0 then close_chan (cacheIdle l) l else Ret l))"

text \<open>The part of \<open>stop\<close> under \<open>stopOnce\<close> and the mutex.\<close>

definition lifecycle_stop :: "lifecycle \<Rightarrow> lifecycle" where
  "lifecycle_stop l =
     (if stopOnce l then l
      else l\<lparr>stopOnce := True, stopped := True, controllersCancelled := True,
             stopperAt := AwaitControllers (controllerIdle l) (cacheIdle l)\<rparr>)"

text \<open>The goroutine \<open>stop\<close> starts: one step, or none while it is blocked on a channel.\<close>

definition stopper_step :: "lifecycle \<Rightarrow> lifecycle option" where
  "stopper_step l =
     (case stopperAt l of
        AwaitControllers cc kc \<Rightarrow>
          if closedChans l cc then Some (l\<lparr>cacheCancelled := True, stopperAt := AwaitCache kc\<rparr>) else None
      | AwaitCache kc \<Rightarrow>
          if closedChans l kc then Some (l\<lparr>doneClosed := True, stopperAt := StopperDone\<rparr>) else None
      | _ \<Rightarrow> None)"

text \<open>
  What \<open>stop\<close> returns once its \<open>select\<close> can proceed: nil when \<open>done\<close> is closed, else the context's
  error; \<open>None\<close> is a \<open>select\<close> that blocks. With both ready Go picks either; \<open>pickDone\<close> is that choice.
\<close>

definition stop_result :: "bool \<Rightarrow> error option \<Rightarrow> lifecycle \<Rightarrow> error option option" where
  "stop_result pickDone ctxErr l =
     (case ctxErr of
        None \<Rightarrow> if doneClosed l then Some None else None
      | Some e \<Rightarrow>
          if doneClosed l \<and> pickDone then Some None
          else Some (Some (WrapError ''stop hierarchical cluster'' e)))"

text \<open>
  \<open>run\<close>: \<open>start\<close> is the runnable; it returns its error, the error of the merged context at that
  moment, and the lifecycle as the other goroutines have left it. An error that is the context's own
  is not one of the runnable.
\<close>

definition run_error :: "error option \<Rightarrow> error option \<Rightarrow> error option" where
  "run_error err ctxErr =
     (case ctxErr of
        Some ce \<Rightarrow> if err \<noteq> None \<and> errors_Is err ce then None else err
      | None \<Rightarrow> err)"

definition lifecycle_run ::
    "lifecycleGroup \<Rightarrow> (lifecycle \<Rightarrow> error option \<times> error option \<times> lifecycle) \<Rightarrow> lifecycle \<Rightarrow>
     (error option \<times> lifecycle) outcome" where
  "lifecycle_run grp start l =
     (case lifecycle_begin grp l of
        (False, l) \<Rightarrow> Ret (None, l)
      | (True, l) \<Rightarrow>
          (case start l of
             (err, ctxErr, l) \<Rightarrow>
               bind_outcome (lifecycle_end grp l) (\<lambda>l. Ret (run_error err ctxErr, l))))"

text \<open>
  \<open>lifecycleCache.WaitForCacheSync\<close>: \<open>wait\<close> is the inner cache's wait under the cache context, which
  other goroutines may interleave with.
\<close>

definition lifecycleCache_WaitForCacheSync :: "(lifecycle \<Rightarrow> bool \<times> lifecycle) \<Rightarrow> lifecycle \<Rightarrow> bool \<times> lifecycle" where
  "lifecycleCache_WaitForCacheSync wait l =
     (if isStopped l then (True, l)
      else (case wait l of (synced, l) \<Rightarrow> (synced \<or> isStopped l, l)))"

text \<open>A runnable with the optional interfaces it implements.\<close>

record runnable =
  runStart :: "lifecycle \<Rightarrow> error option \<times> error option \<times> lifecycle"
  runNeedLeaderElection :: "bool option"
  runWarmup :: "(lifecycle \<Rightarrow> error option \<times> error option \<times> lifecycle) option"

definition lifecycleRunnable_Start :: "runnable \<Rightarrow> lifecycle \<Rightarrow> (error option \<times> lifecycle) outcome" where
  "lifecycleRunnable_Start r l = lifecycle_run controllerGroup (runStart r) l"

definition lifecycleRunnable_NeedLeaderElection :: "runnable \<Rightarrow> bool" where
  "lifecycleRunnable_NeedLeaderElection r =
     (case runNeedLeaderElection r of Some b \<Rightarrow> b | None \<Rightarrow> True)"

definition lifecycleRunnable_Warmup :: "runnable \<Rightarrow> lifecycle \<Rightarrow> (error option \<times> lifecycle) outcome" where
  "lifecycleRunnable_Warmup r l =
     (case runWarmup r of Some warmup \<Rightarrow> lifecycle_run controllerGroup warmup l | None \<Rightarrow> Ret (None, l))"

text \<open>What the parent manager is given for a runnable: the struct \<open>lifecycleRunnable\<close> with its methods.\<close>

record managed_runnable =
  mrStart :: "lifecycle \<Rightarrow> (error option \<times> lifecycle) outcome"
  mrNeedLeaderElection :: bool
  mrWarmup :: "lifecycle \<Rightarrow> (error option \<times> lifecycle) outcome"

definition lifecycleRunnable :: "runnable \<Rightarrow> managed_runnable" where
  "lifecycleRunnable r =
     \<lparr>mrStart = lifecycleRunnable_Start r,
      mrNeedLeaderElection = lifecycleRunnable_NeedLeaderElection r,
      mrWarmup = lifecycleRunnable_Warmup r\<rparr>"

section \<open>Merged contexts\<close>

text \<open>
  \<open>mergeContexts\<close> makes a context that ends with its parent, with the \<open>stopped\<close> channel or when the
  returned function is called. The state holds the two events from outside, how often \<open>finished\<close> was
  closed, whether \<open>finishOnce\<close> has run, whether the context was cancelled and whether the goroutine
  is still in its \<open>select\<close>.
\<close>

record merged =
  mgParentDone :: bool
  mgStopped :: bool
  mgFinishedCloses :: nat
  mgOnce :: bool
  mgCancelled :: bool
  mgWatching :: bool

definition mergeContexts :: "bool \<Rightarrow> bool \<Rightarrow> merged" where
  "mergeContexts parentDone stoppedClosed =
     \<lparr>mgParentDone = parentDone, mgStopped = stoppedClosed, mgFinishedCloses = 0, mgOnce = False,
      mgCancelled = False, mgWatching = True\<rparr>"

text \<open>The returned function; the two branches of the \<open>select\<close>.\<close>

definition merged_cancel :: "merged \<Rightarrow> merged" where
  "merged_cancel m =
     (let m = (if mgOnce m then m
               else m\<lparr>mgOnce := True, mgFinishedCloses := Suc (mgFinishedCloses m)\<rparr>)
      in m\<lparr>mgCancelled := True\<rparr>)"

definition merged_select :: "bool \<Rightarrow> merged \<Rightarrow> merged option" where
  "merged_select pickStopped m =
     (if \<not> mgWatching m then None
      else if pickStopped \<and> mgStopped m then Some (m\<lparr>mgCancelled := True, mgWatching := False\<rparr>)
      else if \<not> pickStopped \<and> mgFinishedCloses m > 0 then Some (m\<lparr>mgWatching := False\<rparr>)
      else None)"

definition merged_Done :: "merged \<Rightarrow> bool" where
  "merged_Done m \<longleftrightarrow> mgParentDone m \<or> mgCancelled m"

inductive merged_step :: "merged \<Rightarrow> merged \<Rightarrow> bool" where
  parent_done: "merged_step m (m\<lparr>mgParentDone := True\<rparr>)"
| stopped_closed: "merged_step m (m\<lparr>mgStopped := True\<rparr>)"
| cancel_called: "merged_step m (merged_cancel m)"
| select_branch: "merged_select b m = Some m' \<Longrightarrow> merged_step m m'"

definition merged_inv :: "merged \<Rightarrow> bool" where
  "merged_inv m \<longleftrightarrow>
     mgFinishedCloses m = (if mgOnce m then 1 else 0) \<and>
     (mgOnce m \<longrightarrow> mgCancelled m) \<and>
     (mgCancelled m \<longrightarrow> mgOnce m \<or> mgStopped m) \<and>
     (\<not> mgWatching m \<longrightarrow> mgCancelled m)"

interpretation merged_contexts: inductive_invariant
  "\<lambda>m. \<exists>p q. m = mergeContexts p q" merged_step merged_inv
proof
  show "merged_inv m" if "\<exists>p q. m = mergeContexts p q" for m
    using that by (auto simp: merged_inv_def mergeContexts_def)
  show "merged_inv n" if "merged_inv m" "merged_step m n" for m n
    using that(2,1)
    by cases (auto simp: merged_inv_def merged_cancel_def merged_select_def Let_def split: if_splits)
qed

text \<open>
  The channel \<open>finished\<close> is closed at most once however often the returned function is called; the
  context ends only for one of its three reasons; after the function was called, the goroutine can
  always leave its \<open>select\<close>, so that it is not leaked.
\<close>

lemma mergeContexts_safe:
  assumes "merged_step\<^sup>*\<^sup>* (mergeContexts p q) m"
  shows "mgFinishedCloses m \<le> 1 \<and>
     (merged_Done m \<longrightarrow> mgParentDone m \<or> mgStopped m \<or> mgOnce m) \<and>
     (mgOnce m \<longrightarrow> merged_Done m \<and> (mgWatching m \<longrightarrow> (\<exists>m'. merged_step m m' \<and> \<not> mgWatching m')))"
proof -
  have inv: "merged_inv m" using merged_contexts.inv_reachable [OF _ assms] by blast
  have "merged_select False m = Some (m\<lparr>mgWatching := False\<rparr>)" if "mgOnce m" "mgWatching m"
    using inv that by (simp add: merged_select_def merged_inv_def)
  then have "\<exists>m'. merged_step m m' \<and> \<not> mgWatching m'" if "mgOnce m" "mgWatching m"
    using that by (intro exI [of _ "m\<lparr>mgWatching := False\<rparr>"]) (auto intro: select_branch)
  with inv show ?thesis by (auto simp: merged_inv_def merged_Done_def)
qed

section \<open>Interleavings\<close>

text \<open>
  The runnables between their \<open>begin\<close> and their \<open>end\<close> are counted per group. A runnable that is
  refused changes nothing.
\<close>

record life_system =
  life :: lifecycle
  running :: "lifecycleGroup \<Rightarrow> nat"

inductive lstep :: "life_system \<Rightarrow> life_system \<Rightarrow> bool" where
  run_begin: "lifecycle_begin g (life S) = (True, l) \<Longrightarrow>
     lstep S (S\<lparr>life := l, running := (running S)(g := Suc (running S g))\<rparr>)"
| run_end: "running S g = Suc n \<Longrightarrow> lifecycle_end g (life S) = Ret l \<Longrightarrow>
     lstep S (S\<lparr>life := l, running := (running S)(g := n)\<rparr>)"
| stop_call: "lstep S (S\<lparr>life := lifecycle_stop (life S)\<rparr>)"
| stop_goroutine: "stopper_step (life S) = Some l \<Longrightarrow> lstep S (S\<lparr>life := l\<rparr>)"

definition life_start :: "life_system \<Rightarrow> bool" where
  "life_start S \<longleftrightarrow> life S = newLifecycle \<and> running S = (\<lambda>_. 0)"

definition stopper_inv :: "lifecycle \<Rightarrow> bool" where
  "stopper_inv l =
     (case stopperAt l of
        NoStopper \<Rightarrow> \<not> stopped l \<and> \<not> cacheCancelled l \<and> \<not> doneClosed l
      | AwaitControllers cc kc \<Rightarrow>
          stopped l \<and> cc = controllerIdle l \<and> kc = cacheIdle l \<and> \<not> cacheCancelled l \<and> \<not> doneClosed l
      | AwaitCache kc \<Rightarrow>
          stopped l \<and> kc = cacheIdle l \<and> controllerActive l = 0 \<and> cacheCancelled l \<and> \<not> doneClosed l
      | StopperDone \<Rightarrow>
          stopped l \<and> controllerActive l = 0 \<and> cacheActive l = 0 \<and> cacheCancelled l \<and> doneClosed l)"

definition channels_inv :: "lifecycle \<Rightarrow> bool" where
  "channels_inv l \<longleftrightarrow>
     (closedChans l (controllerIdle l) \<longleftrightarrow> controllerActive l = 0) \<and>
     (closedChans l (cacheIdle l) \<longleftrightarrow> cacheActive l = 0) \<and>
     controllerIdle l \<noteq> cacheIdle l \<and> controllerIdle l < nextChan l \<and> cacheIdle l < nextChan l \<and>
     (\<forall>c\<ge>nextChan l. \<not> closedChans l c)"

definition life_inv :: "life_system \<Rightarrow> bool" where
  "life_inv S \<longleftrightarrow>
     controllerActive (life S) = int (running S controllerGroup) \<and>
     cacheActive (life S) = int (running S cacheGroup) \<and>
     channels_inv (life S) \<and> stopper_inv (life S) \<and>
     stopOnce (life S) = stopped (life S) \<and> controllersCancelled (life S) = stopped (life S)"

lemma lifecycle_begin_True:
  assumes "lifecycle_begin g l = (True, l')"
  shows "\<not> stopped l \<and> l' = (case g of
     controllerGroup \<Rightarrow> (if controllerActive l = 0
        then l\<lparr>controllerIdle := nextChan l, nextChan := Suc (nextChan l), controllerActive := 1\<rparr>
        else l\<lparr>controllerActive := controllerActive l + 1\<rparr>)
   | cacheGroup \<Rightarrow> (if cacheActive l = 0
        then l\<lparr>cacheIdle := nextChan l, nextChan := Suc (nextChan l), cacheActive := 1\<rparr>
        else l\<lparr>cacheActive := cacheActive l + 1\<rparr>))"
  using assms
  by (auto simp: lifecycle_begin_def make_chan_def Let_def split: if_splits lifecycleGroup.splits)

lemma lifecycle_end_Ret:
  assumes "lifecycle_end g l = Ret l'"
  shows "l' = (case g of
     controllerGroup \<Rightarrow> (if controllerActive l = 1
        then l\<lparr>closedChans := (closedChans l)(controllerIdle l := True), controllerActive := 0\<rparr>
        else l\<lparr>controllerActive := controllerActive l - 1\<rparr>)
   | cacheGroup \<Rightarrow> (if cacheActive l = 1
        then l\<lparr>closedChans := (closedChans l)(cacheIdle l := True), cacheActive := 0\<rparr>
        else l\<lparr>cacheActive := cacheActive l - 1\<rparr>))"
  using assms
  by (auto simp: lifecycle_end_def close_chan_def Let_def split: if_splits lifecycleGroup.splits)

lemma stopper_inv_running: "stopper_inv l \<Longrightarrow> \<not> stopped l \<Longrightarrow> stopperAt l = NoStopper"
  by (simp add: stopper_inv_def split: stopper.splits)

lemma channels_inv_begin:
  assumes "channels_inv l" and "lifecycle_begin g l = (True, l')" and "0 \<le> controllerActive l" "0 \<le> cacheActive l"
  shows "channels_inv l'"
proof (cases g)
  case controllerGroup
  with assms lifecycle_begin_True [OF assms(2)] show ?thesis
    by (cases "controllerActive l = 0") (simp_all add: channels_inv_def)
next
  case cacheGroup
  with assms lifecycle_begin_True [OF assms(2)] show ?thesis
    by (cases "cacheActive l = 0") (simp_all add: channels_inv_def)
qed

lemma channels_inv_end:
  assumes "channels_inv l" and "lifecycle_end g l = Ret l'"
    and "case g of controllerGroup \<Rightarrow> 0 < controllerActive l | cacheGroup \<Rightarrow> 0 < cacheActive l"
  shows "channels_inv l'"
proof (cases g)
  case controllerGroup
  with assms lifecycle_end_Ret [OF assms(2)] show ?thesis
    by (cases "controllerActive l = 1") (simp_all add: channels_inv_def)
next
  case cacheGroup
  with assms lifecycle_end_Ret [OF assms(2)] show ?thesis
    by (cases "cacheActive l = 1") (simp_all add: channels_inv_def)
qed

lemma life_inv_begin:
  assumes "life_inv S" and "lifecycle_begin g (life S) = (True, l)"
  shows "life_inv (S\<lparr>life := l, running := (running S)(g := Suc (running S g))\<rparr>)"
proof -
  note l = lifecycle_begin_True [OF assms(2)]
  have chans: "channels_inv l"
    using assms(1) channels_inv_begin [OF _ assms(2)] by (simp add: life_inv_def)
  have "stopperAt (life S) = NoStopper"
    using assms(1) l stopper_inv_running by (simp add: life_inv_def)
  with assms(1) l chans show ?thesis
    by (cases g) (simp_all add: life_inv_def stopper_inv_def)
qed

lemma stopper_inv_end:
  assumes "stopper_inv l" and "lifecycle_end g l = Ret l'"
    and "case g of controllerGroup \<Rightarrow> 0 < controllerActive l | cacheGroup \<Rightarrow> 0 < cacheActive l"
  shows "stopper_inv l'"
  using assms lifecycle_end_Ret [OF assms(2)]
  by (cases g; cases "stopperAt l") (simp_all add: stopper_inv_def)

lemma life_inv_end:
  assumes "life_inv S" and "running S g = Suc n" and "lifecycle_end g (life S) = Ret l"
  shows "life_inv (S\<lparr>life := l, running := (running S)(g := n)\<rparr>)"
proof -
  have active: "case g of controllerGroup \<Rightarrow> 0 < controllerActive (life S) | cacheGroup \<Rightarrow> 0 < cacheActive (life S)"
    using assms(1,2) by (cases g) (simp_all add: life_inv_def)
  from assms(1) channels_inv_end [OF _ assms(3) active] stopper_inv_end [OF _ assms(3) active]
  have "channels_inv l" "stopper_inv l" by (simp_all add: life_inv_def)
  with assms lifecycle_end_Ret [OF assms(3)] show ?thesis
    by (cases g) (simp_all add: life_inv_def)
qed

lemma life_inv_stop: "life_inv S \<Longrightarrow> life_inv (S\<lparr>life := lifecycle_stop (life S)\<rparr>)"
  by (auto simp: life_inv_def lifecycle_stop_def channels_inv_def stopper_inv_def split: stopper.splits)

lemma life_inv_goroutine:
  "life_inv S \<Longrightarrow> stopper_step (life S) = Some l \<Longrightarrow> life_inv (S\<lparr>life := l\<rparr>)"
  by (auto simp: life_inv_def stopper_step_def channels_inv_def stopper_inv_def
      split: stopper.splits if_splits)

interpretation life_protocol: inductive_invariant life_start lstep life_inv
proof unfold_locales
  fix S
  assume "life_start S"
  then show "life_inv S"
    by (auto simp: life_start_def life_inv_def newLifecycle_def channels_inv_def stopper_inv_def)
next
  fix S T
  assume inv: "life_inv S" and "lstep S T"
  from this(2) show "life_inv T"
    by cases (simp_all add: inv life_inv_begin life_inv_end life_inv_stop life_inv_goroutine)
qed

section \<open>Properties\<close>

text \<open>A run that stops while a controller and the cache are active: the witness of the safety properties.\<close>

definition fresh_system :: life_system where
  "fresh_system = \<lparr>life = newLifecycle, running = (\<lambda>_. 0)\<rparr>"

definition busy_system :: life_system where
  "busy_system =
     \<lparr>life = \<lparr>stopped = True, doneClosed = False, controllersCancelled = True, controllerActive = 1,
        controllerIdle = 2, cacheCancelled = False, cacheActive = 0, cacheIdle = 1, stopOnce = True,
        closedChans = (\<lambda>c. c < 2), nextChan = 3, stopperAt = AwaitControllers 2 1\<rparr>,
      running = (\<lambda>_. 0)(controllerGroup := 1)\<rparr>"

lemma fresh_start: "life_start fresh_system"
  by (simp add: life_start_def fresh_system_def)

lemma busy_reachable: "lstep\<^sup>*\<^sup>* fresh_system busy_system"
proof -
  let ?l = "newLifecycle\<lparr>controllerIdle := 2, nextChan := 3, controllerActive := 1\<rparr>"
  have 1: "lstep fresh_system (fresh_system\<lparr>life := ?l, running := (running fresh_system)(controllerGroup := Suc (running fresh_system controllerGroup))\<rparr>)"
    by (rule lstep.run_begin)
      (simp add: fresh_system_def lifecycle_begin_def newLifecycle_def make_chan_def)
  have 2: "lstep (fresh_system\<lparr>life := ?l, running := (running fresh_system)(controllerGroup := Suc (running fresh_system controllerGroup))\<rparr>) busy_system"
    using lstep.stop_call [of "fresh_system\<lparr>life := ?l, running := (running fresh_system)(controllerGroup := Suc (running fresh_system controllerGroup))\<rparr>"]
    by (simp add: fresh_system_def busy_system_def lifecycle_stop_def newLifecycle_def)
  from 1 2 show ?thesis by (meson converse_rtranclp_into_rtranclp rtranclp.rtrancl_refl)
qed

text \<open>
  C19: in every interleaving of runnables, \<open>Stop\<close> calls and the stop goroutine: a runnable that has
  begun can always end without closing a channel twice (\<open>end\<close> never panics); the cache is cancelled
  only after the child was stopped and no controller runs any more; and \<open>done\<close> is closed, so that
  \<open>Stop\<close> returns nil, only when neither a controller nor the cache runs, from which moment no
  runnable can begin again.
\<close>

theorem lifecycle_safe:
  assumes "life_start S" and "lstep\<^sup>*\<^sup>* S T"
  shows "(running T g > 0 \<longrightarrow> (\<exists>l. lifecycle_end g (life T) = Ret l)) \<and>
     (cacheCancelled (life T) \<longrightarrow> stopped (life T) \<and> running T controllerGroup = 0) \<and>
     (doneClosed (life T) \<longrightarrow> running T controllerGroup = 0 \<and> running T cacheGroup = 0 \<and>
        (\<forall>h. lifecycle_begin h (life T) = (False, life T)))"
proof -
  have inv: "life_inv T" by (rule life_protocol.inv_reachable [OF assms])
  have "\<exists>l. lifecycle_end g (life T) = Ret l" if "running T g > 0"
  proof (cases g)
    case controllerGroup
    with that inv have "\<not> closedChans (life T) (controllerIdle (life T))"
      by (simp add: life_inv_def channels_inv_def)
    with controllerGroup show ?thesis by (simp add: lifecycle_end_def close_chan_def Let_def)
  next
    case cacheGroup
    with that inv have "\<not> closedChans (life T) (cacheIdle (life T))"
      by (simp add: life_inv_def channels_inv_def)
    with cacheGroup show ?thesis by (simp add: lifecycle_end_def close_chan_def Let_def)
  qed
  moreover have "cacheCancelled (life T) \<longrightarrow> stopped (life T) \<and> running T controllerGroup = 0"
    using inv by (auto simp: life_inv_def stopper_inv_def split: stopper.splits)
  moreover have "doneClosed (life T) \<longrightarrow> running T controllerGroup = 0 \<and> running T cacheGroup = 0 \<and> stopped (life T)"
    using inv by (auto simp: life_inv_def stopper_inv_def split: stopper.splits)
  ultimately show ?thesis by (simp add: lifecycle_begin_def)
qed

theorem lifecycle_safe_witness:
  "running busy_system controllerGroup > 0 \<and> (\<exists>l. lifecycle_end controllerGroup (life busy_system) = Ret l)"
  using lifecycle_safe [OF fresh_start busy_reachable, of controllerGroup] by (simp add: busy_system_def)

text \<open>The steps that do something: a second call of \<open>Stop\<close> finds its part of the work done.\<close>

definition lprogress :: "life_system \<Rightarrow> life_system \<Rightarrow> bool" where
  "lprogress S T \<longleftrightarrow> lstep S T \<and> S \<noteq> T"

definition shutdown_measure :: "life_system \<Rightarrow> nat" where
  "shutdown_measure S = running S controllerGroup + running S cacheGroup +
     (case stopperAt (life S) of AwaitControllers _ _ \<Rightarrow> 2 | AwaitCache _ \<Rightarrow> 1 | _ \<Rightarrow> 0)"

lemma lifecycle_end_frame:
  "lifecycle_end g l = Ret l' \<Longrightarrow> stopped l' = stopped l \<and> stopperAt l' = stopperAt l"
  using lifecycle_end_Ret [of g l l'] by (simp split: lifecycleGroup.splits if_splits)

lemma shutdown_decreases:
  assumes "life_inv S" and "stopped (life S)" and "lprogress S T"
  shows "life_inv T \<and> stopped (life T) \<and> shutdown_measure T < shutdown_measure S"
proof -
  from assms(3) have step: "lstep S T" and ne: "S \<noteq> T" by (simp_all add: lprogress_def)
  have inv: "life_inv T" using life_protocol.inv_step [OF assms(1) step] .
  from step have "stopped (life T) \<and> shutdown_measure T < shutdown_measure S"
  proof cases
    case (run_begin g l)
    with assms(2) show ?thesis by (simp add: lifecycle_begin_def)
  next
    case (run_end g n l)
    with assms(2) lifecycle_end_frame [OF run_end(3)] show ?thesis
      by (cases g) (simp_all add: shutdown_measure_def)
  next
    case stop_call
    with assms(1,2) ne show ?thesis by (simp add: lifecycle_stop_def life_inv_def)
  next
    case (stop_goroutine l)
    with assms(2) show ?thesis
      by (auto simp: stopper_step_def shutdown_measure_def split: stopper.splits if_splits)
  qed
  with inv show ?thesis by simp
qed

lemma shutdown_bounded:
  assumes "(lprogress ^^ n) S T" and "life_inv S" and "stopped (life S)"
  shows "life_inv T \<and> stopped (life T) \<and> n + shutdown_measure T \<le> shutdown_measure S"
  using assms(1)
proof (induction n arbitrary: T)
  case 0
  with assms show ?case by simp
next
  case (Suc n)
  then obtain R where "(lprogress ^^ n) S R" "lprogress R T" by auto
  with Suc.IH [of R] shutdown_decreases [of R T] show ?case by auto
qed

lemma shutdown_progress:
  assumes "life_inv S" and "stopped (life S)" and "\<not> doneClosed (life S)"
  shows "\<exists>T. lprogress S T"
proof (cases "\<exists>g. running S g > 0")
  case True
  then obtain g n where g: "running S g = Suc n" by (meson gr0_implies_Suc)
  with assms(1) have "\<exists>l. lifecycle_end g (life S) = Ret l"
    by (cases g) (auto simp: lifecycle_end_def close_chan_def life_inv_def channels_inv_def Let_def)
  then obtain l where "lifecycle_end g (life S) = Ret l" by blast
  from lstep.run_end [OF g this] g show ?thesis
    unfolding lprogress_def by (metis fun_upd_same life_system.select_convs(2) life_system.surjective
        life_system.update_convs(1,2) n_not_Suc_n)
next
  case False
  then have "closedChans (life S) (controllerIdle (life S))" "closedChans (life S) (cacheIdle (life S))"
    using assms(1) by (simp_all add: life_inv_def channels_inv_def)
  with assms obtain l where l: "stopper_step (life S) = Some l" "stopperAt l \<noteq> stopperAt (life S)"
    by (fastforce simp: life_inv_def stopper_inv_def stopper_step_def split: stopper.splits)
  from lstep.stop_goroutine [OF l(1)] l(2) show ?thesis
    unfolding lprogress_def by (metis life_system.select_convs(1) life_system.surjective life_system.update_convs(1))
qed

text \<open>
  C20: shutdown terminates. Once \<open>stop\<close> has been called, every interleaving of the runnables that are
  still to end and the stop goroutine makes at most two steps more than there are runnables, whatever
  the order; and a run that can make no further step has closed \<open>done\<close>, so that \<open>Stop\<close> has its nil.
\<close>

theorem shutdown_terminates:
  assumes "life_start S" and "lstep\<^sup>*\<^sup>* S T" and "stopped (life T)"
  shows "(\<forall>n U. (lprogress ^^ n) T U \<longrightarrow> n \<le> running T controllerGroup + running T cacheGroup + 2) \<and>
     (\<forall>n U. (lprogress ^^ n) T U \<and> (\<nexists>V. lprogress U V) \<longrightarrow>
        doneClosed (life U) \<and> stop_result True None (life U) = Some None)"
proof -
  have inv: "life_inv T" by (rule life_protocol.inv_reachable [OF assms(1,2)])
  have "shutdown_measure T \<le> running T controllerGroup + running T cacheGroup + 2"
    by (simp add: shutdown_measure_def split: stopper.splits)
  with shutdown_bounded [OF _ inv assms(3)] shutdown_progress show ?thesis
    by (fastforce simp: stop_result_def)
qed

theorem shutdown_terminates_witness:
  "stopped (life busy_system) \<and> \<not> (\<exists>n U. 3 < n \<and> (lprogress ^^ n) busy_system U) \<and>
   \<not> (\<exists>n U. (lprogress ^^ n) busy_system U \<and> (\<nexists>V. lprogress U V) \<and> \<not> doneClosed (life U))"
proof -
  have busy: "stopped (life busy_system)" "running busy_system controllerGroup + running busy_system cacheGroup + 2 = 3"
    by (simp_all add: busy_system_def)
  show ?thesis
    using shutdown_terminates [OF fresh_start busy_reachable busy(1)] busy unfolding busy(2) by (metis linorder_not_le)
qed

text \<open>
  \<open>run\<close> of a runnable on a stopped child does not call it and reports no error; otherwise an
  error of the runnable is dropped exactly when it is (or wraps) the error of the merged context,
  and reported as it is in every other case.
\<close>

theorem lifecycle_run_errors:
  "(stopped l \<longrightarrow> lifecycle_run grp start l = Ret (None, l)) \<and>
   (\<forall>e l1 l2 err ctxErr. lifecycle_begin grp l = (True, l1) \<and> start l1 = (err, ctxErr, l2) \<and>
      lifecycle_run grp start l = Ret (e, l3) \<longrightarrow>
      e = (if (\<exists>ce. ctxErr = Some ce \<and> errors_Is err ce) then None else err))"
  by (auto simp: lifecycle_run_def lifecycle_begin_def run_error_def bind_outcome_Ret_iff errors_Is_def
      split: option.splits)

theorem lifecycle_run_errors_witness:
  "lifecycle_run cacheGroup (\<lambda>l. (Some (ErrorString ''x''), None, l)) (lifecycle_stop newLifecycle) =
     Ret (None, lifecycle_stop newLifecycle)"
  using lifecycle_run_errors [of "lifecycle_stop newLifecycle" cacheGroup "\<lambda>l. (Some (ErrorString ''x''), None, l)"]
  by (simp add: lifecycle_stop_def newLifecycle_def)

end
