(* ===== verification/Hierarchical.thy ===== *)
theory Hierarchical
  imports Lifecycle K8s_Objects "HOL-Library.AList"
begin

text \<open>
  Child clusters (\<^verbatim>\<open>src/pkg/hierarchical\<close>): the cache that routes each GVK to the local cache or to the
  parent's (\<^verbatim>\<open>cache.go\<close>), the options (\<^verbatim>\<open>cluster_opts.go\<close>) and the cluster itself (\<^verbatim>\<open>cluster.go\<close>), whose
  lifecycle is the theory \<open>Lifecycle\<close>. controller-runtime's caches and cluster constructor are
  parameters. A list object is an object whose kind ends in \<open>List\<close>. A Go map whose iteration matters
  is an association list; what is proved of a success does not depend on its order.
\<close>

section \<open>The routing cache\<close>

text \<open>A \<open>cache.Cache\<close>: its methods, over the world; \<open>'i\<close> is the type of informers.\<close>

record ('c, 'w, 'i) kcache =
  kGet :: "NamespacedName \<Rightarrow> 'c object \<Rightarrow> 'w \<Rightarrow> error option \<times> 'c object \<times> 'w"
  kList :: "'c object \<Rightarrow> 'w \<Rightarrow> error option \<times> 'c object \<times> 'w"
  kGetInformer :: "'c object \<Rightarrow> 'w \<Rightarrow> (error + 'i) \<times> 'w"
  kGetInformerForKind :: "gvk \<Rightarrow> 'w \<Rightarrow> (error + 'i) \<times> 'w"
  kRemoveInformer :: "'c object \<Rightarrow> 'w \<Rightarrow> error option \<times> 'w"
  kStart :: "'w \<Rightarrow> error option \<times> 'w"
  kWaitForCacheSync :: "'w \<Rightarrow> bool \<times> 'w"
  kIndexField :: "'c object \<Rightarrow> string \<Rightarrow> ('c object \<Rightarrow> string list) \<Rightarrow> 'w \<Rightarrow> error option \<times> 'w"

record ('c, 'w, 'i) hierarchicalCache =
  hcScheme :: "'c scheme"
  hcParentScheme :: "'c scheme"
  hcLocal :: "('c, 'w, 'i) kcache"
  hcParent :: "('c, 'w, 'i) kcache"
  hcLocalGVKs :: "gvk list"

text \<open>Which of the two caches is selected; they are two different values.\<close>

datatype selection = LocalCache | ParentCache

definition selected_cache :: "('c, 'w, 'i) hierarchicalCache \<Rightarrow> selection \<Rightarrow> ('c, 'w, 'i) kcache" where
  "selected_cache c sel = (case sel of LocalCache \<Rightarrow> hcLocal c | ParentCache \<Rightarrow> hcParent c)"

fun type_verb :: "go_type \<Rightarrow> string" where
  "type_verb UnstructuredType = ''*unstructured.Unstructured''"
| "type_verb PartialMetadataType = ''*v1.PartialObjectMetadata''"
| "type_verb (TypedGo t) = ''*'' @ t"

definition ErrSharedInformerRemoval :: error where
  "ErrSharedInformerRemoval = ErrorString ''cannot remove an informer owned by the parent cache''"

definition normalizeGVK :: "gvk \<Rightarrow> gvk" where
  "normalizeGVK g = g\<lparr>Kind := TrimSuffix (Kind g) ''List''\<rparr>"

definition cacheForGVK :: "('c, 'w, 'i) hierarchicalCache \<Rightarrow> gvk \<Rightarrow> selection" where
  "cacheForGVK c g = (if List.member (hcLocalGVKs c) (normalizeGVK g) then LocalCache else ParentCache)"

definition gvkForObject :: "('c, 'w, 'i) hierarchicalCache \<Rightarrow> 'c object \<Rightarrow> error + gvk" where
  "gvkForObject c obj =
     (case GVKForObject (hcScheme c) obj of
        Inr g \<Rightarrow> Inr g
      | Inl _ \<Rightarrow>
          (case GVKForObject (hcParentScheme c) obj of
             Inr g \<Rightarrow> Inr g
           | Inl err \<Rightarrow> Inl (WrapError (''resolve cache GVK for '' @ type_verb (goType obj)) err)))"

definition cacheForObject :: "('c, 'w, 'i) hierarchicalCache \<Rightarrow> 'c object \<Rightarrow> error + (selection \<times> gvk)" where
  "cacheForObject c obj =
     (case gvkForObject c obj of
        Inl err \<Rightarrow> Inl err
      | Inr g \<Rightarrow> (let g = normalizeGVK g in Inr (cacheForGVK c g, g)))"

definition hc_Get ::
    "('c, 'w, 'i) hierarchicalCache \<Rightarrow> NamespacedName \<Rightarrow> 'c object \<Rightarrow> 'w \<Rightarrow> error option \<times> 'c object \<times> 'w" where
  "hc_Get c k obj w =
     (case cacheForObject c obj of
        Inl err \<Rightarrow> (Some err, obj, w)
      | Inr (sel, _) \<Rightarrow>
          (case kGet (selected_cache c sel) k obj w of
             (Some err, obj, w) \<Rightarrow>
               (Some (WrapError (''get '' @ type_verb (goType obj) @ '' '' @ nnNamespace k @ ''/'' @ nnName k) err), obj, w)
           | (None, obj, w) \<Rightarrow> (None, obj, w)))"

definition hc_List ::
    "('c, 'w, 'i) hierarchicalCache \<Rightarrow> 'c object \<Rightarrow> 'w \<Rightarrow> error option \<times> 'c object \<times> 'w" where
  "hc_List c lst w =
     (case cacheForObject c lst of
        Inl err \<Rightarrow> (Some err, lst, w)
      | Inr (sel, _) \<Rightarrow>
          (case kList (selected_cache c sel) lst w of
             (Some err, lst, w) \<Rightarrow> (Some (WrapError (''list '' @ type_verb (goType lst)) err), lst, w)
           | (None, lst, w) \<Rightarrow> (None, lst, w)))"

definition hc_GetInformer ::
    "('c, 'w, 'i) hierarchicalCache \<Rightarrow> 'c object \<Rightarrow> 'w \<Rightarrow> (error + 'i) \<times> 'w" where
  "hc_GetInformer c obj w =
     (case cacheForObject c obj of
        Inl err \<Rightarrow> (Inl err, w)
      | Inr (sel, _) \<Rightarrow>
          (case kGetInformer (selected_cache c sel) obj w of
             (Inl err, w) \<Rightarrow> (Inl (WrapError (''get informer for '' @ type_verb (goType obj)) err), w)
           | (Inr informer, w) \<Rightarrow> (Inr informer, w)))"

definition hc_GetInformerForKind ::
    "schema_api \<Rightarrow> ('c, 'w, 'i) hierarchicalCache \<Rightarrow> gvk \<Rightarrow> 'w \<Rightarrow> (error + 'i) \<times> 'w" where
  "hc_GetInformerForKind S c g w =
     (case kGetInformerForKind (selected_cache c (cacheForGVK c g)) g w of
        (Inl err, w) \<Rightarrow> (Inl (WrapError (''get informer for GVK '' @ GVKString S g) err), w)
      | (Inr informer, w) \<Rightarrow> (Inr informer, w))"

text \<open>\<open>fmt.Errorf("%w: %s", ErrSharedInformerRemoval, gvk)\<close> wraps the sentinel, with the GVK in its text.\<close>

definition shared_removal_error :: "schema_api \<Rightarrow> gvk \<Rightarrow> error" where
  "shared_removal_error S g = SuffixError ErrSharedInformerRemoval (GVKString S g)"

definition hc_RemoveInformer ::
    "schema_api \<Rightarrow> ('c, 'w, 'i) hierarchicalCache \<Rightarrow> 'c object \<Rightarrow> 'w \<Rightarrow> error option \<times> 'w" where
  "hc_RemoveInformer S c obj w =
     (case cacheForObject c obj of
        Inl err \<Rightarrow> (Some err, w)
      | Inr (sel, g) \<Rightarrow>
          if sel = ParentCache then (Some (shared_removal_error S g), w)
          else (case kRemoveInformer (selected_cache c sel) obj w of
                  (Some err, w) \<Rightarrow> (Some (WrapError (''remove local informer for '' @ GVKString S g) err), w)
                | (None, w) \<Rightarrow> (None, w)))"

definition hc_Start :: "('c, 'w, 'i) hierarchicalCache \<Rightarrow> 'w \<Rightarrow> error option \<times> 'w" where
  "hc_Start c w =
     (case kStart (hcLocal c) w of
        (Some err, w) \<Rightarrow> (Some (WrapError ''start local cache'' err), w) | (None, w) \<Rightarrow> (None, w))"

definition hc_WaitForCacheSync :: "('c, 'w, 'i) hierarchicalCache \<Rightarrow> 'w \<Rightarrow> bool \<times> 'w" where
  "hc_WaitForCacheSync c w = kWaitForCacheSync (hcLocal c) w"

definition hc_IndexField ::
    "('c, 'w, 'i) hierarchicalCache \<Rightarrow> 'c object \<Rightarrow> string \<Rightarrow> ('c object \<Rightarrow> string list) \<Rightarrow> 'w \<Rightarrow> error option \<times> 'w" where
  "hc_IndexField c obj field extractValue w =
     (case cacheForObject c obj of
        Inl err \<Rightarrow> (Some err, w)
      | Inr (sel, _) \<Rightarrow>
          (case kIndexField (selected_cache c sel) obj field extractValue w of
             (Some err, w) \<Rightarrow>
               (Some (WrapError (''index field '' @ quoted field @ '' for '' @ type_verb (goType obj)) err), w)
           | (None, w) \<Rightarrow> (None, w)))"

section \<open>Which GVKs are local\<close>

text \<open>
  The keys of \<open>ByObject\<close> are pointers: a key is an address and the object behind it; \<open>None\<close> is a nil
  object.
\<close>

type_synonym ('c, 'b) by_object = "((nat \<times> 'c object option) \<times> 'b) list"

fun derive_types ::
    "schema_api \<Rightarrow> (gvk \<times> string) list \<Rightarrow> (gvk \<times> string) list \<Rightarrow> gvk list \<Rightarrow> error + gvk list" where
  "derive_types S parentTypes [] local = Inr local"
| "derive_types S parentTypes ((g, childType) # rest) local =
     (case map_of parentTypes g of
        None \<Rightarrow> derive_types S parentTypes rest (normalizeGVK g # local)
      | Some parentType \<Rightarrow>
          if parentType = childType then derive_types S parentTypes rest local
          else Inl (ErrorString (''GVK '' @ GVKString S g @ '' maps to child type '' @ childType @
                 '' and parent type '' @ parentType)))"

definition isNilObject :: "'c object option \<Rightarrow> bool" where
  "isNilObject obj \<longleftrightarrow> obj = None"

fun derive_objects :: "'c scheme \<Rightarrow> ('c, 'b) by_object \<Rightarrow> gvk list \<Rightarrow> error + gvk list" where
  "derive_objects childScheme [] local = Inr local"
| "derive_objects childScheme (((_, obj), _) # rest) local =
     (if isNilObject obj then Inl (ErrorString ''ByObject contains a nil object'')
      else (case GVKForObject childScheme (the obj) of
              Inl err \<Rightarrow>
                Inl (WrapError (''resolve ByObject GVK for '' @ type_verb (goType (the obj))) err)
            | Inr g \<Rightarrow> derive_objects childScheme rest (normalizeGVK g # local)))"

definition deriveLocalGVKs ::
    "schema_api \<Rightarrow> 'c scheme \<Rightarrow> 'c scheme \<Rightarrow> ('c, 'b) by_object \<Rightarrow> error + gvk list" where
  "deriveLocalGVKs S childScheme parentScheme byObject =
     (case derive_types S (AllKnownTypes parentScheme) (AllKnownTypes childScheme) [] of
        Inl err \<Rightarrow> Inl err
      | Inr local \<Rightarrow> derive_objects childScheme byObject local)"

section \<open>Options\<close>

text \<open>A logger without a sink is \<open>None\<close>; a nil scheme is \<open>None\<close>.\<close>

record ('c, 'b, 'g) ClusterOptions =
  clName :: string
  clScheme :: "'c scheme option"
  clLogger :: "'g option"
  clByObject :: "('c, 'b) by_object"
  clNamespaces :: "string list"

type_synonym ('c, 'b, 'g) ClusterOption = "('c, 'b, 'g) ClusterOptions \<Rightarrow> ('c, 'b, 'g) ClusterOptions"

definition ClusterOptions_Validate :: "('c, 'b, 'g) ClusterOptions option \<Rightarrow> error option" where
  "ClusterOptions_Validate opt =
     (case opt of
        None \<Rightarrow> Some (ErrorString ''child cluster options are required'')
      | Some opts \<Rightarrow>
          if TrimSpace (clName opts) = [] then Some (ErrorString ''child cluster name is required'')
          else if clScheme opts = None then Some (ErrorString ''child cluster scheme is required'')
          else if List.member (clNamespaces opts) [] then Some (ErrorString ''child cache namespace must not be empty'')
          else None)"

definition cloneByObject :: "'b \<Rightarrow> 'b" where
  "cloneByObject b = b"

definition ClusterOptions_ApplyTo :: "('c, 'b, 'g) ClusterOptions \<Rightarrow> ('c, 'b, 'g) ClusterOption" where
  [opt_defs]: "ClusterOptions_ApplyTo opt target =
     (let target = (if clName opt \<noteq> [] then target\<lparr>clName := clName opt\<rparr> else target);
          target = (if clScheme opt \<noteq> None then target\<lparr>clScheme := clScheme opt\<rparr> else target);
          target = (if clLogger opt \<noteq> None then target\<lparr>clLogger := clLogger opt\<rparr> else target);
          target = (if length (clByObject opt) > 0
             then target\<lparr>clByObject := fold (\<lambda>(obj, byObject) m. AList.update obj (cloneByObject byObject) m)
                    (clByObject opt) (clByObject target)\<rparr>
             else target)
      in target\<lparr>clNamespaces := clNamespaces target @ clNamespaces opt\<rparr>)"

definition ClusterOptions_ApplyOptions ::
    "('c, 'b, 'g) ClusterOptions \<Rightarrow> ('c, 'b, 'g) ClusterOption list \<Rightarrow> ('c, 'b, 'g) ClusterOptions" where
  "ClusterOptions_ApplyOptions t opts = apply_options opts t"

definition cluster_WithName :: "string \<Rightarrow> ('c, 'b, 'g) ClusterOption" where
  [opt_defs]: "cluster_WithName name opts = opts\<lparr>clName := name\<rparr>"

definition WithScheme :: "'c scheme option \<Rightarrow> ('c, 'b, 'g) ClusterOption" where
  [opt_defs]: "WithScheme scheme opts = opts\<lparr>clScheme := scheme\<rparr>"

definition WithLogger :: "'g option \<Rightarrow> ('c, 'b, 'g) ClusterOption" where
  [opt_defs]: "WithLogger logger opts = opts\<lparr>clLogger := logger\<rparr>"

definition WithByObject :: "nat \<times> 'c object option \<Rightarrow> 'b \<Rightarrow> ('c, 'b, 'g) ClusterOption" where
  [opt_defs]: "WithByObject obj byObject opts =
     opts\<lparr>clByObject := AList.update obj (cloneByObject byObject) (clByObject opts)\<rparr>"

definition WithNamespaces :: "string list \<Rightarrow> ('c, 'b, 'g) ClusterOption" where
  [opt_defs]: "WithNamespaces namespaces opts = opts\<lparr>clNamespaces := clNamespaces opts @ namespaces\<rparr>"

section \<open>The cluster\<close>

record ('c, 'w, 'i, 'g) parent_manager =
  pmScheme :: "'c scheme option"
  pmHasConfig :: bool
  pmLogger :: "'g option"
  pmCache :: "('c, 'w, 'i) kcache"

definition cloneByObjectMap :: "('c, 'b) by_object \<Rightarrow> ('c, 'b) by_object" where
  "cloneByObjectMap m = map (\<lambda>(obj, byObject). (obj, cloneByObject byObject)) m"

definition namespaceConfigs :: "string list \<Rightarrow> (string, unit) gomap" where
  "namespaceConfigs namespaces =
     (if length namespaces = 0 then None
      else Some (fold (\<lambda>namespace configs. configs(namespace \<mapsto> ())) namespaces Map.empty))"

record ('c, 'b) cache_options =
  ReaderFailOnMissingInformer :: bool
  coByObject :: "('c, 'b) by_object"
  DefaultNamespaces :: "(string, unit) gomap"

text \<open>controller-runtime: \<open>cache.New\<close>, a logger with the name and values of the child, and \<open>cluster.New\<close> given the outcome of its \<open>NewCache\<close> callback.\<close>

record ('c, 'w, 'i, 'b, 'g, 'core) cluster_api =
  CacheNew :: "('c, 'b) cache_options \<Rightarrow> error + ('c, 'w, 'i) kcache"
  ChildLogger :: "string \<Rightarrow> 'g option \<Rightarrow> 'g option"
  ClusterNew :: "'c scheme \<Rightarrow> 'g option \<Rightarrow> error + ('c, 'w, 'i) hierarchicalCache \<Rightarrow> error + 'core"

definition newCoreCluster ::
    "('c, 'w, 'i, 'b, 'g, 'core) cluster_api \<Rightarrow> ('c, 'w, 'i, 'g) parent_manager \<Rightarrow> ('c, 'b, 'g) ClusterOptions \<Rightarrow>
     'g option \<Rightarrow> gvk list \<Rightarrow> error + 'core" where
  "newCoreCluster A parent options logger localGVKs =
     (let cacheOptions = \<lparr>ReaderFailOnMissingInformer = True, coByObject = cloneByObjectMap (clByObject options),
                          DefaultNamespaces = namespaceConfigs (clNamespaces options)\<rparr>;
          newCache = (case CacheNew A cacheOptions of
             Inl err \<Rightarrow> Inl (WrapError ''create local cache'' err)
           | Inr local \<Rightarrow> Inr \<lparr>hcScheme = the (clScheme options), hcParentScheme = the (pmScheme parent),
                               hcLocal = local, hcParent = pmCache parent, hcLocalGVKs = localGVKs\<rparr>)
      in case ClusterNew A (the (clScheme options)) logger newCache of
           Inl err \<Rightarrow> Inl (WrapError ''initialize controller-runtime cluster'' err)
         | Inr core \<Rightarrow> Inr core)"

record ('c, 'w, 'i, 'g, 'core) hierarchicalCluster =
  hclCore :: 'core
  hclParent :: "('c, 'w, 'i, 'g) parent_manager"
  hclLifecycle :: lifecycle
  hclLogger :: "'g option"

definition NewCluster ::
    "schema_api \<Rightarrow> ('c, 'w, 'i, 'b, 'g, 'core) cluster_api \<Rightarrow> ('c, 'w, 'i, 'g) parent_manager option \<Rightarrow>
     ('c, 'b, 'g) ClusterOption list \<Rightarrow> error + ('c, 'w, 'i, 'g, 'core) hierarchicalCluster" where
  "NewCluster S A parent opts =
     (case parent of
        None \<Rightarrow> Inl (ErrorString ''parent manager is required'')
      | Some parent \<Rightarrow>
          (let options = ClusterOptions_ApplyOptions
                 \<lparr>clName = [], clScheme = pmScheme parent, clLogger = pmLogger parent, clByObject = [],
                  clNamespaces = []\<rparr> opts
           in if pmScheme parent = None then Inl (ErrorString ''parent manager scheme is required'')
              else if \<not> pmHasConfig parent then Inl (ErrorString ''parent manager REST config is required'')
              else (case ClusterOptions_Validate (Some options) of
                Some err \<Rightarrow> Inl err
              | None \<Rightarrow>
                  (let options = options\<lparr>clByObject := cloneByObjectMap (clByObject options)\<rparr>
                   in case deriveLocalGVKs S (the (clScheme options)) (the (pmScheme parent)) (clByObject options) of
                        Inl err \<Rightarrow> Inl (WrapError ''derive local cache routing'' err)
                      | Inr localGVKs \<Rightarrow>
                          (let logger = ChildLogger A (clName options)
                                (case clLogger options of None \<Rightarrow> pmLogger parent | Some l \<Rightarrow> Some l)
                           in case newCoreCluster A parent options logger localGVKs of
                                Inl err \<Rightarrow> Inl (WrapError (''create child cluster '' @ quoted (clName options)) err)
                              | Inr core \<Rightarrow>
                                  Inr \<lparr>hclCore = core, hclParent = parent, hclLifecycle = newLifecycle,
                                       hclLogger = logger\<rparr>)))))"

definition ErrClusterStopped :: error where
  "ErrClusterStopped = ErrorString ''hierarchical cluster is stopped''"

text \<open>\<open>add\<close> is the parent's \<open>Add\<close>.\<close>

definition registerRunnable ::
    "(managed_runnable \<Rightarrow> 'w \<Rightarrow> error option \<times> 'w) \<Rightarrow> ('c, 'w, 'i, 'g, 'core) hierarchicalCluster \<Rightarrow> runnable \<Rightarrow>
     'w \<Rightarrow> error option \<times> 'w" where
  "registerRunnable add c r w =
     (if isStopped (hclLifecycle c) then (Some ErrClusterStopped, w)
      else (case add (lifecycleRunnable r) w of
              (Some err, w) \<Rightarrow> (Some (WrapError ''register child runnable'' err), w) | (None, w) \<Rightarrow> (None, w)))"

definition hierarchicalCluster_Start ::
    "(lifecycle \<Rightarrow> error option \<times> error option \<times> lifecycle) \<Rightarrow> ('c, 'w, 'i, 'g, 'core) hierarchicalCluster \<Rightarrow>
     (error option \<times> lifecycle) outcome" where
  "hierarchicalCluster_Start coreStart c = lifecycle_run cacheGroup coreStart (hclLifecycle c)"

definition hierarchicalCluster_Stop ::
    "('c, 'w, 'i, 'g, 'core) hierarchicalCluster \<Rightarrow> ('c, 'w, 'i, 'g, 'core) hierarchicalCluster" where
  "hierarchicalCluster_Stop c = c\<lparr>hclLifecycle := lifecycle_stop (hclLifecycle c)\<rparr>"

section \<open>Lemmas\<close>

lemma normalizeGVK_List: "normalizeGVK (g\<lparr>Kind := Kind g @ ''List''\<rparr>) = g"
  by (simp add: normalizeGVK_def)

lemma normalizeGVK_other: "\<not> suffix ''List'' (Kind g) \<Longrightarrow> normalizeGVK g = g"
  by (simp add: normalizeGVK_def TrimSuffix_def)

lemma cacheForGVK_Local: "cacheForGVK c g = LocalCache \<longleftrightarrow> normalizeGVK g \<in> set (hcLocalGVKs c)"
  by (simp add: cacheForGVK_def)

lemma derive_types_Inr:
  "derive_types S parentTypes types local = Inr local' \<Longrightarrow>
     set local' = set local \<union> normalizeGVK ` {h. h \<in> fst ` set types \<and> map_of parentTypes h = None} \<and>
     (\<forall>(h, t)\<in>set types. map_of parentTypes h = None \<or> map_of parentTypes h = Some t)"
proof (induction S parentTypes types local rule: derive_types.induct)
  case (2 S parentTypes g childType rest local)
  show ?case
  proof (cases "map_of parentTypes g")
    case None
    then have "{h. h \<in> fst ` set ((g, childType) # rest) \<and> map_of parentTypes h = None} =
        insert g {h. h \<in> fst ` set rest \<and> map_of parentTypes h = None}"
      by auto
    with None 2 show ?thesis by simp
  next
    case (Some pt)
    then have "{h. h \<in> fst ` set ((g, childType) # rest) \<and> map_of parentTypes h = None} =
        {h. h \<in> fst ` set rest \<and> map_of parentTypes h = None}"
      by auto
    with Some 2 show ?thesis by (simp split: if_splits)
  qed
qed simp

lemma derive_objects_Inr:
  "derive_objects sch byObject local = Inr local' \<Longrightarrow>
     set local' = set local \<union> normalizeGVK ` {h. \<exists>p ob b. ((p, Some ob), b) \<in> set byObject \<and> GVKForObject sch ob = Inr h} \<and>
     (\<forall>((p, obj), b)\<in>set byObject. obj \<noteq> None)"
proof (induction sch byObject local rule: derive_objects.induct)
  case (2 sch p obj b rest local)
  from "2.prems" obtain ob g where ob: "obj = Some ob" "GVKForObject sch ob = Inr g"
    and rest: "derive_objects sch rest (normalizeGVK g # local) = Inr local'"
    by (auto simp: isNilObject_def split: if_splits sum.splits)
  have "set local' = set (normalizeGVK g # local) \<union>
      normalizeGVK ` {h. \<exists>p ob b. ((p, Some ob), b) \<in> set rest \<and> GVKForObject sch ob = Inr h} \<and>
     (\<forall>((p, obj), b)\<in>set rest. obj \<noteq> None)"
    using "2.IH" [of g] rest ob by (simp add: isNilObject_def)
  moreover have "{h. \<exists>q ob' b'. ((q, Some ob'), b') \<in> set (((p, obj), b) # rest) \<and> GVKForObject sch ob' = Inr h} =
      insert g {h. \<exists>q ob' b'. ((q, Some ob'), b') \<in> set rest \<and> GVKForObject sch ob' = Inr h}"
    using ob by auto
  ultimately show ?case using ob by (simp add: case_prod_beta)
qed simp

text \<open>
  The GVKs that belong to the child: registered in its scheme and not in the parent's, or named by
  \<open>ByObject\<close>.
\<close>

definition child_gvk :: "'c scheme \<Rightarrow> 'c scheme \<Rightarrow> ('c, 'b) by_object \<Rightarrow> gvk \<Rightarrow> bool" where
  "child_gvk child parent byObject h \<longleftrightarrow>
     (h \<in> fst ` set (AllKnownTypes child) \<and> map_of (AllKnownTypes parent) h = None) \<or>
     (\<exists>p ob b. ((p, Some ob), b) \<in> set byObject \<and> GVKForObject child ob = Inr h)"

lemma deriveLocalGVKs_Inr:
  assumes "deriveLocalGVKs S child parent byObject = Inr local"
  shows "set local = normalizeGVK ` {h. child_gvk child parent byObject h} \<and>
     (\<forall>(h, t)\<in>set (AllKnownTypes child). map_of (AllKnownTypes parent) h = None \<or> map_of (AllKnownTypes parent) h = Some t)"
proof -
  from assms obtain l1 where
      t: "derive_types S (AllKnownTypes parent) (AllKnownTypes child) [] = Inr l1"
      and ob: "derive_objects child byObject l1 = Inr local"
    by (auto simp: deriveLocalGVKs_def split: sum.splits)
  have "{h. child_gvk child parent byObject h} =
      {h. h \<in> fst ` set (AllKnownTypes child) \<and> map_of (AllKnownTypes parent) h = None} \<union>
      {h. \<exists>p ob b. ((p, Some ob), b) \<in> set byObject \<and> GVKForObject child ob = Inr h}"
    by (auto simp: child_gvk_def)
  with derive_types_Inr [OF t] derive_objects_Inr [OF ob] show ?thesis
    by (simp add: image_Un)
qed

lemma cloneByObjectMap_id: "cloneByObjectMap m = m"
  by (simp add: cloneByObjectMap_def cloneByObject_def case_prod_beta map_idI)

text \<open>Kinds that end in \<open>List\<close> are taken for lists.\<close>

lemma normalizeGVK_conflates:
  "cacheForGVK c (g\<lparr>Kind := ''AllowList''\<rparr>) = cacheForGVK c (g\<lparr>Kind := ''Allow''\<rparr>)"
  by (simp add: cacheForGVK_def normalizeGVK_def TrimSuffix_def suffix_def)

section \<open>A concrete child\<close>

definition demo_kcache :: "(unit, nat, unit) kcache" where
  "demo_kcache =
     \<lparr>kGet = (\<lambda>k ob w. (None, ob, Suc w)), kList = (\<lambda>ob w. (None, ob, Suc w)), kGetInformer = (\<lambda>ob w. (Inr (), Suc w)),
      kGetInformerForKind = (\<lambda>g w. (Inr (), Suc w)), kRemoveInformer = (\<lambda>ob w. (None, Suc w)),
      kStart = (\<lambda>w. (None, Suc w)), kWaitForCacheSync = (\<lambda>w. (True, Suc w)), kIndexField = (\<lambda>ob f x w. (None, Suc w))\<rparr>"

definition pod_gvk :: gvk where "pod_gvk = \<lparr>Group = [], Version = ''v1'', Kind = ''Pod''\<rparr>"

definition widget_gvk :: gvk where "widget_gvk = \<lparr>Group = ''acme.io'', Version = ''v1'', Kind = ''Widget''\<rparr>"

definition demo_types :: "(gvk \<times> string) list \<Rightarrow> unit scheme" where
  "demo_types ts = \<lparr>GVKForObject = (\<lambda>ob. if Kind (GroupVersionKind ob) = [] then Inl (ErrorString ''no kind'') else Inr (GroupVersionKind ob)),
     SchemeNew = (\<lambda>g. Inl (ErrorString ''none'')), AllKnownTypes = ts\<rparr>"

definition demo_child_scheme :: "unit scheme" where
  "demo_child_scheme = demo_types [(pod_gvk, ''v1.Pod''), (widget_gvk, ''acme.Widget'')]"

definition demo_parent_scheme :: "unit scheme" where
  "demo_parent_scheme = demo_types [(pod_gvk, ''v1.Pod'')]"

definition demo_hcache :: "(unit, nat, unit) hierarchicalCache" where
  "demo_hcache = \<lparr>hcScheme = demo_child_scheme, hcParentScheme = demo_parent_scheme, hcLocal = demo_kcache,
     hcParent = demo_kcache, hcLocalGVKs = [widget_gvk]\<rparr>"

lemma demo_normalize [simp]: "normalizeGVK widget_gvk = widget_gvk" "normalizeGVK pod_gvk = pod_gvk"
  by (simp_all add: normalizeGVK_def TrimSuffix_def suffix_def widget_gvk_def pod_gvk_def Cons_eq_append_conv)

lemma demo_derive:
  "deriveLocalGVKs demo_schema_api demo_child_scheme demo_parent_scheme ([] :: (unit, unit) by_object) = Inr [widget_gvk]"
  by (simp add: deriveLocalGVKs_def demo_child_scheme_def demo_parent_scheme_def demo_types_def)
    (simp add: widget_gvk_def pod_gvk_def)

section \<open>Properties\<close>

text \<open>
  C21: routing. When the local GVKs are those \<open>deriveLocalGVKs\<close> returned, a GVK is served by the local
  cache exactly when, lists taken as their element kind, it is a kind the child registers and the
  parent does not, or one named by \<open>ByObject\<close>; every other GVK is served by the parent's cache. That
  it returned at all means that no GVK stands for different Go types in the two schemes.
\<close>

theorem routing_exact:
  assumes "deriveLocalGVKs S (hcScheme c) (hcParentScheme c) byObject = Inr (hcLocalGVKs c)"
  shows "(cacheForGVK c g = LocalCache \<longleftrightarrow>
       (\<exists>h. normalizeGVK h = normalizeGVK g \<and> child_gvk (hcScheme c) (hcParentScheme c) byObject h)) \<and>
     (\<forall>(h, t)\<in>set (AllKnownTypes (hcScheme c)).
        map_of (AllKnownTypes (hcParentScheme c)) h = None \<or> map_of (AllKnownTypes (hcParentScheme c)) h = Some t)"
  using deriveLocalGVKs_Inr [OF assms] by (auto simp: cacheForGVK_Local image_iff)

theorem routing_exact_witness:
  "cacheForGVK demo_hcache widget_gvk = LocalCache \<and> cacheForGVK demo_hcache pod_gvk = ParentCache \<and>
   (\<exists>h. normalizeGVK h = normalizeGVK widget_gvk \<and>
      child_gvk demo_child_scheme demo_parent_scheme ([] :: (unit, unit) by_object) h)"
proof -
  have d: "deriveLocalGVKs demo_schema_api (hcScheme demo_hcache) (hcParentScheme demo_hcache)
      ([] :: (unit, unit) by_object) = Inr (hcLocalGVKs demo_hcache)"
    using demo_derive by (simp add: demo_hcache_def)
  have caches: "cacheForGVK demo_hcache widget_gvk = LocalCache" "cacheForGVK demo_hcache pod_gvk = ParentCache"
    by (simp_all add: cacheForGVK_def demo_hcache_def) (simp add: widget_gvk_def pod_gvk_def)
  from routing_exact [OF d, of widget_gvk] caches show ?thesis
    by (simp add: demo_hcache_def)
qed

text \<open>
  A kind and its list kind are read from the same cache: whatever the routing, an object and a
  list object that resolve to a kind and to that kind with the suffix \<open>List\<close> select the same cache,
  and so does a request for the informer of either GVK.
\<close>

theorem kind_and_list_same_cache:
  assumes "gvkForObject c ob = Inr g" and "gvkForObject c lst = Inr (g\<lparr>Kind := Kind g @ ''List''\<rparr>)"
    and "\<not> suffix ''List'' (Kind g)"
  shows "cacheForObject c ob = cacheForObject c lst \<and>
     cacheForObject c ob = Inr (cacheForGVK c g, g) \<and>
     cacheForGVK c (g\<lparr>Kind := Kind g @ ''List''\<rparr>) = cacheForGVK c g"
  using assms by (simp add: cacheForObject_def normalizeGVK_List normalizeGVK_other cacheForGVK_def)

theorem kind_and_list_same_cache_witness:
  "cacheForObject demo_hcache (empty_object UnstructuredType widget_gvk ()) =
   cacheForObject demo_hcache (empty_object UnstructuredType (widget_gvk\<lparr>Kind := Kind widget_gvk @ ''List''\<rparr>) ())"
  using kind_and_list_same_cache [of demo_hcache "empty_object UnstructuredType widget_gvk ()" widget_gvk
      "empty_object UnstructuredType (widget_gvk\<lparr>Kind := Kind widget_gvk @ ''List''\<rparr>) ()"]
  by (simp add: gvkForObject_def demo_hcache_def demo_child_scheme_def demo_types_def empty_object_def
      widget_gvk_def suffix_def Cons_eq_append_conv)

text \<open>
  C22: the child never removes an informer of the parent: \<open>RemoveInformer\<close> of an object the parent's
  cache serves returns an error that wraps \<open>ErrSharedInformerRemoval\<close> and touches neither cache; of
  an object the local cache serves, it calls the local cache and no other.
\<close>

theorem RemoveInformer_spares_parent:
  assumes "gvkForObject c obj = Inr g"
  shows "(cacheForGVK c (normalizeGVK g) = ParentCache \<longrightarrow>
       (\<exists>e. hc_RemoveInformer S c obj w = (Some e, w) \<and> errors_Is (Some e) ErrSharedInformerRemoval)) \<and>
     (cacheForGVK c (normalizeGVK g) = LocalCache \<longrightarrow>
       snd (hc_RemoveInformer S c obj w) = snd (kRemoveInformer (hcLocal c) obj w) \<and>
       (fst (hc_RemoveInformer S c obj w) = None \<longleftrightarrow> fst (kRemoveInformer (hcLocal c) obj w) = None))"
  using assms
  by (auto simp: hc_RemoveInformer_def cacheForObject_def shared_removal_error_def selected_cache_def
      split: prod.splits option.splits)

theorem RemoveInformer_spares_parent_witness:
  "\<exists>e. hc_RemoveInformer demo_schema_api demo_hcache (empty_object UnstructuredType pod_gvk ()) 0 = (Some e, 0) \<and>
     errors_Is (Some e) ErrSharedInformerRemoval"
proof -
  have g: "gvkForObject demo_hcache (empty_object UnstructuredType pod_gvk ()) = Inr pod_gvk"
    by (simp add: gvkForObject_def demo_hcache_def demo_child_scheme_def demo_types_def empty_object_def pod_gvk_def)
  have "cacheForGVK demo_hcache (normalizeGVK pod_gvk) = ParentCache"
    by (simp add: cacheForGVK_def demo_hcache_def) (simp add: widget_gvk_def pod_gvk_def)
  with RemoveInformer_spares_parent [OF g, of demo_schema_api 0] show ?thesis by simp
qed

text \<open>
  C23: a cluster that \<open>NewCluster\<close> returns has a name that is not blank, no empty namespace and an
  unambiguous routing, and has not been stopped; after \<open>Stop\<close>, registering a runnable is refused with
  \<open>ErrClusterStopped\<close> and the parent is not asked.
\<close>

theorem NewCluster_valid:
  assumes "NewCluster S A (Some parent) opts = Inr c"
    and "options = ClusterOptions_ApplyOptions \<lparr>clName = [], clScheme = pmScheme parent, clLogger = pmLogger parent,
           clByObject = [], clNamespaces = []\<rparr> opts"
  shows "TrimSpace (clName options) \<noteq> [] \<and> [] \<notin> set (clNamespaces options) \<and>
     (\<exists>child psch local. clScheme options = Some child \<and> pmScheme parent = Some psch \<and>
        deriveLocalGVKs S child psch (clByObject options) = Inr local) \<and>
     \<not> isStopped (hclLifecycle c) \<and>
     registerRunnable add (hierarchicalCluster_Stop c) r w = (Some ErrClusterStopped, w)"
proof -
  from assms obtain core logger where
      valid: "ClusterOptions_Validate (Some options) = None" "pmScheme parent \<noteq> None"
      and local: "\<exists>local. deriveLocalGVKs S (the (clScheme options)) (the (pmScheme parent)) (clByObject options) = Inr local"
      and c: "c = \<lparr>hclCore = core, hclParent = parent, hclLifecycle = newLifecycle, hclLogger = logger\<rparr>"
    by (auto simp: NewCluster_def Let_def cloneByObjectMap_id split: if_splits option.splits sum.splits)
  from valid have "TrimSpace (clName options) \<noteq> []" "clScheme options \<noteq> None" "[] \<notin> set (clNamespaces options)"
    by (auto simp: ClusterOptions_Validate_def split: if_splits)
  with valid local c show ?thesis
    by (auto simp: isStopped_def newLifecycle_def registerRunnable_def hierarchicalCluster_Stop_def lifecycle_stop_def)
qed

definition demo_cluster_api ::
    "(unit, nat, unit, unit, unit, (unit, nat, unit) hierarchicalCache) cluster_api" where
  "demo_cluster_api = \<lparr>CacheNew = (\<lambda>opts. Inr demo_kcache), ChildLogger = (\<lambda>n l. l), ClusterNew = (\<lambda>sch logger cache. cache)\<rparr>"

definition demo_parent :: "(unit, nat, unit, unit) parent_manager" where
  "demo_parent = \<lparr>pmScheme = Some demo_parent_scheme, pmHasConfig = True, pmLogger = Some (), pmCache = demo_kcache\<rparr>"

definition demo_cluster_options :: "(unit, unit, unit) ClusterOption list" where
  "demo_cluster_options = [cluster_WithName ''child'', WithScheme (Some demo_child_scheme)]"

definition demo_runnable :: runnable where
  "demo_runnable = \<lparr>runStart = (\<lambda>l. (None, None, l)), runNeedLeaderElection = None, runWarmup = None\<rparr>"

lemma demo_cluster_name: "TrimSpace ''child'' = ''child''" by code_simp

theorem NewCluster_valid_witness:
  "\<exists>c. NewCluster demo_schema_api demo_cluster_api (Some demo_parent) demo_cluster_options = Inr c \<and>
     \<not> isStopped (hclLifecycle c) \<and>
     registerRunnable (\<lambda>r w. (None, Suc w)) (hierarchicalCluster_Stop c) demo_runnable 0 = (Some ErrClusterStopped, 0)"
proof -
  have "\<exists>c. NewCluster demo_schema_api demo_cluster_api (Some demo_parent) demo_cluster_options = Inr c"
    by (simp add: NewCluster_def ClusterOptions_ApplyOptions_def FunctionalOption_ApplyTo_def cluster_WithName_def
        WithScheme_def ClusterOptions_Validate_def demo_cluster_name cloneByObjectMap_def demo_derive
        newCoreCluster_def demo_cluster_api_def demo_parent_def demo_cluster_options_def)
  then obtain c where c: "NewCluster demo_schema_api demo_cluster_api (Some demo_parent) demo_cluster_options = Inr c" ..
  note valid = NewCluster_valid [OF c refl, of "\<lambda>r w. (None, Suc w)" demo_runnable 0]
  from c valid [THEN conjunct2, THEN conjunct2, THEN conjunct2] show ?thesis by blast
qed

end
