(* ===== verification/Gvks.thy ===== *)
theory Gvks
  imports Hierarchical
begin

text \<open>
  The well known kinds of \<^verbatim>\<open>src/pkg/resources/gvks/gvks.go\<close>. The group and version of each API comes
  from its \<open>SchemeGroupVersion\<close> in the Kubernetes API packages, a parameter here.
\<close>

record api_versions =
  core_v1 :: "string \<times> string"
  apps_v1 :: "string \<times> string"
  batch_v1 :: "string \<times> string"
  rbac_v1 :: "string \<times> string"
  networking_v1 :: "string \<times> string"
  storage_v1 :: "string \<times> string"
  apiextensions_v1 :: "string \<times> string"
  policy_v1 :: "string \<times> string"

definition gvks_ConfigMap :: "api_versions \<Rightarrow> gvk" where
  "gvks_ConfigMap A = \<lparr>Group = fst (core_v1 A), Version = snd (core_v1 A), Kind = ''ConfigMap''\<rparr>"

definition gvks_Endpoints :: "api_versions \<Rightarrow> gvk" where
  "gvks_Endpoints A = \<lparr>Group = fst (core_v1 A), Version = snd (core_v1 A), Kind = ''Endpoints''\<rparr>"

definition gvks_Namespace :: "api_versions \<Rightarrow> gvk" where
  "gvks_Namespace A = \<lparr>Group = fst (core_v1 A), Version = snd (core_v1 A), Kind = ''Namespace''\<rparr>"

definition gvks_Node :: "api_versions \<Rightarrow> gvk" where
  "gvks_Node A = \<lparr>Group = fst (core_v1 A), Version = snd (core_v1 A), Kind = ''Node''\<rparr>"

definition gvks_PersistentVolume :: "api_versions \<Rightarrow> gvk" where
  "gvks_PersistentVolume A = \<lparr>Group = fst (core_v1 A), Version = snd (core_v1 A), Kind = ''PersistentVolume''\<rparr>"

definition gvks_PersistentVolumeClaim :: "api_versions \<Rightarrow> gvk" where
  "gvks_PersistentVolumeClaim A = \<lparr>Group = fst (core_v1 A), Version = snd (core_v1 A), Kind = ''PersistentVolumeClaim''\<rparr>"

definition gvks_Pod :: "api_versions \<Rightarrow> gvk" where
  "gvks_Pod A = \<lparr>Group = fst (core_v1 A), Version = snd (core_v1 A), Kind = ''Pod''\<rparr>"

definition gvks_Secret :: "api_versions \<Rightarrow> gvk" where
  "gvks_Secret A = \<lparr>Group = fst (core_v1 A), Version = snd (core_v1 A), Kind = ''Secret''\<rparr>"

definition gvks_Service :: "api_versions \<Rightarrow> gvk" where
  "gvks_Service A = \<lparr>Group = fst (core_v1 A), Version = snd (core_v1 A), Kind = ''Service''\<rparr>"

definition gvks_ServiceAccount :: "api_versions \<Rightarrow> gvk" where
  "gvks_ServiceAccount A = \<lparr>Group = fst (core_v1 A), Version = snd (core_v1 A), Kind = ''ServiceAccount''\<rparr>"

definition gvks_DaemonSet :: "api_versions \<Rightarrow> gvk" where
  "gvks_DaemonSet A = \<lparr>Group = fst (apps_v1 A), Version = snd (apps_v1 A), Kind = ''DaemonSet''\<rparr>"

definition gvks_Deployment :: "api_versions \<Rightarrow> gvk" where
  "gvks_Deployment A = \<lparr>Group = fst (apps_v1 A), Version = snd (apps_v1 A), Kind = ''Deployment''\<rparr>"

definition gvks_ReplicaSet :: "api_versions \<Rightarrow> gvk" where
  "gvks_ReplicaSet A = \<lparr>Group = fst (apps_v1 A), Version = snd (apps_v1 A), Kind = ''ReplicaSet''\<rparr>"

definition gvks_StatefulSet :: "api_versions \<Rightarrow> gvk" where
  "gvks_StatefulSet A = \<lparr>Group = fst (apps_v1 A), Version = snd (apps_v1 A), Kind = ''StatefulSet''\<rparr>"

definition gvks_CronJob :: "api_versions \<Rightarrow> gvk" where
  "gvks_CronJob A = \<lparr>Group = fst (batch_v1 A), Version = snd (batch_v1 A), Kind = ''CronJob''\<rparr>"

definition gvks_Job :: "api_versions \<Rightarrow> gvk" where
  "gvks_Job A = \<lparr>Group = fst (batch_v1 A), Version = snd (batch_v1 A), Kind = ''Job''\<rparr>"

definition gvks_ClusterRole :: "api_versions \<Rightarrow> gvk" where
  "gvks_ClusterRole A = \<lparr>Group = fst (rbac_v1 A), Version = snd (rbac_v1 A), Kind = ''ClusterRole''\<rparr>"

definition gvks_ClusterRoleBinding :: "api_versions \<Rightarrow> gvk" where
  "gvks_ClusterRoleBinding A = \<lparr>Group = fst (rbac_v1 A), Version = snd (rbac_v1 A), Kind = ''ClusterRoleBinding''\<rparr>"

definition gvks_Role :: "api_versions \<Rightarrow> gvk" where
  "gvks_Role A = \<lparr>Group = fst (rbac_v1 A), Version = snd (rbac_v1 A), Kind = ''Role''\<rparr>"

definition gvks_RoleBinding :: "api_versions \<Rightarrow> gvk" where
  "gvks_RoleBinding A = \<lparr>Group = fst (rbac_v1 A), Version = snd (rbac_v1 A), Kind = ''RoleBinding''\<rparr>"

definition gvks_Ingress :: "api_versions \<Rightarrow> gvk" where
  "gvks_Ingress A = \<lparr>Group = fst (networking_v1 A), Version = snd (networking_v1 A), Kind = ''Ingress''\<rparr>"

definition gvks_IngressClass :: "api_versions \<Rightarrow> gvk" where
  "gvks_IngressClass A = \<lparr>Group = fst (networking_v1 A), Version = snd (networking_v1 A), Kind = ''IngressClass''\<rparr>"

definition gvks_NetworkPolicy :: "api_versions \<Rightarrow> gvk" where
  "gvks_NetworkPolicy A = \<lparr>Group = fst (networking_v1 A), Version = snd (networking_v1 A), Kind = ''NetworkPolicy''\<rparr>"

definition gvks_CSIDriver :: "api_versions \<Rightarrow> gvk" where
  "gvks_CSIDriver A = \<lparr>Group = fst (storage_v1 A), Version = snd (storage_v1 A), Kind = ''CSIDriver''\<rparr>"

definition gvks_CSINode :: "api_versions \<Rightarrow> gvk" where
  "gvks_CSINode A = \<lparr>Group = fst (storage_v1 A), Version = snd (storage_v1 A), Kind = ''CSINode''\<rparr>"

definition gvks_StorageClass :: "api_versions \<Rightarrow> gvk" where
  "gvks_StorageClass A = \<lparr>Group = fst (storage_v1 A), Version = snd (storage_v1 A), Kind = ''StorageClass''\<rparr>"

definition gvks_VolumeAttachment :: "api_versions \<Rightarrow> gvk" where
  "gvks_VolumeAttachment A = \<lparr>Group = fst (storage_v1 A), Version = snd (storage_v1 A), Kind = ''VolumeAttachment''\<rparr>"

definition gvks_CustomResourceDefinition :: "api_versions \<Rightarrow> gvk" where
  "gvks_CustomResourceDefinition A = \<lparr>Group = fst (apiextensions_v1 A), Version = snd (apiextensions_v1 A), Kind = ''CustomResourceDefinition''\<rparr>"

definition gvks_PodDisruptionBudget :: "api_versions \<Rightarrow> gvk" where
  "gvks_PodDisruptionBudget A = \<lparr>Group = fst (policy_v1 A), Version = snd (policy_v1 A), Kind = ''PodDisruptionBudget''\<rparr>"

definition all_gvks :: "api_versions \<Rightarrow> gvk list" where
  "all_gvks A =
     [gvks_ConfigMap A, gvks_Endpoints A, gvks_Namespace A,
      gvks_Node A, gvks_PersistentVolume A, gvks_PersistentVolumeClaim A,
      gvks_Pod A, gvks_Secret A, gvks_Service A,
      gvks_ServiceAccount A, gvks_DaemonSet A, gvks_Deployment A,
      gvks_ReplicaSet A, gvks_StatefulSet A, gvks_CronJob A,
      gvks_Job A, gvks_ClusterRole A, gvks_ClusterRoleBinding A,
      gvks_Role A, gvks_RoleBinding A, gvks_Ingress A,
      gvks_IngressClass A, gvks_NetworkPolicy A, gvks_CSIDriver A,
      gvks_CSINode A, gvks_StorageClass A, gvks_VolumeAttachment A,
      gvks_CustomResourceDefinition A, gvks_PodDisruptionBudget A]"

lemmas gvks_defs = gvks_ConfigMap_def gvks_Endpoints_def gvks_Namespace_def gvks_Node_def
  gvks_PersistentVolume_def gvks_PersistentVolumeClaim_def gvks_Pod_def gvks_Secret_def
  gvks_Service_def gvks_ServiceAccount_def gvks_DaemonSet_def gvks_Deployment_def
  gvks_ReplicaSet_def gvks_StatefulSet_def gvks_CronJob_def gvks_Job_def
  gvks_ClusterRole_def gvks_ClusterRoleBinding_def gvks_Role_def gvks_RoleBinding_def
  gvks_Ingress_def gvks_IngressClass_def gvks_NetworkPolicy_def gvks_CSIDriver_def
  gvks_CSINode_def gvks_StorageClass_def gvks_VolumeAttachment_def gvks_CustomResourceDefinition_def
  gvks_PodDisruptionBudget_def

text \<open>
  The kinds are pairwise different, whatever the API packages say, and none of them is taken for a
  list kind by the routing of the hierarchical cache.
\<close>

lemma gvks_kinds_distinct: "distinct (map Kind (all_gvks A))"
  unfolding all_gvks_def gvks_defs by simp

lemma gvks_distinct: "distinct (all_gvks A)"
  using gvks_kinds_distinct [of A] by (simp add: distinct_map)

lemma gvks_normalized: "map normalizeGVK (all_gvks A) = all_gvks A"
  unfolding all_gvks_def gvks_defs by (simp add: normalizeGVK_def TrimSuffix_def suffix_def)

end
