(* ===== verification/Example_Controllers.thy ===== *)
theory Example_Controllers
  imports Builder Pipeline_Watch Finalizer_Protocol Gvks
begin

text \<open>
  The two example controllers, \<^verbatim>\<open>src/examples/*/internal/controller\<close>: the actions they give to the
  pipeline and the setup that composes pipeline, watcher and builder. They are the end-to-end uses of
  the library: the cleanup controller of the finalizer protocol, the simple controller of the
  dynamic watcher. The template engine of the simple controller is a parameter.
\<close>

section \<open>The cleanup controller\<close>

record CleanupAppSpec =
  ConfigMapName :: string
  specData :: "(string, string) gomap"

text \<open>What the objects of this controller hold besides their metadata and status.\<close>

datatype cleanup_content =
    CleanupAppContent CleanupAppSpec
  | ConfigMapContent "(string, string) gomap"

abbreviation CleanupApp_type :: go_type where "CleanupApp_type \<equiv> TypedGo ''v1alpha1.CleanupApp''"
abbreviation ConfigMap_type :: go_type where "ConfigMap_type \<equiv> TypedGo ''v1.ConfigMap''"
abbreviation cleanup_fieldManager :: string where "cleanup_fieldManager \<equiv> ''cleanup-controller''"
abbreviation cleanup_controllerName :: string where "cleanup_controllerName \<equiv> ''cleanupApp''"

definition CleanupApp_SetStatus :: "Status option \<Rightarrow> cleanup_content object \<Rightarrow> cleanup_content object" where
  "CleanupApp_SetStatus st c = (case st of None \<Rightarrow> c | Some st \<Rightarrow> c\<lparr>GetStatus := Some st\<rparr>)"

text \<open>The type assertion \<open>req.Object.(*cleanupApi.CleanupApp)\<close>, with the spec of the result.\<close>

definition as_CleanupApp :: "cleanup_content object \<Rightarrow> CleanupAppSpec option" where
  "as_CleanupApp ob =
     (case content ob of
        CleanupAppContent spec \<Rightarrow> if goType ob = CleanupApp_type then Some spec else None
      | ConfigMapContent _ \<Rightarrow> None)"

definition unexpected_type :: "'c object \<Rightarrow> error" where
  "unexpected_type ob = ErrorString (''unexpected object type: '' @ go_type_name (goType ob))"

definition cleanup_manifests :: "cleanup_content env \<Rightarrow> (cleanup_content, 'w) ActionFunc" where
  "cleanup_manifests E ctx req resp s =
     (let app = deref s (reqObject req)
      in case as_CleanupApp app of
           None \<Rightarrow> (Some (unexpected_type app), resp, s)
         | Some spec \<Rightarrow>
             (let cm = (empty_object ConfigMap_type zero_gvk (ConfigMapContent (specData spec)))
                    \<lparr>GetName := ConfigMapName spec, GetNamespace := GetNamespace app,
                     GetLabels := Some [''app.kubernetes.io/name'' \<mapsto> GetName app,
                                        ''app.kubernetes.io/managed-by'' \<mapsto> ''unmanaged'']\<rparr>;
                  (r, s) = alloc cm s
              in case on_object (resources_Apply E (reqClient req) [FieldOwner cleanup_fieldManager]) r s of
                   (Some err, s) \<Rightarrow> (Some (WrapError ''failed to apply configmap'' err), resp, s)
                 | (None, s) \<Rightarrow> (None, resp, s)))"

definition cleanup_cleanup :: "cleanup_content env \<Rightarrow> (cleanup_content, 'w) CleanupFunc" where
  "cleanup_cleanup E ctx req s =
     (let app = deref s (reqObject req)
      in case as_CleanupApp app of
           None \<Rightarrow> (Some (unexpected_type app), s)
         | Some spec \<Rightarrow>
             (let cm = (empty_object ConfigMap_type zero_gvk (ConfigMapContent None))
                    \<lparr>GetName := ConfigMapName spec, GetNamespace := GetNamespace app\<rparr>;
                  (r, s) = alloc cm s
              in case on_object (clientDelete (reqClient req)) r s of
                   (Some err, s) \<Rightarrow>
                     if IsNotFound E (Some err) then (None, s)
                     else (Some (WrapError ''failed to delete configmap'' err), s)
                 | (None, s) \<Rightarrow> (None, s)))"

text \<open>
  \<open>SetupWithManager\<close>. The watcher \<open>watch.New()\<close> lives in the world. The pipeline is passed to
  \<open>Complete\<close> as a pointer that implements \<open>ClientAware\<close> only; no request is served before
  \<open>Complete\<close> has injected the client, so the reconciler is the pipeline with that client.
\<close>

definition pipeline_impl ::
    "'c env \<Rightarrow> ('c, 'w) client \<Rightarrow> ('c, 'w) Pipeline \<Rightarrow> ('c, 's, 'k, 'w) reconciler_impl" where
  "pipeline_impl E cli p =
     \<lparr>implReconcile = TypedPipeline_Reconcile E (Pipeline_SetClient (Some cli) p),
      implSetController = None, implSetClient = Some (\<lambda>c w. w), implSetCache = None\<rparr>"

definition cleanup_options_list ::
    "cleanup_content env \<Rightarrow> (cleanup_content, 's) combinators \<Rightarrow>
     (cleanup_content, (cleanup_content, 's, 'k, 'w) wstate) PipelineOption list" where
  "cleanup_options_list E B =
     [WithFieldOwner cleanup_fieldManager, WithActions [cleanup_manifests E],
      WithCleanupActions [cleanup_cleanup E],
      WithPostApply [watch_All E B (ConfigMapContent None)]]"

definition zero_CleanupApp :: "cleanup_content object" where
  "zero_CleanupApp =
     (empty_object CleanupApp_type zero_gvk (CleanupAppContent \<lparr>ConfigMapName = [], specData = None\<rparr>))
       \<lparr>GetStatus := Some \<lparr>ObservedGeneration = 0, Conditions = []\<rparr>\<rparr>"

definition cleanup_SetupWithManager ::
    "cleanup_content env \<Rightarrow>
     (cleanup_content, 's, 'k, (cleanup_content, 's, 'k, 'w) wstate, 'r) builder_api \<Rightarrow>
     (cleanup_content, 's) combinators \<Rightarrow>
     (cleanup_content, 'k, (cleanup_content, 's, 'k, 'w) wstate) manager option \<Rightarrow>
     (cleanup_content, 's, 'k, 'w) wstate bstate \<Rightarrow> error option \<times> (cleanup_content, 's, 'k, 'w) wstate bstate" where
  "cleanup_SetupWithManager E A B mgr s =
     (let s = s\<lparr>bworld := (bworld s)\<lparr>theWatcher := watch_New []\<rparr>\<rparr>;
          p = NewTyped (cleanup_options_list E B)
      in case NewControllerBuilder mgr [WithName cleanup_controllerName] of
           Inl err \<Rightarrow> (Some (WrapError ''unable to create builder'' err), s)
         | Inr b \<Rightarrow>
             (let b = Builder_For A zero_CleanupApp [] b
              in case Builder_Complete E A (ConfigMapContent None) (pipeline_impl E (bClient b) p) b s of
                   (err, b, s) \<Rightarrow> (err, s)))"

section \<open>The simple controller\<close>

abbreviation simple_fieldManager :: string where "simple_fieldManager \<equiv> ''simple-controller''"
abbreviation simple_controllerName :: string where "simple_controllerName \<equiv> ''simpleApp''"

text \<open>
  \<open>Render\<close> of the template engine: given the transformer and the values (the content of the
  unstructured app), it returns the rendered objects or an error.
\<close>

type_synonym 'c engine =
  "goctx option \<Rightarrow> ('c object \<Rightarrow> error + 'c object) \<Rightarrow> 'c object \<Rightarrow> error + 'c object list"

definition name_label :: "'c object \<Rightarrow> error + 'c object" where
  "name_label obj = Inr (the (snd (SetLabel (Some obj) ''app.kubernetes.io/name'' (GetName obj))))"

text \<open>The loop that adds a deep copy of every rendered object to the response.\<close>

primrec add_rendered ::
    "'c object list \<Rightarrow> Response \<Rightarrow> ('c, 'w) pstate \<Rightarrow> Response \<times> ('c, 'w) pstate" where
  "add_rendered [] resp s = (resp, s)"
| "add_rendered (obj # objs) resp s =
     (case alloc obj s of (r, s) \<Rightarrow> add_rendered objs (Response_Objects [r] resp) s)"

definition simple_manifests :: "'c env \<Rightarrow> 'c engine \<Rightarrow> ('c, 'w) ActionFunc" where
  "simple_manifests E e ctx req resp s =
     (case ToUnstructured E (clientScheme (reqClient req)) (Some (deref s (reqObject req))) of
        (converted, obj) \<Rightarrow>
          (let s = (case obj of None \<Rightarrow> s | Some ob \<Rightarrow> store (reqObject req) ob s)
           in case converted of
                Inl err \<Rightarrow> (Some err, resp, s)
              | Inr u \<Rightarrow>
                  (case e ctx name_label u of
                     Inl err \<Rightarrow> (Some (WrapError ''failed to render manifests'' err), resp, s)
                   | Inr objs \<Rightarrow> (case add_rendered objs resp s of (resp, s) \<Rightarrow> (None, resp, s)))))"

definition simple_options_list ::
    "'c env \<Rightarrow> ('c, 's) combinators \<Rightarrow> 'c \<Rightarrow> 'c engine \<Rightarrow> ('c, ('c, 's, 'k, 'w) wstate) PipelineOption list" where
  "simple_options_list E B c0 e =
     [WithFieldOwner simple_fieldManager, WithActions [simple_manifests E e], WithPostApply [watch_All E B c0]]"

text \<open>\<open>NewEngine\<close>'s result is a parameter, as is the zero value \<open>zero\<close> of \<open>SimpleApp\<close>.\<close>

definition simple_SetupWithManager ::
    "'c env \<Rightarrow> ('c, 's, 'k, ('c, 's, 'k, 'w) wstate, 'r) builder_api \<Rightarrow> ('c, 's) combinators \<Rightarrow> 'c \<Rightarrow>
     'c object \<Rightarrow> api_versions \<Rightarrow> error + 'c engine \<Rightarrow> ('c, 'k, ('c, 's, 'k, 'w) wstate) manager option \<Rightarrow>
     ('c, 's, 'k, 'w) wstate bstate \<Rightarrow> error option \<times> ('c, 's, 'k, 'w) wstate bstate" where
  "simple_SetupWithManager E A B c0 zero V newEngine mgr s =
     (case newEngine of
        Inl err \<Rightarrow> (Some (ErrorString (''failed to create templates renderer: '' @ err_Error err)), s)
      | Inr e \<Rightarrow>
          (let s = s\<lparr>bworld := (bworld s)\<lparr>theWatcher := watch_New []\<rparr>\<rparr>;
               p = NewTyped (simple_options_list E B c0 e)
           in case NewControllerBuilder mgr [WithName simple_controllerName] of
                Inl err \<Rightarrow> (Some (WrapError ''unable to create builder'' err), s)
              | Inr b \<Rightarrow>
                  (let b = Builder_For A zero [] b; b = Builder_Owns A c0 zero (gvks_Deployment V) [] b
                   in case Builder_Complete E A c0 (pipeline_impl E (bClient b) p) b s of
                        (err, b, s) \<Rightarrow> (err, s))))"

section \<open>The watcher of the examples\<close>

lemma watch_All_not_ready:
  assumes "\<not> watch_ready (theWatcher (world s))"
  shows "watch_All E B c0 ctx owner objs s = (None, s)"
proof -
  have "watch_one E B c0 ctx owner r s = (None, s)" for r
    using assms by (simp add: watch_one_def Watcher_Watch_def store_def)
  then show ?thesis unfolding watch_All_def by (induction objs) simp_all
qed

lemma watch_New_not_ready: "\<not> watch_ready (watch_New [])"
  by (simp add: watch_ready_def watch_New_def WatchOptions_ApplyOptions_def opt_defs)

abbreviation unwatched :: "('c, 's, 'k, 'w) wstate \<Rightarrow> bool" where
  "unwatched w \<equiv> theWatcher w = watch_New []"

lemma watch_All_unwatched: "unwatched (world s) \<Longrightarrow> watch_All E B c0 ctx owner objs s = (None, s)"
  by (simp add: watch_All_not_ready watch_New_not_ready)

lemma watch_All_hook_keeps: "hook_keeps unwatched (watch_All E B c0)"
  by (simp add: hook_keeps_def watch_All_unwatched)

lemma add_rendered_world [simp]: "world (snd (add_rendered objs resp s)) = world s"
  by (induction objs arbitrary: resp s) (simp_all add: alloc_def)

lemma simple_manifests_world: "world (snd (snd (simple_manifests E e ctx req resp s))) = world s"
proof -
  have added: "world s' = world t" if "add_rendered objs resp t = (resp', s')" for objs t resp' s'
    using add_rendered_world [of objs resp t] that by simp
  show ?thesis
    by (auto simp: simple_manifests_def Let_def split: prod.splits sum.splits option.splits dest: added)
qed

text \<open>Creating a controller and handing it sources does not touch the predicate.\<close>

definition builder_keeps :: "('w \<Rightarrow> bool) \<Rightarrow> ('c, 's, 'k, 'w, 'r) builder_api \<Rightarrow> bool" where
  "builder_keeps I A \<longleftrightarrow> (\<forall>name mgr r cfg w res w'. NewController A name mgr r cfg w = (res, w') \<longrightarrow>
     (I w \<longrightarrow> I w') \<and> (\<forall>ctrl src v. res = Inr ctrl \<longrightarrow> I v \<longrightarrow> I (snd (ctrl src v))))"

lemma fold_doRegisterWatch_keeps:
  assumes "\<And>src v. I v \<Longrightarrow> I (snd (ctrl src v))" and "bCtrl b = Some ctrl" and "I (bworld s)"
  shows "I (bworld (snd (fold (doRegisterWatch E c0) ws (b, s))))"
  using assms(2,3)
proof (induction ws arbitrary: b s)
  case (Cons w ws)
  obtain b1 s1 where one: "doRegisterWatch E c0 w (b, s) = (b1, s1)" by fastforce
  then have "bCtrl b1 = Some ctrl" using doRegisterWatch_errors [OF one] Cons.prems(1) by auto
  moreover have "I (bworld s1)"
    using one Cons.prems assms(1) [of "bworld s"]
    by (auto simp: doRegisterWatch_def Let_def split: sum.splits prod.splits option.splits if_splits) (metis snd_conv)+
  ultimately show ?case using Cons.IH one by simp
qed simp

lemma pipeline_Complete_keeps:
  assumes "builder_keeps I A" and "I (bworld s)"
    and "Builder_Complete E A c0 (pipeline_impl E cli p) b s = (err, b', s')"
  shows "I (bworld s')"
proof -
  have made: "I w'" "res = Inr ctrl \<Longrightarrow> I v \<Longrightarrow> I (snd (ctrl src v))"
    if "NewController A n m r cfg (bworld s) = (res, w')" for n m r cfg res w' ctrl src v
    using assms(1,2) that unfolding builder_keeps_def by blast+
  have reg: "I (bworld s2)"
    if "NewController A n m r cfg (bworld s) = (Inr ctrl, w')"
      "fold (doRegisterWatch E c0) ws (b\<lparr>bCtrl := Some ctrl\<rparr>, s\<lparr>bworld := w'\<rparr>) = (b2, s2)"
    for n m r cfg ctrl w' ws b2 s2
    using fold_doRegisterWatch_keeps [of I ctrl "b\<lparr>bCtrl := Some ctrl\<rparr>" "s\<lparr>bworld := w'\<rparr>" E c0 ws]
      made [OF that(1)] that(2) by simp
  show ?thesis
    using assms(2,3)
    by (auto simp: Builder_Complete_def pipeline_impl_def inject_def Let_def
        split: if_splits sum.splits prod.splits dest: made(1) reg)
qed

section \<open>The contract of the cleanup controller\<close>

text \<open>
  What the cleanup controller needs of the API server beyond the protocol: applying the config map,
  updating the status and deleting take no finalizer off the app, and once a \<open>Delete\<close> of the config
  map \<open>n\<close> in namespace \<open>ns\<close> returned nil or not-found, the config map stored there (\<open>cms\<close>), if there
  still is one, is being deleted: it has a deletion timestamp, as an object keeps that has finalizers
  of its own. A config map that is stored and not being deleted is \<open>live\<close>.
\<close>

abbreviation live :: "('w \<Rightarrow> cleanup_content object option) \<Rightarrow> 'w \<Rightarrow> bool" where
  "live cms w \<equiv> (\<exists>cm. cms w = Some cm \<and> GetDeletionTimestamp cm = None)"

definition configmap_api_ok ::
    "('w \<Rightarrow> bool) \<Rightarrow> ('w \<Rightarrow> cleanup_content object option) \<Rightarrow> string \<Rightarrow>
     ('w \<Rightarrow> cleanup_content object option) \<Rightarrow> cleanup_content env \<Rightarrow> (cleanup_content, 'w) client \<Rightarrow> string \<Rightarrow> string \<Rightarrow> bool" where
  "configmap_api_ok valid server f cms E cli ns n \<longleftrightarrow>
     (\<forall>opts. call_keeps (guarded valid server f) (clientApply cli opts)) \<and>
     call_keeps (guarded valid server f) (clientStatusUpdate cli) \<and>
     call_keeps (guarded valid server f) (clientDelete cli) \<and>
     (\<forall>cm w err cm' w'. clientDelete cli cm w = (err, cm', w') \<and> valid w \<and> GetName cm = n \<and> GetNamespace cm = ns \<and>
        (err = None \<or> IsNotFound E err) \<longrightarrow> \<not> live cms w')"

text \<open>An app in namespace \<open>ns\<close> whose spec names the config map \<open>n\<close>.\<close>

definition app_shape :: "string \<Rightarrow> string \<Rightarrow> cleanup_content object \<Rightarrow> bool" where
  "app_shape ns n ob \<longleftrightarrow> (\<exists>spec. as_CleanupApp ob = Some spec \<and> ConfigMapName spec = n) \<and> GetNamespace ob = ns"

lemma cleanup_manifests_keeps:
  fixes cli :: "(cleanup_content, 'w) client"
  assumes "\<forall>opts. call_keeps I (clientApply cli opts)"
  shows "action_keeps I cli (cleanup_manifests E)"
proof -
  have applied: "I (world s')"
    if "on_object (resources_Apply E cli opts) r t = (e, s')" "I (world t)" for opts r t e s'
    using on_object_keeps [OF resources_Apply_keeps [of I cli opts E] that(2), of r] assms that(1) by simp
  show ?thesis
    unfolding action_keeps_def
  proof (intro allI impI)
    fix ctx and req :: "(cleanup_content, 'w) Request" and resp and s :: "(cleanup_content, 'w) pstate"
    assume req: "reqClient req = cli" and "I (world s)"
    then show "I (world (snd (snd (cleanup_manifests E ctx req resp s))))"
      by (simp add: cleanup_manifests_def alloc_def Let_def split: option.splits prod.splits) (auto dest: applied [folded req])
  qed
qed

lemma cleanup_cleanup_keeps:
  fixes cli :: "(cleanup_content, 'w) client"
  assumes "call_keeps I (clientDelete cli)"
  shows "cleanup_keeps I cli (cleanup_cleanup E)"
proof -
  have deleted: "I (world s')"
    if "on_object (clientDelete cli) r t = (e, s')" "I (world t)" for r t e s'
    using on_object_keeps [OF assms that(2), of r] that(1) by simp
  show ?thesis
    unfolding cleanup_keeps_def
  proof (intro allI impI)
    fix ctx and req :: "(cleanup_content, 'w) Request" and s :: "(cleanup_content, 'w) pstate"
    assume req: "reqClient req = cli" and "I (world s)"
    then show "I (world (snd (cleanup_cleanup E ctx req s)))"
      by (simp add: cleanup_cleanup_def alloc_def Let_def split: option.splits prod.splits) (auto dest: deleted [folded req])
  qed
qed

text \<open>The cleanup action returns nil only when the config map of the app's spec is gone.\<close>

lemma cleanup_cleanup_complete:
  assumes "configmap_api_ok valid server f cms E cli ns n" and "reqClient req = cli" and "valid (world s)"
    and "app_shape ns n (deref s (reqObject req))" and "cleanup_cleanup E ctx req s = (None, s')"
  shows "\<not> live cms (world s')"
proof -
  from assms(4) obtain spec where spec: "as_CleanupApp (deref s (reqObject req)) = Some spec"
    "ConfigMapName spec = n" "GetNamespace (deref s (reqObject req)) = ns"
    by (auto simp: app_shape_def)
  let ?cm = "(empty_object ConfigMap_type zero_gvk (ConfigMapContent None))\<lparr>GetName := n, GetNamespace := ns\<rparr>"
  obtain r s1 where al: "alloc ?cm s = (r, s1)" by (cases "alloc ?cm s")
  then have s1: "deref s1 r = ?cm" "world s1 = world s" by (auto simp: alloc_def)
  obtain err s2 where del: "on_object (clientDelete cli) r s1 = (err, s2)"
    by (cases "on_object (clientDelete cli) r s1")
  have "s' = s2 \<and> (err = None \<or> IsNotFound E err)"
    using assms(2,5) spec al del by (auto simp: cleanup_cleanup_def Let_def split: option.splits if_splits)
  moreover have "\<forall>cm w err cm' w'. clientDelete cli cm w = (err, cm', w') \<and> valid w \<and> GetName cm = n \<and> GetNamespace cm = ns \<and>
        (err = None \<or> IsNotFound E err) \<longrightarrow> \<not> live cms w'"
    using assms(1) by (simp add: configmap_api_ok_def)
  moreover have "clientDelete cli ?cm (world s) = (err, deref s2 r, world s2)" "GetName ?cm = n" "GetNamespace ?cm = ns"
    using on_object_call [OF del] s1 by simp_all
  ultimately show ?thesis using assms(3) by blast
qed

text \<open>The pipeline of the cleanup controller, as \<open>Complete\<close> leaves it.\<close>

definition cleanup_pipeline ::
    "cleanup_content env \<Rightarrow> (cleanup_content, 's) combinators \<Rightarrow> (cleanup_content, (cleanup_content, 's, 'k, 'w) wstate) client \<Rightarrow>
     (cleanup_content, (cleanup_content, 's, 'k, 'w) wstate) Pipeline" where
  "cleanup_pipeline E B cli = Pipeline_SetClient (Some cli) (NewTyped (cleanup_options_list E B))"

lemma cleanup_pipeline_fields [simp]:
  "Actions (plOpts (cleanup_pipeline E B cli)) = [cleanup_manifests E]"
  "CleanupActions (plOpts (cleanup_pipeline E B cli)) = [cleanup_cleanup E]"
  "Finalizer (plOpts (cleanup_pipeline E B cli)) = DefaultFinalizer"
  "PreApply (plOpts (cleanup_pipeline E B cli)) = []"
  "PostApply (plOpts (cleanup_pipeline E B cli)) = [watch_All E B (ConfigMapContent None)]"
  "plFieldOwner (plOpts (cleanup_pipeline E B cli)) = cleanup_fieldManager"
  "plClient (plOpts (cleanup_pipeline E B cli)) = Some cli"
  by (simp_all add: cleanup_pipeline_def NewTyped_def Pipeline_SetClient_def cleanup_options_list_def
      demo_pipeline_eval opt_defs)

lemma cleanup_contract:
  assumes "configmap_api_ok valid server f cms E cli ns n" and "\<And>w. valid w \<Longrightarrow> unwatched w"
  shows "serving_keeps (guarded valid server f) cli (cleanup_pipeline E B cli)"
    and "cleanups_ok valid server f (live cms) (app_shape ns n) cli (CleanupActions (plOpts (cleanup_pipeline E B cli)))"
proof -
  have hook: "hook_keeps (guarded valid server f) (watch_All E B (ConfigMapContent None))"
    by (simp add: hook_keeps_def watch_All_unwatched [OF assms(2)])
  from assms(1) show "serving_keeps (guarded valid server f) cli (cleanup_pipeline E B cli)"
    by (simp add: serving_keeps_def configmap_api_ok_def cleanup_manifests_keeps hook)
  have "\<not> live cms (world s1)"
    if "reqClient req = cli" "valid (world s)" "app_shape ns n (deref s (reqObject req))"
      "cleanup_results ctx req [cleanup_cleanup E] s = (rs, s1)" "\<forall>r \<in> set rs. r = None" for ctx req s rs s1
    using that cleanup_cleanup_complete [OF assms(1) that(1-3), of ctx s1]
    by (cases "cleanup_cleanup E ctx req s") auto
  then have "\<forall>ctx req s rs s1. reqClient req = cli \<and> valid (world s) \<and> app_shape ns n (deref s (reqObject req)) \<and>
      cleanup_results ctx req (rev [cleanup_cleanup E]) s = (rs, s1) \<and> (\<forall>r \<in> set rs. r = None) \<longrightarrow> \<not> live cms (world s1)"
    unfolding rev_singleton_conv rev.simps append_Nil by blast
  moreover have "cleanup_keeps (guarded valid server f) cli (cleanup_cleanup E)"
    using assms(1) by (simp add: configmap_api_ok_def cleanup_cleanup_keeps)
  ultimately show "cleanups_ok valid server f (live cms) (app_shape ns n) cli (CleanupActions (plOpts (cleanup_pipeline E B cli)))"
    unfolding cleanups_ok_def cleanup_pipeline_fields by simp
qed

section \<open>A concrete cluster for the examples\<close>

definition sample_app :: "string \<Rightarrow> cleanup_content object" where
  "sample_app n = zero_CleanupApp\<lparr>GetName := ''app'', GetNamespace := ''prod'',
     content := CleanupAppContent \<lparr>ConfigMapName = n, specData = Some [''key'' \<mapsto> ''value'']\<rparr>\<rparr>"

abbreviation sample_client :: "string \<Rightarrow> (cleanup_content, (cleanup_content, unit, unit, cluster) wstate) client" where
  "sample_client n \<equiv> lift_client (cluster_client (sample_app n))"

abbreviation sample_world :: "cluster \<Rightarrow> (cleanup_content, unit, unit, cluster) wstate" where
  "sample_world v \<equiv> \<lparr>theWatcher = watch_New [], dynamicWatched = Map.empty, wworld = v\<rparr>"

lemma call_keeps_lift:
  "call_keeps I f \<Longrightarrow> call_keeps (\<lambda>w. unwatched w \<and> I (wworld w)) (lift_call f)"
  "call_keeps unwatched (lift_call f)"
  by (auto simp: call_keeps_def lift_call_def split: prod.splits) (metis snd_conv)

lemma protected_wworld: "protected (\<lambda>w. srv (wworld w)) f w = protected srv f (wworld w)"
  by (simp add: protected_def)

lemma sample_api_ok:
  "api_server_ok unwatched (\<lambda>w. cluster_server (sample_app n) (wworld w)) f
     (\<lambda>w. R (clMaps (wworld w))) (app_shape ''prod'' n) (sample_client n) k"
  "environment_ok unwatched (\<lambda>w. cluster_server (sample_app n) (wworld w)) f
     (\<lambda>w. R (clMaps (wworld w))) (\<lambda>w w'. theWatcher w' = theWatcher w \<and> user_delete (wworld w) (wworld w'))"
  by (auto simp: api_server_ok_def environment_ok_def protected_wworld protected_cluster lift_client_def lift_call_def
      cluster_client_def user_delete_def cluster_object_def app_shape_def as_CleanupApp_def sample_app_def
      zero_CleanupApp_def empty_object_def split: prod.splits if_splits)

text \<open>The config map of the concrete cluster, whose \<open>clMaps\<close> are those stored and not being deleted.\<close>

definition sample_map :: "string \<Rightarrow> cluster \<Rightarrow> cleanup_content object option" where
  "sample_map m v = (if (''prod'', m) \<in> set (clMaps v)
     then Some ((empty_object ConfigMap_type zero_gvk (ConfigMapContent None))\<lparr>GetName := m, GetNamespace := ''prod''\<rparr>) else None)"

lemma sample_live: "live (\<lambda>w. sample_map m (wworld w)) w \<longleftrightarrow> (''prod'', m) \<in> set (clMaps (wworld w))"
  by (simp add: sample_map_def empty_object_def)

lemma sample_configmap_api_ok:
  "configmap_api_ok unwatched (\<lambda>w. cluster_server (sample_app n) (wworld w)) f
     (\<lambda>w. sample_map m (wworld w)) demo_env (sample_client n) ''prod'' m"
proof -
  note keep = cluster_calls_keep [of "sample_app n" f, THEN call_keeps_lift(1)]
  show ?thesis
    using keep
    by (auto simp: configmap_api_ok_def lift_client_def protected_wworld,
        auto simp: lift_call_def cluster_client_def sample_map_def split: prod.splits if_splits)
qed

lemma sample_app_simps [simp]:
  "GetDeletionTimestamp (cluster_object (sample_app n) v) = (if clDeleting v then Some 0 else None)"
  "GetFinalizers (cluster_object (sample_app n) v) = clFinalizers v"
  "GetStatus (cluster_object (sample_app n) v) = Some \<lparr>ObservedGeneration = 0, Conditions = []\<rparr>"
  "GroupVersionKind (cluster_object (sample_app n) v) = zero_gvk"
  "GetName (cluster_object (sample_app n) v) = ''app''" "GetNamespace (cluster_object (sample_app n) v) = ''prod''"
  "goType (cluster_object (sample_app n) v) = CleanupApp_type"
  "content (cluster_object (sample_app n) v) =
     CleanupAppContent \<lparr>ConfigMapName = n, specData = Some [''key'' \<mapsto> ''value'']\<rparr>"
  by (simp_all add: cluster_object_def sample_app_def zero_CleanupApp_def empty_object_def)

lemma sample_client_simps [simp]:
  "clientUpdate (sample_client n) ob w =
     (if clStored (wworld w)
      then (None, ob, w\<lparr>wworld := (if clDeleting (wworld w) \<and> GetFinalizers ob = [] then (wworld w)\<lparr>clStored := False\<rparr>
              else (wworld w)\<lparr>clFinalizers := GetFinalizers ob\<rparr>)\<rparr>)
      else (Some not_found, ob, w))"
  "clientStatusUpdate (sample_client n) ob w = (None, ob, w)"
  "clientApply (sample_client n) opts ob w =
     (None, ob, w\<lparr>wworld := (wworld w)\<lparr>clMaps := (GetNamespace ob, GetName ob) # clMaps (wworld w)\<rparr>\<rparr>)"
  "clientDelete (sample_client n) ob w =
     (if (GetNamespace ob, GetName ob) \<in> set (clMaps (wworld w))
      then (None, ob, w\<lparr>wworld := (wworld w)\<lparr>clMaps := removeAll (GetNamespace ob, GetName ob) (clMaps (wworld w))\<rparr>\<rparr>)
      else (Some not_found, ob, w))"
  "clientScheme (sample_client n) = demo_scheme"
  by (simp_all add: lift_client_def lift_call_def cluster_client_def)

lemma demo_env_calls:
  "AddFinalizer demo_env ob f = (if f \<in> set (GetFinalizers ob) then (False, ob)
     else (True, ob\<lparr>GetFinalizers := GetFinalizers ob @ [f]\<rparr>))"
  "ContainsFinalizer demo_env ob f = (f \<in> set (GetFinalizers ob))"
  "RemoveFinalizer demo_env ob f = (f \<in> set (GetFinalizers ob), ob\<lparr>GetFinalizers := filter (\<lambda>g. g \<noteq> f) (GetFinalizers ob)\<rparr>)"
  "NewAggregate demo_env [] = None"
  by (simp_all add: demo_env_def)

lemma sample_apply:
  assumes "GroupVersionKind cm = zero_gvk"
  shows "\<exists>ob. resources_Apply demo_env (sample_client n) opts cm w =
     (None, ob, w\<lparr>wworld := (wworld w)\<lparr>clMaps := (GetNamespace cm, GetName cm) # clMaps (wworld w)\<rparr>\<rparr>)"
  using assms
  by (simp add: resources_Apply_def ToUnstructured_def FromUnstructured_def EnsureGroupVersionKind_def
      GetGroupVersionKindForObject_def demo_scheme_def demo_env_def demo_gvk_def zero_gvk_def Let_def)

lemmas sample_eval =
  pipeline_run_def Let_def pipeline_execute_def provision_def updateStatus_def field_owner_def
  as_CleanupApp_def alloc_def on_object_def run_hooks_def processEntries_def NewResponse_def GetObjects_def
  EnsureGroupVersionKind_def GetGroupVersionKindForObject_def demo_env_calls demo_scheme_def

text \<open>Serving a new app: the finalizer is stored and the config map applied.\<close>

lemma sample_run_new:
  assumes "deref s r = cluster_object (sample_app n) v" and "world s = sample_world v" and "r < nextRef s"
    and "clStored v" and "\<not> clDeleting v" and "clFinalizers v = []"
  shows "world (snd (snd (pipeline_run demo_env (cleanup_pipeline demo_env B (sample_client n)) (sample_client n) ctx
       \<lparr>reqClient = sample_client n, reqObject = r\<rparr> s))) =
     sample_world (v\<lparr>clFinalizers := [DefaultFinalizer], clMaps := (''prod'', n) # clMaps v\<rparr>)"
proof -
  let ?cm = "(empty_object ConfigMap_type zero_gvk (ConfigMapContent (Some [''key'' \<mapsto> ''value''])))
     \<lparr>GetName := n, GetNamespace := ''prod'', GetLabels := Some [''app.kubernetes.io/name'' \<mapsto> ''app'',
        ''app.kubernetes.io/managed-by'' \<mapsto> ''unmanaged'']\<rparr>"
  have "GroupVersionKind ?cm = zero_gvk" by (simp add: empty_object_def)
  from sample_apply [OF this, of n "[FieldOwner cleanup_fieldManager]" "sample_world (v\<lparr>clFinalizers := [DefaultFinalizer]\<rparr>)"]
  obtain ob where "resources_Apply demo_env (sample_client n) [FieldOwner cleanup_fieldManager] ?cm
      (sample_world (v\<lparr>clFinalizers := [DefaultFinalizer]\<rparr>)) =
      (None, ob, sample_world (v\<lparr>clFinalizers := [DefaultFinalizer], clMaps := (''prod'', n) # clMaps v\<rparr>))"
    by auto
  with assms show ?thesis
    by (simp add: sample_eval cleanup_manifests_def watch_All_unwatched)
qed

text \<open>Serving a deleted app: the config map of its current spec is deleted, then the app is gone.\<close>

lemma sample_run_deleted:
  assumes "deref s r = cluster_object (sample_app n) v" and "world s = sample_world v" and "r < nextRef s"
    and "clStored v" and "clDeleting v" and "clFinalizers v = [DefaultFinalizer]"
  shows "world (snd (snd (pipeline_run demo_env (cleanup_pipeline demo_env B (sample_client n)) (sample_client n) ctx
       \<lparr>reqClient = sample_client n, reqObject = r\<rparr> s))) =
     sample_world (v\<lparr>clStored := False, clMaps := removeAll (''prod'', n) (clMaps v)\<rparr>)"
  using assms
  by (simp add: sample_eval pipeline_cleanup_def cleanup_cleanup_def empty_object_def removeAll_id)

lemma sample_step:
  assumes "\<And>s r. deref s r = cluster_object (sample_app n) v \<Longrightarrow> world s = sample_world v \<Longrightarrow> r < nextRef s \<Longrightarrow>
      world (snd (snd (pipeline_run demo_env (cleanup_pipeline demo_env B (sample_client n)) (sample_client n)
        (Some (WithControllerName \<lparr>ctxControllerName = None\<rparr> cleanup_controllerName))
        \<lparr>reqClient = sample_client n, reqObject = r\<rparr> s))) = sample_world v'"
    and "clStored v"
  shows "controller_step demo_env (cleanup_pipeline demo_env B (sample_client n)) (sample_client n) cleanup_controllerName k
     zero_CleanupApp env (sample_world v) (sample_world v')"
proof -
  let ?s = "\<lparr>heap = (\<lambda>_. zero_CleanupApp), nextRef = 1, world = sample_world v\<rparr>"
  let ?t = "snd (alloc zero_CleanupApp ?s)"
  have get: "on_object (clientGet (sample_client n) k) 1 ?t = (None, store 1 (cluster_object (sample_app n) v) ?t)"
    using assms(2) by (simp add: on_object_def lift_client_def lift_call_def cluster_client_def alloc_def store_def)
  have al: "alloc zero_CleanupApp ?s = (1, ?t)" by (simp add: alloc_def)
  let ?r = "adapter_Reconcile zero_CleanupApp (AsReconciler (sample_client n) cleanup_controllerName
       (TypedPipeline_Reconcile demo_env (cleanup_pipeline demo_env B (sample_client n)))) \<lparr>ctxControllerName = None\<rparr> k ?s"
  have "world (snd ?r) = sample_world v'"
    unfolding adapter_pipeline_state [OF al get cleanup_pipeline_fields(7)] option.case
    by (rule assms(1)) (simp_all add: alloc_def)
  then show ?thesis
    using controller_step.reconcile [of zero_CleanupApp "sample_client n" cleanup_controllerName demo_env
        "cleanup_pipeline demo_env B (sample_client n)" "\<lparr>ctxControllerName = None\<rparr>" k ?s "fst ?r" "snd ?r" env] by simp
qed

text \<open>
  Renaming the config map in the spec orphans the one with the old name: the app is served with the
  name \<open>old\<close>, the user changes it to \<open>new\<close> and deletes the app; the cleanup of the new spec runs, the
  app is gone, and the config map \<open>old\<close> is still there.
\<close>

lemma rename_orphans_configmap:
  assumes "v = \<lparr>clStored = True, clFinalizers = [], clDeleting = False, clMaps = []\<rparr>"
  shows "\<exists>v1 v2 v3.
     controller_step demo_env (cleanup_pipeline demo_env B (sample_client ''old'')) (sample_client ''old'')
       cleanup_controllerName k zero_CleanupApp env (sample_world v) (sample_world v1) \<and>
     user_delete v1 v2 \<and>
     controller_step demo_env (cleanup_pipeline demo_env B (sample_client ''new'')) (sample_client ''new'')
       cleanup_controllerName k zero_CleanupApp env (sample_world v2) (sample_world v3) \<and>
     cluster_server (sample_app ''new'') v3 = None \<and> (''prod'', ''old'') \<in> set (clMaps v3)"
proof (intro exI conjI)
  let ?u = "v\<lparr>clFinalizers := [DefaultFinalizer], clMaps := (''prod'', ''old'') # clMaps v\<rparr>"
  let ?v = "?u\<lparr>clDeleting := True\<rparr>"
  let ?x = "?v\<lparr>clStored := False, clMaps := removeAll (''prod'', ''new'') (clMaps ?v)\<rparr>"
  show "controller_step demo_env (cleanup_pipeline demo_env B (sample_client ''old'')) (sample_client ''old'')
       cleanup_controllerName k zero_CleanupApp env (sample_world v) (sample_world ?u)"
    by (rule sample_step, rule sample_run_new) (simp_all add: assms)
  show "user_delete ?u ?v" by (simp add: user_delete_def)
  show "controller_step demo_env (cleanup_pipeline demo_env B (sample_client ''new'')) (sample_client ''new'')
       cleanup_controllerName k zero_CleanupApp env (sample_world ?v) (sample_world ?x)"
    by (rule sample_step, rule sample_run_deleted) (simp_all add: assms)
  show "cluster_server (sample_app ''new'') ?x = None" by (simp add: cluster_server_def)
  show "(''prod'', ''old'') \<in> set (clMaps ?x)" by simp
qed

section \<open>Properties\<close>

text \<open>
  C2: the cleanup controller leaves no config map behind, as long as the name of the config map in
  the app's spec never changes: every \<open>Get\<close> of the app returns one in namespace \<open>ns\<close> whose spec names
  the config map \<open>n\<close> (\<open>app_shape\<close>). In every interleaving of the reconciles with the steps of users
  and other controllers that do not take the finalizer off and do not create the config map, whenever
  the config map is live (stored and not being deleted) the app is stored with the finalizer; so the
  app is not gone from the cluster before a \<open>Delete\<close> of the config map has returned nil or not-found.
  The condition on the name is needed: \<open>rename_orphans_configmap\<close> is a run with a renamed config map
  that leaves the old one behind. Reads of the app are not stale (\<open>api_server_ok\<close>).
\<close>

theorem cleanup_controller_no_orphan:
  assumes "finalizers_ok E" and "aggregate_ok E" and "\<forall>w. valid w \<longrightarrow> theWatcher w = watch_New []"
    and "configmap_api_ok valid server DefaultFinalizer cms E cli ns n"
    and "api_server_ok valid server DefaultFinalizer (live cms) (app_shape ns n) cli k"
    and "environment_ok valid server DefaultFinalizer (live cms) env"
    and "valid w0" and "\<not> live cms w0"
    and "(controller_step E (cleanup_pipeline E B cli) cli cleanup_controllerName k zero_CleanupApp env)\<^sup>*\<^sup>* w0 w"
  shows "live cms w \<longrightarrow> (\<exists>app. server w = Some app \<and> DefaultFinalizer \<in> set (GetFinalizers app))"
proof -
  have uw: "\<And>w. valid w \<Longrightarrow> unwatched w" using assms(3) by blast
  have p: "cleanup_pipeline E B cli = Pipeline_SetClient (Some cli) (NewPipeline (cleanup_options_list E B))"
    "CleanupActions (plOpts (cleanup_pipeline E B cli)) \<noteq> []"
    "DefaultFinalizer = Finalizer (plOpts (cleanup_pipeline E B cli))"
    by (simp_all add: cleanup_pipeline_def [symmetric] NewTyped_def [symmetric])
  have "no_orphans valid server DefaultFinalizer (live cms) w"
    by (rule protocol_invariant [OF p assms(1,2,5,6) cleanup_contract(2,1) [OF assms(4) uw] assms(7-9)])
  then show ?thesis by (simp add: protected_def)
qed

theorem cleanup_controller_no_orphan_witness:
  "let w = sample_world \<lparr>clStored = True, clFinalizers = [DefaultFinalizer], clDeleting = True, clMaps = [(''prod'', ''data'')]\<rparr>
   in (''prod'', ''data'') \<in> set (clMaps (wworld w)) \<and>
      (\<exists>app. cluster_server (sample_app ''data'') (wworld w) = Some app \<and> DefaultFinalizer \<in> set (GetFinalizers app))"
proof -
  let ?v = "\<lparr>clStored = True, clFinalizers = [], clDeleting = False, clMaps = []\<rparr>"
  let ?u = "?v\<lparr>clFinalizers := [DefaultFinalizer], clMaps := (''prod'', ''data'') # clMaps ?v\<rparr>"
  let ?x = "?u\<lparr>clDeleting := True\<rparr>"
  let ?cli = "sample_client ''data''"
  let ?cms = "\<lambda>w :: (cleanup_content, unit, unit, cluster) wstate. sample_map ''data'' (wworld w)"
  let ?env = "\<lambda>w w' :: (cleanup_content, unit, unit, cluster) wstate.
     theWatcher w' = theWatcher w \<and> user_delete (wworld w) (wworld w')"
  let ?k = "\<lparr>nnNamespace = ''prod'', nnName = ''app''\<rparr>"
  let ?step = "controller_step demo_env (cleanup_pipeline demo_env B ?cli) ?cli cleanup_controllerName ?k zero_CleanupApp ?env"
  have "?step (sample_world ?v) (sample_world ?u)"
    by (rule sample_step, rule sample_run_new) simp_all
  moreover have "?step (sample_world ?u) (sample_world ?x)"
    by (rule controller_step.environment) (simp add: user_delete_def)
  ultimately have steps: "?step\<^sup>*\<^sup>* (sample_world ?v) (sample_world ?x)"
    by (meson converse_rtranclp_into_rtranclp r_into_rtranclp)
  have start: "unwatched (sample_world ?v)" "\<not> live ?cms (sample_world ?v)"
    and uw: "\<forall>w. unwatched w \<longrightarrow> theWatcher w = watch_New []" by (simp_all add: sample_map_def)
  note api = sample_api_ok [where R = "\<lambda>ms. (''prod'', ''data'') \<in> set ms", folded sample_live]
  from cleanup_controller_no_orphan [OF demo_env_ok(1,2) uw sample_configmap_api_ok
      api start steps]
  show ?thesis by (simp add: sample_map_def empty_object_def)
qed

text \<open>What the client calls of a request keep.\<close>

definition client_keeps :: "('w \<Rightarrow> bool) \<Rightarrow> ('c, 'w) client \<Rightarrow> bool" where
  "client_keeps I cli \<longleftrightarrow> (\<forall>k. call_keeps I (clientGet cli k)) \<and> call_keeps I (clientUpdate cli) \<and>
     call_keeps I (clientStatusUpdate cli) \<and> (\<forall>opts. call_keeps I (clientApply cli opts))"

definition simple_pipeline ::
    "'c env \<Rightarrow> ('c, 's) combinators \<Rightarrow> 'c \<Rightarrow> 'c engine \<Rightarrow> ('c, ('c, 's, 'k, 'w) wstate) client \<Rightarrow>
     ('c, ('c, 's, 'k, 'w) wstate) Pipeline" where
  "simple_pipeline E B c0 e cli = Pipeline_SetClient (Some cli) (NewTyped (simple_options_list E B c0 e))"

lemma simple_pipeline_fields [simp]:
  "Actions (plOpts (simple_pipeline E B c0 e cli)) = [simple_manifests E e]"
  "CleanupActions (plOpts (simple_pipeline E B c0 e cli)) = []"
  "PreApply (plOpts (simple_pipeline E B c0 e cli)) = []"
  "PostApply (plOpts (simple_pipeline E B c0 e cli)) = [watch_All E B c0]"
  "plClient (plOpts (simple_pipeline E B c0 e cli)) = Some cli"
  by (simp_all add: simple_pipeline_def NewTyped_def Pipeline_SetClient_def simple_options_list_def
      demo_pipeline_eval opt_defs)

lemma simple_setup_unwatched:
  assumes "simple_SetupWithManager E A B c0 zero V (Inr e) (Some mgr) s = (err, s')" and "builder_keeps unwatched A"
  shows "unwatched (bworld s')"
proof -
  have complete: "unwatched (bworld t)"
    if "Builder_Complete E A c0 (pipeline_impl E cli p) b (s\<lparr>bworld := (bworld s)\<lparr>theWatcher := watch_New []\<rparr>\<rparr>) = (x, b', t)"
    for cli p b x b' t
    using pipeline_Complete_keeps [OF assms(2) _ that] by simp
  from assms(1) show ?thesis
    by (auto simp: simple_SetupWithManager_def Let_def split: sum.splits prod.splits dest: complete)
qed

text \<open>
  C28: the dynamic watcher of the simple controller never watches anything. Its setup injects neither
  a controller nor a cache into the watcher, because the pipeline takes only a client; so in every
  state reached by serving requests the watcher is the one \<open>watch.New()\<close> made, and the post-apply hook
  returns at once without registering a source or a state, whatever objects were applied.
\<close>

theorem simple_controller_never_watches:
  assumes "simple_SetupWithManager E A B c0 zero V (Inr e) (Some mgr) s = (None, s')"
    and "builder_keeps unwatched A" and "client_keeps unwatched (managerClient mgr)"
    and "\<forall>w w'. env w w' \<longrightarrow> theWatcher w' = theWatcher w"
    and "(controller_step E (simple_pipeline E B c0 e (managerClient mgr)) (managerClient mgr) simple_controllerName
            k zero env)\<^sup>*\<^sup>* (bworld s') w"
  shows "theWatcher w = watch_New [] \<and> (\<forall>g. Watcher_State (theWatcher w) g = None) \<and>
     (\<forall>ctx owner objs t. world t = w \<longrightarrow> watch_All E B c0 ctx owner objs t = (None, t))"
proof -
  let ?cli = "managerClient mgr"
  have keeps: "controller_keeps unwatched ?cli (simple_pipeline E B c0 e ?cli)"
    using assms(3)
    by (simp add: controller_keeps_def serving_keeps_def client_keeps_def action_keeps_def simple_manifests_world
        watch_All_hook_keeps)
  have "unwatched w"
    using assms(5)
  proof (induction rule: rtranclp_induct)
    case base
    from simple_setup_unwatched [OF assms(1,2)] show ?case .
  next
    case (step v w)
    from step.hyps(2) show ?case
    proof cases
      case environment
      with assms(4) step.IH show ?thesis by auto
    next
      case (reconcile ctx s r s')
      from adapter_keeps [OF keeps simple_pipeline_fields(5) _ reconcile(3)] reconcile(1,2) step.IH show ?thesis by simp
    qed
  qed
  then show ?thesis
    by (auto simp: watch_All_unwatched Watcher_State_def watch_New_def WatchOptions_ApplyOptions_def opt_defs)
qed

definition quiet_api ::
    "(cleanup_content, unit, unit, (cleanup_content, unit, unit, cluster) wstate, unit) builder_api" where
  "quiet_api = \<lparr>NewController = (\<lambda>name mgr r cfg w. (Inr (\<lambda>src w. (None, w)), w)),
     EnqueueRequestForObject = \<lparr>hCreate = (\<lambda>_ _ s. s), hUpdate = (\<lambda>_ _ s. s), hDelete = (\<lambda>_ _ s. s), hGeneric = (\<lambda>_ _ s. s)\<rparr>,
     EnqueueRequestForOwner = (\<lambda>scheme owner. \<lparr>hCreate = (\<lambda>_ _ s. s), hUpdate = (\<lambda>_ _ s. s), hDelete = (\<lambda>_ _ s. s), hGeneric = (\<lambda>_ _ s. s)\<rparr>)\<rparr>"

definition sample_manager :: "(cleanup_content, unit, (cleanup_content, unit, unit, cluster) wstate) manager" where
  "sample_manager = \<lparr>managerCache = (), managerClient = sample_client ''data'', managerScheme = demo_scheme\<rparr>"

definition sample_engine :: "cleanup_content engine" where
  "sample_engine ctx transform u = Inr [u]"

definition sample_start :: "(cleanup_content, unit, unit, cluster) wstate bstate" where
  "sample_start = \<lparr>staticWatched = Map.empty,
     bworld = sample_world \<lparr>clStored = True, clFinalizers = [], clDeleting = False, clMaps = []\<rparr>\<rparr>"

definition sample_versions :: api_versions where
  "sample_versions = \<lparr>core_v1 = ([], ''v1''), apps_v1 = (''apps'', ''v1''), batch_v1 = (''batch'', ''v1''),
     rbac_v1 = (''rbac.authorization.k8s.io'', ''v1''), networking_v1 = (''networking.k8s.io'', ''v1''),
     storage_v1 = (''storage.k8s.io'', ''v1''), apiextensions_v1 = (''apiextensions.k8s.io'', ''v1''),
     policy_v1 = (''policy'', ''v1'')\<rparr>"

abbreviation sample_simple_setup ::
    "error option \<times> (cleanup_content, unit, unit, cluster) wstate bstate" where
  "sample_simple_setup \<equiv> simple_SetupWithManager demo_env quiet_api demo_combinators (ConfigMapContent None)
     zero_CleanupApp sample_versions (Inr sample_engine) (Some sample_manager) sample_start"

lemma sample_simple_setup_ok: "fst sample_simple_setup = None"
  by (simp add: simple_SetupWithManager_def NewControllerBuilder_def ControllerOptions_ApplyOptions_def
      FunctionalOption_ApplyTo_def opt_defs sample_manager_def Builder_For_def Builder_Owns_def BuilderWatchOptions_ApplyOptions_def
      registerWatch_def registerWatchGVK_def zero_CleanupApp_def empty_object_def validateGVK_def gvks_Deployment_def
      sample_versions_def gvk_watch_object_def resolvePredicates_def Builder_Complete_def quiet_api_def
      inject_def pipeline_impl_def doRegisterWatch_def processObject_def GetGroupVersionKindForObject_def
      zero_gvk_def demo_scheme_def Let_def)

theorem simple_controller_never_watches_witness:
  "let w = world (snd (adapter_Reconcile zero_CleanupApp (AsReconciler (sample_client ''data'') simple_controllerName
         (TypedPipeline_Reconcile demo_env (simple_pipeline demo_env demo_combinators (ConfigMapContent None)
            sample_engine (sample_client ''data''))))
         \<lparr>ctxControllerName = None\<rparr> \<lparr>nnNamespace = ''prod'', nnName = ''app''\<rparr>
         \<lparr>heap = (\<lambda>_. zero_CleanupApp), nextRef = 1, world = bworld (snd sample_simple_setup)\<rparr>))
   in fst sample_simple_setup = None \<and> theWatcher w = watch_New []"
proof -
  let ?p = "simple_pipeline demo_env demo_combinators (ConfigMapContent None) sample_engine (sample_client ''data'')"
  let ?k = "\<lparr>nnNamespace = ''prod'', nnName = ''app''\<rparr>"
  let ?r = "adapter_Reconcile zero_CleanupApp (AsReconciler (sample_client ''data'') simple_controllerName
     (TypedPipeline_Reconcile demo_env ?p)) \<lparr>ctxControllerName = None\<rparr> ?k
     \<lparr>heap = (\<lambda>_. zero_CleanupApp), nextRef = 1, world = bworld (snd sample_simple_setup)\<rparr>"
  have mgr: "managerClient sample_manager = sample_client ''data''" by (simp add: sample_manager_def)
  have done_ok: "sample_simple_setup = (None, snd sample_simple_setup)"
    using sample_simple_setup_ok by (metis prod.collapse)
  have step: "(controller_step demo_env ?p (sample_client ''data'') simple_controllerName ?k zero_CleanupApp (\<lambda>_ _. False))\<^sup>*\<^sup>*
      (bworld (snd sample_simple_setup)) (world (snd ?r))"
    using controller_step.reconcile [of zero_CleanupApp "sample_client ''data''" simple_controllerName demo_env ?p
        "\<lparr>ctxControllerName = None\<rparr>" ?k "\<lparr>heap = (\<lambda>_. zero_CleanupApp), nextRef = 1, world = bworld (snd sample_simple_setup)\<rparr>"
        "fst ?r" "snd ?r" "\<lambda>_ _. False"] by (simp add: r_into_rtranclp)
  have quiet: "builder_keeps unwatched quiet_api" by (simp add: builder_keeps_def quiet_api_def)
  have client: "client_keeps unwatched (managerClient sample_manager)"
    unfolding mgr by (simp add: client_keeps_def lift_client_def call_keeps_lift(2))
  from simple_controller_never_watches [OF done_ok quiet client, unfolded mgr, of "\<lambda>_ _. False", OF _ step]
  show ?thesis using sample_simple_setup_ok by (simp add: Let_def)
qed

end
