(* ===== verification/Example_Main.thy ===== *)
theory Example_Main
  imports Examples Example_Controllers
begin

text \<open>
  The two programs \<^verbatim>\<open>src/examples/*/main.go\<close>: the configuration is bound to flags, the command line is
  parsed, the configuration loaded, the logger configured, and the manager created, given its
  controller and started. They tie the configuration packages to the controllers. The process and
  controller-runtime's manager are a parameter, \<open>process_api\<close>.
\<close>

section \<open>The process\<close>

text \<open>
  How the process ends: by \<open>pflag.Parse\<close>, which exits itself with the given status; after logging
  an error with a message, with status 1; by \<open>GetConfigOrDie\<close>, with status 1; or by the return of
  \<open>main\<close>.
\<close>

datatype main_exit = ExitParse nat | ExitError string error | ExitConfig | Returned

text \<open>\<open>ctrl.Options\<close>, the fields the programs set.\<close>

record 'c manager_options =
  moScheme :: "'c scheme"
  moLeaderElection :: bool
  moLeaderElectionID :: string
  moMetricsBindAddress :: string

text \<open>
  Flags are shared by reference between the flag set and viper, so that parsing changes what viper
  returns: \<open>pflagParse\<close> takes and gives both.
\<close>

record ('fs, 'v, 'o, 'r, 'c, 'k, 'w) process_api =
  addGoFlagSet :: "'fs \<Rightarrow> 'fs"
  pflagParse :: "string list \<Rightarrow> 'fs \<Rightarrow> 'v \<Rightarrow> nat + 'fs \<times> 'v"
  setLogger :: "'o \<Rightarrow> 'w \<Rightarrow> 'w"
  getConfig :: "'r option"
  newManager :: "'r \<Rightarrow> 'c manager_options \<Rightarrow> 'w \<Rightarrow> (error + ('c, 'k, 'w) manager) \<times> 'w"
  managerStart :: "('c, 'k, 'w) manager \<Rightarrow> 'w \<Rightarrow> error option \<times> 'w"

section \<open>Reading the configuration back\<close>

text \<open>The struct the loader decodes into is the one \<open>main\<close> reads: its fields, by name.\<close>

definition field_of :: "goval \<Rightarrow> string \<Rightarrow> goval option" where
  "field_of v n = (case v of VStruct sfs \<Rightarrow> map_option fieldValue (List.find (\<lambda>f. fieldName f = n) sfs) | _ \<Rightarrow> None)"

definition string_of :: "goval \<Rightarrow> string \<Rightarrow> string" where
  "string_of v n = (case field_of v n of Some (VString s) \<Rightarrow> s | _ \<Rightarrow> [])"

definition bool_of :: "goval \<Rightarrow> string \<Rightarrow> bool" where
  "bool_of v n = (case field_of v n of Some (VBool b) \<Rightarrow> b | _ \<Rightarrow> False)"

definition struct_of :: "goval \<Rightarrow> string \<Rightarrow> goval" where
  "struct_of v n = (case field_of v n of Some (VStruct sfs) \<Rightarrow> VStruct sfs | _ \<Rightarrow> VStruct [])"

definition zap_of :: "goval \<Rightarrow> zap_Config" where
  "zap_of v = \<lparr>zcDevelopment = bool_of v ''Development'', zcLevel = string_of v ''Level'',
     zcStacktraceLevel = string_of v ''StacktraceLevel'', zcEncoder = string_of v ''Encoder'',
     zcTimeEncoding = string_of v ''TimeEncoding''\<rparr>"

definition cleanup_of :: "goval \<Rightarrow> CleanupControllerConfig" where
  "cleanup_of v = \<lparr>ccZap = zap_of (struct_of v ''Zap''), ccMetricsBindAddr = string_of v ''MetricsBindAddr'',
     ccLeaderElection = bool_of v ''LeaderElection''\<rparr>"

definition simple_of :: "goval \<Rightarrow> SimpleControllerConfig" where
  "simple_of v = \<lparr>scZap = zap_of (struct_of v ''Zap''),
     scFeatureFlags = \<lparr>EnableDebugLogging = bool_of (struct_of v ''FeatureFlags'') ''EnableDebugLogging''\<rparr>,
     scMetricsBindAddr = string_of v ''MetricsBindAddr'', scLeaderElection = bool_of v ''LeaderElection''\<rparr>"

lemmas value_defs = field_of_def string_of_def bool_of_def struct_of_def zap_of_def zap_fields_def

lemma cleanup_of_fields [simp]: "cleanup_of (VStruct (cleanup_fields c)) = c"
  by (simp add: cleanup_of_def cleanup_fields_def value_defs)

lemma simple_of_fields [simp]: "simple_of (VStruct (simple_fields c)) = c"
  by (simp add: simple_of_def simple_fields_def value_defs)

section \<open>The programs\<close>

definition simple_options :: "'fs \<Rightarrow> ('fs LoaderOptions \<Rightarrow> 'fs LoaderOptions) list" where
  "simple_options commandLine =
     [WithEnvPrefix ''SIMPLE_CONTROLLER'', WithConfigPathEnvVar ''SIMPLE_CONTROLLER_CONFIG_PATH'',
      WithFlags (Some commandLine)]"

text \<open>From \<open>config.For\<close> to \<open>loader.Load\<close>, the same in both programs up to the configuration.\<close>

definition load_configuration ::
    "('fs, 'v) flags_env \<Rightarrow> ('v, 'm) viper_api \<Rightarrow> hook_env \<Rightarrow> os_api \<Rightarrow> ('fs, 'v, 'o, 'r, 'c, 'k, 'w) process_api \<Rightarrow>
     (goval \<Rightarrow> error option) \<Rightarrow> string \<Rightarrow> sfield list \<Rightarrow> ('fs LoaderOptions \<Rightarrow> 'fs LoaderOptions) list \<Rightarrow>
     string list \<Rightarrow> 'fs \<Rightarrow> (main_exit + goval) outcome" where
  "load_configuration E V H Os P validate tname sfs opts args commandLine =
     bind_outcome (config_For E V H (Some validate) (Some (TPointer (TStruct tname), VPtr (Some (VStruct sfs)))) opts)
       (\<lambda>(r, fs). Ret
          (case r of
             Inl err \<Rightarrow> Inl (ExitError ''failed to create config loader'' err)
           | Inr loader \<Rightarrow>
               (case pflagParse P args (case fs of None \<Rightarrow> commandLine | Some fs \<Rightarrow> fs) (loaderV loader) of
                  Inl code \<Rightarrow> Inl (ExitParse code)
                | Inr (fs, v) \<Rightarrow>
                    (case Loader_Load V Os (loader\<lparr>loaderV := v\<rparr>) of
                       (Some err, l) \<Rightarrow> Inl (ExitError ''failed to load configuration'' err)
                     | (None, l) \<Rightarrow> Inr (loaderCfg l)))))"

text \<open>From \<open>ctrl.NewManager\<close> to the end, the same in both programs up to the controller.\<close>

definition run_manager ::
    "('fs, 'v, 'o, 'r, 'c, 'k, 'w) process_api \<Rightarrow> 'c manager_options \<Rightarrow>
     (('c, 'k, 'w) manager option \<Rightarrow> 'w bstate \<Rightarrow> error option \<times> 'w bstate) \<Rightarrow> 'w bstate \<Rightarrow> main_exit \<times> 'w bstate" where
  "run_manager P mopts setupWithManager s =
     (case getConfig P of
        None \<Rightarrow> (ExitConfig, s)
      | Some restConfig \<Rightarrow>
          (case newManager P restConfig mopts (bworld s) of
             (Inl err, w) \<Rightarrow> (ExitError ''unable to create manager'' err, s\<lparr>bworld := w\<rparr>)
           | (Inr mgr, w) \<Rightarrow>
               (case setupWithManager (Some mgr) (s\<lparr>bworld := w\<rparr>) of
                  (Some err, s) \<Rightarrow> (ExitError ''unable to setup controller'' err, s)
                | (None, s) \<Rightarrow>
                    (case managerStart P mgr (bworld s) of
                       (Some err, w) \<Rightarrow> (ExitError ''problem running manager'' err, s\<lparr>bworld := w\<rparr>)
                     | (None, w) \<Rightarrow> (Returned, s\<lparr>bworld := w\<rparr>)))))"

definition cleanup_manager_options :: "'c scheme \<Rightarrow> CleanupControllerConfig \<Rightarrow> 'c manager_options" where
  "cleanup_manager_options sch cfg =
     \<lparr>moScheme = sch, moLeaderElection = ccLeaderElection cfg,
      moLeaderElectionID = ''cleanup-controller.example.com'', moMetricsBindAddress = ccMetricsBindAddr cfg\<rparr>"

definition cleanup_main where
  "cleanup_main E V H Os Z P sch KE A B args commandLine s =
     (let cfg = cleanup_DefaultConfig; commandLine = addGoFlagSet P commandLine
      in bind_outcome
           (load_configuration E V H Os P (cleanup_Validate \<circ> cleanup_of) ''main.CleanupControllerConfig''
              (cleanup_fields cfg) (cleanup_options commandLine) args commandLine)
           (\<lambda>r. Ret
              (case r of
                 Inl ex \<Rightarrow> (ex, s)
               | Inr val \<Rightarrow>
                   (let cfg = cleanup_of val
                    in case ToOptions Z (ccZap cfg) of
                         (Some err, zapOpts) \<Rightarrow> (ExitError ''failed to configure logger'' err, s)
                       | (None, zapOpts) \<Rightarrow>
                           run_manager P (cleanup_manager_options sch cfg) (cleanup_SetupWithManager KE A B)
                             (s\<lparr>bworld := setLogger P zapOpts (bworld s)\<rparr>)))))"

definition simple_manager_options :: "'c scheme \<Rightarrow> SimpleControllerConfig \<Rightarrow> 'c manager_options" where
  "simple_manager_options sch cfg =
     \<lparr>moScheme = sch, moLeaderElection = scLeaderElection cfg,
      moLeaderElectionID = ''simple-controller.example.com'', moMetricsBindAddress = scMetricsBindAddr cfg\<rparr>"

definition simple_main where
  "simple_main E V H Os Z P sch KE A B c0 zero versions newEngine args commandLine s =
     (let cfg = simple_DefaultConfig
      in bind_outcome
           (load_configuration E V H Os P (simple_Validate \<circ> simple_of) ''main.SimpleControllerConfig''
              (simple_fields cfg) (simple_options commandLine) args commandLine)
           (\<lambda>r. Ret
              (case r of
                 Inl ex \<Rightarrow> (ex, s)
               | Inr val \<Rightarrow>
                   (let cfg = simple_of val
                    in case ToOptions Z (scZap cfg) of
                         (Some err, zapOpts) \<Rightarrow> (ExitError ''failed to create zap options'' err, s)
                       | (None, zapOpts) \<Rightarrow>
                           run_manager P (simple_manager_options sch cfg) (simple_SetupWithManager KE A B c0 zero versions newEngine)
                             (s\<lparr>bworld := setLogger P zapOpts (bworld s)\<rparr>)))))"

section \<open>Loading the configuration\<close>

lemma Load_validates:
  assumes "Loader_Load V Os l = (None, l')" and "cfgValidator l = Some validate"
  shows "validate (loaderCfg l') = None"
  using assms by (auto simp: Loader_Load_def Let_def split: option.splits prod.splits if_splits)

text \<open>A configuration whose tags are well formed and give distinct names that the flag set does not have.\<close>

definition fresh_flags :: "('fs, 'v) flags_env \<Rightarrow> sfield list \<Rightarrow> 'fs \<Rightarrow> bool" where
  "fresh_flags E sfs fs \<longleftrightarrow> list_all (\<lambda>n. fsLookup E fs n = None) (map entry_name (flag_entries sfs [] ''-''))"

definition flags_wf :: "sfield list \<Rightarrow> bool" where
  "flags_wf sfs \<longleftrightarrow> list_all (\<lambda>e. entry_ok e \<and> ptr_typed (fst (projr e))) (flag_entries sfs [] ''-'') \<and>
     distinct (map entry_name (flag_entries sfs [] ''-''))"

lemma load_configuration_flags:
  fixes E :: "('fs, 'v) flags_env"
  assumes "pflag_ok E" and "viper_bind_ok E bound" and "flags_wf sfs" and "fresh_flags E sfs fs"
    and "FlagSet (for_options H opts) = Some fs" and "NestedSeparator (for_options H opts) = ''-''"
  obtains l :: "('fs, 'v) Loader" and fs' where "cfgValidator l = Some validate"
    and "\<And>n. n \<notin> set (map entry_name (flag_entries sfs [] ''-'')) \<Longrightarrow> fsLookup E fs' n = fsLookup E fs n"
    and "load_configuration E V H Os P validate tname sfs opts args commandLine = Ret
       (case pflagParse P args fs' (loaderV l) of
          Inl code \<Rightarrow> Inl (ExitParse code)
        | Inr (fs, v) \<Rightarrow>
            (case Loader_Load V Os (l\<lparr>loaderV := v\<rparr>) of
               (Some err, l) \<Rightarrow> Inl (ExitError ''failed to load configuration'' err)
             | (None, l) \<Rightarrow> Inr (loaderCfg l)))"
proof -
  let ?v = "sources_viper V (for_options H opts) sfs"
  have fresh: "ptr_typed f \<and> fsLookup E fs (FlagName m) = None"
    if "Inr (f, m) \<in> set (flag_entries sfs [] ''-'')" for f m
    using assms(3,4) that by (force simp: flags_wf_def fresh_flags_def list_all_iff)
  have ok: "list_all entry_ok (flag_entries sfs [] ''-'')" "distinct (map entry_name (flag_entries sfs [] ''-''))"
    using assms(3) by (auto simp: flags_wf_def list_all_iff)
  from BindStruct_outcome [OF assms(1,2) fresh, where v = ?v] ok obtain fs' v' where
    b: "BindStruct E fs ?v sfs [] ''-'' = Ret (None, fs', v')" by blast
  let ?l = "\<lparr>loaderV = v', loaderOpts = (for_options H opts)\<lparr>FlagSet := Some fs'\<rparr>, loaderCfg = VStruct sfs,
     cfgValidator = Some validate\<rparr>"
  have frame: "fsLookup E fs' n = fsLookup E fs n" if "n \<notin> set (map entry_name (flag_entries sfs [] ''-''))" for n
    using BindStruct_frame(1) [OF assms(1,2) fresh b, of n] that by force
  show ?thesis
    by (rule that [of ?l fs'])
      (simp_all add: frame load_configuration_def For_struct assms(5,6) b)
qed

lemma load_configuration_safe:
  fixes E :: "('fs, 'v) flags_env"
  assumes "pflag_ok E" and "viper_bind_ok E bound" and "flags_wf sfs" and "fresh_flags E sfs fs"
    and "FlagSet (for_options H opts) = Some fs" and "NestedSeparator (for_options H opts) = ''-''"
  shows "\<exists>r. load_configuration E V H Os P validate tname sfs opts args commandLine = Ret r \<and>
    (\<forall>ex err. r = Inl ex \<longrightarrow> ex \<noteq> Returned \<and> ex \<noteq> ExitError ''failed to create config loader'' err) \<and>
    (\<forall>val. r = Inr val \<longrightarrow> validate val = None)"
proof (rule load_configuration_flags [OF assms])
  fix l :: "('fs, 'v) Loader" and fs'
  assume l: "cfgValidator l = Some validate"
    and eq: "load_configuration E V H Os P validate tname sfs opts args commandLine = Ret
       (case pflagParse P args fs' (loaderV l) of
          Inl code \<Rightarrow> Inl (ExitParse code)
        | Inr (fs, v) \<Rightarrow>
            (case Loader_Load V Os (l\<lparr>loaderV := v\<rparr>) of
               (Some err, l) \<Rightarrow> Inl (ExitError ''failed to load configuration'' err)
             | (None, l) \<Rightarrow> Inr (loaderCfg l)))" (is "_ = Ret ?r")
  have valid: "validate val = None" if "?r = Inr val" for val
    using that l by (auto split: sum.splits prod.splits option.splits dest!: Load_validates [where validate = validate])
  have "?r = Inl ex \<longrightarrow> ex \<noteq> Returned \<and> ex \<noteq> ExitError ''failed to create config loader'' err" for ex err
    by (auto split: sum.splits prod.splits option.splits)
  with eq valid show ?thesis by blast
qed

lemma load_configuration_newManager:
  "load_configuration E V H Os (P\<lparr>newManager := f\<rparr>) validate tname sfs opts args commandLine =
   load_configuration E V H Os P validate tname sfs opts args commandLine"
  by (simp add: load_configuration_def cong: sum.case_cong prod.case_cong)

lemma cleanup_for_options:
  "FlagSet (for_options H (cleanup_options fs)) = Some fs" "NestedSeparator (for_options H (cleanup_options fs)) = ''-''"
  by (simp_all add: for_options_def LoaderOptions_ApplyOptions_def FunctionalOption_ApplyTo_def cleanup_options_def
      WithFlags_def WithEnvPrefix_def WithConfigPathEnvVar_def defaultLoaderOptions_def)

lemma simple_for_options:
  "FlagSet (for_options H (simple_options fs)) = Some fs" "NestedSeparator (for_options H (simple_options fs)) = ''-''"
  by (simp_all add: for_options_def LoaderOptions_ApplyOptions_def FunctionalOption_ApplyTo_def simple_options_def
      WithFlags_def WithEnvPrefix_def WithConfigPathEnvVar_def defaultLoaderOptions_def)

lemma cleanup_flags_wf: "flags_wf (cleanup_fields cleanup_DefaultConfig)" by code_simp

lemma simple_flags_wf: "flags_wf (simple_fields simple_DefaultConfig)" by code_simp

lemma cleanup_names:
  "map entry_name (flag_entries (cleanup_fields cleanup_DefaultConfig) [] ''-'') =
     [''zap-development'', ''zap-level'', ''zap-stacktrace-level'', ''zap-encoder'', ''zap-time-encoding'',
      ''metrics-bind-addr'', ''leader-election'']"
  by code_simp

lemma simple_names:
  "map entry_name (flag_entries (simple_fields simple_DefaultConfig) [] ''-'') =
     [''zap-development'', ''zap-level'', ''zap-stacktrace-level'', ''zap-encoder'', ''zap-time-encoding'',
      ''feature-flags-enable-debug-logging'', ''metrics-bind-addr'', ''leader-election'']"
  by code_simp

section \<open>Properties\<close>

text \<open>The manager options \<open>cleanup_main\<close> may use: a metrics address that passed the validation.\<close>

definition cleanup_manager_ok :: "'c scheme \<Rightarrow> 'c manager_options \<Rightarrow> bool" where
  "cleanup_manager_ok sch mopts \<longleftrightarrow> moScheme mopts = sch \<and> moMetricsBindAddress mopts \<noteq> [] \<and>
     moLeaderElectionID mopts = ''cleanup-controller.example.com''"

lemma run_manager_guarded:
  assumes "ok mopts"
  shows "run_manager (P\<lparr>newManager := \<lambda>r mo w. if ok mo then newManager P r mo w else other r mo w\<rparr>) mopts setup_ctrl s =
    run_manager P mopts setup_ctrl s"
  using assms by (simp add: run_manager_def split: option.splits prod.splits sum.splits)

lemma run_manager_returned:
  assumes "run_manager P mopts setup_ctrl s = (Returned, s')"
  shows "\<exists>restConfig mgr w t. getConfig P = Some restConfig \<and>
    newManager P restConfig mopts (bworld s) = (Inr mgr, w) \<and>
    setup_ctrl (Some mgr) (s\<lparr>bworld := w\<rparr>) = (None, t) \<and> managerStart P mgr (bworld t) = (None, bworld s')"
  using assms by (auto simp: run_manager_def split: option.splits prod.splits sum.splits)

lemma run_manager_messages:
  "fst (run_manager P mopts setup_ctrl s) \<noteq> ExitError ''failed to create config loader'' err"
  by (simp add: run_manager_def split: option.splits prod.splits sum.splits)

text \<open>
  C27: the program of the cleanup controller is safe to start. On a command line whose Go flags do not
  use its names, binding the flags neither panics nor fails. A manager is created only with the
  program's scheme and leader election ID and with a metrics address that passed the validation: what
  \<open>NewManager\<close> does for other options has no influence. The program returns only when the
  manager was created, the controller was set up on it without an error and \<open>Start\<close> returned nil.
\<close>

theorem cleanup_main_safe:
  assumes "pflag_ok E" and "viper_bind_ok E bound"
    and "fresh_flags E (cleanup_fields cleanup_DefaultConfig) (addGoFlagSet P commandLine)"
  shows "\<exists>ex s'. cleanup_main E V H Os Z P sch KE A B args commandLine s = Ret (ex, s') \<and>
     (\<forall>err. ex \<noteq> ExitError ''failed to create config loader'' err) \<and>
     cleanup_main E V H Os Z
       (P\<lparr>newManager := \<lambda>r mo w. if cleanup_manager_ok sch mo then newManager P r mo w else other r mo w\<rparr>)
       sch KE A B args commandLine s = Ret (ex, s') \<and>
     (ex = Returned \<longrightarrow>
        (\<exists>restConfig cfg mgr w0 w t. getConfig P = Some restConfig \<and> cleanup_Validate cfg = None \<and>
           newManager P restConfig (cleanup_manager_options sch cfg) w0 = (Inr mgr, w) \<and>
           cleanup_SetupWithManager KE A B (Some mgr) (s\<lparr>bworld := w\<rparr>) = (None, t) \<and>
           managerStart P mgr (bworld t) = (None, bworld s')))"
proof -
  let ?fs = "addGoFlagSet P commandLine"
  let ?P = "P\<lparr>newManager := \<lambda>r mo w. if cleanup_manager_ok sch mo then newManager P r mo w else other r mo w\<rparr>"
  let ?load = "\<lambda>P. load_configuration E V H Os P (cleanup_Validate \<circ> cleanup_of) ''main.CleanupControllerConfig''
     (cleanup_fields cleanup_DefaultConfig) (cleanup_options ?fs) args ?fs"
  have same: "?load ?P = ?load P" by (rule load_configuration_newManager)
  obtain r where load: "?load P = Ret r"
    and msg: "\<And>ex err. r = Inl ex \<Longrightarrow> ex \<noteq> Returned \<and> ex \<noteq> ExitError ''failed to create config loader'' err"
    and valid: "\<And>val. r = Inr val \<Longrightarrow> cleanup_Validate (cleanup_of val) = None"
    using load_configuration_safe [where V = V and H = H and Os = Os and P = P and args = args and commandLine = ?fs
          and tname = "''main.CleanupControllerConfig''" and validate = "cleanup_Validate \<circ> cleanup_of",
          OF assms(1,2) cleanup_flags_wf assms(3) cleanup_for_options] by auto
  have guard: "cleanup_manager_ok sch (cleanup_manager_options sch cfg)" if "cleanup_Validate cfg = None" for cfg
    using that by (auto simp: cleanup_manager_ok_def cleanup_manager_options_def cleanup_Validate_def split: if_splits)
  show ?thesis
  proof (cases r)
    case (Inl ex)
    with msg [OF Inl] load same show ?thesis by (simp add: cleanup_main_def)
  next
    case (Inr val)
    let ?cfg = "cleanup_of val"
    obtain zerr zo where z: "ToOptions Z (ccZap ?cfg) = (zerr, zo)" by fastforce
    let ?s = "s\<lparr>bworld := setLogger P zo (bworld s)\<rparr>"
    obtain ex s' where run: "run_manager P (cleanup_manager_options sch ?cfg) (cleanup_SetupWithManager KE A B) ?s = (ex, s')"
      by fastforce
    have guarded: "run_manager ?P (cleanup_manager_options sch ?cfg) (cleanup_SetupWithManager KE A B) ?s = (ex, s')"
      by (rule trans [OF run_manager_guarded [where ok = "cleanup_manager_ok sch", OF guard [OF valid [OF Inr]]] run])
    have "ex \<noteq> ExitError ''failed to create config loader'' err" for err
      using run_manager_messages [of P "cleanup_manager_options sch ?cfg" "cleanup_SetupWithManager KE A B" ?s err] run by simp
    moreover have "\<exists>restConfig cfg mgr w0 w t. getConfig P = Some restConfig \<and> cleanup_Validate cfg = None \<and>
        newManager P restConfig (cleanup_manager_options sch cfg) w0 = (Inr mgr, w) \<and>
        cleanup_SetupWithManager KE A B (Some mgr) (s\<lparr>bworld := w\<rparr>) = (None, t) \<and>
        managerStart P mgr (bworld t) = (None, bworld s')" if "ex = Returned"
      using run_manager_returned [OF run [unfolded that]] valid [OF Inr] by simp blast
    ultimately show ?thesis
      using z run guarded load same Inr by (cases zerr) (simp_all add: cleanup_main_def)
  qed
qed

text \<open>
  A process whose parser exits with status 2 on an unknown flag and a manager that starts at once.
\<close>

definition sample_parse :: "string list \<Rightarrow> (string \<rightharpoonup> pflag) \<Rightarrow> (string \<rightharpoonup> pflag) \<Rightarrow> nat + (string \<rightharpoonup> pflag) \<times> (string \<rightharpoonup> pflag)" where
  "sample_parse args fs v =
     (if list_all (\<lambda>a. fs (takeWhile (\<lambda>c. c \<noteq> CHR ''='') (drop 2 a)) \<noteq> None) args then Inr (fs, v) else Inl 2)"

definition sample_process ::
    "(string \<rightharpoonup> pflag, string \<rightharpoonup> pflag, (string, nat) zap_Options, unit, cleanup_content, unit,
      (cleanup_content, unit, unit, cluster) wstate) process_api" where
  "sample_process =
     \<lparr>addGoFlagSet = (\<lambda>fs. fs(''kubeconfig'' \<mapsto> \<lparr>pfName = ''kubeconfig'', pfKind = StringFlag, pfDefault = VString [], pfUsage = []\<rparr>)),
      pflagParse = sample_parse, setLogger = (\<lambda>zo w. w), getConfig = Some (),
      newManager = (\<lambda>r mo w. (Inr sample_manager, w)), managerStart = (\<lambda>mgr w. (None, w))\<rparr>"

definition sample_zap_api :: "(string, nat) zap_api" where
  "sample_zap_api =
     \<lparr>ParseLevel = (\<lambda>s. if s = ''info'' then Inr 0 else if s = ''warn'' then Inr 1 else Inl (ErrorString ''unrecognized level'')),
      NewProductionEncoderConfig = ''production'', NewDevelopmentEncoderConfig = ''development''\<rparr>"

abbreviation sample_cleanup_main :: "string list \<Rightarrow> (main_exit \<times> (cleanup_content, unit, unit, cluster) wstate bstate) outcome" where
  "sample_cleanup_main args \<equiv> cleanup_main demo_flags_env demo_viper demo_hooks demo_os sample_zap_api sample_process
     demo_scheme demo_env quiet_api demo_combinators args Map.empty sample_start"

lemma sample_cleanup_load:
  "load_configuration demo_flags_env demo_viper demo_hooks demo_os sample_process (cleanup_Validate \<circ> cleanup_of)
     ''main.CleanupControllerConfig'' (cleanup_fields cleanup_DefaultConfig)
     (cleanup_options (addGoFlagSet sample_process Map.empty))
     [''--kubeconfig=/root/config''] (addGoFlagSet sample_process Map.empty)
   = Ret (Inr (VStruct (cleanup_fields cleanup_DefaultConfig)))"
  by code_simp

lemma sample_cleanup_setup:
  "fst (cleanup_SetupWithManager demo_env quiet_api demo_combinators (Some sample_manager) sample_start) = None"
  by (simp add: cleanup_SetupWithManager_def NewControllerBuilder_def ControllerOptions_ApplyOptions_def
      FunctionalOption_ApplyTo_def opt_defs sample_manager_def Builder_For_def BuilderWatchOptions_ApplyOptions_def
      registerWatch_def zero_CleanupApp_def empty_object_def resolvePredicates_def Builder_Complete_def quiet_api_def
      inject_def pipeline_impl_def doRegisterWatch_def processObject_def GetGroupVersionKindForObject_def
      zero_gvk_def demo_scheme_def Let_def)

lemma sample_cleanup_returns: "\<exists>s'. sample_cleanup_main [''--kubeconfig=/root/config''] = Ret (Returned, s')"
proof -
  have zap: "fst (ToOptions sample_zap_api (ccZap cleanup_DefaultConfig)) = None"
    by (simp add: cleanup_DefaultConfig_def default_zap_def sample_zap_api_def ToOptions_def apply_defs
        parseTimeEncoding_def Let_def)
  with sample_cleanup_setup show ?thesis
    unfolding cleanup_main_def Let_def sample_cleanup_load
    by (auto simp: run_manager_def sample_process_def split: prod.splits)
qed

theorem cleanup_main_safe_witness:
  "\<exists>s' cfg t. sample_cleanup_main [''--kubeconfig=/root/config''] = Ret (Returned, s') \<and> cleanup_Validate cfg = None \<and>
     cleanup_SetupWithManager demo_env quiet_api demo_combinators (Some sample_manager) sample_start = (None, t)"
proof -
  have "fresh_flags demo_flags_env (cleanup_fields cleanup_DefaultConfig) (addGoFlagSet sample_process Map.empty)"
    unfolding fresh_flags_def cleanup_names by (simp add: sample_process_def demo_flags_env_def)
  from cleanup_main_safe [OF demo_pflag_ok demo_viper_bind_ok this, of demo_viper demo_hooks demo_os sample_zap_api demo_scheme
      demo_env quiet_api demo_combinators "[''--kubeconfig=/root/config'']" sample_start]
  obtain ex s' where main: "sample_cleanup_main [''--kubeconfig=/root/config''] = Ret (ex, s')"
    and "ex = Returned \<longrightarrow> (\<exists>cfg. cleanup_Validate cfg = None)" by blast
  moreover have "ex = Returned" using main sample_cleanup_returns by auto
  moreover obtain t where "cleanup_SetupWithManager demo_env quiet_api demo_combinators (Some sample_manager) sample_start = (None, t)"
    using sample_cleanup_setup by (cases "cleanup_SetupWithManager demo_env quiet_api demo_combinators (Some sample_manager) sample_start") simp
  ultimately show ?thesis by blast
qed

text \<open>
  \<open>pflag.CommandLine\<close> exits with status 2 at a flag it does not define; the flag \<open>help\<close> is special.
\<close>

definition unknown_flags_exit :: "('fs, 'v) flags_env \<Rightarrow> ('fs, 'v, 'o, 'r, 'c, 'k, 'w) process_api \<Rightarrow> bool" where
  "unknown_flags_exit E P \<longleftrightarrow> (\<forall>fs v n val args. n \<noteq> [] \<longrightarrow> hd n \<noteq> CHR ''-'' \<longrightarrow> list_all flag_name_char n \<longrightarrow> n \<noteq> ''help'' \<longrightarrow>
     fsLookup E fs n = None \<longrightarrow> pflagParse P ((''--'' @ n @ ''='' @ val) # args) fs v = Inl 2)"

text \<open>
  C29: the program of the simple controller cannot be given a kubeconfig. The Go flag set, where
  controller-runtime defines the flag \<open>kubeconfig\<close>, is not added to the command line, and the flags of
  the configuration do not include it; so \<open>--kubeconfig=...\<close>, which the target \<open>run\<close> of its
  \<^verbatim>\<open>Makefile\<close> passes, ends the program with status 2 before anything is loaded or started.
\<close>

theorem simple_main_refuses_kubeconfig:
  assumes "pflag_ok E" and "viper_bind_ok E bound" and "unknown_flags_exit E P"
    and "fresh_flags E (simple_fields simple_DefaultConfig) commandLine"
    and "fsLookup E commandLine ''kubeconfig'' = None"
  shows "simple_main E V H Os Z P sch KE A B c0 zero versions newEngine ((''--kubeconfig='' @ path) # args) commandLine s =
     Ret (ExitParse 2, s)"
proof (rule load_configuration_flags [where V = V and H = H and Os = Os and P = P and commandLine = commandLine
      and args = "(''--kubeconfig='' @ path) # args" and tname = "''main.SimpleControllerConfig''"
      and validate = "simple_Validate \<circ> simple_of",
      OF assms(1,2) simple_flags_wf assms(4) simple_for_options])
  fix l :: "('a, 'b) Loader" and fs'
  assume frame: "\<And>n. n \<notin> set (map entry_name (flag_entries (simple_fields simple_DefaultConfig) [] ''-'')) \<Longrightarrow>
      fsLookup E fs' n = fsLookup E commandLine n"
    and load: "load_configuration E V H Os P (simple_Validate \<circ> simple_of) ''main.SimpleControllerConfig''
      (simple_fields simple_DefaultConfig) (simple_options commandLine) ((''--kubeconfig='' @ path) # args) commandLine = Ret
       (case pflagParse P ((''--kubeconfig='' @ path) # args) fs' (loaderV l) of
          Inl code \<Rightarrow> Inl (ExitParse code)
        | Inr (fs, v) \<Rightarrow>
            (case Loader_Load V Os (l\<lparr>loaderV := v\<rparr>) of
               (Some err, l) \<Rightarrow> Inl (ExitError ''failed to load configuration'' err)
             | (None, l) \<Rightarrow> Inr (loaderCfg l)))"
  have "fsLookup E fs' ''kubeconfig'' = None"
    using frame [of "''kubeconfig''"] assms(5) unfolding simple_names by simp
  moreover have "list_all flag_name_char ''kubeconfig''" by code_simp
  ultimately have "pflagParse P ((''--'' @ ''kubeconfig'' @ ''='' @ path) # args) fs' (loaderV l) = Inl 2"
    by (intro assms(3) [unfolded unknown_flags_exit_def, rule_format]) simp_all
  with load show ?thesis by (simp add: simple_main_def)
qed

theorem simple_main_refuses_kubeconfig_witness:
  "simple_main demo_flags_env demo_viper demo_hooks demo_os sample_zap_api sample_process demo_scheme demo_env quiet_api
     demo_combinators (ConfigMapContent None) zero_CleanupApp sample_versions (Inr sample_engine)
     [''--kubeconfig=/root/config''] Map.empty sample_start = Ret (ExitParse 2, sample_start)"
proof -
  have "unknown_flags_exit demo_flags_env sample_process"
  proof -
    have "takeWhile (\<lambda>c. c \<noteq> CHR ''='') (n @ CHR ''='' # val) = n" if "list_all flag_name_char n" for n val
    proof -
      have "\<not> flag_name_char CHR ''=''" by code_simp
      with that show ?thesis by (induction n) auto
    qed
    then show ?thesis by (simp add: unknown_flags_exit_def sample_process_def sample_parse_def demo_flags_env_def)
  qed
  moreover have "fresh_flags demo_flags_env (simple_fields simple_DefaultConfig) Map.empty"
    unfolding fresh_flags_def simple_names by (simp add: demo_flags_env_def)
  moreover have "fsLookup demo_flags_env Map.empty ''kubeconfig'' = None" by (simp add: demo_flags_env_def)
  ultimately show ?thesis
    using simple_main_refuses_kubeconfig [OF demo_pflag_ok demo_viper_bind_ok, of sample_process Map.empty _ _ _ _ _ _ _ _ _ _ _ _
        "''/root/config''" "[]"] by simp
qed

end
