(* ===== verification/Deep_Copy.thy ===== *)
theory Deep_Copy
  imports K8s_Objects
begin

text \<open>
  The deep copies of the API types: \<^verbatim>\<open>src/pkg/status/zz_generated.deepcopy.go\<close> and
  \<^verbatim>\<open>src/examples/*/api/v1alpha1\<close>. Maps and slices are references here, into an explicit memory, because
  what a deep copy promises is about sharing: the copy has the same value and no cell in common with
  the original. The promise is the locale \<open>deep_copier\<close>, and its lemmas compose it along pairs,
  structs and slices the way the generated code composes the copies. The copies of \<open>ObjectMeta\<close>,
  \<open>ListMeta\<close> and \<open>Condition\<close> belong to apimachinery and are parameters.
\<close>

section \<open>Memory\<close>

record 'b mem =
  cells :: "nat \<Rightarrow> 'b"
  nextAddr :: nat

definition new_cell :: "'b \<Rightarrow> 'b mem \<Rightarrow> nat \<times> 'b mem" where
  "new_cell b m = (nextAddr m, m\<lparr>cells := (cells m)(nextAddr m := b), nextAddr := Suc (nextAddr m)\<rparr>)"

definition write_cell :: "nat \<Rightarrow> 'b \<Rightarrow> 'b mem \<Rightarrow> 'b mem" where
  "write_cell a b m = m\<lparr>cells := (cells m)(a := b)\<rparr>"

text \<open>The addresses below the next one keep their cells.\<close>

definition extends :: "'b mem \<Rightarrow> 'b mem \<Rightarrow> bool" where
  "extends m m' \<longleftrightarrow> nextAddr m \<le> nextAddr m' \<and> (\<forall>a < nextAddr m. cells m' a = cells m a)"

lemma extends_refl [simp]: "extends m m" by (simp add: extends_def)

lemma extends_trans: "extends m m1 \<Longrightarrow> extends m1 m2 \<Longrightarrow> extends m m2" by (simp add: extends_def)

section \<open>The contract of a deep copy\<close>

text \<open>
  \<open>view\<close> is the value a reader sees, \<open>refs\<close> the addresses it goes through. Both depend on the memory at
  these addresses only; a copy extends the memory, has the value of the original and goes through new
  addresses only.
\<close>

locale deep_copier =
  fixes view :: "'a \<Rightarrow> 'b mem \<Rightarrow> 'v" and refs :: "'a \<Rightarrow> 'b mem \<Rightarrow> nat set"
    and copy :: "'a \<Rightarrow> 'b mem \<Rightarrow> 'a \<times> 'b mem"
  assumes local: "(\<And>i. i \<in> refs a m \<Longrightarrow> cells m' i = cells m i) \<Longrightarrow> view a m' = view a m \<and> refs a m' = refs a m"
    and copies: "refs a m \<subseteq> {..<nextAddr m} \<Longrightarrow> copy a m = (b, m') \<Longrightarrow>
      extends m m' \<and> view b m' = view a m \<and> refs b m' \<subseteq> {nextAddr m..<nextAddr m'}"
begin

lemma extends_stable:
  assumes "refs a m \<subseteq> {..<nextAddr m}" and "extends m m'"
  shows "view a m' = view a m" "refs a m' = refs a m"
  using local [of a m m'] assms by (auto simp: extends_def subset_iff)

lemma extends_below: "refs a m \<subseteq> {..<nextAddr m} \<Longrightarrow> extends m m' \<Longrightarrow> refs a m' \<subseteq> {..<nextAddr m'}"
  using extends_stable(2) [of a m m'] by (auto simp: extends_def)

text \<open>
  The original and its copy are equal and share nothing: what is written through one of them, or
  anywhere else but its own cells, is not seen through the other.
\<close>

lemma isolated:
  assumes "refs a m \<subseteq> {..<nextAddr m}" and "copy a m = (b, m')"
  shows "view b m' = view a m" "refs b m' \<inter> refs a m' = {}"
    and "(\<And>i. i \<notin> refs b m' \<Longrightarrow> cells m2 i = cells m' i) \<Longrightarrow> view a m2 = view a m"
    and "(\<And>i. i \<notin> refs a m' \<Longrightarrow> cells m2 i = cells m' i) \<Longrightarrow> view b m2 = view a m"
proof -
  note c = copies [OF assms] and st = extends_stable [OF assms(1), of m']
  show "view b m' = view a m" using c by simp
  show disj: "refs b m' \<inter> refs a m' = {}" using c st assms(1) by fastforce
  show "view a m2 = view a m" if "\<And>i. i \<notin> refs b m' \<Longrightarrow> cells m2 i = cells m' i"
    using local [of a m' m2] that disj st c by (metis disjoint_iff)
  show "view b m2 = view a m" if "\<And>i. i \<notin> refs a m' \<Longrightarrow> cells m2 i = cells m' i"
    using local [of b m' m2] that disj c by (metis disjoint_iff)
qed

end

text \<open>A value without references is copied by assignment.\<close>

lemma deep_copier_value: "(\<And>x. c x = x) \<Longrightarrow> deep_copier (\<lambda>x m. x) (\<lambda>x m. {}) (\<lambda>x m. (c x, m))"
  by unfold_locales auto

text \<open>Two parts are copied one after the other.\<close>

lemma deep_copier_pair:
  assumes "deep_copier v1 r1 c1" and "deep_copier v2 r2 c2"
  shows "deep_copier (\<lambda>(x, y) m. (v1 x m, v2 y m)) (\<lambda>(x, y) m. r1 x m \<union> r2 y m)
    (\<lambda>(x, y) m. case c1 x m of (x', m) \<Rightarrow> case c2 y m of (y', m) \<Rightarrow> ((x', y'), m))"
proof unfold_locales
  fix p :: "'a \<times> 'd" and m m' :: "'b mem"
  assume same: "\<And>i. i \<in> (case p of (x, y) \<Rightarrow> \<lambda>m. r1 x m \<union> r2 y m) m \<Longrightarrow> cells m' i = cells m i"
  show "(case p of (x, y) \<Rightarrow> \<lambda>m. (v1 x m, v2 y m)) m' = (case p of (x, y) \<Rightarrow> \<lambda>m. (v1 x m, v2 y m)) m \<and>
      (case p of (x, y) \<Rightarrow> \<lambda>m. r1 x m \<union> r2 y m) m' = (case p of (x, y) \<Rightarrow> \<lambda>m. r1 x m \<union> r2 y m) m"
    using same deep_copier.local [OF assms(1), of "fst p" m m'] deep_copier.local [OF assms(2), of "snd p" m m']
    by (auto split: prod.splits)
next
  fix p q :: "'a \<times> 'd" and m m' :: "'b mem"
  assume below: "(case p of (x, y) \<Rightarrow> \<lambda>m. r1 x m \<union> r2 y m) m \<subseteq> {..<nextAddr m}"
    and copied: "(case p of (x, y) \<Rightarrow> \<lambda>m. case c1 x m of (x', m) \<Rightarrow> case c2 y m of (y', m) \<Rightarrow> ((x', y'), m)) m = (q, m')"
  obtain x y where p: "p = (x, y)" by fastforce
  from copied p obtain x' y' m1 where c: "c1 x m = (x', m1)" "c2 y m1 = (y', m')" and q: "q = (x', y')"
    by (auto split: prod.splits)
  have a: "extends m m1" "v1 x' m1 = v1 x m" "r1 x' m1 \<subseteq> {nextAddr m..<nextAddr m1}"
    using deep_copier.copies [OF assms(1) _ c(1)] below p by auto
  have y0: "r2 y m \<subseteq> {..<nextAddr m}" using below p by simp
  have y: "v2 y m1 = v2 y m" using deep_copier.extends_stable [OF assms(2) y0 a(1)] by simp
  have b: "extends m1 m'" "v2 y' m' = v2 y m1" "r2 y' m' \<subseteq> {nextAddr m1..<nextAddr m'}"
    using deep_copier.copies [OF assms(2) deep_copier.extends_below [OF assms(2) y0 a(1)] c(2)] by auto
  have x: "v1 x' m' = v1 x' m1" "r1 x' m' = r1 x' m1"
    using deep_copier.extends_stable [OF assms(1) _ b(1)] a(3) by fastforce+
  show "extends m m' \<and>
      (case q of (x, y) \<Rightarrow> \<lambda>m. (v1 x m, v2 y m)) m' = (case p of (x, y) \<Rightarrow> \<lambda>m. (v1 x m, v2 y m)) m \<and>
      (case q of (x, y) \<Rightarrow> \<lambda>m. r1 x m \<union> r2 y m) m' \<subseteq> {nextAddr m..<nextAddr m'}"
    using a b x y extends_trans [OF a(1) b(1)] by (fastforce simp: p q extends_def)
qed

text \<open>A struct is the copy of its parts \<open>f\<close>, with the other fields \<open>k\<close> assigned.\<close>

lemma deep_copier_struct:
  assumes "deep_copier v r c" and "\<And>a m. copy a m = (case c (f a) m of (b, m') \<Rightarrow> (g a b, m'))"
    and "\<And>a b. f (g a b) = b" and "\<And>a b. k (g a b) = k a"
  shows "deep_copier (\<lambda>a m. (k a, v (f a) m)) (\<lambda>a. r (f a)) copy"
proof unfold_locales
  fix a and m m' :: "'b mem" assume "\<And>i. i \<in> r (f a) m \<Longrightarrow> cells m' i = cells m i"
  then show "(k a, v (f a) m') = (k a, v (f a) m) \<and> r (f a) m' = r (f a) m"
    using deep_copier.local [OF assms(1), of "f a" m m'] by simp
next
  fix a b and m m' :: "'b mem" assume "r (f a) m \<subseteq> {..<nextAddr m}" and "copy a m = (b, m')"
  then show "extends m m' \<and> (k b, v (f b) m') = (k a, v (f a) m) \<and> r (f b) m' \<subseteq> {nextAddr m..<nextAddr m'}"
    using deep_copier.copies [OF assms(1), of "f a" m] by (auto simp: assms(2-4) split: prod.splits)
qed

text \<open>
  A slice: nil, or the address of an array. \<open>make\<close> allocates the new array and the loop fills it with
  the copies of the elements; \<open>put\<close> and \<open>get\<close> store an array in a cell and read it.
\<close>

primrec copy_elements :: "('a \<Rightarrow> 'b mem \<Rightarrow> 'a \<times> 'b mem) \<Rightarrow> 'a list \<Rightarrow> 'b mem \<Rightarrow> 'a list \<times> 'b mem" where
  "copy_elements c [] m = ([], m)"
| "copy_elements c (x # xs) m = (case c x m of (y, m) \<Rightarrow> case copy_elements c xs m of (ys, m) \<Rightarrow> (y # ys, m))"

definition copy_slice ::
    "('a list \<Rightarrow> 'b) \<Rightarrow> ('b \<Rightarrow> 'a list) \<Rightarrow> ('a \<Rightarrow> 'b mem \<Rightarrow> 'a \<times> 'b mem) \<Rightarrow> nat option \<Rightarrow> 'b mem \<Rightarrow> nat option \<times> 'b mem" where
  "copy_slice put get c s m =
     (case s of
        None \<Rightarrow> (None, m)
      | Some a \<Rightarrow>
          (case new_cell (put []) m of (out, m) \<Rightarrow>
             case copy_elements c (get (cells m a)) m of (ys, m) \<Rightarrow> (Some out, write_cell out (put ys) m)))"

definition slice_view :: "('b \<Rightarrow> 'a list) \<Rightarrow> ('a \<Rightarrow> 'b mem \<Rightarrow> 'v) \<Rightarrow> nat option \<Rightarrow> 'b mem \<Rightarrow> 'v list option" where
  "slice_view get v s m = map_option (\<lambda>a. map (\<lambda>x. v x m) (get (cells m a))) s"

definition slice_refs :: "('b \<Rightarrow> 'a list) \<Rightarrow> ('a \<Rightarrow> 'b mem \<Rightarrow> nat set) \<Rightarrow> nat option \<Rightarrow> 'b mem \<Rightarrow> nat set" where
  "slice_refs get r s m = (case s of None \<Rightarrow> {} | Some a \<Rightarrow> insert a (\<Union>x \<in> set (get (cells m a)). r x m))"

lemma copy_elements_spec:
  assumes "deep_copier v r c"
  shows "\<forall>x \<in> set xs. r x m \<subseteq> {..<nextAddr m} \<Longrightarrow> copy_elements c xs m = (ys, m') \<Longrightarrow>
    extends m m' \<and> map (\<lambda>y. v y m') ys = map (\<lambda>x. v x m) xs \<and>
    (\<forall>y \<in> set ys. r y m' \<subseteq> {nextAddr m..<nextAddr m'})"
proof (induction xs arbitrary: m ys)
  case (Cons x xs)
  from Cons.prems(2) obtain y m1 zs where c: "c x m = (y, m1)" "copy_elements c xs m1 = (zs, m')" and ys: "ys = y # zs"
    by (auto split: prod.splits)
  have a: "extends m m1" "v y m1 = v x m" "r y m1 \<subseteq> {nextAddr m..<nextAddr m1}"
    using deep_copier.copies [OF assms _ c(1)] Cons.prems(1) by auto
  have rest: "v z m1 = v z m" "r z m1 \<subseteq> {..<nextAddr m1}" if "z \<in> set xs" for z
    using deep_copier.extends_stable(1) [OF assms _ a(1), of z] deep_copier.extends_below [OF assms _ a(1), of z]
      Cons.prems(1) that by auto
  then have b: "extends m1 m'" "map (\<lambda>y. v y m') zs = map (\<lambda>x. v x m1) xs"
    "\<forall>z \<in> set zs. r z m' \<subseteq> {nextAddr m1..<nextAddr m'}"
    using Cons.IH [OF _ c(2)] by auto
  have y: "v y m' = v y m1" "r y m' = r y m1"
    using deep_copier.extends_stable [OF assms _ b(1)] a(3) by fastforce+
  from a(1) b(1) have le: "nextAddr m \<le> nextAddr m1" "nextAddr m1 \<le> nextAddr m'" by (simp_all add: extends_def)
  have "r z m' \<subseteq> {nextAddr m..<nextAddr m'}" if "z \<in> set zs" for z using b(3) that le by fastforce
  moreover have "r y m' \<subseteq> {nextAddr m..<nextAddr m'}" using y a(3) le by fastforce
  ultimately show ?case
    using a(2) b(2) y rest(1) extends_trans [OF a(1) b(1)] by (simp add: ys)
qed simp

lemma copy_slice_spec:
  assumes "deep_copier v r c" and "\<And>xs. get (put xs) = xs"
    and "slice_refs get r (Some a) m \<subseteq> {..<nextAddr m}" and "copy_slice put get c (Some a) m = (t, m')"
  shows "extends m m' \<and> slice_view get v t m' = slice_view get v (Some a) m \<and>
      slice_refs get r t m' \<subseteq> {nextAddr m..<nextAddr m'}"
proof -
  define m0 where "m0 = snd (new_cell (put []) m)"
  have m0: "extends m m0" "nextAddr m0 = Suc (nextAddr m)" by (simp_all add: m0_def new_cell_def extends_def)
  from assms(3) have a: "a < nextAddr m" and old: "\<forall>x \<in> set (get (cells m a)). r x m \<subseteq> {..<nextAddr m}"
    by (auto simp: slice_refs_def)
  have cell: "cells m0 a = cells m a" using m0(1) a by (simp add: extends_def)
  obtain ys m1 where el: "copy_elements c (get (cells m a)) m0 = (ys, m1)"
    and t: "t = Some (nextAddr m)" "m' = write_cell (nextAddr m) (put ys) m1"
    using assms(4) cell by (auto simp: copy_slice_def m0_def new_cell_def split: prod.splits)
  have "\<forall>x \<in> set (get (cells m a)). v x m0 = v x m \<and> r x m0 \<subseteq> {..<nextAddr m0}"
    using deep_copier.extends_stable(1) [OF assms(1) _ m0(1)] deep_copier.extends_below [OF assms(1) _ m0(1)] old
    by blast
  with copy_elements_spec [OF assms(1) _ el]
  have sp: "extends m0 m1" "map (\<lambda>y. v y m1) ys = map (\<lambda>x. v x m) (get (cells m a))"
    "\<forall>y \<in> set ys. r y m1 \<subseteq> {Suc (nextAddr m)..<nextAddr m1}"
    by (auto simp: m0(2))
  have wr: "v y m' = v y m1" "r y m' = r y m1" if "y \<in> set ys" for y
    using deep_copier.local [OF assms(1), of y m1 m'] sp(3) that t(2) by (force simp: write_cell_def)+
  have out: "extends m m'" "nextAddr m' = nextAddr m1" "cells m' (nextAddr m) = put ys" "nextAddr m < nextAddr m1"
    using m0 sp(1) t(2) by (auto simp: extends_def write_cell_def)
  have "map (\<lambda>y. v y m') ys = map (\<lambda>y. v y m1) ys" by (rule map_cong) (simp_all add: wr(1))
  with sp(2) have "map (\<lambda>y. v y m') ys = map (\<lambda>x. v x m) (get (cells m a))" by simp
  moreover have "(\<Union>y \<in> set ys. r y m') \<subseteq> {nextAddr m..<nextAddr m1}" using wr(2) sp(3) by fastforce
  ultimately show ?thesis using out by (simp add: slice_view_def slice_refs_def assms(2) t(1))
qed

lemma deep_copier_slice:
  assumes "deep_copier v r c" and "\<And>xs. get (put xs) = xs"
  shows "deep_copier (slice_view get v) (slice_refs get r) (copy_slice put get c)"
proof unfold_locales
  fix s and m m' :: "'b mem" assume same: "\<And>i. i \<in> slice_refs get r s m \<Longrightarrow> cells m' i = cells m i"
  have el: "v x m' = v x m \<and> r x m' = r x m" if "s = Some a" "x \<in> set (get (cells m a))" for a x
    using deep_copier.local [OF assms(1), of x m m'] same that by (force simp: slice_refs_def)
  show "slice_view get v s m' = slice_view get v s m \<and> slice_refs get r s m' = slice_refs get r s m"
    using same el by (cases s) (auto simp: slice_view_def slice_refs_def)
next
  fix s t and m m' :: "'b mem"
  assume "slice_refs get r s m \<subseteq> {..<nextAddr m}" and "copy_slice put get c s m = (t, m')"
  then show "extends m m' \<and> slice_view get v t m' = slice_view get v s m \<and>
      slice_refs get r t m' \<subseteq> {nextAddr m..<nextAddr m'}"
    using copy_slice_spec [OF assms] by (cases s) (auto simp: copy_slice_def slice_view_def slice_refs_def)
qed

section \<open>The API types\<close>

record heap_Status =
  hsObservedGeneration :: int
  hsConditions :: "nat option"

record heap_CleanupAppSpec =
  hcConfigMapName :: string
  hcData :: "nat option"

record SimpleAppSpec =
  Replicas :: int
  Image :: string
  Port :: int

text \<open>The two kinds differ in their specs; \<open>'o\<close> is \<open>ObjectMeta\<close> and \<open>'l\<close> is \<open>ListMeta\<close>.\<close>

record ('o, 's) app =
  appTypeMeta :: "string \<times> string"
  appObjectMeta :: 'o
  appSpec :: 's
  appStatus :: heap_Status

record 'l app_list =
  listTypeMeta :: "string \<times> string"
  listMeta :: 'l
  listItems :: "nat option"

type_synonym 'o CleanupApp = "('o, heap_CleanupAppSpec) app"
type_synonym 'o SimpleApp = "('o, SimpleAppSpec) app"

text \<open>What a cell holds; \<open>ForeignCell\<close> is what apimachinery's types refer to.\<close>

datatype ('o, 'x) cell =
    MapCell "string \<rightharpoonup> string"
  | ConditionsCell "Condition list"
  | CleanupItemsCell "'o CleanupApp list"
  | SimpleItemsCell "'o SimpleApp list"
  | ForeignCell 'x

primrec map_in :: "('o, 'x) cell \<Rightarrow> (string \<rightharpoonup> string)" where
  "map_in (MapCell f) = f"
| "map_in (ConditionsCell cs) = Map.empty"
| "map_in (CleanupItemsCell xs) = Map.empty"
| "map_in (SimpleItemsCell xs) = Map.empty"
| "map_in (ForeignCell x) = Map.empty"

primrec conditions_in :: "('o, 'x) cell \<Rightarrow> Condition list" where
  "conditions_in (MapCell f) = []"
| "conditions_in (ConditionsCell cs) = cs"
| "conditions_in (CleanupItemsCell xs) = []"
| "conditions_in (SimpleItemsCell xs) = []"
| "conditions_in (ForeignCell x) = []"

primrec cleanup_items_in :: "('o, 'x) cell \<Rightarrow> 'o CleanupApp list" where
  "cleanup_items_in (MapCell f) = []"
| "cleanup_items_in (ConditionsCell cs) = []"
| "cleanup_items_in (CleanupItemsCell xs) = xs"
| "cleanup_items_in (SimpleItemsCell xs) = []"
| "cleanup_items_in (ForeignCell x) = []"

primrec simple_items_in :: "('o, 'x) cell \<Rightarrow> 'o SimpleApp list" where
  "simple_items_in (MapCell f) = []"
| "simple_items_in (ConditionsCell cs) = []"
| "simple_items_in (CleanupItemsCell xs) = []"
| "simple_items_in (SimpleItemsCell xs) = xs"
| "simple_items_in (ForeignCell x) = []"

type_synonym ('a, 'o, 'x) copier = "'a \<Rightarrow> ('o, 'x) cell mem \<Rightarrow> 'a \<times> ('o, 'x) cell mem"

section \<open>The copies\<close>

text \<open>A pointer receiver: nil is copied to nil.\<close>

definition copy_pointer :: "('a, 'o, 'x) copier \<Rightarrow> ('a option, 'o, 'x) copier" where
  "copy_pointer copyInto p m =
     (case p of None \<Rightarrow> (None, m) | Some a \<Rightarrow> (case copyInto a m of (out, m) \<Rightarrow> (Some out, m)))"

definition Status_DeepCopyInto :: "(Condition \<Rightarrow> Condition) \<Rightarrow> (heap_Status, 'o, 'x) copier" where
  "Status_DeepCopyInto copyCondition st m =
     (case copy_slice ConditionsCell conditions_in (\<lambda>c m. (copyCondition c, m)) (hsConditions st) m of
        (cs, m) \<Rightarrow> (st\<lparr>hsConditions := cs\<rparr>, m))"

definition Status_DeepCopy :: "(Condition \<Rightarrow> Condition) \<Rightarrow> (heap_Status option, 'o, 'x) copier" where
  "Status_DeepCopy copyCondition = copy_pointer (Status_DeepCopyInto copyCondition)"

text \<open>The loop assigns every entry of the map once, in an order that does not matter.\<close>

definition copy_map :: "(nat option, 'o, 'x) copier" where
  "copy_map d m =
     (case d of None \<Rightarrow> (None, m) | Some a \<Rightarrow> (case new_cell (MapCell (map_in (cells m a))) m of (out, m) \<Rightarrow> (Some out, m)))"

definition CleanupAppSpec_DeepCopyInto :: "(heap_CleanupAppSpec, 'o, 'x) copier" where
  "CleanupAppSpec_DeepCopyInto sp m =
     (case copy_map (hcData sp) m of (d, m) \<Rightarrow> (sp\<lparr>hcData := d\<rparr>, m))"

definition CleanupAppSpec_DeepCopy :: "(heap_CleanupAppSpec option, 'o, 'x) copier" where
  "CleanupAppSpec_DeepCopy = copy_pointer CleanupAppSpec_DeepCopyInto"

definition CleanupApp_DeepCopyInto ::
    "('o, 'o, 'x) copier \<Rightarrow> (Condition \<Rightarrow> Condition) \<Rightarrow> ('o CleanupApp, 'o, 'x) copier" where
  "CleanupApp_DeepCopyInto copyMeta copyCondition app m =
     (case copyMeta (appObjectMeta app) m of (om, m) \<Rightarrow>
        case CleanupAppSpec_DeepCopyInto (appSpec app) m of (sp, m) \<Rightarrow>
          case Status_DeepCopyInto copyCondition (appStatus app) m of (st, m) \<Rightarrow>
            (app\<lparr>appObjectMeta := om, appSpec := sp, appStatus := st\<rparr>, m))"

definition CleanupApp_DeepCopy ::
    "('o, 'o, 'x) copier \<Rightarrow> (Condition \<Rightarrow> Condition) \<Rightarrow> ('o CleanupApp option, 'o, 'x) copier" where
  "CleanupApp_DeepCopy copyMeta copyCondition = copy_pointer (CleanupApp_DeepCopyInto copyMeta copyCondition)"

text \<open>The interface value of \<open>DeepCopyObject\<close>: nil when the pointer is.\<close>

definition CleanupApp_DeepCopyObject ::
    "('o, 'o, 'x) copier \<Rightarrow> (Condition \<Rightarrow> Condition) \<Rightarrow> ('o CleanupApp option, 'o, 'x) copier" where
  "CleanupApp_DeepCopyObject copyMeta copyCondition app m =
     (case CleanupApp_DeepCopy copyMeta copyCondition app m of (Some c, m) \<Rightarrow> (Some c, m) | (None, m) \<Rightarrow> (None, m))"

definition CleanupAppList_DeepCopyInto ::
    "('l, 'o, 'x) copier \<Rightarrow> ('o, 'o, 'x) copier \<Rightarrow> (Condition \<Rightarrow> Condition) \<Rightarrow> ('l app_list, 'o, 'x) copier" where
  "CleanupAppList_DeepCopyInto copyListMeta copyMeta copyCondition l m =
     (case copyListMeta (listMeta l) m of (lm, m) \<Rightarrow>
        case copy_slice CleanupItemsCell cleanup_items_in (CleanupApp_DeepCopyInto copyMeta copyCondition) (listItems l) m of
          (items, m) \<Rightarrow> (l\<lparr>listMeta := lm, listItems := items\<rparr>, m))"

definition CleanupAppList_DeepCopy ::
    "('l, 'o, 'x) copier \<Rightarrow> ('o, 'o, 'x) copier \<Rightarrow> (Condition \<Rightarrow> Condition) \<Rightarrow> ('l app_list option, 'o, 'x) copier" where
  "CleanupAppList_DeepCopy copyListMeta copyMeta copyCondition =
     copy_pointer (CleanupAppList_DeepCopyInto copyListMeta copyMeta copyCondition)"

definition CleanupAppList_DeepCopyObject ::
    "('l, 'o, 'x) copier \<Rightarrow> ('o, 'o, 'x) copier \<Rightarrow> (Condition \<Rightarrow> Condition) \<Rightarrow> ('l app_list option, 'o, 'x) copier" where
  "CleanupAppList_DeepCopyObject copyListMeta copyMeta copyCondition l m =
     (case CleanupAppList_DeepCopy copyListMeta copyMeta copyCondition l m of
        (Some c, m) \<Rightarrow> (Some c, m) | (None, m) \<Rightarrow> (None, m))"

definition SimpleAppSpec_DeepCopyInto :: "(SimpleAppSpec, 'o, 'x) copier" where
  "SimpleAppSpec_DeepCopyInto sp m = (sp, m)"

definition SimpleAppSpec_DeepCopy :: "(SimpleAppSpec option, 'o, 'x) copier" where
  "SimpleAppSpec_DeepCopy = copy_pointer SimpleAppSpec_DeepCopyInto"

definition SimpleApp_DeepCopyInto ::
    "('o, 'o, 'x) copier \<Rightarrow> (Condition \<Rightarrow> Condition) \<Rightarrow> ('o SimpleApp, 'o, 'x) copier" where
  "SimpleApp_DeepCopyInto copyMeta copyCondition app m =
     (case copyMeta (appObjectMeta app) m of (om, m) \<Rightarrow>
        case Status_DeepCopyInto copyCondition (appStatus app) m of (st, m) \<Rightarrow>
          (app\<lparr>appObjectMeta := om, appStatus := st\<rparr>, m))"

definition SimpleApp_DeepCopy ::
    "('o, 'o, 'x) copier \<Rightarrow> (Condition \<Rightarrow> Condition) \<Rightarrow> ('o SimpleApp option, 'o, 'x) copier" where
  "SimpleApp_DeepCopy copyMeta copyCondition = copy_pointer (SimpleApp_DeepCopyInto copyMeta copyCondition)"

definition SimpleApp_DeepCopyObject ::
    "('o, 'o, 'x) copier \<Rightarrow> (Condition \<Rightarrow> Condition) \<Rightarrow> ('o SimpleApp option, 'o, 'x) copier" where
  "SimpleApp_DeepCopyObject copyMeta copyCondition app m =
     (case SimpleApp_DeepCopy copyMeta copyCondition app m of (Some c, m) \<Rightarrow> (Some c, m) | (None, m) \<Rightarrow> (None, m))"

definition SimpleAppList_DeepCopyInto ::
    "('l, 'o, 'x) copier \<Rightarrow> ('o, 'o, 'x) copier \<Rightarrow> (Condition \<Rightarrow> Condition) \<Rightarrow> ('l app_list, 'o, 'x) copier" where
  "SimpleAppList_DeepCopyInto copyListMeta copyMeta copyCondition l m =
     (case copyListMeta (listMeta l) m of (lm, m) \<Rightarrow>
        case copy_slice SimpleItemsCell simple_items_in (SimpleApp_DeepCopyInto copyMeta copyCondition) (listItems l) m of
          (items, m) \<Rightarrow> (l\<lparr>listMeta := lm, listItems := items\<rparr>, m))"

definition SimpleAppList_DeepCopy ::
    "('l, 'o, 'x) copier \<Rightarrow> ('o, 'o, 'x) copier \<Rightarrow> (Condition \<Rightarrow> Condition) \<Rightarrow> ('l app_list option, 'o, 'x) copier" where
  "SimpleAppList_DeepCopy copyListMeta copyMeta copyCondition =
     copy_pointer (SimpleAppList_DeepCopyInto copyListMeta copyMeta copyCondition)"

definition SimpleAppList_DeepCopyObject ::
    "('l, 'o, 'x) copier \<Rightarrow> ('o, 'o, 'x) copier \<Rightarrow> (Condition \<Rightarrow> Condition) \<Rightarrow> ('l app_list option, 'o, 'x) copier" where
  "SimpleAppList_DeepCopyObject copyListMeta copyMeta copyCondition l m =
     (case SimpleAppList_DeepCopy copyListMeta copyMeta copyCondition l m of
        (Some c, m) \<Rightarrow> (Some c, m) | (None, m) \<Rightarrow> (None, m))"

text \<open>\<open>SetStatus\<close> assigns the struct, and with it the slice of conditions.\<close>

definition SimpleApp_SetStatus :: "heap_Status option \<Rightarrow> 'o SimpleApp \<Rightarrow> 'o SimpleApp" where
  "SimpleApp_SetStatus st app = (case st of None \<Rightarrow> app | Some st \<Rightarrow> app\<lparr>appStatus := st\<rparr>)"

section \<open>Every copy keeps the contract\<close>

abbreviation conditions_view :: "nat option \<Rightarrow> ('o, 'x) cell mem \<Rightarrow> Condition list option" where
  "conditions_view \<equiv> slice_view conditions_in (\<lambda>c m. c)"

abbreviation conditions_refs :: "nat option \<Rightarrow> ('o, 'x) cell mem \<Rightarrow> nat set" where
  "conditions_refs \<equiv> slice_refs conditions_in (\<lambda>c m. {})"

definition status_view :: "heap_Status \<Rightarrow> ('o, 'x) cell mem \<Rightarrow> int \<times> Condition list option" where
  "status_view = (\<lambda>st m. (hsObservedGeneration st, conditions_view (hsConditions st) m))"

definition status_refs :: "heap_Status \<Rightarrow> ('o, 'x) cell mem \<Rightarrow> nat set" where
  "status_refs = (\<lambda>st. conditions_refs (hsConditions st))"

definition spec_view :: "heap_CleanupAppSpec \<Rightarrow> ('o, 'x) cell mem \<Rightarrow> string \<times> (string \<rightharpoonup> string) option" where
  "spec_view = (\<lambda>sp m. (hcConfigMapName sp, map_option (\<lambda>a. map_in (cells m a)) (hcData sp)))"

definition spec_refs :: "heap_CleanupAppSpec \<Rightarrow> ('o, 'x) cell mem \<Rightarrow> nat set" where
  "spec_refs = (\<lambda>sp m. set_option (hcData sp))"

lemma copy_map_deep: "deep_copier (\<lambda>d m. map_option (\<lambda>a. map_in (cells m a)) d) (\<lambda>d m. set_option d) copy_map"
proof unfold_locales
  fix d and m m' :: "('o, 'x) cell mem" assume "\<And>i. i \<in> set_option d \<Longrightarrow> cells m' i = cells m i"
  then show "map_option (\<lambda>a. map_in (cells m' a)) d = map_option (\<lambda>a. map_in (cells m a)) d \<and> set_option d = set_option d"
    by (cases d) auto
next
  fix d e and m m' :: "('o, 'x) cell mem" assume "set_option d \<subseteq> {..<nextAddr m}" and "copy_map d m = (e, m')"
  then show "extends m m' \<and> map_option (\<lambda>a. map_in (cells m' a)) e = map_option (\<lambda>a. map_in (cells m a)) d \<and>
      set_option e \<subseteq> {nextAddr m..<nextAddr m'}"
    by (cases d) (auto simp: copy_map_def new_cell_def extends_def)
qed

interpretation cleanup_spec: deep_copier spec_view spec_refs CleanupAppSpec_DeepCopyInto
  unfolding spec_view_def spec_refs_def
  by (rule deep_copier_struct [OF copy_map_deep, where g = "\<lambda>sp d. sp\<lparr>hcData := d\<rparr>"])
    (simp_all add: CleanupAppSpec_DeepCopyInto_def)

interpretation simple_spec: deep_copier "\<lambda>sp m. sp" "\<lambda>sp m. {}" SimpleAppSpec_DeepCopyInto
  by unfold_locales (auto simp: SimpleAppSpec_DeepCopyInto_def)

lemma status_deep:
  assumes "\<And>c. copyCondition c = c"
  shows "deep_copier status_view status_refs (Status_DeepCopyInto copyCondition)"
  unfolding status_view_def status_refs_def
  by (rule deep_copier_struct [OF deep_copier_slice [where put = ConditionsCell, OF deep_copier_value],
        where g = "\<lambda>st cs. st\<lparr>hsConditions := cs\<rparr>"])
    (simp_all add: assms Status_DeepCopyInto_def)

interpretation plain_status: deep_copier status_view status_refs "Status_DeepCopyInto (\<lambda>c. c)"
  by (rule status_deep) simp

definition app_view ::
    "('o \<Rightarrow> ('o, 'x) cell mem \<Rightarrow> 'ov) \<Rightarrow> ('s \<Rightarrow> ('o, 'x) cell mem \<Rightarrow> 'sv) \<Rightarrow> ('o, 's) app \<Rightarrow> ('o, 'x) cell mem \<Rightarrow>
     (string \<times> string) \<times> 'ov \<times> 'sv \<times> int \<times> Condition list option" where
  "app_view ov sv app m =
     (appTypeMeta app, ov (appObjectMeta app) m, sv (appSpec app) m, status_view (appStatus app) m)"

definition app_refs ::
    "('o \<Rightarrow> ('o, 'x) cell mem \<Rightarrow> nat set) \<Rightarrow> ('s \<Rightarrow> ('o, 'x) cell mem \<Rightarrow> nat set) \<Rightarrow> ('o, 's) app \<Rightarrow> ('o, 'x) cell mem \<Rightarrow>
     nat set" where
  "app_refs orf sr app m = orf (appObjectMeta app) m \<union> (sr (appSpec app) m \<union> status_refs (appStatus app) m)"

lemma app_deep:
  assumes "deep_copier ov orf copyMeta" and "deep_copier sv sr copySpec" and "\<And>c. copyCondition c = c"
    and "\<And>app m. copyInto app m =
      (case copyMeta (appObjectMeta app) m of (om, m) \<Rightarrow>
         case copySpec (appSpec app) m of (sp, m) \<Rightarrow>
           case Status_DeepCopyInto copyCondition (appStatus app) m of (st, m) \<Rightarrow>
             (app\<lparr>appObjectMeta := om, appSpec := sp, appStatus := st\<rparr>, m))"
  shows "deep_copier (app_view ov sv) (app_refs orf sr) copyInto"
proof -
  note parts = deep_copier_pair [OF assms(1) deep_copier_pair [OF assms(2) status_deep [OF assms(3)]]]
  have "deep_copier (\<lambda>app m. (appTypeMeta app, (\<lambda>(x, y) m. (ov x m, (\<lambda>(x, y) m. (sv x m, status_view y m)) y m))
      (appObjectMeta app, appSpec app, appStatus app) m))
    (\<lambda>app. (\<lambda>(x, y) m. orf x m \<union> (\<lambda>(x, y) m. sr x m \<union> status_refs y m) y m)
      (appObjectMeta app, appSpec app, appStatus app)) copyInto"
    by (rule deep_copier_struct [OF parts,
          where g = "\<lambda>app (om, sp, st). app\<lparr>appObjectMeta := om, appSpec := sp, appStatus := st\<rparr>"])
      (auto simp: assms(4) split: prod.splits)
  then show ?thesis by (simp add: app_view_def [abs_def] app_refs_def [abs_def])
qed

lemma CleanupApp_deep:
  assumes "deep_copier ov orf copyMeta" and "\<And>c. copyCondition c = c"
  shows "deep_copier (app_view ov spec_view) (app_refs orf spec_refs) (CleanupApp_DeepCopyInto copyMeta copyCondition)"
  by (rule app_deep [OF assms(1) cleanup_spec.deep_copier_axioms assms(2)]) (simp add: CleanupApp_DeepCopyInto_def)

lemma SimpleApp_deep:
  assumes "deep_copier ov orf copyMeta" and "\<And>c. copyCondition c = c"
  shows "deep_copier (app_view ov (\<lambda>sp m. sp)) (app_refs orf (\<lambda>sp m. {})) (SimpleApp_DeepCopyInto copyMeta copyCondition)"
  by (rule app_deep [OF assms(1) simple_spec.deep_copier_axioms assms(2)])
    (auto simp: SimpleApp_DeepCopyInto_def SimpleAppSpec_DeepCopyInto_def split: prod.splits)

definition list_view ::
    "('l \<Rightarrow> ('o, 'x) cell mem \<Rightarrow> 'lv) \<Rightarrow> (('o, 'x) cell \<Rightarrow> 'a list) \<Rightarrow> ('a \<Rightarrow> ('o, 'x) cell mem \<Rightarrow> 'av) \<Rightarrow>
     'l app_list \<Rightarrow> ('o, 'x) cell mem \<Rightarrow> (string \<times> string) \<times> 'lv \<times> 'av list option" where
  "list_view lv items av l m = (listTypeMeta l, lv (listMeta l) m, slice_view items av (listItems l) m)"

definition list_refs ::
    "('l \<Rightarrow> ('o, 'x) cell mem \<Rightarrow> nat set) \<Rightarrow> (('o, 'x) cell \<Rightarrow> 'a list) \<Rightarrow> ('a \<Rightarrow> ('o, 'x) cell mem \<Rightarrow> nat set) \<Rightarrow>
     'l app_list \<Rightarrow> ('o, 'x) cell mem \<Rightarrow> nat set" where
  "list_refs lr items ar l m = lr (listMeta l) m \<union> slice_refs items ar (listItems l) m"

lemma list_deep:
  assumes "deep_copier lv lr copyListMeta" and "deep_copier av ar copyItem" and "\<And>xs. items (put xs) = xs"
    and "\<And>l m. copyInto l m =
      (case copyListMeta (listMeta l) m of (lm, m) \<Rightarrow>
         case copy_slice put items copyItem (listItems l) m of (xs, m) \<Rightarrow> (l\<lparr>listMeta := lm, listItems := xs\<rparr>, m))"
  shows "deep_copier (list_view lv items av) (list_refs lr items ar) copyInto"
proof -
  have "deep_copier (\<lambda>l m. (listTypeMeta l, (\<lambda>(x, y) m. (lv x m, slice_view items av y m)) (listMeta l, listItems l) m))
    (\<lambda>l. (\<lambda>(x, y) m. lr x m \<union> slice_refs items ar y m) (listMeta l, listItems l)) copyInto"
    by (rule deep_copier_struct [OF deep_copier_pair [OF assms(1) deep_copier_slice [OF assms(2,3)]],
          where g = "\<lambda>l (lm, xs). l\<lparr>listMeta := lm, listItems := xs\<rparr>"])
      (auto simp: assms(4) split: prod.splits)
  then show ?thesis by (simp add: list_view_def [abs_def] list_refs_def [abs_def])
qed

abbreviation cleanup_list_view where
  "cleanup_list_view lv ov \<equiv> list_view lv cleanup_items_in (app_view ov spec_view)"

abbreviation cleanup_list_refs where
  "cleanup_list_refs lr orf \<equiv> list_refs lr cleanup_items_in (app_refs orf spec_refs)"

lemma CleanupAppList_deep:
  assumes "deep_copier lv lr copyListMeta" and "deep_copier ov orf copyMeta" and "\<And>c. copyCondition c = c"
  shows "deep_copier (cleanup_list_view lv ov) (cleanup_list_refs lr orf)
    (CleanupAppList_DeepCopyInto copyListMeta copyMeta copyCondition)"
  using CleanupApp_deep [OF assms(2,3)] assms(1)
  by (intro list_deep [where put = CleanupItemsCell and copyListMeta = copyListMeta]) (simp_all add: CleanupAppList_DeepCopyInto_def)

lemma SimpleAppList_deep:
  assumes "deep_copier lv lr copyListMeta" and "deep_copier ov orf copyMeta" and "\<And>c. copyCondition c = c"
  shows "deep_copier (list_view lv simple_items_in (app_view ov (\<lambda>sp m. sp)))
    (list_refs lr simple_items_in (app_refs orf (\<lambda>sp m. {})))
    (SimpleAppList_DeepCopyInto copyListMeta copyMeta copyCondition)"
  using SimpleApp_deep [OF assms(2,3)] assms(1)
  by (intro list_deep [where put = SimpleItemsCell and copyListMeta = copyListMeta]) (simp_all add: SimpleAppList_DeepCopyInto_def)

text \<open>\<open>SetStatus\<close> does not copy: the app and the caller's status share their conditions.\<close>

lemma SetStatus_shares_conditions:
  "hsConditions st = Some a \<Longrightarrow>
   status_view (appStatus (SimpleApp_SetStatus (Some st) app)) (write_cell a (ConditionsCell cs) m)
     = (hsObservedGeneration st, Some cs)"
  by (simp add: SimpleApp_SetStatus_def status_view_def slice_view_def write_cell_def)

section \<open>Properties\<close>

text \<open>
  C30: a deep copy of a list of apps is equal to the list and isolated from it, provided that
  apimachinery's own copies are. The copy of a non-nil list has the same value; it and the original go
  through disjoint cells; so whatever is then written through the copy (its items, the data of a spec,
  the conditions of a status) is not seen through the original, and the other way round.
  \<open>DeepCopyObject\<close> gives the same copy.
\<close>

theorem CleanupAppList_DeepCopy_isolated:
  assumes "deep_copier lv lr copyListMeta" and "deep_copier ov orf copyMeta" and "\<And>c. copyCondition c = c"
    and "cleanup_list_refs lr orf l m \<subseteq> {..<nextAddr m}"
  shows "\<exists>l' m'. CleanupAppList_DeepCopy copyListMeta copyMeta copyCondition (Some l) m = (Some l', m') \<and>
     CleanupAppList_DeepCopyObject copyListMeta copyMeta copyCondition (Some l) m = (Some l', m') \<and>
     cleanup_list_view lv ov l' m' = cleanup_list_view lv ov l m \<and>
     cleanup_list_refs lr orf l' m' \<inter> cleanup_list_refs lr orf l m' = {} \<and>
     (\<forall>m2. (\<forall>i. i \<notin> cleanup_list_refs lr orf l' m' \<longrightarrow> cells m2 i = cells m' i) \<longrightarrow>
        cleanup_list_view lv ov l m2 = cleanup_list_view lv ov l m) \<and>
     (\<forall>m2. (\<forall>i. i \<notin> cleanup_list_refs lr orf l m' \<longrightarrow> cells m2 i = cells m' i) \<longrightarrow>
        cleanup_list_view lv ov l' m2 = cleanup_list_view lv ov l m)"
proof -
  obtain l' m' where c: "CleanupAppList_DeepCopyInto copyListMeta copyMeta copyCondition l m = (l', m')" by fastforce
  note iso = deep_copier.isolated [OF CleanupAppList_deep [OF assms(1-3)] assms(4) c]
  show ?thesis
    by (intro exI [of _ l'] exI [of _ m'])
      (use iso in \<open>auto simp: CleanupAppList_DeepCopy_def CleanupAppList_DeepCopyObject_def copy_pointer_def c\<close>)
qed

text \<open>A list of one app with data and a condition; the metadata are plain values.\<close>

definition demo_mem :: "(string, unit) cell mem" where
  "demo_mem = \<lparr>cells = (\<lambda>_. ForeignCell ())(0 := MapCell [''k'' \<mapsto> ''v''],
     1 := ConditionsCell [\<lparr>cType = ''Ready'', cStatus = ConditionTrue, cObservedGeneration = 1, cLastTransitionTime = None,
            cReason = [], cMessage = []\<rparr>],
     2 := CleanupItemsCell [\<lparr>appTypeMeta = (''v1alpha1'', ''CleanupApp''), appObjectMeta = ''app'',
            appSpec = \<lparr>hcConfigMapName = ''data'', hcData = Some 0\<rparr>,
            appStatus = \<lparr>hsObservedGeneration = 1, hsConditions = Some 1\<rparr>\<rparr>]), nextAddr = 3\<rparr>"

definition demo_list :: "string app_list" where
  "demo_list = \<lparr>listTypeMeta = (''v1alpha1'', ''CleanupAppList''), listMeta = ''1'', listItems = Some 2\<rparr>"

theorem CleanupAppList_DeepCopy_isolated_witness:
  "\<exists>l' m'. CleanupAppList_DeepCopy (\<lambda>x m. (x, m)) (\<lambda>x m. (x, m)) (\<lambda>c. c) (Some demo_list) demo_mem = (Some l', m') \<and>
     cleanup_list_view (\<lambda>x m. x) (\<lambda>x m. x) l' m' = cleanup_list_view (\<lambda>x m. x) (\<lambda>x m. x) demo_list demo_mem \<and>
     cleanup_list_view (\<lambda>x m. x) (\<lambda>x m. x) demo_list (write_cell (the (listItems l')) (CleanupItemsCell []) m')
       = cleanup_list_view (\<lambda>x m. x) (\<lambda>x m. x) demo_list demo_mem"
proof -
  have plain: "deep_copier (\<lambda>x m. x) (\<lambda>x m. {}) (\<lambda>x (m :: (string, unit) cell mem). (x :: string, m))"
    by (rule deep_copier_value [where c = "\<lambda>x. x"]) simp
  have "cleanup_list_refs (\<lambda>x m. {}) (\<lambda>x m. {}) demo_list demo_mem \<subseteq> {..<nextAddr demo_mem}"
    by (simp add: list_refs_def slice_refs_def app_refs_def spec_refs_def status_refs_def demo_list_def demo_mem_def)
  from CleanupAppList_DeepCopy_isolated [OF plain plain _ this, of "\<lambda>c. c"] obtain l' m' where
    c: "CleanupAppList_DeepCopy (\<lambda>x m. (x, m)) (\<lambda>x m. (x, m)) (\<lambda>c. c) (Some demo_list) demo_mem = (Some l', m')"
      "cleanup_list_view (\<lambda>x m. x) (\<lambda>x m. x) l' m' = cleanup_list_view (\<lambda>x m. x) (\<lambda>x m. x) demo_list demo_mem"
    and iso: "\<And>m2. (\<forall>i. i \<notin> cleanup_list_refs (\<lambda>x m. {}) (\<lambda>x m. {}) l' m' \<longrightarrow> cells m2 i = cells m' i) \<Longrightarrow>
        cleanup_list_view (\<lambda>x m. x) (\<lambda>x m. x) demo_list m2 = cleanup_list_view (\<lambda>x m. x) (\<lambda>x m. x) demo_list demo_mem"
    by auto
  have "listItems l' \<noteq> None"
    using c(2) by (auto simp: list_view_def slice_view_def demo_list_def)
  then have "the (listItems l') \<in> cleanup_list_refs (\<lambda>x m. {}) (\<lambda>x m. {}) l' m'"
    by (auto simp: list_refs_def slice_refs_def)
  with iso [of "write_cell (the (listItems l')) (CleanupItemsCell []) m'"] c show ?thesis
    by (auto simp: write_cell_def)
qed

end
