(* ===== verification/Applier.thy ===== *)
theory Applier
  imports Resources_Util
begin

text \<open>
  The appliers (\<^verbatim>\<open>src/pkg/resources/applier.go\<close>, \<^verbatim>\<open>applier_opts.go\<close>): the interface, the applier that
  calls \<open>resources.Apply\<close>, and the one that skips an apply when the object on the server still has
  the resource version its last apply left. The expiring LRU cache of apimachinery is a parameter;
  \<open>lru_ok\<close> states what is documented of it: a lookup gives the value last added for the key, or
  nothing.
\<close>

section \<open>The interface and the default applier\<close>

record ('c, 'w) Applier =
  applierClient :: "('c, 'w) client"
  applierApply :: "ApplyOption list \<Rightarrow> ('c, 'w) object_call"

record ('c, 'w) DefaultApplier =
  daClient :: "('c, 'w) client"

definition NewDefaultApplier :: "('c, 'w) client \<Rightarrow> ('c, 'w) DefaultApplier" where
  "NewDefaultApplier cli = \<lparr>daClient = cli\<rparr>"

definition DefaultApplier_Client :: "('c, 'w) DefaultApplier \<Rightarrow> ('c, 'w) client" where
  "DefaultApplier_Client a = daClient a"

definition DefaultApplier_Apply ::
    "'c env \<Rightarrow> ('c, 'w) DefaultApplier \<Rightarrow> ApplyOption list \<Rightarrow> ('c, 'w) object_call" where
  "DefaultApplier_Apply E a opts obj w = resources_Apply E (daClient a) opts obj w"

definition as_Applier :: "'c env \<Rightarrow> ('c, 'w) DefaultApplier \<Rightarrow> ('c, 'w) Applier" where
  "as_Applier E a = \<lparr>applierClient = DefaultApplier_Client a, applierApply = DefaultApplier_Apply E a\<rparr>"

section \<open>Options of the caching applier\<close>

record CachingApplierOptions =
  MaxEntries :: int
  TTL :: int

definition CachingApplierOptions_ApplyOptions ::
    "CachingApplierOptions \<Rightarrow> (CachingApplierOptions \<Rightarrow> CachingApplierOptions) list \<Rightarrow> CachingApplierOptions" where
  "CachingApplierOptions_ApplyOptions t opts = apply_options opts t"

definition WithMaxEntries :: "int \<Rightarrow> CachingApplierOptions \<Rightarrow> CachingApplierOptions" where
  [opt_defs]: "WithMaxEntries n opts = opts\<lparr>MaxEntries := n\<rparr>"

definition WithTTL :: "int \<Rightarrow> CachingApplierOptions \<Rightarrow> CachingApplierOptions" where
  [opt_defs]: "WithTTL ttl opts = opts\<lparr>TTL := ttl\<rparr>"

section \<open>The caching applier\<close>

text \<open>The cache holds values of any type; the applier stores strings and asserts the type.\<close>

datatype cached_value = CachedString string | CachedOther

record 'l lru_api =
  NewLRU :: "int \<Rightarrow> 'l"
  lruGet :: "'l \<Rightarrow> string \<Rightarrow> cached_value option \<times> 'l"
  lruAdd :: "'l \<Rightarrow> string \<Rightarrow> cached_value \<Rightarrow> int \<Rightarrow> 'l"

text \<open>
  \<open>contents\<close> is what the cache would return: entries only leave it (eviction and expiry) until one
  is added for their key.
\<close>

definition lru_ok :: "'l lru_api \<Rightarrow> ('l \<Rightarrow> string \<rightharpoonup> cached_value) \<Rightarrow> bool" where
  "lru_ok L contents \<longleftrightarrow>
     (\<forall>n. contents (NewLRU L n) = Map.empty) \<and>
     (\<forall>l k. (fst (lruGet L l k) = None \<or> fst (lruGet L l k) = contents l k) \<and>
            contents (snd (lruGet L l k)) \<subseteq>\<^sub>m contents l) \<and>
     (\<forall>l k v ttl. contents (lruAdd L l k v ttl) \<subseteq>\<^sub>m (contents l)(k \<mapsto> v))"

definition ErrObjectTerminating :: error where
  "ErrObjectTerminating = ErrorString ''object is being deleted''"

abbreviation defaultCacheMaxEntries :: int where "defaultCacheMaxEntries \<equiv> 1000"

text \<open>Five minutes, in nanoseconds.\<close>

abbreviation defaultCacheTTL :: int where "defaultCacheTTL \<equiv> 300000000000"

record ('c, 'w, 'l) CachingApplier =
  caOptions :: CachingApplierOptions
  caInner :: "('c, 'w) Applier"
  caCache :: 'l

definition NewCachingApplier ::
    "'l lru_api \<Rightarrow> ('c, 'w) Applier \<Rightarrow> (CachingApplierOptions \<Rightarrow> CachingApplierOptions) list \<Rightarrow>
     ('c, 'w, 'l) CachingApplier" where
  "NewCachingApplier L inner opts =
     (let options = CachingApplierOptions_ApplyOptions
            \<lparr>MaxEntries = defaultCacheMaxEntries, TTL = defaultCacheTTL\<rparr> opts
      in \<lparr>caOptions = options, caInner = inner, caCache = NewLRU L (MaxEntries options)\<rparr>)"

definition CachingApplier_Client :: "('c, 'w, 'l) CachingApplier \<Rightarrow> ('c, 'w) client" where
  "CachingApplier_Client a = applierClient (caInner a)"

definition isCached ::
    "'l lru_api \<Rightarrow> string \<Rightarrow> string \<Rightarrow> ('c, 'w, 'l) CachingApplier \<Rightarrow> bool \<times> ('c, 'w, 'l) CachingApplier" where
  "isCached L uid rv a =
     (case lruGet L (caCache a) uid of
        (None, l) \<Rightarrow> (False, a\<lparr>caCache := l\<rparr>)
      | (Some cached, l) \<Rightarrow>
          (case cached of CachedString cachedRV \<Rightarrow> cachedRV = rv | CachedOther \<Rightarrow> False, a\<lparr>caCache := l\<rparr>))"

definition writeBack ::
    "'c env \<Rightarrow> ('c, 'w) client \<Rightarrow> 'c object \<Rightarrow> 'c object \<Rightarrow> error option \<times> 'c object" where
  "writeBack E cli from into =
     (case FromUnstructured E (clientScheme cli) (Some from) into of
        (Some err, into) \<Rightarrow> (Some (WrapError ''failed to write cached object state'' err), into)
      | (None, into) \<Rightarrow> (None, into))"

text \<open>The delegation to the inner applier, and the entry a success leaves in the cache.\<close>

definition delegate ::
    "'c env \<Rightarrow> 'l lru_api \<Rightarrow> ApplyOption list \<Rightarrow> 'c object \<Rightarrow> ('c, 'w, 'l) CachingApplier \<Rightarrow> 'w \<Rightarrow>
     error option \<times> 'c object \<times> ('c, 'w, 'l) CachingApplier \<times> 'w" where
  "delegate E L opts obj a w =
     (case applierApply (caInner a) opts obj w of
        (Some err, obj, w) \<Rightarrow>
          (Some (WrapError (''inner apply for '' @ FormatObjectReference (envSchema E) obj) err), obj, a, w)
      | (None, obj, w) \<Rightarrow>
          (None, obj, a\<lparr>caCache := lruAdd L (caCache a) (GetUID obj)
             (CachedString (GetResourceVersion obj)) (TTL (caOptions a))\<rparr>, w))"

definition CachingApplier_Apply ::
    "'c env \<Rightarrow> 'l lru_api \<Rightarrow> 'c \<Rightarrow> ApplyOption list \<Rightarrow> 'c object \<Rightarrow> ('c, 'w, 'l) CachingApplier \<Rightarrow> 'w \<Rightarrow>
     error option \<times> 'c object \<times> ('c, 'w, 'l) CachingApplier \<times> 'w" where
  "CachingApplier_Apply E L c0 opts obj a w =
     (let cli = applierClient (caInner a);
          existing = empty_object UnstructuredType (GroupVersionKind obj) c0
      in case clientGet cli (NamespacedNameFromObject obj) existing w of
           (err, existing, w) \<Rightarrow>
             if IsNotFound E err then delegate E L opts obj a w
             else (case err of
               Some e \<Rightarrow>
                 (Some (WrapError (''failed to get existing object '' @
                    FormatObjectReference (envSchema E) obj) e), obj, a, w)
             | None \<Rightarrow>
                 if GetDeletionTimestamp existing \<noteq> None
                 then (Some (WrapError (''cannot apply '' @ FormatObjectReference (envSchema E) existing)
                         ErrObjectTerminating), obj, a, w)
                 else (case isCached L (GetUID existing) (GetResourceVersion existing) a of
                         (True, a) \<Rightarrow>
                           (case writeBack E cli existing obj of (err, obj) \<Rightarrow> (err, obj, a, w))
                       | (False, a) \<Rightarrow> delegate E L opts obj a w)))"

section \<open>Lemmas\<close>

lemma isCached_contents:
  assumes "lru_ok L contents" and "isCached L uid rv a = (hit, a')"
  shows "hit \<Longrightarrow> contents (caCache a) uid = Some (CachedString rv)"
    and "contents (caCache a') \<subseteq>\<^sub>m contents (caCache a)"
    and "caInner a' = caInner a" and "caOptions a' = caOptions a"
proof -
  obtain r l where get: "lruGet L (caCache a) uid = (r, l)" by (cases "lruGet L (caCache a) uid")
  with assms(1) have r: "r = None \<or> r = contents (caCache a) uid" "contents l \<subseteq>\<^sub>m contents (caCache a)"
    unfolding lru_ok_def by (metis fst_conv, metis snd_conv)
  show "hit \<Longrightarrow> contents (caCache a) uid = Some (CachedString rv)"
    using r(1) assms(2) get
    by (auto simp: isCached_def split: option.splits cached_value.splits)
  show "contents (caCache a') \<subseteq>\<^sub>m contents (caCache a)" "caInner a' = caInner a" "caOptions a' = caOptions a"
    using assms(2) get r(2) by (auto simp: isCached_def split: option.splits)
qed

text \<open>
  Every string in the cache is the resource version some successful inner apply left on the object
  of that UID; \<open>log\<close> is the list of those.
\<close>

definition cached_from :: "('l \<Rightarrow> string \<rightharpoonup> cached_value) \<Rightarrow> (string \<times> string) list \<Rightarrow> 'l \<Rightarrow> bool" where
  "cached_from contents log l \<longleftrightarrow>
     (\<forall>uid rv. contents l uid = Some (CachedString rv) \<longrightarrow> (uid, rv) \<in> set log)"

lemma cached_from_mono:
  "cached_from contents log l \<Longrightarrow> contents l' \<subseteq>\<^sub>m contents l \<Longrightarrow> cached_from contents log l'"
  unfolding cached_from_def map_le_def by (metis domI)

lemma cached_from_Add:
  assumes "lru_ok L contents" and "cached_from contents log l"
  shows "cached_from contents (log @ [(uid, rv)]) (lruAdd L l uid (CachedString rv) ttl)"
proof -
  have le: "contents (lruAdd L l uid (CachedString rv) ttl) \<subseteq>\<^sub>m (contents l)(uid \<mapsto> CachedString rv)"
    using assms(1) by (simp add: lru_ok_def)
  show ?thesis
    unfolding cached_from_def
  proof (intro allI impI)
    fix u v
    assume "contents (lruAdd L l uid (CachedString rv) ttl) u = Some (CachedString v)"
    with le have "((contents l)(uid \<mapsto> CachedString rv)) u = Some (CachedString v)"
      by (metis map_le_def domI)
    with assms(2) show "(u, v) \<in> set (log @ [(uid, rv)])"
      by (auto simp: cached_from_def split: if_splits)
  qed
qed

text \<open>
  The outcome of a call that reached the inner applier: the object and the world are the ones it left,
  its error is passed on wrapped, and only its success adds an entry to the cache, for the UID and the
  resource version it left on the object.
\<close>

definition inner_applied ::
    "('l \<Rightarrow> string \<rightharpoonup> cached_value) \<Rightarrow> (string \<times> string) list \<Rightarrow> ApplyOption list \<Rightarrow> 'c object \<Rightarrow>
     ('c, 'w, 'l) CachingApplier \<Rightarrow> 'w \<Rightarrow> error option \<times> 'c object \<times> ('c, 'w, 'l) CachingApplier \<times> 'w \<Rightarrow> bool" where
  "inner_applied contents log opts obj a w res \<longleftrightarrow>
     (case res of (err, obj', a', w') \<Rightarrow>
        \<exists>ierr. applierApply (caInner a) opts obj w = (ierr, obj', w') \<and>
          (case ierr of
             None \<Rightarrow> err = None \<and> cached_from contents (log @ [(GetUID obj', GetResourceVersion obj')]) (caCache a')
           | Some e \<Rightarrow> errors_Is err e \<and> err \<noteq> None \<and> cached_from contents log (caCache a')))"

lemma delegate_inner_applied:
  assumes "lru_ok L contents" and "cached_from contents log (caCache a)"
  shows "inner_applied contents log opts obj a w (delegate E L opts obj a w)"
  using cached_from_Add [OF assms] assms(2)
  by (auto simp: inner_applied_def delegate_def errors_Is_def intro: err_chain_self split: prod.splits option.splits)

section \<open>A concrete cache and inner applier\<close>

definition demo_lru :: "(string \<times> cached_value) list lru_api" where
  "demo_lru = \<lparr>NewLRU = (\<lambda>n. []), lruGet = (\<lambda>l k. (map_of l k, l)), lruAdd = (\<lambda>l k v ttl. (k, v) # l)\<rparr>"

lemma demo_lru_ok [simp]: "lru_ok demo_lru map_of"
  by (simp add: lru_ok_def demo_lru_def)

text \<open>A client whose server holds one object, at resource version 7.\<close>

definition demo_server_object :: "nat option \<Rightarrow> nat object" where
  "demo_server_object deleted = (empty_object UnstructuredType demo_gvk 5)
     \<lparr>GetName := ''app'', GetUID := ''u-1'', GetResourceVersion := ''7'',
      GetDeletionTimestamp := map_option int deleted\<rparr>"

definition demo_server :: "nat option \<Rightarrow> (nat, nat) client" where
  "demo_server deleted = demo_client\<lparr>clientGet := (\<lambda>k ob w. (None, demo_server_object deleted, w))\<rparr>"

definition demo_desired :: "nat \<Rightarrow> nat object" where
  "demo_desired c = (empty_object (TypedGo ''App'') demo_gvk c)\<lparr>GetName := ''app''\<rparr>"

definition demo_caching :: "nat option \<Rightarrow> (nat, nat, (string \<times> cached_value) list) CachingApplier" where
  "demo_caching deleted =
     (NewCachingApplier demo_lru (as_Applier demo_env (NewDefaultApplier (demo_server deleted))) [])
       \<lparr>caCache := [(''u-1'', CachedString ''7'')]\<rparr>"

lemmas demo_caching_eval =
  demo_caching_def NewCachingApplier_def as_Applier_def NewDefaultApplier_def DefaultApplier_Client_def
  demo_server_def demo_server_object_def empty_object_def demo_lru_def demo_desired_def

section \<open>Properties\<close>

text \<open>
  An object that is being deleted on the server is never applied: the caching applier returns an
  error that wraps \<open>ErrObjectTerminating\<close>, calls nothing after the \<open>Get\<close>, and leaves the caller's
  object and the cache as they were.
\<close>

theorem CachingApplier_terminating:
  assumes "\<not> IsNotFound E None"
    and "clientGet (applierClient (caInner a)) (NamespacedNameFromObject obj)
           (empty_object UnstructuredType (GroupVersionKind obj) c0) w = (None, existing, w1)"
    and "GetDeletionTimestamp existing = Some t"
  shows "\<exists>e. CachingApplier_Apply E L c0 opts obj a w = (Some e, obj, a, w1) \<and>
     errors_Is (Some e) ErrObjectTerminating"
  using assms by (simp add: CachingApplier_Apply_def)

theorem CachingApplier_terminating_witness:
  "\<exists>e. CachingApplier_Apply demo_env demo_lru 0 [] (demo_desired 1) (demo_caching (Some 9)) 3 =
     (Some e, demo_desired 1, demo_caching (Some 9), 3) \<and> errors_Is (Some e) ErrObjectTerminating"
  by (rule CachingApplier_terminating [where t = 9 and existing = "demo_server_object (Some 9)"])
    (simp_all add: demo_caching_eval)

text \<open>
  C17: what the caching applier does, for every answer of the \<open>Get\<close>. When the object is not found it
  calls the inner applier. Any other error of the \<open>Get\<close> is returned, and an object that is being deleted
  is refused with \<open>ErrObjectTerminating\<close>; both leave the object, the cache and the world alone. Otherwise
  it either calls the inner applier or skips it, and it skips only when the resource version now on
  the server is one that a successful inner apply left on the object of that UID. In every case a
  cache entry is added for a successful inner apply, and for nothing else (\<open>log\<close> lists those applies).
\<close>

theorem CachingApplier_skip_sound:
  assumes "lru_ok L contents" and "cached_from contents log (caCache a)"
    and "clientGet (applierClient (caInner a)) (NamespacedNameFromObject obj)
           (empty_object UnstructuredType (GroupVersionKind obj) c0) w = (gerr, existing, w1)"
    and "CachingApplier_Apply E L c0 opts obj a w = (err, obj', a', w')"
  shows "if IsNotFound E gerr then inner_applied contents log opts obj a w1 (err, obj', a', w')
     else (case gerr of
        Some e \<Rightarrow> err \<noteq> None \<and> errors_Is err e \<and> obj' = obj \<and> a' = a \<and> w' = w1
      | None \<Rightarrow>
          if GetDeletionTimestamp existing \<noteq> None
          then err \<noteq> None \<and> errors_Is err ErrObjectTerminating \<and> obj' = obj \<and> a' = a \<and> w' = w1
          else (GetUID existing, GetResourceVersion existing) \<in> set log \<and> w' = w1 \<and>
               (err, obj') = writeBack E (applierClient (caInner a)) existing obj \<and>
               cached_from contents log (caCache a')
             \<or> inner_applied contents log opts obj a w1 (err, obj', a', w'))"
proof (cases "IsNotFound E gerr \<or> gerr \<noteq> None \<or> GetDeletionTimestamp existing \<noteq> None")
  case True
  then show ?thesis
    using assms(3,4) delegate_inner_applied [OF assms(1,2), of opts obj w1 E]
    by (auto simp: CachingApplier_Apply_def errors_Is_def intro: err_chain_self split: option.splits if_splits)
next
  case False
  then have plain: "gerr = None" "\<not> IsNotFound E None" "GetDeletionTimestamp existing = None" by auto
  obtain hit a1 where c: "isCached L (GetUID existing) (GetResourceVersion existing) a = (hit, a1)"
    by (cases "isCached L (GetUID existing) (GetResourceVersion existing) a")
  note facts = isCached_contents [OF assms(1) c]
  have from1: "cached_from contents log (caCache a1)"
    using cached_from_mono [OF assms(2) facts(2)] .
  show ?thesis
  proof (cases hit)
    case True
    with facts(1) assms(2) have "(GetUID existing, GetResourceVersion existing) \<in> set log"
      by (simp add: cached_from_def)
    with True plain assms(3,4) c from1 show ?thesis
      by (auto simp: CachingApplier_Apply_def split: prod.splits)
  next
    case False
    with plain assms(3,4) c have "delegate E L opts obj a1 w1 = (err, obj', a', w')"
      by (simp add: CachingApplier_Apply_def)
    with delegate_inner_applied [OF assms(1) from1, of opts obj w1 E] facts(3) plain show ?thesis
      by (simp add: inner_applied_def)
  qed
qed

theorem CachingApplier_skip_sound_witness:
  "\<exists>err obj' a' w'. CachingApplier_Apply demo_env demo_lru 0 [] (demo_desired 1) (demo_caching None) 3
       = (err, obj', a', w') \<and>
     (((''u-1'', ''7'') \<in> set [(''u-1'', ''7'')] \<and> w' = 3 \<and>
        (err, obj') = writeBack demo_env (demo_server None) (demo_server_object None) (demo_desired 1))
      \<or> inner_applied map_of [(''u-1'', ''7'')] [] (demo_desired 1) (demo_caching None) 3 (err, obj', a', w'))"
proof -
  obtain err obj' a' w' where call: "CachingApplier_Apply demo_env demo_lru 0 [] (demo_desired 1)
      (demo_caching None) 3 = (err, obj', a', w')"
    by (metis prod_cases4)
  have cached: "cached_from map_of [(''u-1'', ''7'')] (caCache (demo_caching None))"
    by (simp add: demo_caching_def cached_from_def)
  have get: "clientGet (applierClient (caInner (demo_caching None))) (NamespacedNameFromObject (demo_desired 1))
      (empty_object UnstructuredType (GroupVersionKind (demo_desired 1)) 0) 3 = (None, demo_server_object None, 3)"
    "GetDeletionTimestamp (demo_server_object None) = None"
    "applierClient (caInner (demo_caching None)) = demo_server None"
    "GetUID (demo_server_object None) = ''u-1''" "GetResourceVersion (demo_server_object None) = ''7''"
    by (simp_all add: demo_caching_eval)
  have "\<not> IsNotFound demo_env None" by simp
  with CachingApplier_skip_sound [OF demo_lru_ok cached get(1) call] get(2) call show ?thesis
    unfolding get(3-5) by auto
qed

text \<open>
  C18: the decision to skip does not look at what the caller wants applied. When the \<open>Get\<close> finds an
  object that is not terminating and whose UID and resource version are in the cache, \<open>Apply\<close> of any
  object with that key and GVK, whatever its content and whatever the inner applier would do, makes no
  further call: the world is the one the \<open>Get\<close> left, and the result is that of writing the server's
  state back into the caller's object, nil if that conversion succeeds.
\<close>

theorem CachingApplier_skip_ignores_desired:
  assumes "\<not> IsNotFound E None"
    and "clientGet (applierClient (caInner a)) (NamespacedNameFromObject obj)
           (empty_object UnstructuredType (GroupVersionKind obj) c0) w = (None, existing, w1)"
    and "GetDeletionTimestamp existing = None"
    and "lruGet L (caCache a) (GetUID existing) = (Some (CachedString (GetResourceVersion existing)), l)"
    and "a1 = a\<lparr>caInner := (caInner a)\<lparr>applierApply := apply\<rparr>\<rparr>"
  shows "CachingApplier_Apply E L c0 opts (obj\<lparr>content := c\<rparr>) a1 w =
     (case FromUnstructured E (clientScheme (applierClient (caInner a))) (Some existing) (obj\<lparr>content := c\<rparr>) of
        (None, written) \<Rightarrow> (None, written, a1\<lparr>caCache := l\<rparr>, w1)
      | (Some e, written) \<Rightarrow> (Some (WrapError ''failed to write cached object state'' e), written, a1\<lparr>caCache := l\<rparr>, w1))"
  using assms
  by (simp add: CachingApplier_Apply_def isCached_def writeBack_def NamespacedNameFromObject_def
      split: prod.splits option.splits)

theorem CachingApplier_skip_ignores_desired_witness:
  "CachingApplier_Apply demo_env demo_lru 0 [] ((demo_desired 1)\<lparr>content := 8\<rparr>) (demo_caching None) 3 =
     (None, (demo_server_object None)\<lparr>goType := TypedGo ''App''\<rparr>, demo_caching None, 3)"
proof -
  have cache: "demo_caching None = (demo_caching None)\<lparr>caCache := [(''u-1'', CachedString ''7'')]\<rparr>"
    and same: "demo_caching None = (demo_caching None)\<lparr>caInner := (caInner (demo_caching None))
       \<lparr>applierApply := applierApply (caInner (demo_caching None))\<rparr>\<rparr>"
    by (simp_all add: demo_caching_def)
  have conv: "FromUnstructured demo_env (clientScheme (applierClient (caInner (demo_caching None))))
      (Some (demo_server_object None)) ((demo_desired 1)\<lparr>content := 8\<rparr>)
      = (None, (demo_server_object None)\<lparr>goType := TypedGo ''App''\<rparr>)"
    by (subst FromUnstructured_same_gvk [where g = demo_gvk]) (simp_all add: demo_caching_eval demo_gvk_def)
  show ?thesis
    using CachingApplier_skip_ignores_desired [OF _ _ _ _ same, of demo_env "demo_desired 1" 0 3 "demo_server_object None" 3
        demo_lru "[(''u-1'', CachedString ''7'')]" "[]" 8] cache conv
    by (simp add: demo_caching_eval)
qed

end
