(* ===== verification/Hierarchical_Controller.thy ===== *)
theory Hierarchical_Controller
  imports Hierarchical
begin

text \<open>
  The manager of \<^verbatim>\<open>src/pkg/hierarchical/controller.go\<close> through which controllers of a child cluster
  are built: registration and the shared services go to the child, everything else to the parent
  manager. The services of controller-runtime (clients, recorders, mappers, \<dots>) are values of a type
  \<open>'x\<close> the model does not look into; \<open>core_getters\<close> are the methods of \<open>cluster.Cluster\<close>.
\<close>

record ('core, 'x) core_getters =
  coreGetHTTPClient :: "'core \<Rightarrow> 'x"
  coreGetConfig :: "'core \<Rightarrow> 'x"
  coreGetCache :: "'core \<Rightarrow> 'x"
  coreGetScheme :: "'core \<Rightarrow> 'x"
  coreGetClient :: "'core \<Rightarrow> 'x"
  coreGetRESTMapper :: "'core \<Rightarrow> 'x"
  coreGetAPIReader :: "'core \<Rightarrow> 'x"
  coreGetEventRecorderFor :: "'core \<Rightarrow> string \<Rightarrow> 'x"
  coreGetEventRecorder :: "'core \<Rightarrow> string \<Rightarrow> 'x"

text \<open>The cache of the child: the core cluster's, with the synchronisation of the lifecycle.\<close>

record 'x lifecycleCache =
  lcCache :: 'x
  lcLifecycle :: lifecycle

definition hierarchicalCluster_Parent ::
    "('c, 'w, 'i, 'g, 'core) hierarchicalCluster \<Rightarrow> ('c, 'w, 'i, 'g) parent_manager" where
  "hierarchicalCluster_Parent c = hclParent c"

definition hierarchicalCluster_GetCache ::
    "('core, 'x) core_getters \<Rightarrow> ('c, 'w, 'i, 'g, 'core) hierarchicalCluster \<Rightarrow> 'x lifecycleCache" where
  "hierarchicalCluster_GetCache G c = \<lparr>lcCache = coreGetCache G (hclCore c), lcLifecycle = hclLifecycle c\<rparr>"

definition hierarchicalCluster_GetFieldIndexer ::
    "('core, 'x) core_getters \<Rightarrow> ('c, 'w, 'i, 'g, 'core) hierarchicalCluster \<Rightarrow> 'x lifecycleCache" where
  "hierarchicalCluster_GetFieldIndexer G c =
     \<lparr>lcCache = coreGetCache G (hclCore c), lcLifecycle = hclLifecycle c\<rparr>"

definition hierarchicalCluster_logger :: "('c, 'w, 'i, 'g, 'core) hierarchicalCluster \<Rightarrow> 'g option" where
  "hierarchicalCluster_logger c = hclLogger c"

record ('c, 'w, 'i, 'g, 'core) scopedManager =
  smManager :: "('c, 'w, 'i, 'g) parent_manager"
  smChild :: "('c, 'w, 'i, 'g, 'core) hierarchicalCluster"

text \<open>The builder is given the scoped manager.\<close>

definition ControllerManagedBy ::
    "('c, 'w, 'i, 'g, 'core) hierarchicalCluster option \<Rightarrow> ('c, 'w, 'i, 'g, 'core) scopedManager outcome" where
  "ControllerManagedBy child =
     (case child of
        None \<Rightarrow> Panic ''hierarchical cluster is required''
      | Some c \<Rightarrow> Ret \<lparr>smManager = hierarchicalCluster_Parent c, smChild = c\<rparr>)"

definition scopedManager_Add ::
    "(managed_runnable \<Rightarrow> 'w \<Rightarrow> error option \<times> 'w) \<Rightarrow> ('c, 'w, 'i, 'g, 'core) scopedManager \<Rightarrow> runnable \<Rightarrow>
     'w \<Rightarrow> error option \<times> 'w" where
  "scopedManager_Add add m r w = registerRunnable add (smChild m) r w"

definition scopedManager_GetHTTPClient ::
    "('core, 'x) core_getters \<Rightarrow> ('c, 'w, 'i, 'g, 'core) scopedManager \<Rightarrow> 'x" where
  "scopedManager_GetHTTPClient G m = coreGetHTTPClient G (hclCore (smChild m))"

definition scopedManager_GetConfig ::
    "('core, 'x) core_getters \<Rightarrow> ('c, 'w, 'i, 'g, 'core) scopedManager \<Rightarrow> 'x" where
  "scopedManager_GetConfig G m = coreGetConfig G (hclCore (smChild m))"

definition scopedManager_GetCache ::
    "('core, 'x) core_getters \<Rightarrow> ('c, 'w, 'i, 'g, 'core) scopedManager \<Rightarrow> 'x lifecycleCache" where
  "scopedManager_GetCache G m = hierarchicalCluster_GetCache G (smChild m)"

definition scopedManager_GetScheme ::
    "('core, 'x) core_getters \<Rightarrow> ('c, 'w, 'i, 'g, 'core) scopedManager \<Rightarrow> 'x" where
  "scopedManager_GetScheme G m = coreGetScheme G (hclCore (smChild m))"

definition scopedManager_GetClient ::
    "('core, 'x) core_getters \<Rightarrow> ('c, 'w, 'i, 'g, 'core) scopedManager \<Rightarrow> 'x" where
  "scopedManager_GetClient G m = coreGetClient G (hclCore (smChild m))"

definition scopedManager_GetFieldIndexer ::
    "('core, 'x) core_getters \<Rightarrow> ('c, 'w, 'i, 'g, 'core) scopedManager \<Rightarrow> 'x lifecycleCache" where
  "scopedManager_GetFieldIndexer G m = hierarchicalCluster_GetFieldIndexer G (smChild m)"

definition scopedManager_GetRESTMapper ::
    "('core, 'x) core_getters \<Rightarrow> ('c, 'w, 'i, 'g, 'core) scopedManager \<Rightarrow> 'x" where
  "scopedManager_GetRESTMapper G m = coreGetRESTMapper G (hclCore (smChild m))"

definition scopedManager_GetAPIReader ::
    "('core, 'x) core_getters \<Rightarrow> ('c, 'w, 'i, 'g, 'core) scopedManager \<Rightarrow> 'x" where
  "scopedManager_GetAPIReader G m = coreGetAPIReader G (hclCore (smChild m))"

definition scopedManager_GetEventRecorderFor ::
    "('core, 'x) core_getters \<Rightarrow> ('c, 'w, 'i, 'g, 'core) scopedManager \<Rightarrow> string \<Rightarrow> 'x" where
  "scopedManager_GetEventRecorderFor G m = coreGetEventRecorderFor G (hclCore (smChild m))"

definition scopedManager_GetEventRecorder ::
    "('core, 'x) core_getters \<Rightarrow> ('c, 'w, 'i, 'g, 'core) scopedManager \<Rightarrow> string \<Rightarrow> 'x" where
  "scopedManager_GetEventRecorder G m = coreGetEventRecorder G (hclCore (smChild m))"

definition scopedManager_GetLogger :: "('c, 'w, 'i, 'g, 'core) scopedManager \<Rightarrow> 'g option" where
  "scopedManager_GetLogger m = hierarchicalCluster_logger (smChild m)"

text \<open>\<open>start\<close> is the parent manager's \<open>Start\<close>.\<close>

definition scopedManager_Start :: "('w \<Rightarrow> error option \<times> 'w) \<Rightarrow> 'w \<Rightarrow> error option \<times> 'w" where
  "scopedManager_Start start w =
     (case start w of
        (Some err, w') \<Rightarrow> (Some (WrapError ''start parent manager'' err), w')
      | (None, w') \<Rightarrow> (None, w'))"

text \<open>
  A controller built for a child is registered with the parent as long as the child runs, wrapped so
  that it takes part in the child's lifecycle: once the child is stopped, registration is refused and
  a controller the parent starts late is not called.
\<close>

lemma scoped_controller_lifecycle:
  assumes "ControllerManagedBy (Some c) = Ret m"
  shows "(isStopped (hclLifecycle c) \<longrightarrow> scopedManager_Add add m r w = (Some ErrClusterStopped, w)) \<and>
     (\<not> isStopped (hclLifecycle c) \<longrightarrow>
        snd (scopedManager_Add add m r w) = snd (add (lifecycleRunnable r) w)) \<and>
     (isStopped l \<longrightarrow> mrStart (lifecycleRunnable r) l = Ret (None, l) \<and>
                     mrWarmup (lifecycleRunnable r) l = Ret (None, l))"
proof -
  have "smChild m = c" using assms by (auto simp: ControllerManagedBy_def)
  then show ?thesis
    by (auto simp: scopedManager_Add_def registerRunnable_def lifecycleRunnable_def lifecycleRunnable_Start_def
        lifecycleRunnable_Warmup_def lifecycle_run_def lifecycle_begin_def isStopped_def
        split: prod.splits option.splits)
qed

end
