(* ===== verification/Conv.thy ===== *)
theory Conv
  imports "HOL-Library.Word"
begin

text \<open>
  The saturating conversions of \<^verbatim>\<open>src/pkg/util/conv/conv.go\<close> on Go's fixed width integers. A Go
  \<open>int64\<close> is a \<open>64 word\<close> read by \<open>sint\<close>, a \<open>uint64\<close> one read by \<open>uint\<close>, and the conversion
  \<open>int32(val)\<close> keeps the low 32 bits (\<open>ucast\<close>).
\<close>

definition maxInt32 :: int where
  "maxInt32 = 2 ^ 31 - 1"

definition minInt32 :: int where
  "minInt32 = - (2 ^ 31)"

definition maxUint32 :: int where
  "maxUint32 = 2 ^ 32 - 1"

definition SafeInt32 :: "64 word \<Rightarrow> 32 word" where
  "SafeInt32 val =
     (if sint val > maxInt32 then word_of_int maxInt32
      else if sint val < minInt32 then word_of_int minInt32
      else ucast val)"

definition SafeUint32 :: "64 word \<Rightarrow> 32 word" where
  "SafeUint32 val = (if uint val > maxUint32 then word_of_int maxUint32 else ucast val)"

lemma sint_of_int_32:
  "minInt32 \<le> n \<Longrightarrow> n \<le> maxInt32 \<Longrightarrow> sint (word_of_int n :: 32 word) = n"
  by (simp add: sint_sbintrunc' signed_take_bit_int_eq_self minInt32_def maxInt32_def)

lemma sint_ucast_32:
  assumes "minInt32 \<le> sint (v :: 64 word)" and "sint v \<le> maxInt32"
  shows "sint (ucast v :: 32 word) = sint v"
proof -
  have "(ucast v :: 32 word) = ucast (word_of_int (sint v) :: 64 word)" by simp
  also have "\<dots> = word_of_int (sint v)"
    by (rule ucast_down_wi) (simp add: is_down)
  finally have "sint (ucast v :: 32 word) = sint (word_of_int (sint v) :: 32 word)" by (rule arg_cong)
  also have "\<dots> = sint v" using assms by (rule sint_of_int_32)
  finally show ?thesis .
qed

lemma uint_ucast_32:
  assumes "uint (v :: 64 word) \<le> maxUint32"
  shows "uint (ucast v :: 32 word) = uint v"
proof -
  have "uint (ucast v :: 32 word) = uint v mod 2 ^ 32"
    by (simp add: unsigned_ucast_eq take_bit_eq_mod)
  also have "\<dots> = uint v"
    using assms by (intro mod_pos_pos_trivial) (simp_all add: maxUint32_def)
  finally show ?thesis .
qed

text \<open>
  C39: \<open>SafeInt32\<close> and \<open>SafeUint32\<close> saturate: the result, read as the signed or unsigned number of its
  width, is the argument clamped to the range of that width. In particular a value in range is
  unchanged and no value wraps around.
\<close>

theorem safe_conversions_clamp:
  "sint (SafeInt32 a) = max (- (2 ^ 31)) (min (2 ^ 31 - 1) (sint a)) \<and>
   uint (SafeUint32 b) = min (2 ^ 32 - 1) (uint b)"
proof
  show "sint (SafeInt32 a) = max (- (2 ^ 31)) (min (2 ^ 31 - 1) (sint a))"
    unfolding SafeInt32_def
    by (simp add: sint_ucast_32 sint_of_int_32) (auto simp: minInt32_def maxInt32_def)
  show "uint (SafeUint32 b) = min (2 ^ 32 - 1) (uint b)"
    unfolding SafeUint32_def
    by (simp add: uint_ucast_32) (auto simp: maxUint32_def)
qed

end
