(* ===== verification/Status_Access.thy ===== *)
theory Status_Access
  imports Conditions Go_Values
begin

text \<open>
  The reflective status accessor of \<^verbatim>\<open>src/pkg/status/accessor.go\<close>. An arbitrary value is what
  \<open>reflect.ValueOf\<close> shows of it; a struct is its field lookup \<open>FieldByName\<close>, promoted fields included,
  which gives the type of a field and its value. The accessor refers to the \<open>Status\<close> field of the
  struct behind the pointer, so that its operations read and write the struct.
\<close>

text \<open>
  A field: \<open>StatusField\<close> are the values of the type \<open>status.Status\<close>, another field has its type as
  \<open>%v\<close> prints it, and \<open>NilEmbedded\<close> is a field promoted from an embedded pointer that is nil.
\<close>

datatype field_value = StatusField Status | OtherField string | NilEmbedded

type_synonym struct_fields = "string \<rightharpoonup> field_value"

datatype elem_value = InvalidElem | OtherElem kind | StructElem struct_fields

datatype reflected = InvalidValue | OtherValue kind | PointerValue elem_value

definition reflected_Kind :: "reflected \<Rightarrow> kind" where
  "reflected_Kind v = (case v of InvalidValue \<Rightarrow> KInvalid | OtherValue k \<Rightarrow> k | PointerValue e \<Rightarrow> KPointer)"

definition elem_Kind :: "elem_value \<Rightarrow> kind" where
  "elem_Kind e = (case e of InvalidElem \<Rightarrow> KInvalid | OtherElem k \<Rightarrow> k | StructElem f \<Rightarrow> KStruct)"

record statusAccessor =
  statusField :: string

text \<open>
  \<open>FieldByName\<close> panics when it has to go through a nil embedded pointer. An exported field reached
  through a pointer can be set, so \<open>CanSet\<close> is true of every accessor.
\<close>

definition status_NewAccessor :: "reflected \<Rightarrow> (error + statusAccessor) outcome" where
  "status_NewAccessor v =
     (case v of
        PointerValue e \<Rightarrow>
          (case e of
             StructElem FieldByName \<Rightarrow>
               (case FieldByName ''Status'' of
                  None \<Rightarrow> Ret (Inl (ErrorString ''object does not have a Status field''))
                | Some NilEmbedded \<Rightarrow> Panic ''reflect: indirection through nil pointer to embedded struct''
                | Some (OtherField t) \<Rightarrow>
                    Ret (Inl (ErrorString (''status field is not of type status.Status, got '' @ t)))
                | Some (StatusField s) \<Rightarrow> Ret (Inr \<lparr>statusField = ''Status''\<rparr>))
           | _ \<Rightarrow> Ret (Inl (ErrorString (''expected struct, got '' @ kind_String (elem_Kind e)))))
      | _ \<Rightarrow> Ret (Inl (ErrorString (''expected pointer, got '' @ kind_String (reflected_Kind v)))))"

text \<open>\<open>GetStatus\<close> returns the field's address, read through here; \<open>SetStatus\<close> ignores a nil status.\<close>

definition statusAccessor_GetStatus :: "statusAccessor \<Rightarrow> struct_fields \<Rightarrow> Status option" where
  "statusAccessor_GetStatus a obj =
     (case obj (statusField a) of Some (StatusField s) \<Rightarrow> Some s | _ \<Rightarrow> None)"

definition statusAccessor_SetStatus :: "statusAccessor \<Rightarrow> Status option \<Rightarrow> struct_fields \<Rightarrow> struct_fields" where
  "statusAccessor_SetStatus a status obj =
     (if obj (statusField a) \<noteq> None \<and> status \<noteq> None then obj(statusField a \<mapsto> StatusField (the status)) else obj)"

lemma NewAccessor_Inr:
  "status_NewAccessor v = Ret (Inr a) \<longleftrightarrow>
     a = \<lparr>statusField = ''Status''\<rparr> \<and>
     (\<exists>obj s. v = PointerValue (StructElem obj) \<and> obj ''Status'' = Some (StatusField s))"
  by (auto simp: status_NewAccessor_def split: reflected.splits elem_value.splits option.splits field_value.splits)

lemma NewAccessor_Panic:
  "(\<exists>m. status_NewAccessor v = Panic m) \<longleftrightarrow>
     (\<exists>obj. v = PointerValue (StructElem obj) \<and> obj ''Status'' = Some NilEmbedded)"
  by (auto simp: status_NewAccessor_def split: reflected.splits elem_value.splits option.splits field_value.splits)

text \<open>
  C40: an accessor is returned exactly for a pointer to a struct with a field \<open>Status\<close> of the type
  \<open>status.Status\<close>; \<open>NewAccessor\<close> panics exactly when that field is promoted from a nil embedded
  pointer, and returns an error in every other case. The accessor reads the field; a status that was
  set is read back, every other field keeps its value, the object still has an accessor, and a nil
  status changes nothing.
\<close>

theorem status_accessor_roundtrip:
  assumes "status_NewAccessor (PointerValue (StructElem obj)) = Ret (Inr a)"
  shows "(\<forall>v. (\<exists>ac. status_NewAccessor v = Ret (Inr ac)) \<longleftrightarrow>
            (\<exists>ob st. v = PointerValue (StructElem ob) \<and> ob ''Status'' = Some (StatusField st))) \<and>
     (\<forall>v. (\<exists>m. status_NewAccessor v = Panic m) \<longleftrightarrow>
            (\<exists>ob. v = PointerValue (StructElem ob) \<and> ob ''Status'' = Some NilEmbedded)) \<and>
     obj ''Status'' = map_option StatusField (statusAccessor_GetStatus a obj) \<and>
     statusAccessor_GetStatus a (statusAccessor_SetStatus a (Some s) obj) = Some s \<and>
     (\<forall>f. f \<noteq> ''Status'' \<longrightarrow> statusAccessor_SetStatus a (Some s) obj f = obj f) \<and>
     status_NewAccessor (PointerValue (StructElem (statusAccessor_SetStatus a (Some s) obj))) = Ret (Inr a) \<and>
     statusAccessor_SetStatus a None obj = obj"
proof (intro conjI allI)
  show "(\<exists>ac. status_NewAccessor v = Ret (Inr ac)) \<longleftrightarrow>
      (\<exists>ob st. v = PointerValue (StructElem ob) \<and> ob ''Status'' = Some (StatusField st))" for v
    by (simp add: NewAccessor_Inr)
  show "(\<exists>m. status_NewAccessor v = Panic m) \<longleftrightarrow>
      (\<exists>ob. v = PointerValue (StructElem ob) \<and> ob ''Status'' = Some NilEmbedded)" for v
    by (rule NewAccessor_Panic)
qed (use assms in \<open>auto simp: NewAccessor_Inr statusAccessor_GetStatus_def statusAccessor_SetStatus_def\<close>)

theorem status_accessor_roundtrip_witness:
  "statusAccessor_GetStatus \<lparr>statusField = ''Status''\<rparr>
     (statusAccessor_SetStatus \<lparr>statusField = ''Status''\<rparr> (Some \<lparr>ObservedGeneration = 5, Conditions = []\<rparr>)
        [''Spec'' \<mapsto> OtherField ''Spec'', ''Status'' \<mapsto> StatusField \<lparr>ObservedGeneration = 1, Conditions = []\<rparr>])
   = Some \<lparr>ObservedGeneration = 5, Conditions = []\<rparr>"
  using status_accessor_roundtrip [of "[''Spec'' \<mapsto> OtherField ''Spec'',
      ''Status'' \<mapsto> StatusField \<lparr>ObservedGeneration = 1, Conditions = []\<rparr>]" "\<lparr>statusField = ''Status''\<rparr>"]
  by (simp add: NewAccessor_Inr)

end
