(* ===== verification/Spec2Isabelle.thy ===== *)
theory Spec2Isabelle
  imports Example_Main Deep_Copy Applier Hierarchical_Controller Conv Status_Access
begin

text \<open>
  This is the verification library of k8s-controller-lib, a Go library for Kubernetes controllers.
  The root imports every theory and holds the properties that tie components together.

  \<^bold>\<open>The program.\<close> A controller is put together by the \<^emph>\<open>builder\<close> (\<^verbatim>\<open>src/pkg/builder\<close>), which registers
  event sources for the reconciled kind and the kinds it depends on, converting between typed and
  unstructured objects where a predicate or handler needs it. Requests reach a \<^emph>\<open>reconciler\<close>
  (\<^verbatim>\<open>src/pkg/reconciler\<close>), usually a \<^emph>\<open>pipeline\<close> (\<^verbatim>\<open>src/pkg/reconciler/pipeline\<close>): it runs actions that
  collect objects, sets ownership on them, applies them through \<^verbatim>\<open>src/pkg/resources\<close>, keeps a finalizer
  for its cleanup actions and reports the outcome as \<^emph>\<open>conditions\<close> (\<^verbatim>\<open>src/pkg/conditions\<close>,
  \<^verbatim>\<open>src/pkg/status\<close>). After applying, the \<^emph>\<open>watcher\<close> (\<^verbatim>\<open>src/pkg/reconciler/watch\<close>) starts watches for
  the kinds that were applied, whose events are mapped back to the owner. A \<^emph>\<open>hierarchical cluster\<close>
  (\<^verbatim>\<open>src/pkg/hierarchical\<close>) gives a group of controllers a cache of its own below a parent manager, with
  a lifecycle that can be stopped. The \<^emph>\<open>configuration\<close> (\<^verbatim>\<open>src/pkg/config\<close>) loads a struct from
  defaults, files, the environment and flags.

  \<^bold>\<open>The theories and the code they model.\<close>
  \<^item> \<^theory_text>\<open>Prelude\<close>: errors with their unwrapping, panics, the functions of package \<^verbatim>\<open>strings\<close> in use, maps
    that may be nil, and three contracts as locales: \<open>option_struct\<close> and \<open>overriding_option_struct\<close>
    (structs that implement \<^verbatim>\<open>util.Option\<close>, \<^verbatim>\<open>src/pkg/util/option.go\<close>) and \<open>inductive_invariant\<close>.
  \<^item> \<^theory_text>\<open>K8s_Objects\<close>, \<^theory_text>\<open>K8s_Env\<close>: objects, schemes and clients; apimachinery and controller-runtime as
    parameters, each documented law a predicate of its own.
  \<^item> \<^theory_text>\<open>Conditions\<close>: \<^verbatim>\<open>src/pkg/conditions\<close> and the condition accessors, with the manager's \<open>Compute\<close>.
  \<^item> \<^theory_text>\<open>Status_Access\<close>: the reflective accessor of \<^verbatim>\<open>src/pkg/status/accessor.go\<close>.
  \<^item> \<^theory_text>\<open>Resources_Meta\<close>, \<^theory_text>\<open>Resources_Util\<close>, \<^theory_text>\<open>Applier\<close>, \<^theory_text>\<open>Gvks\<close>: \<^verbatim>\<open>src/pkg/resources\<close>, that is labels and
    annotations, conversions and server-side apply, the direct and the caching applier, the well
    known kinds; also the cache transform of \<^verbatim>\<open>src/pkg/cache\<close>.
  \<^item> \<^theory_text>\<open>Reconciler\<close>, \<^theory_text>\<open>Pipeline\<close>: requests, responses and adapters; the pipeline with its store of objects,
    its options, actions, cleanup, finalizer and status.
  \<^item> \<^theory_text>\<open>Predicates\<close>, \<^theory_text>\<open>Watch_Handler\<close>, \<^theory_text>\<open>Watch\<close>: event predicates, the owner handlers and the watcher, with
    the concurrent calls of \<open>Watch\<close> as a step relation.
  \<^item> \<^theory_text>\<open>Builder_Conversion\<close>, \<^theory_text>\<open>Builder\<close>: the conversion of events and the controller builder.
  \<^item> \<^theory_text>\<open>Lifecycle\<close>, \<^theory_text>\<open>Hierarchical\<close>, \<^theory_text>\<open>Hierarchical_Controller\<close>: the lifecycle of a child cluster with
    its goroutines as a step relation, merged contexts, the routing cache, \<open>NewCluster\<close> and the scoped
    manager.
  \<^item> \<^theory_text>\<open>Strcase\<close>, \<^theory_text>\<open>Conv\<close>: \<^verbatim>\<open>src/pkg/util/strcase\<close> and \<^verbatim>\<open>src/pkg/util/conv\<close>, the latter on machine words.
  \<^item> \<^theory_text>\<open>Go_Values\<close>, \<^theory_text>\<open>Flags\<close>, \<^theory_text>\<open>Hooks\<close>, \<^theory_text>\<open>Config\<close>, \<^theory_text>\<open>Zap\<close>: values as package \<^verbatim>\<open>reflect\<close> shows them, and
    \<^verbatim>\<open>src/pkg/config\<close> with \<^verbatim>\<open>flags\<close>, \<^verbatim>\<open>conversion\<close> and \<^verbatim>\<open>zap\<close>.
  \<^item> \<^theory_text>\<open>Finalizer_Protocol\<close>, \<^theory_text>\<open>Pipeline_Watch\<close>: compositions. The first puts the adapter and the pipeline beside
    an environment of users and other controllers, as a step relation (\<open>controller_step\<close>) over a world
    that includes the API server; the second puts the pipeline and the watcher's hook together.
  \<^item> \<^theory_text>\<open>Examples\<close>, \<^theory_text>\<open>Example_Controllers\<close>, \<^theory_text>\<open>Example_Main\<close>: \<^verbatim>\<open>src/examples\<close>, that is the configurations, the
    actions and the setup of the two controllers, and their \<open>main\<close> functions; here every part of the
    library is used as a controller uses it.
  \<^item> \<^theory_text>\<open>Deep_Copy\<close>: the generated deep copies of the status and of the examples' types, on an explicit
    memory, with the contract of a deep copy as the locale \<open>deep_copier\<close>.

  \<^bold>\<open>Conventions.\<close> A definition has the name of the Go function, prefixed by its receiver or package
  where two would clash. A struct is a record, a pointer that may be nil an \<open>option\<close>, an error result
  \<open>error option\<close> or the left side of a sum, a call that may panic an \<open>outcome\<close>. Methods that mutate
  return the new state; the pipeline threads an explicit store because its requests and responses
  share objects. Code outside the repository is an argument (\<open>env\<close>, \<open>client\<close>, \<open>flags_env\<close>, \<open>viper_api\<close>,
  \<open>hook_env\<close>, \<open>cluster_api\<close>, \<dots>), and what a theorem relies on of it is a named hypothesis
  (\<open>finalizers_ok\<close>, \<open>controller_reference_ok\<close>, \<open>pflag_ok\<close>, \<open>mapstructure_ok\<close>, \<dots>), for which the \<open>demo\<close> instances
  show that it can hold. Every loop is a total recursion; there is no fuel. Blocking calls are
  guarded steps of a step relation, and termination is stated over every interleaving of them. The
  functions a user passes in (actions, hooks, cleanups, mappers, predicates) are total: one that panics
  is outside the model.

  \<^bold>\<open>What is shown.\<close>
  \<^item> Conditions: get after set, one entry per type, and exactly which contributor decides \<open>Compute\<close>.
  \<^item> Pipeline: stop errors, accumulation of action errors, the finalizer protocol, cleanup on deletion,
    and the reported status on every path through the run.
  \<^item> Pipeline and environment: in every interleaving no resource outlives the finalizer that will clean
    it up (\<open>no_orphaned_resources\<close>), for the cleanup controller down to its config map, as long as the
    name in the app's spec does not change: renaming it orphans the old one (\<open>rename_orphans_configmap\<close>).
  \<^item> Pipeline and watcher: what was applied is watched if the watcher is ready
    (\<open>provisioned_kinds_watched\<close>); in the simple controller it never is
    (\<open>simple_controller_never_watches\<close>).
  \<^item> Programs: \<open>main\<close> of the cleanup controller starts a manager only with a validated configuration; the
    simple controller refuses \<open>--kubeconfig\<close>.
  \<^item> Deep copies: equal to the original and isolated from it.
  \<^item> Watcher: one accepted source per kind under every interleaving, what each call of \<open>Watch\<close> returns
    and changes, the default source; here, that the ownership the pipeline writes is the ownership the handler reads
    (\<open>owned_object_requeues_owner\<close>, \<open>labelled_object_requeues_owner\<close>), and that it is not for
    cluster-scoped owners (\<open>cluster_scoped_owner_misses\<close>).
  \<^item> Appliers: what the caching applier does on every answer of the read, and the limit of its skips.
  \<^item> Builder: each call records its own watch or one error and reaches the controller in order, exact
    refusals, delivery of every event through untyped mappers, and the equivalence of the combined
    converting handler with separately wrapped ones.
  \<^item> Hierarchical cluster: safety and termination of the lifecycle, exact routing, and that shared
    informers are never removed.
  \<^item> Configuration: \<open>BindStruct\<close> does not panic and detects exactly the duplicate and malformed names;
    the walk that sets defaults and binds the environment visits exactly the leaves; directories are
    folds of their visible files; hooks convert to the declared type; when flags reach their fields.

  \<^bold>\<open>Not modelled.\<close> Logging, metrics registration with Prometheus (the counters themselves are part of
  the event state where the code increments them), and the mocks and support code of the tests. The
  template engine of the simple controller, the process with its flags, and the manager are parameters.
  The real API server, informers and work queues are behind the parameters. Data races are
  not modelled below the granularity of the code's own locks.
\<close>

section \<open>Owners and the events of their objects\<close>

text \<open>The owner a handler finds through the controller reference the pipeline set.\<close>

lemma controller_reference_owner:
  assumes "controller_reference_ok E sch" and "SetControllerReference E owner ob sch = (None, ob')"
    and "GVKForObject sch owner = Inr g" and "GVKForObject sch ownerType = Inr g"
    and "gv_roundtrip (envSchema E) g"
  shows "getOwnerFromReferences (envSchema E) sch ownerType True ob' =
           Some \<lparr>nnNamespace = GetNamespace ob, nnName = GetName owner\<rparr> \<and>
         (GetNamespace owner \<noteq> [] \<longrightarrow> GetNamespace ob = GetNamespace owner)"
proof -
  from assms(1) [unfolded controller_reference_ok_def, rule_format, OF assms(2)] assms(3)
  obtain refs where ns: "GetNamespace owner \<noteq> [] \<longrightarrow> GetNamespace ob = GetNamespace owner"
    and ob': "ob' = ob\<lparr>GetOwnerReferences := refs\<rparr>"
    and refs: "controller_ref E g owner \<in> set refs"
      "\<forall>r \<in> set refs. refController r = Some True \<longrightarrow> r = controller_ref E g owner"
    by auto
  have "reference_matches (envSchema E) g True (controller_ref E g owner)"
    using assms(5) by (simp add: reference_matches_def controller_ref_def gv_roundtrip_def)
  with refs ob' have "getOwnerFromReferences (envSchema E) sch ownerType True ob' =
      Some \<lparr>nnNamespace = GetNamespace ob', nnName = refName (controller_ref E g owner)\<rparr>"
    by (intro getOwnerFromReferences_controller [OF assms(4)]) auto
  with ns ob' show ?thesis by (simp add: controller_ref_def)
qed

text \<open>The four event functions of the handler enqueue the owner of the object they are given.\<close>

lemma handler_enqueues:
  assumes "(case getOwnerFromReferences S sch ownerType isC ob of
        Some r \<Rightarrow> [r]
      | None \<Rightarrow> (case getOwnerFromLabels ob nl nsl of Some r \<Rightarrow> [r] | None \<Rightarrow> [])) = [req]"
    and "h = EnqueueRequestForOwnerOrLabel S sch ownerType isC nl nsl"
  shows "queue (hCreate h ctx (Some ob) q) = queue q @ [req] \<and>
     queue (hUpdate h ctx \<lparr>ObjectOld = old, ObjectNew = Some ob\<rparr> q) = queue q @ [req] \<and>
     queue (hDelete h ctx \<lparr>delObject = Some ob, DeleteStateUnknown = unk\<rparr> q) = queue q @ [req] \<and>
     queue (hGeneric h ctx (Some ob) q) = queue q @ [req]"
  using assms by (simp add: EnqueueRequestForOwnerOrLabel_def Let_def enqueueOwner_queue)

text \<open>
  C6: the pipeline and the watcher agree on ownership through references. When
  \<open>SetControllerReference\<close> has made a namespaced owner the controller of an object, every create,
  update, delete and generic event of that object makes the handler of the watcher enqueue exactly
  one request, the one for the owner.
\<close>

theorem owned_object_requeues_owner:
  assumes "controller_reference_ok E sch" and "SetControllerReference E owner ob sch = (None, ob')"
    and "GVKForObject sch owner = Inr g" and "GVKForObject sch ownerType = Inr g"
    and "gv_roundtrip (envSchema E) g" and "GetNamespace owner \<noteq> []"
    and "h = EnqueueRequestForOwnerOrLabel (envSchema E) sch ownerType True nl nsl"
  shows "queue (hCreate h ctx (Some ob') q) = queue q @ [NamespacedNameFromObject owner] \<and>
     queue (hUpdate h ctx \<lparr>ObjectOld = old, ObjectNew = Some ob'\<rparr> q) = queue q @ [NamespacedNameFromObject owner] \<and>
     queue (hDelete h ctx \<lparr>delObject = Some ob', DeleteStateUnknown = unk\<rparr> q)
       = queue q @ [NamespacedNameFromObject owner] \<and>
     queue (hGeneric h ctx (Some ob') q) = queue q @ [NamespacedNameFromObject owner]"
proof -
  have "getOwnerFromReferences (envSchema E) sch ownerType True ob' = Some (NamespacedNameFromObject owner)"
    using controller_reference_owner [OF assms(1-5)] assms(6) by (simp add: NamespacedNameFromObject_def)
  then show ?thesis
    by (intro handler_enqueues [OF _ assms(7)]) simp
qed

definition demo_child :: "unit object" where
  "demo_child = (empty_object UnstructuredType \<lparr>Group = [], Version = ''v1'', Kind = ''ConfigMap''\<rparr> ())
     \<lparr>GetName := ''app-config'', GetNamespace := ''prod''\<rparr>"

lemma demo_gv_roundtrip: "gv_roundtrip demo_schema_api demo_gvk"
  by (simp add: gv_roundtrip_def demo_schema_api_def demo_gvk_def)

theorem owned_object_requeues_owner_witness:
  "\<exists>ob'. SetControllerReference demo_env demo_object demo_child demo_scheme = (None, ob') \<and>
     queue (hCreate (EnqueueRequestForOwnerOrLabel demo_schema_api demo_scheme demo_object True LabelOwnerName
       LabelOwnerNamespace) None (Some ob') \<lparr>queue = [], conversionErrors = [], caller = ()\<rparr>)
       = [\<lparr>nnNamespace = ''prod'', nnName = ''app''\<rparr>]"
proof -
  have g: "GVKForObject demo_scheme demo_object = Inr demo_gvk"
    by (simp add: demo_scheme_def demo_object_def empty_object_def zero_gvk_def)
  have "\<exists>ob'. SetControllerReference demo_env demo_object demo_child demo_scheme = (None, ob')"
    using g by (simp add: demo_env_def demo_SetControllerReference_def) (simp add: demo_object_def demo_child_def empty_object_def)
  then obtain ob' where ob': "SetControllerReference demo_env demo_object demo_child demo_scheme = (None, ob')" ..
  have "GetNamespace demo_object \<noteq> []" by (simp add: demo_object_def)
  with owned_object_requeues_owner [OF demo_env_controller_reference_ok ob' g g _ _ refl, of LabelOwnerName
      LabelOwnerNamespace None "\<lparr>queue = [], conversionErrors = [], caller = ()\<rparr>" None False] demo_gv_roundtrip
  have "queue (hCreate (EnqueueRequestForOwnerOrLabel demo_schema_api demo_scheme demo_object True LabelOwnerName
       LabelOwnerNamespace) None (Some ob') \<lparr>queue = [], conversionErrors = [], caller = ()\<rparr>)
       = [NamespacedNameFromObject demo_object]"
    by simp
  with ob' show ?thesis by (auto simp: NamespacedNameFromObject_def demo_object_def)
qed

text \<open>
  C14: the same through labels, for objects the pipeline does not own. \<open>addOwnerTracking\<close> with labels
  enabled marks the object with the name and namespace of a namespaced owner; when no controller
  reference of the object names the owner's kind, the handler reads the owner back from the labels,
  on every kind of event.
\<close>

theorem labelled_object_requeues_owner:
  assumes "LabelNonOwnedObjects (plOpts p)" and "addOwnerTracking p cli owner ob = (None, ob')"
    and "GetName owner \<noteq> []" and "GetNamespace owner \<noteq> []"
    and "getOwnerFromReferences S sch ownerType True ob' = None"
    and "h = EnqueueRequestForOwnerOrLabel S sch ownerType True LabelOwnerName LabelOwnerNamespace"
  shows "queue (hCreate h ctx (Some ob') q) = queue q @ [NamespacedNameFromObject owner] \<and>
     queue (hUpdate h ctx \<lparr>ObjectOld = old, ObjectNew = Some ob'\<rparr> q) = queue q @ [NamespacedNameFromObject owner] \<and>
     queue (hDelete h ctx \<lparr>delObject = Some ob', DeleteStateUnknown = unk\<rparr> q)
       = queue q @ [NamespacedNameFromObject owner] \<and>
     queue (hGeneric h ctx (Some ob') q) = queue q @ [NamespacedNameFromObject owner]"
proof -
  from assms(1,2) obtain g where "GVKForObject (clientScheme cli) owner = Inr g"
    by (auto simp: addOwnerTracking_def split: sum.splits)
  from addOwnerTracking_labels [OF assms(1) this, of ob] assms(2,4)
  have l: "GetLabels ob' = Some ((map_read (GetLabels ob))(LabelOwnerName \<mapsto> GetName owner,
      LabelOwnerNamespace \<mapsto> GetNamespace owner))" by auto
  have "getOwnerFromLabels ob' LabelOwnerName LabelOwnerNamespace = Some (NamespacedNameFromObject owner)"
    using assms(3,4) by (simp add: getOwnerFromLabels_eq l NamespacedNameFromObject_def)
  then show ?thesis
    by (intro handler_enqueues [OF _ assms(6)]) (simp add: assms(5))
qed

theorem labelled_object_requeues_owner_witness:
  "\<exists>ob'. addOwnerTracking (demo_pipeline [WithOwnerLabels True]) demo_client demo_object demo_child = (None, ob') \<and>
     queue (hCreate (EnqueueRequestForOwnerOrLabel demo_schema_api demo_scheme demo_object True LabelOwnerName
       LabelOwnerNamespace) None (Some ob') \<lparr>queue = [], conversionErrors = [], caller = ()\<rparr>)
       = [\<lparr>nnNamespace = ''prod'', nnName = ''app''\<rparr>]"
proof -
  let ?p = "demo_pipeline [WithOwnerLabels True]"
  have p: "LabelNonOwnedObjects (plOpts ?p)"
    by (simp add: demo_pipeline_eval opt_defs)
  have g: "GVKForObject (clientScheme demo_client) demo_object = Inr demo_gvk"
    by (simp add: demo_client_def demo_scheme_def demo_object_def empty_object_def zero_gvk_def)
  obtain ob' where ob': "addOwnerTracking ?p demo_client demo_object demo_child = (None, ob')"
    using addOwnerTracking_labels [OF p g] by blast
  have "GetOwnerReferences ob' = []"
    using ob' g p by (auto simp: addOwnerTracking_def Let_def SetLabel_Some SetAnnotation_Some demo_child_def empty_object_def)
  then have "getOwnerFromReferences demo_schema_api demo_scheme demo_object True ob' = None"
    by (intro getOwnerFromReferences_none) simp
  moreover have "GetName demo_object \<noteq> []" "GetNamespace demo_object \<noteq> []"
    by (simp_all add: demo_object_def)
  ultimately have "queue (hCreate (EnqueueRequestForOwnerOrLabel demo_schema_api demo_scheme demo_object True
       LabelOwnerName LabelOwnerNamespace) None (Some ob') \<lparr>queue = [], conversionErrors = [], caller = ()\<rparr>)
       = [NamespacedNameFromObject demo_object]"
    using labelled_object_requeues_owner [OF p ob' _ _ _ refl, of demo_schema_api demo_scheme demo_object None
        "\<lparr>queue = [], conversionErrors = [], caller = ()\<rparr>" None False] by simp
  with ob' show ?thesis by (auto simp: NamespacedNameFromObject_def demo_object_def)
qed

text \<open>
  A cluster-scoped owner of a namespaced object: the request carries the namespace of the object, so
  that it does not name the owner.
\<close>

lemma cluster_scoped_owner_misses:
  assumes "controller_reference_ok E sch" and "SetControllerReference E owner ob sch = (None, ob')"
    and "GVKForObject sch owner = Inr g" and "GVKForObject sch ownerType = Inr g"
    and "gv_roundtrip (envSchema E) g" and "GetNamespace owner = []" and "GetNamespace ob \<noteq> []"
  shows "queue (enqueueOwner (envSchema E) sch ownerType True nl nsl (Some ob') q) =
           queue q @ [\<lparr>nnNamespace = GetNamespace ob, nnName = GetName owner\<rparr>] \<and>
         \<lparr>nnNamespace = GetNamespace ob, nnName = GetName owner\<rparr> \<noteq> NamespacedNameFromObject owner"
  using controller_reference_owner [OF assms(1-5)] assms(6,7)
  by (simp add: enqueueOwner_queue NamespacedNameFromObject_def)

end
